(* ===== verification/Prelude.thy ===== *)
theory Prelude
  imports Main "HOL-Library.Word"
begin

text \<open>
  Shared vocabulary of the development: the machine types of the Go sources, errors as
  values, and the sequential checks of a \<open>Validate\<close> method. Theory GoLib models what the
  sources use of Go's standard library on these types.

  Conventions.
  \<^item> A Go \<open>string\<close> and a Go \<open>[]byte\<close> are both \<^typ>\<open>string\<close>: a HOL \<^typ>\<open>char\<close> is one byte. A nil
    slice and an empty slice are the same value.
  \<^item> \<open>uint32\<close> and \<open>uint64\<close> are words, so that \<open>+\<close> wraps as in Go. \<open>int64\<close> sizes and
    \<open>time.Duration\<close> values (nanoseconds) are \<^typ>\<open>int\<close>.
  \<^item> \<open>time.Time\<close> is its instant in nanoseconds since Go's zero time, so \<open>IsZero\<close> is
    \<open>= 0\<close>, \<open>Before\<close> is \<open><\<close> and \<open>Equal\<close> is \<open>=\<close>. Locations are not modelled.
  \<^item> A pointer is an \<open>option\<close>. A method with a pointer receiver returns the pair of the
    receiver after the call and the error (\<open>None\<close> is Go's nil error).
\<close>

named_theorems validate_defs "definitions of the Validate methods"

type_synonym u32 = "32 word"
type_synonym u64 = "64 word"
type_synonym timestamp = int
type_synonym duration = int

subsection \<open>Errors\<close>

datatype error =
    ValidationError (err_Field: string) (err_Reason: string)
  | TenantMismatchError (err_Expected: string) (err_Actual: string)
  | StaleBindingError u64 u64
  | ErrEventIdempotencyConflict
  | ErrMembershipDenied
  | ErrInvalidState
  | PlainError string

type_synonym 'a outcome = "'a \<times> error option"

text \<open>
  \<open>if err := check; err != nil { return err }\<close>, repeated, is the first error of a list of
  checks in source order.
\<close>

fun first_error :: "error option list \<Rightarrow> error option" where
  "first_error [] = None"
| "first_error (x # xs) = (case x of Some e \<Rightarrow> Some e | None \<Rightarrow> first_error xs)"

definition require :: "bool \<Rightarrow> error \<Rightarrow> error option" where
  "require b e = (if b then None else Some e)"

text \<open>A check that runs only when a pointer field is set, and one guarded by a condition.\<close>

definition when_set :: "'a option \<Rightarrow> ('a \<Rightarrow> error option) \<Rightarrow> error option" where
  "when_set x f = (case x of None \<Rightarrow> None | Some v \<Rightarrow> f v)"

definition when_true :: "bool \<Rightarrow> error option \<Rightarrow> error option" where
  "when_true b e = (if b then e else None)"

lemma first_error_Nil_None [simp]: "first_error [] = None"
  by simp

lemma first_error_Cons_None [simp]:
  "first_error (x # xs) = None \<longleftrightarrow> x = None \<and> first_error xs = None"
  by (cases x) auto

declare first_error.simps(2) [simp del]

lemma first_error_Cons_ok [simp]: "first_error (None # xs) = first_error xs"
  by (simp add: first_error.simps)

lemma first_error_Cons_err [simp]: "first_error (Some e # xs) = Some e"
  by (simp add: first_error.simps)

lemma first_error_None_iff: "first_error xs = None \<longleftrightarrow> (\<forall>x \<in> set xs. x = None)"
  by (induction xs) auto

lemma require_None [simp]: "require b e = None \<longleftrightarrow> b"
  by (simp add: require_def)

lemma require_ok [simp]: "require True e = None"
  by (simp add: require_def)

lemma require_err [simp]: "require False e = Some e"
  by (simp add: require_def)

lemma when_set_None [simp]: "when_set None f = None"
  by (simp add: when_set_def)

lemma when_set_Some [simp]: "when_set (Some v) f = f v"
  by (simp add: when_set_def)

lemma when_set_None_iff: "when_set x f = None \<longleftrightarrow> (\<forall>v. x = Some v \<longrightarrow> f v = None)"
  by (cases x) auto

lemma when_true_None [simp]: "when_true b e = None \<longleftrightarrow> (b \<longrightarrow> e = None)"
  by (simp add: when_true_def)

lemma when_true_ok [simp]: "when_true False e = None"
  by (simp add: when_true_def)

lemma when_true_run [simp]: "when_true True e = e"
  by (simp add: when_true_def)

end
