(* ===== verification/GoLib.thy ===== *)
theory GoLib
  imports Prelude
begin

text \<open>
  What the sources use of Go's standard library, on byte strings: \<open>strings.HasPrefix\<close> and
  \<open>strings.TrimSpace\<close> (whose white space is the Unicode one, recognised in its UTF-8 form),
  \<open>unicode/utf8\<close>, \<open>hex.DecodeString\<close>, \<open>path.Clean\<close>, decimal formatting, and the calendar
  bound of \<open>Time.Year\<close>. Theory Encoding adds \<open>crypto/sha256\<close> and \<open>encoding/json\<close>, theory
  Ed25519 \<open>crypto/ed25519\<close>.
\<close>

subsection \<open>Bytes and prefixes\<close>

definition byte :: "char \<Rightarrow> nat" where
  "byte c = of_char c"

definition HasPrefix :: "string \<Rightarrow> string \<Rightarrow> bool" where
  "HasPrefix s p = (take (length p) s = p)"

definition is_digit :: "char \<Rightarrow> bool" where
  "is_digit c = (48 \<le> byte c \<and> byte c \<le> 57)"

definition is_alnum :: "char \<Rightarrow> bool" where
  "is_alnum c = (65 \<le> byte c \<and> byte c \<le> 90 \<or> 97 \<le> byte c \<and> byte c \<le> 122 \<or> is_digit c)"

subsection \<open>strings.TrimSpace\<close>

text \<open>The number of bytes of the white space rune at the head of a string, 0 if there is none.\<close>

definition space_len :: "string \<Rightarrow> nat" where
  "space_len s =
     (case map byte (take 3 s) of
        [] \<Rightarrow> 0
      | a # r \<Rightarrow>
          if 9 \<le> a \<and> a \<le> 13 \<or> a = 32 then 1
          else (case r of
              [] \<Rightarrow> 0
            | b # q \<Rightarrow>
                if a = 0xC2 \<and> (b = 0x85 \<or> b = 0xA0) then 2
                else (case q of
                    [] \<Rightarrow> 0
                  | c # _ \<Rightarrow>
                      if a = 0xE1 \<and> b = 0x9A \<and> c = 0x80
                       \<or> a = 0xE2 \<and> b = 0x80 \<and> (0x80 \<le> c \<and> c \<le> 0x8A \<or> c = 0xA8 \<or> c = 0xA9 \<or> c = 0xAF)
                       \<or> a = 0xE2 \<and> b = 0x81 \<and> c = 0x9F
                       \<or> a = 0xE3 \<and> b = 0x80 \<and> c = 0x80
                      then 3 else 0)))"

definition space_suffix_len :: "string \<Rightarrow> nat" where
  "space_suffix_len s =
     (let n = length s; tail_is = (\<lambda>k. k \<le> n \<and> space_len (drop (n - k) s) = k)
      in if tail_is 1 then 1 else if tail_is 2 then 2 else if tail_is 3 then 3 else 0)"

function trim_left :: "string \<Rightarrow> string" where
  "trim_left s = (if s = [] \<or> space_len s = 0 then s else trim_left (drop (space_len s) s))"
  by pat_completeness auto
termination
  by (relation "measure length") auto

function trim_right :: "string \<Rightarrow> string" where
  "trim_right s =
     (if s = [] \<or> space_suffix_len s = 0 then s
      else trim_right (take (length s - space_suffix_len s) s))"
  by pat_completeness auto
termination
  by (relation "measure length") auto

declare trim_left.simps [simp del] trim_right.simps [simp del]

definition TrimSpace :: "string \<Rightarrow> string" where
  "TrimSpace s = trim_right (trim_left s)"

subsection \<open>unicode/utf8\<close>

text \<open>\<open>DecodeRune\<close>: the rune at the head and its width; an invalid byte is (U+FFFD, 1).\<close>

definition cont :: "nat \<Rightarrow> bool" where
  "cont b = (0x80 \<le> b \<and> b \<le> 0xBF)"

definition DecodeRune :: "string \<Rightarrow> nat \<times> nat" where
  "DecodeRune s =
     (case map byte (take 4 s) of
        [] \<Rightarrow> (0xFFFD, 0)
      | a # r \<Rightarrow>
          if a < 0x80 then (a, 1)
          else if 0xC2 \<le> a \<and> a \<le> 0xDF then
            (case r of
               b # _ \<Rightarrow> if cont b then ((a - 0xC0) * 64 + (b - 0x80), 2) else (0xFFFD, 1)
             | _ \<Rightarrow> (0xFFFD, 1))
          else if 0xE0 \<le> a \<and> a \<le> 0xEF then
            (case r of
               b # c # _ \<Rightarrow>
                 if cont b \<and> (a = 0xE0 \<longrightarrow> 0xA0 \<le> b) \<and> (a = 0xED \<longrightarrow> b \<le> 0x9F) \<and> cont c
                 then ((a - 0xE0) * 4096 + (b - 0x80) * 64 + (c - 0x80), 3)
                 else (0xFFFD, 1)
             | _ \<Rightarrow> (0xFFFD, 1))
          else if 0xF0 \<le> a \<and> a \<le> 0xF4 then
            (case r of
               b # c # d # _ \<Rightarrow>
                 if cont b \<and> (a = 0xF0 \<longrightarrow> 0x90 \<le> b) \<and> (a = 0xF4 \<longrightarrow> b \<le> 0x8F) \<and> cont c \<and> cont d
                 then ((a - 0xF0) * 262144 + (b - 0x80) * 4096 + (c - 0x80) * 64 + (d - 0x80), 4)
                 else (0xFFFD, 1)
             | _ \<Rightarrow> (0xFFFD, 1))
          else (0xFFFD, 1))"

function decode_runes :: "string \<Rightarrow> (nat \<times> nat) list" where
  "decode_runes [] = []"
| "decode_runes (c # cs) =
     (let d = DecodeRune (c # cs) in d # decode_runes (drop (snd d - 1) cs))"
  by pat_completeness auto
termination
  by (relation "measure length") (auto simp: Let_def)

definition runes :: "string \<Rightarrow> nat list" where
  "runes s = map fst (decode_runes s)"

definition RuneCount :: "string \<Rightarrow> nat" where
  "RuneCount s = length (decode_runes s)"

definition utf8_valid :: "string \<Rightarrow> bool" where
  "utf8_valid s = (\<forall>d \<in> set (decode_runes s). d \<noteq> (0xFFFD, 1))"

subsection \<open>encoding/hex\<close>

definition is_hex :: "char \<Rightarrow> bool" where
  "is_hex c = (is_digit c \<or> 97 \<le> byte c \<and> byte c \<le> 102 \<or> 65 \<le> byte c \<and> byte c \<le> 70)"

text \<open>\<open>hex.DecodeString\<close> succeeds on an even number of hexadecimal digits, giving half as many bytes.\<close>

definition hex_decoded_len :: "string \<Rightarrow> nat option" where
  "hex_decoded_len s = (if even (length s) \<and> list_all is_hex s then Some (length s div 2) else None)"

definition hex_digit :: "nat \<Rightarrow> char" where
  "hex_digit n = char_of (if n < 10 then 48 + n else 87 + n)"

definition hex_encode :: "string \<Rightarrow> string" where
  "hex_encode s = concat (map (\<lambda>c. [hex_digit (byte c div 16), hex_digit (byte c mod 16)]) s)"

subsection \<open>path.Clean\<close>

text \<open>
  \<open>path.Clean\<close> is the shortest equivalent path: empty and \<open>.\<close> elements go, \<open>..\<close> removes
  the element before it, or is kept at the front of a relative path and dropped at the root.
\<close>

fun split_slash :: "string \<Rightarrow> string \<Rightarrow> string list" where
  "split_slash acc [] = [rev acc]"
| "split_slash acc (c # cs) =
     (if c = CHR ''/'' then rev acc # split_slash [] cs else split_slash (c # acc) cs)"

fun clean_elems :: "bool \<Rightarrow> string list \<Rightarrow> string list \<Rightarrow> string list" where
  "clean_elems rooted acc [] = rev acc"
| "clean_elems rooted acc (e # es) =
     (if e = '''' \<or> e = ''.'' then clean_elems rooted acc es
      else if e = ''..'' then
        (case acc of
           [] \<Rightarrow> clean_elems rooted (if rooted then [] else [e]) es
         | a # r \<Rightarrow> if a = ''..'' then clean_elems rooted (e # acc) es
                    else clean_elems rooted r es)
      else clean_elems rooted (e # acc) es)"

fun join_slash :: "string list \<Rightarrow> string" where
  "join_slash [] = []"
| "join_slash [e] = e"
| "join_slash (e # es) = e @ ''/'' @ join_slash es"

definition path_Clean :: "string \<Rightarrow> string" where
  "path_Clean p =
     (if p = [] then ''.''
      else let rooted = (hd p = CHR ''/'');
               body = join_slash (clean_elems rooted [] (split_slash [] p));
               out = (if rooted then ''/'' @ body else body)
           in if out = [] then ''.'' else out)"

subsection \<open>Decimal formatting\<close>

fun FormatNat :: "nat \<Rightarrow> string" where
  "FormatNat n = (if n < 10 then [char_of (48 + n)] else FormatNat (n div 10) @ [char_of (48 + n mod 10)])"

declare FormatNat.simps [simp del]

definition FormatInt :: "int \<Rightarrow> string" where
  "FormatInt i = (if i < 0 then ''-'' @ FormatNat (nat (- i)) else FormatNat (nat i))"

text \<open>\<open>%020d\<close>.\<close>

definition pad20 :: "string \<Rightarrow> string" where
  "pad20 s = replicate (20 - length s) (CHR ''0'') @ s"

text \<open>\<open>%q\<close> of a string of printable characters without quotes or backslashes.\<close>

definition quoted :: "string \<Rightarrow> string" where
  "quoted s = [char_of (34::nat)] @ s @ [char_of (34::nat)]"

subsection \<open>time\<close>

definition nanosecond :: int where "nanosecond = 1"
definition microsecond :: int where "microsecond = 1000"
definition second :: int where "second = 1000000000"
definition minute :: int where "minute = 60 * second"

text \<open>
  Years 1 to 9999: from the zero time to 10000-01-01, which is 3652059 days later.
\<close>

definition year_in_range :: "timestamp \<Rightarrow> bool" where
  "year_in_range t = (0 \<le> t \<and> t < 3652059 * 86400 * second)"

text \<open>\<open>Time.Sub\<close> saturates at the bounds of \<open>time.Duration\<close>.\<close>

definition time_Sub :: "timestamp \<Rightarrow> timestamp \<Rightarrow> duration" where
  "time_Sub a b = max (- (2 ^ 63)) (min (2 ^ 63 - 1) (a - b))"

subsection \<open>Lemmas on prefixes and path elements\<close>

lemma HasPrefix_iff: "HasPrefix s p \<longleftrightarrow> (\<exists>r. s = p @ r)"
  unfolding HasPrefix_def by (metis append_eq_conv_conj append_take_drop_id)

lemma HasPrefix_append [simp]: "HasPrefix (p @ r) p"
  by (auto simp: HasPrefix_iff)

lemma HasPrefix_trans: "HasPrefix s (p @ q) \<Longrightarrow> HasPrefix s p"
  by (auto simp: HasPrefix_iff)

lemma split_slash_ne [simp]: "split_slash acc s \<noteq> []"
  by (induction acc s rule: split_slash.induct) auto

lemma split_slash_acc:
  "CHR ''/'' \<notin> set p \<Longrightarrow> split_slash acc (p @ s) = split_slash (rev p @ acc) s"
  by (induction p arbitrary: acc) auto

lemma split_slash_elem:
  "CHR ''/'' \<notin> set p \<Longrightarrow> split_slash [] (p @ CHR ''/'' # q) = p # split_slash [] q"
  by (simp add: split_slash_acc)

lemma split_slash_single: "CHR ''/'' \<notin> set p \<Longrightarrow> split_slash [] p = [p]"
  using split_slash_acc [of p "[]" "[]"] by simp

lemma split_slash_no_slash:
  "CHR ''/'' \<notin> set acc \<Longrightarrow> e \<in> set (split_slash acc s) \<Longrightarrow> CHR ''/'' \<notin> set e"
  by (induction acc s rule: split_slash.induct) (auto split: if_splits)

lemma join_slash_Cons: "es \<noteq> [] \<Longrightarrow> join_slash (e # es) = e @ CHR ''/'' # join_slash es"
  by (cases es) auto

lemma join_split_slash: "join_slash (split_slash acc s) = rev acc @ s"
  by (induction acc s rule: split_slash.induct) (auto simp: join_slash_Cons)

lemma split_join_slash:
  "es \<noteq> [] \<Longrightarrow> \<forall>e \<in> set es. CHR ''/'' \<notin> set e \<Longrightarrow> split_slash [] (join_slash es) = es"
proof (induction es)
  case (Cons e es)
  then show ?case
    by (cases "es = []") (auto simp: join_slash_Cons split_slash_elem split_slash_single)
qed simp

text \<open>
  \<open>path.Clean\<close> keeps elements of its input only, and loses length as soon as it meets an
  empty, \<open>.\<close> or \<open>..\<close> element behind an ordinary one.
\<close>

lemma clean_elems_subset:
  "set (clean_elems rooted acc es) \<subseteq> set acc \<union> set es"
  by (induction rooted acc es rule: clean_elems.induct) (auto split: list.splits if_splits)

lemma clean_elems_length:
  "length (clean_elems rooted acc es) \<le> length acc + length es"
proof (induction rooted acc es rule: clean_elems.induct)
  case (2 rooted acc e es)
  then show ?case by (auto split: list.splits if_splits)
qed simp

lemma clean_elems_shrinks:
  "acc \<noteq> [] \<Longrightarrow> hd acc \<noteq> ''..'' \<Longrightarrow> e \<in> set es \<Longrightarrow> e \<in> {'''', ''.'', ''..''} \<Longrightarrow>
     length (clean_elems rooted acc es) < length acc + length es"
proof (induction es arbitrary: acc)
  case (Cons a es)
  from Cons.prems obtain b r where acc: "acc = b # r" and b: "b \<noteq> ''..''"
    by (cases acc) auto
  show ?case
  proof (cases "a \<in> {'''', ''.'', ''..''}")
    case True
    then have "clean_elems rooted acc (a # es) \<in> {clean_elems rooted acc es, clean_elems rooted r es}"
      using acc b by auto
    moreover have "length (clean_elems rooted acc es) \<le> length acc + length es"
      and "length (clean_elems rooted r es) \<le> length r + length es"
      by (rule clean_elems_length)+
    ultimately show ?thesis using acc by auto
  next
    case False
    then have "e \<in> set es" using Cons.prems by auto
    then have "length (clean_elems rooted (a # acc) es) < length (a # acc) + length es"
      using Cons.IH [of "a # acc"] Cons.prems False by simp
    then show ?thesis using False by simp
  qed
qed simp

lemma path_Clean_fixed_relative:
  assumes "path_Clean k = k" and "k \<noteq> []" and "hd k \<noteq> CHR ''/''"
    and sp: "split_slash [] k = e # es" and e: "e \<notin> {'''', ''.'', ''..''}"
  shows "\<forall>x \<in> set (e # es). x \<notin> {'''', ''.'', ''..''}"
proof -
  let ?c = "clean_elems False [] (e # es)"
  have c: "?c = clean_elems False [e] es" using e by simp
  have noslash: "\<forall>x \<in> set (e # es). CHR ''/'' \<notin> set x"
    using split_slash_no_slash [of "[]" _ k] sp by auto
  have "k \<noteq> ''.''"
  proof
    assume "k = ''.''"
    then show False using sp e by (simp add: split_slash_single)
  qed
  then have k: "join_slash ?c = k"
    using assms(1-3) sp by (auto simp: path_Clean_def Let_def split: if_splits)
  then have ne: "?c \<noteq> []" using assms(2) by auto
  have "\<forall>x \<in> set ?c. CHR ''/'' \<notin> set x"
    using clean_elems_subset [of False "[]" "e # es"] noslash by auto
  then have "split_slash [] k = ?c"
    using split_join_slash [OF ne] k by simp
  then have fixed: "clean_elems False [e] es = e # es" by (simp only: sp c)
  show ?thesis
  proof
    fix x assume x: "x \<in> set (e # es)"
    show "x \<notin> {'''', ''.'', ''..''}"
    proof
      assume bad: "x \<in> {'''', ''.'', ''..''}"
      then have "x \<in> set es" using x e by auto
      then have "length (clean_elems False [e] es) < length [e] + length es"
        using clean_elems_shrinks [of "[e]" x es False] bad e by simp
      then show False using fixed by simp
    qed
  qed
qed

lemma hex_digit_is_hex: "n < 16 \<Longrightarrow> is_hex (hex_digit n)"
  by (simp add: hex_digit_def is_hex_def is_digit_def byte_def)

lemma length_hex_encode [simp]: "length (hex_encode s) = 2 * length s"
  by (induction s) (auto simp: hex_encode_def)

subsection \<open>Machine integer bounds\<close>

definition MaxUint64 :: u64 where "MaxUint64 = 0xFFFFFFFFFFFFFFFF"
definition MaxUint32 :: u32 where "MaxUint32 = 0xFFFFFFFF"
definition MaxInt64 :: int where "MaxInt64 = 0x7FFFFFFFFFFFFFFF"

lemma unat_MaxUint64 [simp]: "unat MaxUint64 = 2 ^ 64 - 1"
  by (simp add: MaxUint64_def)

lemma unat_u64_less: "unat (b :: u64) < 2 ^ 64"
  using unsigned_less [of b] by simp

lemma le_MaxUint64 [simp]: "b \<le> MaxUint64"
  using unat_u64_less [of b] by (simp add: word_le_nat_alt)

text \<open>The test \<open>a > math.MaxUint64 - b\<close> holds exactly when the sum does not fit.\<close>

lemma overflow_iff: "MaxUint64 - b < a \<longleftrightarrow> 2 ^ 64 \<le> unat a + unat b"
proof -
  have m: "unat (MaxUint64 - b) = 2 ^ 64 - 1 - unat b"
    by (simp add: unat_sub)
  show ?thesis
    using unat_u64_less [of b] unat_u64_less [of a] by (auto simp: word_less_nat_alt m)
qed

lemma unat_add_exact: "unat a + unat b < 2 ^ 64 \<Longrightarrow> unat (a + b :: u64) = unat a + unat b"
  by (simp add: unat_word_ariths)

subsection \<open>Runes of ASCII strings\<close>

lemma DecodeRune_ascii: "byte c < 0x80 \<Longrightarrow> DecodeRune (c # cs) = (byte c, 1)"
  by (simp add: DecodeRune_def)

lemma DecodeRune_small: "fst (DecodeRune (c # cs)) < 0x80 \<Longrightarrow> byte c = fst (DecodeRune (c # cs)) \<and> byte c < 0x80"
  by (auto simp: DecodeRune_def cont_def split: if_splits list.splits)

lemma decode_runes_ascii:
  "\<forall>c \<in> set s. byte c < 0x80 \<Longrightarrow> decode_runes s = map (\<lambda>c. (byte c, 1)) s"
  by (induction s) (auto simp: DecodeRune_ascii Let_def)

lemma small_runes_ascii: "\<forall>r \<in> set (runes s). r < 0x80 \<Longrightarrow> c \<in> set s \<Longrightarrow> byte c < 0x80"
proof (induction s)
  case (Cons a s)
  have a: "byte a < 0x80" using Cons.prems DecodeRune_small [of a s] by (auto simp: runes_def Let_def)
  then have "runes (a # s) = byte a # runes s" by (simp add: runes_def DecodeRune_ascii Let_def)
  then show ?case using Cons a by auto
qed simp

end
