(* ===== verification/Identity.thy ===== *)
theory Identity
  imports GoLib
begin

text \<open>
  Identities and error classes: \<open>internal/domain/identity.go\<close> and \<open>errors.go\<close>. Opaque
  identifiers, the tenant boundary check, frontend and Telegram references, and the
  classification of adapter errors.
\<close>

subsection \<open>Error classes (errors.go)\<close>

datatype ErrorKind =
    ErrorRetryable | ErrorTerminal | ErrorQuotaBlocked | ErrorReauthRequired | ErrorPolicyDenied
  | ErrorKindOther string

definition ErrorKind_Valid :: "ErrorKind \<Rightarrow> bool" where
  "ErrorKind_Valid k = (case k of ErrorKindOther _ \<Rightarrow> False | _ \<Rightarrow> True)"

fun ErrorKind_text :: "ErrorKind \<Rightarrow> string" where
  "ErrorKind_text ErrorRetryable = ''retryable''"
| "ErrorKind_text ErrorTerminal = ''terminal''"
| "ErrorKind_text ErrorQuotaBlocked = ''quota_blocked''"
| "ErrorKind_text ErrorReauthRequired = ''reauthentication_required''"
| "ErrorKind_text ErrorPolicyDenied = ''policy_denied''"
| "ErrorKind_text (ErrorKindOther s) = s"

text \<open>
  An error value with its \<open>Unwrap\<close> chain: a classified error, a nil \<open>*ClassifiedError\<close> stored
  in an error interface, or any other error with its message.
\<close>

datatype go_error =
    ClassifiedError (ce_Kind: ErrorKind) (ce_Code: string) (ce_Operation: string)
      (ce_RetryAfter: duration) (ce_Cause: "go_error option")
  | NilClassifiedError
  | OtherError string "go_error option"

fun Error_text :: "go_error \<Rightarrow> string" where
  "Error_text NilClassifiedError = ''<nil>''"
| "Error_text (ClassifiedError k c p r cause) =
     (if p \<noteq> '''' then p @ '': '' else '''') @ ErrorKind_text k @ '': '' @ c @
     (case cause of None \<Rightarrow> '''' | Some e \<Rightarrow> '': '' @ Error_text e)"
| "Error_text (OtherError m cause) = m"

fun Error_Unwrap :: "go_error \<Rightarrow> go_error option" where
  "Error_Unwrap NilClassifiedError = None"
| "Error_Unwrap (ClassifiedError k c p r cause) = cause"
| "Error_Unwrap (OtherError m cause) = cause"

text \<open>\<open>errors.As\<close> for the target type \<open>*ClassifiedError\<close>: the first match of the chain.\<close>

fun as_classified :: "go_error \<Rightarrow> go_error option" where
  "as_classified (ClassifiedError k c p r e) = Some (ClassifiedError k c p r e)"
| "as_classified NilClassifiedError = Some NilClassifiedError"
| "as_classified (OtherError m None) = None"
| "as_classified (OtherError m (Some e)) = as_classified e"

fun Retryable :: "go_error \<Rightarrow> bool" where
  "Retryable (ClassifiedError k c p r e) = (k = ErrorRetryable)"
| "Retryable _ = False"

definition ClassifyError :: "go_error option \<Rightarrow> ErrorKind \<times> bool" where
  "ClassifyError err =
     (case Option.bind err as_classified of
        Some (ClassifiedError k _ _ _ _) \<Rightarrow>
          if \<not> ErrorKind_Valid k then (ErrorKindOther '''', False) else (k, True)
      | _ \<Rightarrow> (ErrorKindOther '''', False))"

subsection \<open>Opaque identifiers\<close>

definition maxOpaqueIDLength :: nat where
  "maxOpaqueIDLength = 160"

type_synonym TenantID = string
type_synonym UserID = string
type_synonym SessionID = string
type_synonym SessionEventID = string
type_synonym FrontendBindingID = string
type_synonym FrontendProjectionID = string
type_synonym SessionSnapshotID = string
type_synonym ConversationID = string
type_synonym ActorID = string
type_synonym RunID = string
type_synonym AttemptID = string
type_synonym LeaseID = string
type_synonym CheckpointID = string
type_synonym QuotaReservationID = string
type_synonym UsageObservationID = string
type_synonym ArtifactManifestID = string
type_synonym DispatchOutboxID = string
type_synonym TelegramDeliveryID = string
type_synonym SubscriptionConnectionID = string
type_synonym IdempotencyKey = string

text \<open>The loop of \<open>ValidateOpaqueID\<close> from index \<open>i\<close> on.\<close>

fun opaque_scan :: "nat \<Rightarrow> string \<Rightarrow> bool" where
  "opaque_scan i [] = True"
| "opaque_scan i (c # cs) =
     (if \<not> is_alnum c \<and> (i = 0 \<or> c \<noteq> CHR ''.'' \<and> c \<noteq> CHR ''_'' \<and> c \<noteq> CHR '':'' \<and> c \<noteq> CHR ''-'')
      then False else opaque_scan (Suc i) cs)"

definition ValidateOpaqueID :: "string \<Rightarrow> string \<Rightarrow> error option" where
  "ValidateOpaqueID field value =
     (if value = '''' then Some (ValidationError field ''must not be empty'')
      else if length value > maxOpaqueIDLength
        then Some (ValidationError field (''must not exceed '' @ FormatNat maxOpaqueIDLength @ '' bytes''))
      else if \<not> opaque_scan 0 value
        then Some (ValidationError field
          ''must use only ASCII letters, digits, dot, underscore, colon, or dash'')
      else None)"

definition TenantID_Validate :: "TenantID \<Rightarrow> error option" where
  "TenantID_Validate = ValidateOpaqueID ''tenant_id''"
definition UserID_Validate :: "UserID \<Rightarrow> error option" where
  "UserID_Validate = ValidateOpaqueID ''user_id''"
definition SessionID_Validate :: "SessionID \<Rightarrow> error option" where
  "SessionID_Validate = ValidateOpaqueID ''session_id''"
definition SessionEventID_Validate :: "SessionEventID \<Rightarrow> error option" where
  "SessionEventID_Validate = ValidateOpaqueID ''session_event_id''"
definition FrontendBindingID_Validate :: "FrontendBindingID \<Rightarrow> error option" where
  "FrontendBindingID_Validate = ValidateOpaqueID ''frontend_binding_id''"
definition FrontendProjectionID_Validate :: "FrontendProjectionID \<Rightarrow> error option" where
  "FrontendProjectionID_Validate = ValidateOpaqueID ''frontend_projection_id''"
definition SessionSnapshotID_Validate :: "SessionSnapshotID \<Rightarrow> error option" where
  "SessionSnapshotID_Validate = ValidateOpaqueID ''session_snapshot_id''"
definition ConversationID_Validate :: "ConversationID \<Rightarrow> error option" where
  "ConversationID_Validate = ValidateOpaqueID ''conversation_id''"
definition ActorID_Validate :: "ActorID \<Rightarrow> error option" where
  "ActorID_Validate = ValidateOpaqueID ''actor_id''"
definition RunID_Validate :: "RunID \<Rightarrow> error option" where
  "RunID_Validate = ValidateOpaqueID ''run_id''"
definition AttemptID_Validate :: "AttemptID \<Rightarrow> error option" where
  "AttemptID_Validate = ValidateOpaqueID ''attempt_id''"
definition LeaseID_Validate :: "LeaseID \<Rightarrow> error option" where
  "LeaseID_Validate = ValidateOpaqueID ''lease_id''"
definition CheckpointID_Validate :: "CheckpointID \<Rightarrow> error option" where
  "CheckpointID_Validate = ValidateOpaqueID ''checkpoint_id''"
definition QuotaReservationID_Validate :: "QuotaReservationID \<Rightarrow> error option" where
  "QuotaReservationID_Validate = ValidateOpaqueID ''quota_reservation_id''"
definition UsageObservationID_Validate :: "UsageObservationID \<Rightarrow> error option" where
  "UsageObservationID_Validate = ValidateOpaqueID ''usage_observation_id''"
definition ArtifactManifestID_Validate :: "ArtifactManifestID \<Rightarrow> error option" where
  "ArtifactManifestID_Validate = ValidateOpaqueID ''artifact_manifest_id''"
definition DispatchOutboxID_Validate :: "DispatchOutboxID \<Rightarrow> error option" where
  "DispatchOutboxID_Validate = ValidateOpaqueID ''dispatch_outbox_id''"
definition TelegramDeliveryID_Validate :: "TelegramDeliveryID \<Rightarrow> error option" where
  "TelegramDeliveryID_Validate = ValidateOpaqueID ''telegram_delivery_id''"
definition SubscriptionConnectionID_Validate :: "SubscriptionConnectionID \<Rightarrow> error option" where
  "SubscriptionConnectionID_Validate = ValidateOpaqueID ''subscription_connection_id''"
definition IdempotencyKey_Validate :: "IdempotencyKey \<Rightarrow> error option" where
  "IdempotencyKey_Validate = ValidateOpaqueID ''idempotency_key''"

lemmas id_validate_defs =
  TenantID_Validate_def UserID_Validate_def SessionID_Validate_def SessionEventID_Validate_def
  FrontendBindingID_Validate_def FrontendProjectionID_Validate_def SessionSnapshotID_Validate_def
  ConversationID_Validate_def ActorID_Validate_def RunID_Validate_def AttemptID_Validate_def
  LeaseID_Validate_def CheckpointID_Validate_def QuotaReservationID_Validate_def
  UsageObservationID_Validate_def ArtifactManifestID_Validate_def DispatchOutboxID_Validate_def
  TelegramDeliveryID_Validate_def SubscriptionConnectionID_Validate_def IdempotencyKey_Validate_def

subsection \<open>The tenant boundary\<close>

definition EnsureSameTenant :: "TenantID \<Rightarrow> TenantID \<Rightarrow> error option" where
  "EnsureSameTenant expected actual =
     first_error
       [TenantID_Validate expected,
        TenantID_Validate actual,
        require (expected = actual) (TenantMismatchError expected actual)]"

subsection \<open>Frontends and external references\<close>

type_synonym Frontend = string

definition FrontendTelegram :: Frontend where "FrontendTelegram = ''telegram''"
definition FrontendWeb :: Frontend where "FrontendWeb = ''web''"

definition Frontend_Validate :: "Frontend \<Rightarrow> error option" where
  "Frontend_Validate f = ValidateOpaqueID ''frontend'' f"

definition over_limit :: string where
  "over_limit = ''must not exceed '' @ FormatNat maxOpaqueIDLength @ '' bytes''"

record FrontendEventOrigin =
  feo_BindingID :: FrontendBindingID
  feo_BindingRevision :: u64
  feo_Frontend :: Frontend
  feo_ExternalConversationID :: string
  feo_ExternalEventID :: string

definition FrontendEventOrigin_Validate :: "FrontendEventOrigin \<Rightarrow> error option" where
  "FrontendEventOrigin_Validate origin =
     first_error
       [FrontendBindingID_Validate (feo_BindingID origin),
        require (feo_BindingRevision origin \<noteq> 0)
          (ValidationError ''frontend_event_origin.binding_revision'' ''must be positive''),
        Frontend_Validate (feo_Frontend origin),
        require (TrimSpace (feo_ExternalConversationID origin) \<noteq> '''')
          (ValidationError ''frontend_event_origin.external_conversation_id'' ''must not be empty''),
        require (length (feo_ExternalConversationID origin) \<le> maxOpaqueIDLength)
          (ValidationError ''frontend_event_origin.external_conversation_id'' over_limit),
        require (TrimSpace (feo_ExternalEventID origin) \<noteq> '''')
          (ValidationError ''frontend_event_origin.external_event_id'' ''must not be empty''),
        require (length (feo_ExternalEventID origin) \<le> maxOpaqueIDLength)
          (ValidationError ''frontend_event_origin.external_event_id'' over_limit)]"

record ConversationRef =
  conv_TenantID :: TenantID
  conv_Frontend :: Frontend
  conv_ExternalID :: string
  conv_ID :: ConversationID

definition ConversationRef_Validate :: "ConversationRef \<Rightarrow> error option" where
  "ConversationRef_Validate ref =
     first_error
       [TenantID_Validate (conv_TenantID ref),
        Frontend_Validate (conv_Frontend ref),
        ConversationID_Validate (conv_ID ref),
        require (TrimSpace (conv_ExternalID ref) \<noteq> '''') (ValidationError ''external_id'' ''must not be empty''),
        require (length (conv_ExternalID ref) \<le> maxOpaqueIDLength) (ValidationError ''external_id'' over_limit)]"

record ActorRef =
  actor_TenantID :: TenantID
  actor_Frontend :: Frontend
  actor_ExternalID :: string
  actor_ID :: ActorID

definition ActorRef_Validate :: "ActorRef \<Rightarrow> error option" where
  "ActorRef_Validate ref =
     first_error
       [TenantID_Validate (actor_TenantID ref),
        Frontend_Validate (actor_Frontend ref),
        ActorID_Validate (actor_ID ref),
        require (TrimSpace (actor_ExternalID ref) \<noteq> '''') (ValidationError ''external_id'' ''must not be empty'')]"

record TelegramChatRef =
  chat_TenantID :: TenantID
  chat_ChatID :: int

definition TelegramChatRef_Validate :: "TelegramChatRef \<Rightarrow> error option" where
  "TelegramChatRef_Validate ref =
     first_error
       [TenantID_Validate (chat_TenantID ref),
        require (chat_ChatID ref \<noteq> 0) (ValidationError ''chat_id'' ''must not be zero'')]"

definition TelegramChatRef_Conversation :: "TelegramChatRef \<Rightarrow> ConversationID \<Rightarrow> ConversationRef" where
  "TelegramChatRef_Conversation ref cid =
     \<lparr>conv_TenantID = chat_TenantID ref, conv_Frontend = FrontendTelegram,
      conv_ExternalID = FormatInt (chat_ChatID ref), conv_ID = cid\<rparr>"

record TelegramUserRef =
  tguser_TenantID :: TenantID
  tguser_UserID :: int

definition TelegramUserRef_Validate :: "TelegramUserRef \<Rightarrow> error option" where
  "TelegramUserRef_Validate ref =
     first_error
       [TenantID_Validate (tguser_TenantID ref),
        require (tguser_UserID ref > 0) (ValidationError ''user_id'' ''must be positive'')]"

definition TelegramUserRef_Actor :: "TelegramUserRef \<Rightarrow> ActorID \<Rightarrow> ActorRef" where
  "TelegramUserRef_Actor ref aid =
     \<lparr>actor_TenantID = tguser_TenantID ref, actor_Frontend = FrontendTelegram,
      actor_ExternalID = FormatInt (tguser_UserID ref), actor_ID = aid\<rparr>"

subsection \<open>The identifier grammar\<close>

text \<open>
  The grammar the source states for identifiers, \<open>[A-Za-z0-9][A-Za-z0-9._:-]*\<close> of at most
  160 bytes, as a predicate, and that every \<open>Validate\<close> of an identifier decides it.
\<close>

definition id_tail_char :: "char \<Rightarrow> bool" where
  "id_tail_char c = (is_alnum c \<or> c \<in> set ''._:-'')"

fun id_grammar :: "string \<Rightarrow> bool" where
  "id_grammar [] = False"
| "id_grammar (c # cs) = (is_alnum c \<and> list_all id_tail_char cs)"

definition opaque_id :: "string \<Rightarrow> bool" where
  "opaque_id s = (id_grammar s \<and> length s \<le> 160)"

lemma opaque_scan_Suc: "opaque_scan (Suc i) cs = list_all id_tail_char cs"
  by (induction cs arbitrary: i) (auto simp: id_tail_char_def)

lemma opaque_scan_0: "s \<noteq> [] \<Longrightarrow> opaque_scan 0 s = id_grammar s"
  by (cases s) (auto simp: opaque_scan_Suc)

lemma ValidateOpaqueID_None [simp]: "ValidateOpaqueID field s = None \<longleftrightarrow> opaque_id s"
  by (cases s) (auto simp: ValidateOpaqueID_def opaque_id_def opaque_scan_Suc maxOpaqueIDLength_def)

lemma id_Validate_None [simp]:
  "TenantID_Validate s = None \<longleftrightarrow> opaque_id s" "UserID_Validate s = None \<longleftrightarrow> opaque_id s"
  "SessionID_Validate s = None \<longleftrightarrow> opaque_id s" "SessionEventID_Validate s = None \<longleftrightarrow> opaque_id s"
  "FrontendBindingID_Validate s = None \<longleftrightarrow> opaque_id s"
  "FrontendProjectionID_Validate s = None \<longleftrightarrow> opaque_id s"
  "SessionSnapshotID_Validate s = None \<longleftrightarrow> opaque_id s"
  "ConversationID_Validate s = None \<longleftrightarrow> opaque_id s" "ActorID_Validate s = None \<longleftrightarrow> opaque_id s"
  "RunID_Validate s = None \<longleftrightarrow> opaque_id s" "AttemptID_Validate s = None \<longleftrightarrow> opaque_id s"
  "LeaseID_Validate s = None \<longleftrightarrow> opaque_id s" "CheckpointID_Validate s = None \<longleftrightarrow> opaque_id s"
  "QuotaReservationID_Validate s = None \<longleftrightarrow> opaque_id s"
  "UsageObservationID_Validate s = None \<longleftrightarrow> opaque_id s"
  "ArtifactManifestID_Validate s = None \<longleftrightarrow> opaque_id s"
  "DispatchOutboxID_Validate s = None \<longleftrightarrow> opaque_id s"
  "TelegramDeliveryID_Validate s = None \<longleftrightarrow> opaque_id s"
  "SubscriptionConnectionID_Validate s = None \<longleftrightarrow> opaque_id s"
  "IdempotencyKey_Validate s = None \<longleftrightarrow> opaque_id s"
  "Frontend_Validate s = None \<longleftrightarrow> opaque_id s"
  by (simp_all add: id_validate_defs Frontend_Validate_def)

lemma EnsureSameTenant_None [simp]: "EnsureSameTenant a b = None \<longleftrightarrow> opaque_id a \<and> a = b"
  by (auto simp: EnsureSameTenant_def)

lemma opaque_id_ne [simp]: "opaque_id s \<Longrightarrow> s \<noteq> []"
  by (cases s) (auto simp: opaque_id_def)

lemma id_char_not_slash: "id_tail_char c \<Longrightarrow> c \<noteq> CHR ''/''"
  by (auto simp: id_tail_char_def is_alnum_def is_digit_def byte_def)

lemma opaque_id_chars: "opaque_id s \<Longrightarrow> c \<in> set s \<Longrightarrow> id_tail_char c"
  by (cases s) (auto simp: opaque_id_def list_all_iff id_tail_char_def)

lemma opaque_id_no_slash: "opaque_id s \<Longrightarrow> CHR ''/'' \<notin> set s"
  using opaque_id_chars id_char_not_slash by blast

lemma opaque_id_not_dots: "opaque_id s \<Longrightarrow> s \<notin> {'''', ''.'', ''..''}"
  by (auto simp: opaque_id_def is_alnum_def is_digit_def byte_def)

text \<open>C1: opaque identifiers follow the documented grammar\<close>

lemmas opaque_eval = opaque_id_def id_tail_char_def is_alnum_def is_digit_def byte_def

text \<open>
  C40: an identifier is accepted exactly when it starts with a letter or a digit, continues
  with letters, digits and the characters of the documented grammar, and has at most 160 bytes.
\<close>

theorem ValidateOpaqueID_grammar:
  "ValidateOpaqueID field s = None \<longleftrightarrow> id_grammar s \<and> length s \<le> 160"
  by (simp add: opaque_id_def)

end
