(* ===== verification/Artifacts.thy ===== *)
theory Artifacts
  imports Identity
begin

text \<open>
  Object keys and blob references: \<open>internal/domain/artifacts.go\<close>. The key prefixes of a
  tenant, session, event and run, the validation of a blob reference, and that these prefixes
  separate tenants, sessions and events. The manifest check, which needs a run, is in
  \<^theory_text>\<open>Runs\<close>.
\<close>

subsection \<open>References and prefixes\<close>

record BlobRef =
  blob_TenantID :: TenantID
  blob_Key :: string
  blob_Size :: int
  blob_SHA256 :: string

definition TenantObjectPrefix :: "TenantID \<Rightarrow> string" where
  "TenantObjectPrefix tenantID = ''tenants/'' @ tenantID @ ''/''"

definition SessionObjectPrefix :: "TenantID \<Rightarrow> SessionID \<Rightarrow> string" where
  "SessionObjectPrefix tenantID sessionID = TenantObjectPrefix tenantID @ ''sessions/'' @ sessionID @ ''/''"

definition SessionRunObjectPrefix :: "TenantID \<Rightarrow> SessionID \<Rightarrow> RunID \<Rightarrow> string" where
  "SessionRunObjectPrefix tenantID sessionID runID =
     SessionObjectPrefix tenantID sessionID @ ''runs/'' @ runID @ ''/''"

definition RunObjectPrefix :: "TenantID \<Rightarrow> RunID \<Rightarrow> string" where
  "RunObjectPrefix tenantID runID = TenantObjectPrefix tenantID @ ''runs/'' @ runID @ ''/''"

definition SessionEventObjectPrefix :: "TenantID \<Rightarrow> SessionID \<Rightarrow> SessionEventID \<Rightarrow> string" where
  "SessionEventObjectPrefix tenantID sessionID eventID =
     SessionObjectPrefix tenantID sessionID @ ''events/'' @ eventID @ ''/''"

definition SessionSnapshotObjectKey :: "TenantID \<Rightarrow> SessionID \<Rightarrow> u64 \<Rightarrow> string" where
  "SessionSnapshotObjectKey tenantID sessionID version =
     SessionObjectPrefix tenantID sessionID @ ''snapshots/'' @ FormatNat (unat version) @ ''.jsonl.zst''"

definition BlobRef_Validate :: "BlobRef \<Rightarrow> error option" where
  "BlobRef_Validate ref =
     first_error
       [TenantID_Validate (blob_TenantID ref),
        require (\<not> (blob_Key ref = '''' \<or> HasPrefix (blob_Key ref) ''/'' \<or> path_Clean (blob_Key ref) \<noteq> blob_Key ref))
          (ValidationError ''blob.key'' ''must be a normalized relative object key''),
        require (HasPrefix (blob_Key ref) (TenantObjectPrefix (blob_TenantID ref)))
          (ValidationError ''blob.key'' (''must be under '' @ quoted (TenantObjectPrefix (blob_TenantID ref)))),
        require (0 \<le> blob_Size ref) (ValidationError ''blob.size'' ''must not be negative''),
        require (hex_decoded_len (blob_SHA256 ref) = Some 32)
          (ValidationError ''blob.sha256'' ''must be a 64-character hexadecimal SHA-256 digest'')]"

definition ValidateSessionEventBlob ::
    "TenantID \<Rightarrow> SessionID \<Rightarrow> SessionEventID \<Rightarrow> BlobRef \<Rightarrow> error option" where
  "ValidateSessionEventBlob tenantID sessionID eventID ref =
     first_error
       [BlobRef_Validate ref,
        EnsureSameTenant tenantID (blob_TenantID ref),
        SessionID_Validate sessionID,
        SessionEventID_Validate eventID,
        require (HasPrefix (blob_Key ref) (SessionEventObjectPrefix tenantID sessionID eventID))
          (ValidationError ''session_event.payload.key''
             (''must be under '' @ quoted (SessionEventObjectPrefix tenantID sessionID eventID)))]"

definition ValidateSessionSnapshotBlob ::
    "TenantID \<Rightarrow> SessionID \<Rightarrow> u64 \<Rightarrow> BlobRef \<Rightarrow> error option" where
  "ValidateSessionSnapshotBlob tenantID sessionID version ref =
     first_error
       [BlobRef_Validate ref,
        EnsureSameTenant tenantID (blob_TenantID ref),
        SessionID_Validate sessionID,
        require (version \<noteq> 0) (ValidationError ''session_snapshot.version'' ''must be positive''),
        require (blob_Key ref = SessionSnapshotObjectKey tenantID sessionID version)
          (ValidationError ''session_snapshot.payload.key''
             (''must equal '' @ quoted (SessionSnapshotObjectKey tenantID sessionID version)))]"

record Artifact =
  art_Name :: string
  art_MediaType :: string
  art_Blob :: BlobRef

definition Artifact_Validate :: "Artifact \<Rightarrow> error option" where
  "Artifact_Validate artifact =
     first_error
       [require (TrimSpace (art_Name artifact) \<noteq> '''') (ValidationError ''artifact.name'' ''must not be empty''),
        require (TrimSpace (art_MediaType artifact) \<noteq> '''')
          (ValidationError ''artifact.media_type'' ''must not be empty''),
        BlobRef_Validate (art_Blob artifact)]"

subsection \<open>Keys as path elements\<close>

text \<open>
  Because identifiers hold no slash, a key under a prefix splits into the prefix's elements
  followed by those of the rest, so two prefixes of a key agree element by element.
\<close>

definition elems :: "string \<Rightarrow> string list" where
  "elems k = split_slash [] k"

lemma elems_append: "opaque_id p \<Longrightarrow> elems (p @ CHR ''/'' # q) = p # elems q"
  by (simp add: elems_def split_slash_elem opaque_id_no_slash)

lemma elems_lit:
  "elems (''tenants/'' @ q) = ''tenants'' # elems q"
  "elems (''sessions/'' @ q) = ''sessions'' # elems q"
  "elems (''runs/'' @ q) = ''runs'' # elems q"
  "elems (''events/'' @ q) = ''events'' # elems q"
  by (simp_all add: elems_def)

lemmas prefix_defs = TenantObjectPrefix_def SessionObjectPrefix_def SessionRunObjectPrefix_def
  RunObjectPrefix_def SessionEventObjectPrefix_def

lemma elems_TenantObjectPrefix:
  assumes "opaque_id t" shows "elems (TenantObjectPrefix t @ r) = ''tenants'' # t # elems r"
  using elems_lit(1) [of "t @ CHR ''/'' # r"] elems_append [OF assms, of r] by (simp add: prefix_defs)

lemma elems_SessionObjectPrefix:
  assumes "opaque_id t" "opaque_id s"
  shows "elems (SessionObjectPrefix t s @ r) = ''tenants'' # t # ''sessions'' # s # elems r"
  using elems_TenantObjectPrefix [OF assms(1), of "''sessions/'' @ s @ CHR ''/'' # r"]
    elems_lit(2) [of "s @ CHR ''/'' # r"] elems_append [OF assms(2), of r]
  by (simp add: SessionObjectPrefix_def)

lemma elems_SessionEventObjectPrefix:
  assumes "opaque_id t" "opaque_id s" "opaque_id e"
  shows "elems (SessionEventObjectPrefix t s e @ r) =
           ''tenants'' # t # ''sessions'' # s # ''events'' # e # elems r"
  using elems_SessionObjectPrefix [OF assms(1,2), of "''events/'' @ e @ CHR ''/'' # r"]
    elems_lit(4) [of "e @ CHR ''/'' # r"] elems_append [OF assms(3), of r]
  by (simp add: SessionEventObjectPrefix_def)

lemma elems_RunObjectPrefix:
  assumes "opaque_id t" "opaque_id n"
  shows "elems (RunObjectPrefix t n @ r) = ''tenants'' # t # ''runs'' # n # elems r"
  using elems_TenantObjectPrefix [OF assms(1), of "''runs/'' @ n @ CHR ''/'' # r"]
    elems_lit(3) [of "n @ CHR ''/'' # r"] elems_append [OF assms(2), of r]
  by (simp add: RunObjectPrefix_def)

lemma TenantObjectPrefix_key:
  assumes "opaque_id t" and "HasPrefix k (TenantObjectPrefix t)"
  shows "\<exists>r. elems k = ''tenants'' # t # elems r"
  using assms by (auto simp: HasPrefix_iff elems_TenantObjectPrefix)

lemma SessionObjectPrefix_key:
  assumes "opaque_id t" and "opaque_id s" and "HasPrefix k (SessionObjectPrefix t s)"
  shows "\<exists>r. elems k = ''tenants'' # t # ''sessions'' # s # elems r"
  using assms by (auto simp: HasPrefix_iff elems_SessionObjectPrefix)

lemma RunObjectPrefix_key:
  assumes "opaque_id t" and "opaque_id n" and "HasPrefix k (RunObjectPrefix t n)"
  shows "\<exists>r. elems k = ''tenants'' # t # ''runs'' # n # elems r"
  using assms by (auto simp: HasPrefix_iff elems_RunObjectPrefix)

lemma SessionEventObjectPrefix_session:
  "HasPrefix k (SessionEventObjectPrefix t s e) \<Longrightarrow> HasPrefix k (SessionObjectPrefix t s)"
  unfolding SessionEventObjectPrefix_def by (rule HasPrefix_trans)

lemma SessionRunObjectPrefix_session:
  "HasPrefix k (SessionRunObjectPrefix t s n) \<Longrightarrow> HasPrefix k (SessionObjectPrefix t s)"
  unfolding SessionRunObjectPrefix_def by (rule HasPrefix_trans)

lemma SessionObjectPrefix_tenant:
  "HasPrefix k (SessionObjectPrefix t s) \<Longrightarrow> HasPrefix k (TenantObjectPrefix t)"
  unfolding SessionObjectPrefix_def by (rule HasPrefix_trans)

lemma BlobRef_Validate_None:
  "BlobRef_Validate ref = None \<longleftrightarrow>
     opaque_id (blob_TenantID ref) \<and> blob_Key ref \<noteq> '''' \<and> \<not> HasPrefix (blob_Key ref) ''/'' \<and>
     path_Clean (blob_Key ref) = blob_Key ref \<and>
     HasPrefix (blob_Key ref) (TenantObjectPrefix (blob_TenantID ref)) \<and>
     0 \<le> blob_Size ref \<and> hex_decoded_len (blob_SHA256 ref) = Some 32"
  by (auto simp: BlobRef_Validate_def)

lemma BlobRef_elems:
  assumes "BlobRef_Validate ref = None"
  shows "\<exists>rest. elems (blob_Key ref) = ''tenants'' # blob_TenantID ref # rest \<and>
           (\<forall>e \<in> set (elems (blob_Key ref)). e \<notin> {'''', ''.'', ''..''})"
proof -
  let ?k = "blob_Key ref"
  have v: "opaque_id (blob_TenantID ref)" "?k \<noteq> ''''" "\<not> HasPrefix ?k ''/''" "path_Clean ?k = ?k"
    "HasPrefix ?k (TenantObjectPrefix (blob_TenantID ref))"
    using assms by (auto simp: BlobRef_Validate_None)
  obtain r where r: "elems ?k = ''tenants'' # blob_TenantID ref # elems r"
    using TenantObjectPrefix_key [OF v(1,5)] by blast
  have "hd ?k \<noteq> CHR ''/''"
    using v(2,3) by (cases ?k) (auto simp: HasPrefix_iff)
  from path_Clean_fixed_relative [OF v(4,2) this, of "''tenants''" "blob_TenantID ref # elems r"] r
  show ?thesis by (auto simp: elems_def)
qed

text \<open>
  C36: a validated blob reference names an object inside its tenant's tree. The path elements of its
  key are \<open>tenants\<close>, the tenant, and a rest, and none of them is empty, \<open>.\<close> or \<open>..\<close>. So no
  validated key of another tenant is the same key.
\<close>

theorem BlobRef_confined:
  assumes "BlobRef_Validate ref = None"
  shows "(\<exists>rest. elems (blob_Key ref) = ''tenants'' # blob_TenantID ref # rest) \<and>
    set (elems (blob_Key ref)) \<inter> {'''', ''.'', ''..''} = {} \<and>
    (BlobRef_Validate other = None \<longrightarrow> blob_TenantID other \<noteq> blob_TenantID ref \<longrightarrow> blob_Key other \<noteq> blob_Key ref)"
proof -
  note confined = BlobRef_elems [OF assms]
  have "blob_Key other \<noteq> blob_Key ref"
    if "BlobRef_Validate other = None" "blob_TenantID other \<noteq> blob_TenantID ref"
    using confined BlobRef_elems [OF that(1)] that(2) by (metis list.inject)
  then show ?thesis using confined by blast
qed

theorem BlobRef_confined_witness:
  "let ref = \<lparr>blob_TenantID = ''acme'', blob_Key = ''tenants/acme/runs/r1/out'', blob_Size = 3,
               blob_SHA256 = replicate 64 (CHR ''a'')\<rparr>
   in BlobRef_Validate ref = None \<and> elems (blob_Key ref) = [''tenants'', ''acme'', ''runs'', ''r1'', ''out''] \<and>
      set (elems (blob_Key ref)) \<inter> {'''', ''.'', ''..''} = {}"
proof -
  define ref where "ref = \<lparr>blob_TenantID = ''acme'', blob_Key = ''tenants/acme/runs/r1/out'', blob_Size = 3,
    blob_SHA256 = replicate 64 (CHR ''a'')\<rparr>"
  have v: "BlobRef_Validate ref = None" unfolding ref_def by code_simp
  have "elems (blob_Key ref) = [''tenants'', ''acme'', ''runs'', ''r1'', ''out'']" unfolding ref_def by code_simp
  then show ?thesis using v BlobRef_confined [OF v] by (simp add: Let_def ref_def)
qed

end
