(* ===== verification/Encoding.thy ===== *)
theory Encoding
  imports GoLib
begin

text \<open>
  The encodings the code hashes: SHA-256 (\<open>crypto/sha256\<close>) on byte strings, the compact JSON
  of \<open>encoding/json.Marshal\<close> for objects with fields in declaration order, and the RFC 3339
  rendering of a UTC time. A digest is 32 bytes and its hexadecimal form is accepted by the
  digest grammar of the domain package.
\<close>

unbundle bit_operations_syntax

subsection \<open>SHA-256\<close>

definition rotr :: "nat \<Rightarrow> u32 \<Rightarrow> u32" where
  "rotr n x = drop_bit n x OR push_bit (32 - n) x"

text \<open>
  The round constants are the leading fractional bits of the cube roots of the first primes
  and the initial state those of the square roots. \<open>int_root k n lo hi\<close> is the greatest \<open>m\<close>
  with \<open>m ^ k \<le> n\<close> by bisection, and the conversion to a word keeps the fractional part.
\<close>

function int_root :: "nat \<Rightarrow> int \<Rightarrow> int \<Rightarrow> int \<Rightarrow> int" where
  "int_root k n lo hi =
     (if hi - lo \<le> 1 then lo
      else let m = (lo + hi) div 2 in if m ^ k \<le> n then int_root k n m hi else int_root k n lo m)"
  by pat_completeness auto
termination
  by (relation "measure (\<lambda>(k, n, lo, hi). nat (hi - lo))") auto

declare int_root.simps [simp del]

definition first_primes :: "int list" where
  "first_primes =
    [2, 3, 5, 7, 11, 13, 17, 19, 23, 29, 31, 37, 41, 43, 47, 53, 59, 61, 67, 71,
     73, 79, 83, 89, 97, 101, 103, 107, 109, 113, 127, 131, 137, 139, 149, 151, 157, 163, 167, 173,
     179, 181, 191, 193, 197, 199, 211, 223, 227, 229, 233, 239, 241, 251, 257, 263, 269, 271, 277, 281,
     283, 293, 307, 311, 313, 317, 331, 337, 347, 349, 353, 359, 367, 373, 379, 383, 389, 397, 401, 409]"

definition sha_K :: "u32 list" where
  "sha_K = map (\<lambda>p. of_int (int_root 3 (p * 2 ^ 96) 0 (2 ^ 36))) (take 64 first_primes)"

record sha_state =
  sha_a :: u32
  sha_b :: u32
  sha_c :: u32
  sha_d :: u32
  sha_e :: u32
  sha_f :: u32
  sha_g :: u32
  sha_h :: u32

definition sha_iv :: "nat \<Rightarrow> u32" where
  "sha_iv i = of_int (int_root 2 (first_primes ! i * 2 ^ 64) 0 (2 ^ 35))"

definition sha_init :: sha_state where
  "sha_init = \<lparr>sha_a = sha_iv 0, sha_b = sha_iv 1, sha_c = sha_iv 2, sha_d = sha_iv 3,
     sha_e = sha_iv 4, sha_f = sha_iv 5, sha_g = sha_iv 6, sha_h = sha_iv 7\<rparr>"

definition be_bytes :: "nat \<Rightarrow> 'a::len word \<Rightarrow> string" where
  "be_bytes n x = map (\<lambda>i. char_of (uint (drop_bit (8 * (n - 1 - i)) x AND 255))) [0..<n]"

text \<open>The padding: a one bit, zeros up to 56 bytes modulo 64, and the bit length in eight bytes.\<close>

definition sha_pad :: "string \<Rightarrow> string" where
  "sha_pad m =
     m @ [char_of (128::nat)] @ replicate ((119 - length m mod 64) mod 64) (char_of (0::nat)) @
     be_bytes 8 (of_nat (8 * length m) :: u64)"

fun be_word :: "string \<Rightarrow> u32" where
  "be_word (a # b # c # d # _) =
     push_bit 24 (of_nat (byte a)) OR push_bit 16 (of_nat (byte b)) OR push_bit 8 (of_nat (byte c)) OR
     of_nat (byte d)"
| "be_word _ = 0"

text \<open>The message schedule, newest word first.\<close>

fun sha_schedule :: "nat \<Rightarrow> u32 list \<Rightarrow> u32 list" where
  "sha_schedule 0 w = w"
| "sha_schedule (Suc n) w =
     (let w15 = w ! 14; w2 = w ! 1;
          s0 = rotr 7 w15 XOR rotr 18 w15 XOR drop_bit 3 w15;
          s1 = rotr 17 w2 XOR rotr 19 w2 XOR drop_bit 10 w2
      in sha_schedule n ((w ! 15 + s0 + w ! 6 + s1) # w))"

definition sha_round :: "u32 \<times> u32 \<Rightarrow> sha_state \<Rightarrow> sha_state" where
  "sha_round kw s =
     (let e = sha_e s; a = sha_a s;
          S1 = rotr 6 e XOR rotr 11 e XOR rotr 25 e;
          ch = (e AND sha_f s) XOR (NOT e AND sha_g s);
          t1 = sha_h s + S1 + ch + fst kw + snd kw;
          S0 = rotr 2 a XOR rotr 13 a XOR rotr 22 a;
          maj = (a AND sha_b s) XOR (a AND sha_c s) XOR (sha_b s AND sha_c s);
          t2 = S0 + maj
      in \<lparr>sha_a = t1 + t2, sha_b = a, sha_c = sha_b s, sha_d = sha_c s,
          sha_e = sha_d s + t1, sha_f = e, sha_g = sha_f s, sha_h = sha_g s\<rparr>)"

definition sha_words :: "string \<Rightarrow> u32 list" where
  "sha_words blk = map (\<lambda>i. be_word (drop (4 * i) blk)) [0..<16]"

definition sha_block :: "sha_state \<Rightarrow> string \<Rightarrow> sha_state" where
  "sha_block s blk =
     (let w = rev (sha_schedule 48 (rev (sha_words blk)));
          r = fold sha_round (zip sha_K w) s
      in \<lparr>sha_a = sha_a s + sha_a r, sha_b = sha_b s + sha_b r, sha_c = sha_c s + sha_c r,
          sha_d = sha_d s + sha_d r, sha_e = sha_e s + sha_e r, sha_f = sha_f s + sha_f r,
          sha_g = sha_g s + sha_g r, sha_h = sha_h s + sha_h r\<rparr>)"

function sha_blocks :: "sha_state \<Rightarrow> string \<Rightarrow> sha_state" where
  "sha_blocks s m = (if m = [] then s else sha_blocks (sha_block s (take 64 m)) (drop 64 m))"
  by pat_completeness auto
termination
  by (relation "measure (length \<circ> snd)") auto

declare sha_blocks.simps [simp del]

definition sha_out :: "sha_state \<Rightarrow> string" where
  "sha_out s =
     concat (map (\<lambda>x. be_bytes 4 x)
       [sha_a s, sha_b s, sha_c s, sha_d s, sha_e s, sha_f s, sha_g s, sha_h s])"

definition sha256 :: "string \<Rightarrow> string" where
  "sha256 m = sha_out (sha_blocks sha_init (sha_pad m))"

lemma length_be_bytes [simp]: "length (be_bytes n x) = n"
  by (simp add: be_bytes_def)

lemma length_sha256 [simp]: "length (sha256 m) = 32"
  by (simp add: sha256_def sha_out_def)

subsection \<open>Hexadecimal digests\<close>

definition lower_hex :: "char \<Rightarrow> bool" where
  "lower_hex c = (is_digit c \<or> 97 \<le> byte c \<and> byte c \<le> 102)"

lemma hex_digit_lower: "n < 16 \<Longrightarrow> lower_hex (hex_digit n)"
  by (auto simp: lower_hex_def hex_digit_def is_digit_def byte_def)

lemma byte_less: "byte c < 256"
  by (simp add: byte_def)

lemma hex_encode_lower: "list_all lower_hex (hex_encode s)"
proof -
  have "lower_hex (hex_digit (byte c div 16))" "lower_hex (hex_digit (byte c mod 16))" for c
    using byte_less [of c] by (auto intro!: hex_digit_lower)
  then show ?thesis by (auto simp: hex_encode_def list_all_iff)
qed

lemma lower_hex_is_hex: "lower_hex c \<Longrightarrow> is_hex c"
  by (auto simp: lower_hex_def is_hex_def)

subsection \<open>JSON\<close>

datatype json =
    JStr string
  | JNat nat
  | JInt int
  | JBool bool
  | JNull
  | JArr "json list"
  | JObj "(string \<times> json) list"

definition json_u4 :: "nat \<Rightarrow> string" where
  "json_u4 r =
     [char_of (92::nat), CHR ''u'', hex_digit (r div 4096 mod 16), hex_digit (r div 256 mod 16),
      hex_digit (r div 16 mod 16), hex_digit (r mod 16)]"

definition json_rune :: "nat \<times> nat \<Rightarrow> string \<Rightarrow> string" where
  "json_rune d raw =
     (let r = fst d; back = char_of (92::nat)
      in if r = 34 \<or> r = 92 then back # raw
         else if r = 8 then [back, CHR ''b'']
         else if r = 12 then [back, CHR ''f'']
         else if r = 10 then [back, CHR ''n'']
         else if r = 13 then [back, CHR ''r'']
         else if r = 9 then [back, CHR ''t'']
         else if r < 32 \<or> r = 60 \<or> r = 62 \<or> r = 38 then json_u4 r
         else if d = (0xFFFD, 1) then json_u4 0xFFFD
         else if r = 0x2028 \<or> r = 0x2029 then json_u4 r
         else raw)"

function json_chars :: "string \<Rightarrow> string" where
  "json_chars [] = []"
| "json_chars (c # cs) =
     (let d = DecodeRune (c # cs); n = snd d - 1
      in json_rune d (c # take n cs) @ json_chars (drop n cs))"
  by pat_completeness auto
termination
  by (relation "measure length") (auto simp: Let_def)

definition json_string :: "string \<Rightarrow> string" where
  "json_string s = [char_of (34::nat)] @ json_chars s @ [char_of (34::nat)]"

fun join_with :: "string \<Rightarrow> string list \<Rightarrow> string" where
  "join_with sep [] = []"
| "join_with sep [x] = x"
| "join_with sep (x # xs) = x @ sep @ join_with sep xs"

fun json_Marshal :: "json \<Rightarrow> string" where
  "json_Marshal (JStr s) = json_string s"
| "json_Marshal (JNat n) = FormatNat n"
| "json_Marshal (JInt i) = FormatInt i"
| "json_Marshal (JBool b) = (if b then ''true'' else ''false'')"
| "json_Marshal JNull = ''null''"
| "json_Marshal (JArr xs) = ''['' @ join_with '','' (map json_Marshal xs) @ '']''"
| "json_Marshal (JObj fs) =
     [CHR 0x7B] @ join_with '','' (map (\<lambda>(k, v). json_string k @ '':'' @ json_Marshal v) fs) @ [CHR 0x7D]"

text \<open>A \<open>[]byte\<close> field marshals as a string in standard base64 with padding.\<close>

definition base64_digit :: "nat \<Rightarrow> char" where
  "base64_digit n = char_of
     (if n < 26 then 65 + n else if n < 52 then 71 + n else if n < 62 then n - 4
      else if n = 62 then 43 else 47)"

fun base64 :: "string \<Rightarrow> string" where
  "base64 [] = []"
| "base64 [a] = (let n = byte a * 16 in [base64_digit (n div 64), base64_digit (n mod 64), CHR ''='', CHR ''=''])"
| "base64 [a, b] =
     (let n = (byte a * 256 + byte b) * 4
      in [base64_digit (n div 4096), base64_digit (n div 64 mod 64), base64_digit (n mod 64), CHR ''=''])"
| "base64 (a # b # c # r) =
     (let n = (byte a * 256 + byte b) * 256 + byte c
      in [base64_digit (n div 262144), base64_digit (n div 4096 mod 64), base64_digit (n div 64 mod 64),
          base64_digit (n mod 64)] @ base64 r)"

definition JBytes :: "string \<Rightarrow> json" where
  "JBytes b = JStr (base64 b)"

text \<open>An \<open>omitempty\<close> pointer field.\<close>

definition json_omitempty :: "string \<Rightarrow> ('a \<Rightarrow> json) \<Rightarrow> 'a option \<Rightarrow> (string \<times> json) list" where
  "json_omitempty k f p = (case p of None \<Rightarrow> [] | Some v \<Rightarrow> [(k, f v)])"

subsection \<open>RFC 3339 times\<close>

definition leap_year :: "nat \<Rightarrow> bool" where
  "leap_year y = (y mod 4 = 0 \<and> (y mod 100 \<noteq> 0 \<or> y mod 400 = 0))"

fun month_of :: "nat \<Rightarrow> nat list \<Rightarrow> nat \<Rightarrow> nat \<times> nat" where
  "month_of m [] d = (m, d + 1)"
| "month_of m (n # ns) d = (if d < n then (m, d + 1) else month_of (Suc m) ns (d - n))"

text \<open>Year, month and day of the day \<open>d\<close> after 1 January of year 1.\<close>

definition civil_date :: "nat \<Rightarrow> nat \<times> nat \<times> nat" where
  "civil_date d =
     (let n400 = d div 146097; r = d mod 146097;
          n100 = min 3 (r div 36524); r = r - n100 * 36524;
          n4 = r div 1461; r = r mod 1461;
          n1 = min 3 (r div 365); yday = r - n1 * 365;
          y = 400 * n400 + 100 * n100 + 4 * n4 + n1 + 1;
          md = month_of 1 [31, if leap_year y then 29 else 28, 31, 30, 31, 30, 31, 31, 30, 31, 30] yday
      in (y, md))"

definition pad_left :: "nat \<Rightarrow> string \<Rightarrow> string" where
  "pad_left n s = replicate (n - length s) (CHR ''0'') @ s"

definition frac_digits :: "nat \<Rightarrow> string" where
  "frac_digits ns =
     (let ds = rev (dropWhile (\<lambda>c. c = CHR ''0'') (rev (pad_left 9 (FormatNat ns))))
      in if ds = '''' then '''' else ''.'' @ ds)"

text \<open>
  The day count starts four hundred years (146097 days) before year 1, so that year 0, which
  marshals too, is covered.
\<close>

definition FormatRFC3339Nano :: "timestamp \<Rightarrow> string" where
  "FormatRFC3339Nano t =
     (let total = nat (t div 1000000000 + 146097 * 86400); ns = nat (t mod 1000000000);
          (y, mo, d) = civil_date (total div 86400); s = total mod 86400
      in pad_left 4 (FormatNat (y - 400)) @ ''-'' @ pad_left 2 (FormatNat mo) @ ''-'' @ pad_left 2 (FormatNat d) @
         ''T'' @ pad_left 2 (FormatNat (s div 3600)) @ '':'' @ pad_left 2 (FormatNat (s div 60 mod 60)) @
         '':'' @ pad_left 2 (FormatNat (s mod 60)) @ frac_digits ns @ ''Z'')"

text \<open>\<open>Time.MarshalJSON\<close> fails outside the years 0 to 9999.\<close>

definition time_marshals :: "timestamp \<Rightarrow> bool" where
  "time_marshals t = (- 366 * 86400 * second \<le> t \<and> t < 3652059 * 86400 * second)"

definition JTime :: "timestamp \<Rightarrow> json" where
  "JTime t = JStr (FormatRFC3339Nano t)"

subsection \<open>Sizes of plain texts\<close>

text \<open>Characters that JSON strings carry unescaped.\<close>

definition plain_char :: "char \<Rightarrow> bool" where
  "plain_char c = (32 \<le> byte c \<and> byte c < 127 \<and> byte c \<notin> {34, 38, 60, 62, 92})"

lemma DecodeRune_plain: "plain_char c \<Longrightarrow> DecodeRune (c # cs) = (byte c, 1)"
  by (simp add: plain_char_def DecodeRune_def)

lemma json_chars_plain: "list_all plain_char s \<Longrightarrow> json_chars s = s"
proof (induction s)
  case (Cons c cs)
  then have "plain_char c" by simp
  then have "json_rune (byte c, 1) [c] = [c]" by (simp add: json_rune_def plain_char_def Let_def)
  then show ?case using Cons DecodeRune_plain [of c cs] by (simp add: Let_def)
qed simp

lemma json_string_length: "list_all plain_char s \<Longrightarrow> length (json_string s) = length s + 2"
  by (simp add: json_string_def json_chars_plain)

lemma plain_digit: "n < (10 :: nat) \<Longrightarrow> plain_char (char_of (48 + n))"
  by (simp add: plain_char_def byte_def)

lemma FormatNat_plain: "list_all plain_char (FormatNat n)"
proof (induction n rule: FormatNat.induct)
  case (1 n)
  then show ?case by (subst FormatNat.simps) (auto simp: plain_digit)
qed

lemma FormatNat_length: "n < 10 ^ k \<Longrightarrow> 0 < k \<Longrightarrow> length (FormatNat n) \<le> k"
proof (induction n arbitrary: k rule: FormatNat.induct)
  case (1 n)
  show ?case
  proof (cases "n < 10")
    case True
    then show ?thesis using 1(3) by (subst FormatNat.simps) simp
  next
    case False
    then obtain k' where k: "k = Suc k'" "0 < k'" using 1(2,3) by (cases k; cases "k - 1") auto
    have "n div 10 < 10 ^ k'" using 1(2) k by (simp add: less_mult_imp_div_less mult.commute)
    then have "length (FormatNat (n div 10)) \<le> k'" using 1(1) False k(2) by blast
    then show ?thesis using k False by (subst FormatNat.simps) simp
  qed
qed

lemma pad_left_plain: "list_all plain_char s \<Longrightarrow> list_all plain_char (pad_left n s)"
  by (auto simp: pad_left_def list_all_iff plain_char_def byte_def)

lemma pad_left_length: "length (pad_left n s) = max n (length s)"
  by (simp add: pad_left_def)

lemma pad_left_bound: "n < 10 ^ k \<Longrightarrow> 0 < k \<Longrightarrow> m \<le> k \<Longrightarrow> length (pad_left m (FormatNat n)) \<le> k"
  using FormatNat_length [of n k] by (simp add: pad_left_length)

lemma frac_digits_plain: "list_all plain_char (frac_digits ns)"
proof -
  have "list_all plain_char (rev (pad_left 9 (FormatNat ns)))" using pad_left_plain [OF FormatNat_plain] by simp
  then have "list_all plain_char (dropWhile (\<lambda>c. c = CHR ''0'') (rev (pad_left 9 (FormatNat ns))))"
    by (metis append_take_drop_id dropWhile_eq_drop list_all_append)
  then show ?thesis by (simp add: frac_digits_def Let_def) (simp add: plain_char_def byte_def)
qed

lemma frac_digits_length: "ns < 10 ^ 9 \<Longrightarrow> length (frac_digits ns) \<le> 10"
proof -
  assume "ns < 10 ^ 9"
  then have "length (pad_left 9 (FormatNat ns)) = 9" using FormatNat_length [of ns 9] by (simp add: pad_left_length)
  then have "length (dropWhile (\<lambda>c. c = CHR ''0'') (rev (pad_left 9 (FormatNat ns)))) \<le> 9"
    by (metis length_dropWhile_le length_rev)
  then show ?thesis by (simp add: frac_digits_def Let_def)
qed

lemma month_of_bound: "month_of m ns d = (m', d') \<Longrightarrow> m' \<le> m + length ns \<and> d' \<le> Suc d"
  by (induction m ns d rule: month_of.induct) (auto split: if_splits)

lemma civil_date_bound:
  assumes "civil_date n = (y, mo, d)" "n < 4000000"
  shows "y < 100000" "mo < 100" "d < 10000"
proof -
  define r1 where "r1 = n mod 146097 - min 3 (n mod 146097 div 36524) * 36524"
  define r2 where "r2 = r1 mod 1461"
  define yday where "yday = r2 - min 3 (r2 div 365) * 365"
  let ?y = "400 * (n div 146097) + 100 * min 3 (n mod 146097 div 36524) + 4 * (r1 div 1461) + min 3 (r2 div 365) + 1"
  have eq: "(?y, month_of 1 [31, if leap_year ?y then 29 else 28, 31, 30, 31, 30, 31, 31, 30, 31, 30] yday) = (y, mo, d)"
    using assms(1) unfolding civil_date_def Let_def r1_def r2_def yday_def .
  note y = eq [unfolded prod.inject, THEN conjunct1] and md = eq [unfolded prod.inject, THEN conjunct2]
  have "n mod 146097 < 146097" by simp
  then have "r1 < 146097" unfolding r1_def by linarith
  then have "r1 div 1461 \<le> 100" by (simp add: div_le_dividend less_mult_imp_div_less less_Suc_eq_le [symmetric])
  moreover have "n div 146097 < 28" using assms(2) by (simp add: less_mult_imp_div_less)
  ultimately show "y < 100000" unfolding y [symmetric] by linarith
  have "r2 < 1461" unfolding r2_def by simp
  then have "yday < 1461" unfolding yday_def by linarith
  moreover have "mo \<le> 12" "d \<le> Suc yday" using month_of_bound [OF md] by simp_all
  ultimately show "mo < 100" "d < 10000" by linarith+
qed

lemma FormatRFC3339Nano_plain: "list_all plain_char (FormatRFC3339Nano t)"
  by (simp add: FormatRFC3339Nano_def Let_def case_prod_unfold pad_left_plain FormatNat_plain frac_digits_plain)
     (simp add: plain_char_def byte_def)

lemma FormatRFC3339Nano_length:
  assumes "year_in_range t"
  shows "length (FormatRFC3339Nano t) \<le> 40"
proof -
  define total where "total = nat (t div 1000000000 + 146097 * 86400)"
  obtain y mo d where c: "civil_date (total div 86400) = (y, mo, d)" by (cases "civil_date (total div 86400)")
  have "t div 1000000000 < 3652059 * 86400" "0 \<le> t div 1000000000"
    using assms by (auto simp: year_in_range_def second_def)
  then have "total div 86400 < 4000000" unfolding total_def by (simp add: less_mult_imp_div_less nat_less_iff)
  note b = civil_date_bound [OF c this]
  have s: "total mod 86400 < 86400" by simp
  define sec where "sec = total mod 86400"
  have "sec div 60 mod 60 < 60" "sec mod 60 < 60" by simp_all
  moreover have "sec div 3600 < 100" using s unfolding sec_def by (simp add: less_mult_imp_div_less)
  ultimately have sec: "sec div 3600 < 100" "sec div 60 mod 60 < 100" "sec mod 60 < 100" by linarith+
  have ns: "nat (t mod 1000000000) < 10 ^ 9" by (simp add: nat_less_iff)
  have "FormatRFC3339Nano t = pad_left 4 (FormatNat (y - 400)) @ ''-'' @ pad_left 2 (FormatNat mo) @ ''-'' @
      pad_left 2 (FormatNat d) @ ''T'' @ pad_left 2 (FormatNat (sec div 3600)) @ '':'' @
      pad_left 2 (FormatNat (sec div 60 mod 60)) @ '':'' @ pad_left 2 (FormatNat (sec mod 60)) @
      frac_digits (nat (t mod 1000000000)) @ ''Z''"
    using c unfolding FormatRFC3339Nano_def Let_def total_def sec_def by simp
  then have "length (FormatRFC3339Nano t) = length (pad_left 4 (FormatNat (y - 400))) + length (pad_left 2 (FormatNat mo)) +
      length (pad_left 2 (FormatNat d)) + length (pad_left 2 (FormatNat (sec div 3600))) +
      length (pad_left 2 (FormatNat (sec div 60 mod 60))) + length (pad_left 2 (FormatNat (sec mod 60))) +
      length (frac_digits (nat (t mod 1000000000))) + 6"
    by simp
  moreover have "length (pad_left 4 (FormatNat (y - 400))) \<le> 5" "length (pad_left 2 (FormatNat mo)) \<le> 2"
    "length (pad_left 2 (FormatNat d)) \<le> 4"
    using b by (auto intro!: pad_left_bound)
  moreover have "length (pad_left 2 (FormatNat (sec div 3600))) \<le> 2"
    "length (pad_left 2 (FormatNat (sec div 60 mod 60))) \<le> 2" "length (pad_left 2 (FormatNat (sec mod 60))) \<le> 2"
    using sec by (auto intro!: pad_left_bound)
  ultimately show ?thesis using frac_digits_length [OF ns] by linarith
qed

lemma JTime_length:
  assumes "year_in_range t"
  shows "length (json_Marshal (JTime t)) \<le> 42"
  using FormatRFC3339Nano_length [OF assms] json_string_length [OF FormatRFC3339Nano_plain] by (simp add: JTime_def)

end
