(* ===== verification/Operations.thy ===== *)
theory Operations
  imports Artifacts Encoding
begin

text \<open>
  Attempt operations: \<open>internal/domain/attempt_operation.go\<close>,
  \<open>attempt_operation_search_wire.go\<close>, the digest grammar of \<open>web_upload.go\<close> and the digest
  transcript of \<open>serverless_harness.go\<close>. An attempt performs a chain of at most twelve
  operations; each is reserved against a worst-case debit before it is sent and closed by one
  observation, and the next one names that observation's digest.
\<close>

subsection \<open>Digest grammar and transcripts\<close>

definition validateSHA256 :: "string \<Rightarrow> string \<Rightarrow> error option" where
  "validateSHA256 field value =
     (if length value \<noteq> 64
      then Some (ValidationError field ''must be a lowercase 64-character SHA-256 digest'')
      else if \<not> list_all lower_hex value
      then Some (ValidationError field ''must be a lowercase 64-character SHA-256 digest'')
      else None)"

definition ValidateSHA256Digest :: "string \<Rightarrow> string \<Rightarrow> error option" where
  "ValidateSHA256Digest field value = validateSHA256 field value"

definition sha256_digest :: "string \<Rightarrow> bool" where
  "sha256_digest s = (length s = 64 \<and> list_all lower_hex s)"

lemma validateSHA256_None [simp]: "validateSHA256 f s = None \<longleftrightarrow> sha256_digest s"
  by (simp add: validateSHA256_def sha256_digest_def)

lemma ValidateSHA256Digest_None [simp]: "ValidateSHA256Digest f s = None \<longleftrightarrow> sha256_digest s"
  by (simp add: ValidateSHA256Digest_def)

lemma sha256_digest_hex [simp]: "sha256_digest (hex_encode (sha256 m))"
  by (simp add: sha256_digest_def length_hex_encode hex_encode_lower)

lemma sha256_digest_ne [simp]: "sha256_digest s \<Longrightarrow> s \<noteq> []"
  by (auto simp: sha256_digest_def)

type_synonym transcript = string

definition newServerlessDigest :: "string \<Rightarrow> transcript" where
  "newServerlessDigest separator = separator @ [char_of (0::nat)]"

definition digest_bytes :: "transcript \<Rightarrow> string \<Rightarrow> transcript" where
  "digest_bytes digest value = digest @ be_bytes 8 (of_nat (length value) :: u64) @ value"

definition digest_sum :: "transcript \<Rightarrow> string" where
  "digest_sum digest = hex_encode (sha256 digest)"

definition validCurrencyV1 :: "string \<Rightarrow> bool" where
  "validCurrencyV1 value = (length value = 3 \<and> list_all (\<lambda>r. 65 \<le> r \<and> r \<le> 90) (runes value))"

definition AttemptEffectReservationDigestV1_Validate :: "string \<Rightarrow> error option" where
  "AttemptEffectReservationDigestV1_Validate = validateSHA256 ''attempt_effect_reservation_digest''"
definition ServerlessInvocationAuthorityDigestV1_Validate :: "string \<Rightarrow> error option" where
  "ServerlessInvocationAuthorityDigestV1_Validate = validateSHA256 ''serverless_invocation_authority_digest''"
definition HarnessBindingDigestV2_Validate :: "string \<Rightarrow> error option" where
  "HarnessBindingDigestV2_Validate = validateSHA256 ''harness_binding_digest''"
definition AgentLoopPolicyDigestV1_Validate :: "string \<Rightarrow> error option" where
  "AgentLoopPolicyDigestV1_Validate = validateSHA256 ''agent_loop_policy_digest''"
definition AdmissionCostCeilingDigestV2_Validate :: "string \<Rightarrow> error option" where
  "AdmissionCostCeilingDigestV2_Validate = validateSHA256 ''admission_cost_ceiling_digest''"
definition RegisteredAllocationDigestV2_Validate :: "string \<Rightarrow> error option" where
  "RegisteredAllocationDigestV2_Validate = validateSHA256 ''registered_allocation_digest''"
definition RegisteredProxyAttestationDigestV2_Validate :: "string \<Rightarrow> error option" where
  "RegisteredProxyAttestationDigestV2_Validate = validateSHA256 ''registered_proxy_attestation_digest''"
definition AttemptOperationDigestV1_Validate :: "string \<Rightarrow> error option" where
  "AttemptOperationDigestV1_Validate = ValidateSHA256Digest ''attempt_operation_digest''"
definition AttemptOperationReservationDigestV1_Validate :: "string \<Rightarrow> error option" where
  "AttemptOperationReservationDigestV1_Validate = ValidateSHA256Digest ''attempt_operation_reservation_digest''"
definition AttemptOperationObservationDigestV1_Validate :: "string \<Rightarrow> error option" where
  "AttemptOperationObservationDigestV1_Validate = ValidateSHA256Digest ''attempt_operation_observation_digest''"

lemma digest_Validate_None [simp]:
  "AttemptEffectReservationDigestV1_Validate s = None \<longleftrightarrow> sha256_digest s"
  "ServerlessInvocationAuthorityDigestV1_Validate s = None \<longleftrightarrow> sha256_digest s"
  "HarnessBindingDigestV2_Validate s = None \<longleftrightarrow> sha256_digest s"
  "AgentLoopPolicyDigestV1_Validate s = None \<longleftrightarrow> sha256_digest s"
  "AdmissionCostCeilingDigestV2_Validate s = None \<longleftrightarrow> sha256_digest s"
  "RegisteredAllocationDigestV2_Validate s = None \<longleftrightarrow> sha256_digest s"
  "RegisteredProxyAttestationDigestV2_Validate s = None \<longleftrightarrow> sha256_digest s"
  "AttemptOperationDigestV1_Validate s = None \<longleftrightarrow> sha256_digest s"
  "AttemptOperationReservationDigestV1_Validate s = None \<longleftrightarrow> sha256_digest s"
  "AttemptOperationObservationDigestV1_Validate s = None \<longleftrightarrow> sha256_digest s"
  by (simp_all add: AttemptEffectReservationDigestV1_Validate_def
      ServerlessInvocationAuthorityDigestV1_Validate_def HarnessBindingDigestV2_Validate_def
      AgentLoopPolicyDigestV1_Validate_def AdmissionCostCeilingDigestV2_Validate_def
      RegisteredAllocationDigestV2_Validate_def RegisteredProxyAttestationDigestV2_Validate_def
      AttemptOperationDigestV1_Validate_def AttemptOperationReservationDigestV1_Validate_def
      AttemptOperationObservationDigestV1_Validate_def)

subsection \<open>Kinds, outcomes and reasons\<close>

definition operationError :: "string \<Rightarrow> string \<Rightarrow> error" where
  "operationError field reason = ValidationError (''attempt_operation.'' @ field) reason"

datatype AttemptOperationKindV1 =
    AttemptOperationModelV1 | AttemptOperationCompactionV1 | AttemptOperationMCPToolV1
  | AttemptOperationWebSearchV1 | AttemptOperationKindOther string

datatype AttemptOperationOutcomeV1 =
    AttemptOperationCompletedV1 | AttemptOperationRejectedBeforeSendV1
  | AttemptOperationAcceptedOutcomeUnknownV1 | AttemptOperationOutcomeOther string

datatype AttemptOperationReasonV1 =
    AttemptOperationReasonNoneV1 | AttemptOperationReasonAuthorityDeniedV1
  | AttemptOperationReasonCancelledV1 | AttemptOperationReasonDeadlineV1
  | AttemptOperationReasonServiceErrorV1 | AttemptOperationReasonMalformedV1
  | AttemptOperationReasonOverflowV1 | AttemptOperationReasonTransportUnknownV1
  | AttemptOperationReasonWorkerLostV1 | AttemptOperationReasonOther string

datatype AttemptOperationUsageStateV1 =
    AttemptOperationUsageUnknownV1 | AttemptOperationUsageObservedV1
  | AttemptOperationUsageProviderReportedV1 | AttemptOperationUsageOther string

fun kind_text :: "AttemptOperationKindV1 \<Rightarrow> string" where
  "kind_text AttemptOperationModelV1 = ''model''"
| "kind_text AttemptOperationCompactionV1 = ''compaction''"
| "kind_text AttemptOperationMCPToolV1 = ''mcp_tool''"
| "kind_text AttemptOperationWebSearchV1 = ''web_search''"
| "kind_text (AttemptOperationKindOther s) = s"

fun outcome_text :: "AttemptOperationOutcomeV1 \<Rightarrow> string" where
  "outcome_text AttemptOperationCompletedV1 = ''completed''"
| "outcome_text AttemptOperationRejectedBeforeSendV1 = ''rejected_before_send''"
| "outcome_text AttemptOperationAcceptedOutcomeUnknownV1 = ''accepted_outcome_unknown''"
| "outcome_text (AttemptOperationOutcomeOther s) = s"

fun reason_text :: "AttemptOperationReasonV1 \<Rightarrow> string" where
  "reason_text AttemptOperationReasonNoneV1 = ''none''"
| "reason_text AttemptOperationReasonAuthorityDeniedV1 = ''authority_denied''"
| "reason_text AttemptOperationReasonCancelledV1 = ''cancelled''"
| "reason_text AttemptOperationReasonDeadlineV1 = ''deadline''"
| "reason_text AttemptOperationReasonServiceErrorV1 = ''service_error''"
| "reason_text AttemptOperationReasonMalformedV1 = ''malformed''"
| "reason_text AttemptOperationReasonOverflowV1 = ''overflow''"
| "reason_text AttemptOperationReasonTransportUnknownV1 = ''transport_unknown''"
| "reason_text AttemptOperationReasonWorkerLostV1 = ''worker_lost''"
| "reason_text (AttemptOperationReasonOther s) = s"

fun usage_state_text :: "AttemptOperationUsageStateV1 \<Rightarrow> string" where
  "usage_state_text AttemptOperationUsageUnknownV1 = ''unknown''"
| "usage_state_text AttemptOperationUsageObservedV1 = ''observed''"
| "usage_state_text AttemptOperationUsageProviderReportedV1 = ''provider_reported''"
| "usage_state_text (AttemptOperationUsageOther s) = s"

subsection \<open>Scope\<close>

record AttemptOperationScopeV1 =
  scope_TenantID :: TenantID
  scope_SessionID :: SessionID
  scope_OwnerUserID :: UserID
  scope_RunID :: RunID
  scope_AttemptID :: AttemptID
  scope_LeaseID :: LeaseID
  scope_FenceToken :: u64
  scope_PhysicalInvocationClaimID :: string
  scope_EffectReservationDigest :: string
  scope_InvocationAuthorityDigest :: string
  scope_HarnessBindingDigest :: string
  scope_AgentLoopPolicyDigest :: string

definition AttemptOperationScopeV1_Validate :: "AttemptOperationScopeV1 \<Rightarrow> error option" where
  "AttemptOperationScopeV1_Validate v =
     first_error
       [TenantID_Validate (scope_TenantID v), SessionID_Validate (scope_SessionID v),
        UserID_Validate (scope_OwnerUserID v), RunID_Validate (scope_RunID v),
        AttemptID_Validate (scope_AttemptID v), LeaseID_Validate (scope_LeaseID v),
        AttemptEffectReservationDigestV1_Validate (scope_EffectReservationDigest v),
        ServerlessInvocationAuthorityDigestV1_Validate (scope_InvocationAuthorityDigest v),
        HarnessBindingDigestV2_Validate (scope_HarnessBindingDigest v),
        AgentLoopPolicyDigestV1_Validate (scope_AgentLoopPolicyDigest v),
        require (scope_FenceToken v \<noteq> 0) (operationError ''scope.fence_token'' ''must be positive''),
        ValidateOpaqueID ''attempt_operation.scope.physical_invocation_claim_id''
          (scope_PhysicalInvocationClaimID v)]"

definition scope_json :: "AttemptOperationScopeV1 \<Rightarrow> json" where
  "scope_json v = JObj
     [(''tenant_id'', JStr (scope_TenantID v)), (''session_id'', JStr (scope_SessionID v)),
      (''owner_user_id'', JStr (scope_OwnerUserID v)), (''run_id'', JStr (scope_RunID v)),
      (''attempt_id'', JStr (scope_AttemptID v)), (''lease_id'', JStr (scope_LeaseID v)),
      (''fence_token'', JNat (unat (scope_FenceToken v))),
      (''physical_invocation_claim_id'', JStr (scope_PhysicalInvocationClaimID v)),
      (''effect_reservation_digest'', JStr (scope_EffectReservationDigest v)),
      (''invocation_authority_digest'', JStr (scope_InvocationAuthorityDigest v)),
      (''harness_binding_digest'', JStr (scope_HarnessBindingDigest v)),
      (''agent_loop_policy_digest'', JStr (scope_AgentLoopPolicyDigest v))]"

subsection \<open>Debits\<close>

record AttemptOperationDebitV1 =
  deb_Operations :: u64
  deb_ModelCalls :: u64
  deb_CompactionCalls :: u64
  deb_ToolDispatches :: u64
  deb_WebSearches :: u64
  deb_InputTokens :: u64
  deb_OutputTokens :: u64
  deb_BodyBytes :: u64
  deb_MCPOutboundMessages :: u64
  deb_MCPCatalogPages :: u64
  deb_MCPInboundFrames :: u64
  deb_MCPInboundBytes :: u64
  deb_ResponseBytes :: u64
  deb_AmountMicrounits :: u64
  deb_ActiveDuration :: duration

text \<open>The unsigned fields, in the order \<open>Add\<close> visits them.\<close>

definition debit_counters :: "AttemptOperationDebitV1 \<Rightarrow> u64 list" where
  "debit_counters v =
     [deb_Operations v, deb_ModelCalls v, deb_CompactionCalls v, deb_ToolDispatches v,
      deb_WebSearches v, deb_InputTokens v, deb_OutputTokens v, deb_BodyBytes v,
      deb_MCPOutboundMessages v, deb_MCPCatalogPages v, deb_MCPInboundFrames v,
      deb_MCPInboundBytes v, deb_ResponseBytes v, deb_AmountMicrounits v]"

definition AttemptOperationDebitV1_Add ::
    "AttemptOperationDebitV1 \<Rightarrow> AttemptOperationDebitV1 \<Rightarrow> error + AttemptOperationDebitV1" where
  "AttemptOperationDebitV1_Add v other =
     (if list_ex (\<lambda>(dst, add). dst > MaxUint64 - add) (zip (debit_counters v) (debit_counters other))
      then Inl (operationError ''debit'' ''unsigned reservation overflow'')
      else if deb_ActiveDuration v < 0 \<or> deb_ActiveDuration other < 0 \<or>
              deb_ActiveDuration v > MaxInt64 - deb_ActiveDuration other
      then Inl (operationError ''debit.active_duration'' ''invalid or overflowing reservation'')
      else Inr
        \<lparr>deb_Operations = deb_Operations v + deb_Operations other,
         deb_ModelCalls = deb_ModelCalls v + deb_ModelCalls other,
         deb_CompactionCalls = deb_CompactionCalls v + deb_CompactionCalls other,
         deb_ToolDispatches = deb_ToolDispatches v + deb_ToolDispatches other,
         deb_WebSearches = deb_WebSearches v + deb_WebSearches other,
         deb_InputTokens = deb_InputTokens v + deb_InputTokens other,
         deb_OutputTokens = deb_OutputTokens v + deb_OutputTokens other,
         deb_BodyBytes = deb_BodyBytes v + deb_BodyBytes other,
         deb_MCPOutboundMessages = deb_MCPOutboundMessages v + deb_MCPOutboundMessages other,
         deb_MCPCatalogPages = deb_MCPCatalogPages v + deb_MCPCatalogPages other,
         deb_MCPInboundFrames = deb_MCPInboundFrames v + deb_MCPInboundFrames other,
         deb_MCPInboundBytes = deb_MCPInboundBytes v + deb_MCPInboundBytes other,
         deb_ResponseBytes = deb_ResponseBytes v + deb_ResponseBytes other,
         deb_AmountMicrounits = deb_AmountMicrounits v + deb_AmountMicrounits other,
         deb_ActiveDuration = deb_ActiveDuration v + deb_ActiveDuration other\<rparr>)"

definition debit_json :: "AttemptOperationDebitV1 \<Rightarrow> json" where
  "debit_json v = JObj
     (zip [''operations'', ''model_calls'', ''compaction_calls'', ''tool_dispatches'',
           ''web_searches'', ''input_tokens'', ''output_tokens'', ''body_bytes'',
           ''mcp_outbound_messages'', ''mcp_catalog_pages'', ''mcp_inbound_frames'',
           ''mcp_inbound_bytes'', ''response_bytes'', ''amount_microunits'']
          (map (\<lambda>n. JNat (unat n)) (debit_counters v)) @
      [(''active_duration'', JInt (deb_ActiveDuration v))])"

subsection \<open>Operations\<close>

record AttemptOperationSearchWireV1 =
  sw_Version :: u32
  sw_APIProfile :: string
  sw_ArgumentsBytes :: u64
  sw_CompilerArtifactDigest :: string

definition WebSearchAPIProfileV1 :: string where "WebSearchAPIProfileV1 = ''tavily.search.basic.v1''"
definition WebSearchArgumentsBytesV1 :: u64 where "WebSearchArgumentsBytesV1 = 4096"
definition WebSearchWireBytesV1 :: u64 where "WebSearchWireBytesV1 = 8192"

definition AttemptOperationSearchWireV1_Validate :: "AttemptOperationSearchWireV1 \<Rightarrow> error option" where
  "AttemptOperationSearchWireV1_Validate v =
     first_error
       [require (\<not> (sw_Version v \<noteq> 1 \<or> sw_APIProfile v \<noteq> WebSearchAPIProfileV1 \<or>
                   sw_ArgumentsBytes v = 0 \<or> sw_ArgumentsBytes v > WebSearchArgumentsBytesV1))
          (operationError ''search_wire''
             ''requires the closed version 1 Tavily Basic profile and bounded original argument count''),
        ValidateSHA256Digest ''attempt_operation.search_wire.compiler_artifact_digest''
          (sw_CompilerArtifactDigest v)]"

record AttemptOperationV1 =
  op_Version :: u32
  op_Scope :: AttemptOperationScopeV1
  op_Sequence :: u64
  op_Kind :: AttemptOperationKindV1
  op_CallID :: string
  op_RequestRef :: string
  op_RequestDigest :: string
  op_PredecessorObservationDigest :: string
  op_ModelResponseDigest :: string
  op_ArgumentsDigest :: string
  op_QueryDigest :: string
  op_ToolGrantDigest :: string
  op_ConsentRequestDigest :: string
  op_ConsentDecisionDigest :: string
  op_ConsentDecisionRef :: string
  op_Deadline :: timestamp
  op_CleanupDuration :: duration
  op_Debit :: AttemptOperationDebitV1
  op_RequestBytes :: u64
  op_ResultBytes :: u64
  op_ContextBytes :: u64
  op_SummaryBytes :: u64
  op_Currency :: string
  op_PriceRevision :: string
  op_AdmissionCostCeilingDigest :: string
  op_ExternalChargeEvidenceDigest :: string
  op_SearchWire :: "AttemptOperationSearchWireV1 option"

definition toolArgumentBytes :: "AttemptOperationV1 \<Rightarrow> u64" where
  "toolArgumentBytes v =
     (case op_SearchWire v of Some w \<Rightarrow> sw_ArgumentsBytes w | None \<Rightarrow> op_RequestBytes v)"

definition is_tool :: "AttemptOperationKindV1 \<Rightarrow> bool" where
  "is_tool k = (k = AttemptOperationMCPToolV1 \<or> k = AttemptOperationWebSearchV1)"

text \<open>
  The kind specific part of \<open>Validate\<close>. The Go code ranges over maps in three places; the
  iteration order, which only decides the error reported when several digests are malformed,
  is fixed here to the order in which the source lists the entries.
\<close>

definition operation_kind_checks :: "AttemptOperationV1 \<Rightarrow> error option" where
  "operation_kind_checks v =
     (let d = op_Debit v in first_error
       [if is_tool (op_Kind v) then first_error
          [require (\<not> (deb_ModelCalls d \<noteq> 0 \<or> deb_CompactionCalls d \<noteq> 0 \<or> deb_ToolDispatches d \<noteq> 1 \<or>
              deb_InputTokens d \<noteq> 0 \<or> deb_OutputTokens d \<noteq> 0 \<or> toolArgumentBytes v > 4096 \<or>
              op_ResultBytes v > 65536 \<or> op_ContextBytes v \<noteq> 0 \<or> op_SummaryBytes v \<noteq> 0 \<or> op_Sequence v = 1))
             (operationError ''tool'' ''requires one bounded tool dispatch with independent price evidence''),
           ValidateSHA256Digest ''attempt_operation.model_response_digest'' (op_ModelResponseDigest v),
           ValidateSHA256Digest ''attempt_operation.arguments_digest'' (op_ArgumentsDigest v),
           ValidateSHA256Digest ''attempt_operation.tool_grant_digest'' (op_ToolGrantDigest v),
           ValidateSHA256Digest ''attempt_operation.external_charge_evidence_digest''
             (op_ExternalChargeEvidenceDigest v)]
        else first_error
          [require (op_Kind v = AttemptOperationModelV1 \<or> op_Kind v = AttemptOperationCompactionV1)
             (operationError ''kind'' ''is unsupported''),
           require (\<not> (deb_ModelCalls d \<noteq> 1 \<or> deb_ToolDispatches d \<noteq> 0 \<or> deb_WebSearches d \<noteq> 0 \<or>
              deb_InputTokens d = 0 \<or> deb_InputTokens d > 32768 \<or> deb_OutputTokens d = 0 \<or>
              deb_OutputTokens d > 2048 \<or> op_ContextBytes v = 0 \<or> op_ContextBytes v > 1048576 \<or>
              op_ModelResponseDigest v \<noteq> '''' \<or> op_ArgumentsDigest v \<noteq> '''' \<or> op_ToolGrantDigest v \<noteq> '''' \<or>
              op_ExternalChargeEvidenceDigest v \<noteq> ''''))
             (operationError ''model'' ''requires one bounded model call without tool authority''),
           require (\<not> (op_Kind v = AttemptOperationCompactionV1 \<and>
                (deb_CompactionCalls d \<noteq> 1 \<or> op_SummaryBytes v = 0 \<or> op_SummaryBytes v > 16384) \<or>
              op_Kind v = AttemptOperationModelV1 \<and> (deb_CompactionCalls d \<noteq> 0 \<or> op_SummaryBytes v \<noteq> 0)))
             (operationError ''compaction''
                ''must debit a model call and bounded summary only for compaction'')],
        if op_Kind v = AttemptOperationWebSearchV1 then first_error
          [require (\<not> (deb_WebSearches d \<noteq> 1 \<or> deb_ActiveDuration d > 15 * second \<or>
              deb_ResponseBytes d > 262144 \<or> op_ResultBytes v > 24576))
             (operationError ''web_search'' ''requires the bounded search sub-budget''),
           ValidateSHA256Digest ''attempt_operation.query_digest'' (op_QueryDigest v),
           ValidateSHA256Digest ''attempt_operation.consent_request_digest'' (op_ConsentRequestDigest v),
           ValidateSHA256Digest ''attempt_operation.consent_decision_digest'' (op_ConsentDecisionDigest v),
           ValidateOpaqueID ''attempt_operation.consent_decision_ref'' (op_ConsentDecisionRef v)]
        else require (\<not> (deb_WebSearches d \<noteq> 0 \<or> op_QueryDigest v \<noteq> '''' \<or> op_ConsentRequestDigest v \<noteq> '''' \<or>
              op_ConsentDecisionDigest v \<noteq> '''' \<or> op_ConsentDecisionRef v \<noteq> ''''))
          (operationError ''consent'' ''search receipt fields are exclusive to web_search''),
        if op_Kind v = AttemptOperationMCPToolV1 then
          require (\<not> (deb_MCPOutboundMessages d = 0 \<or> deb_MCPOutboundMessages d > 12 \<or> deb_MCPCatalogPages d > 1 \<or>
              deb_MCPInboundFrames d = 0 \<or> deb_MCPInboundFrames d > 128 \<or> deb_MCPInboundBytes d = 0 \<or>
              deb_MCPInboundBytes d > 262144 \<or> deb_ResponseBytes d < deb_MCPInboundBytes d))
            (operationError ''mcp'' ''requires bounded protocol reservations'')
        else require (\<not> (deb_MCPOutboundMessages d \<noteq> 0 \<or> deb_MCPCatalogPages d \<noteq> 0 \<or>
              deb_MCPInboundFrames d \<noteq> 0 \<or> deb_MCPInboundBytes d \<noteq> 0))
          (operationError ''mcp'' ''protocol debit is exclusive to mcp_tool'')])"

definition AttemptOperationV1_Validate :: "AttemptOperationV1 \<Rightarrow> error option" where
  "AttemptOperationV1_Validate v =
     (let d = op_Debit v in first_error
       [require (\<not> (op_Version v \<noteq> 1 \<or> op_Sequence v = 0 \<or> op_Sequence v > 12))
          (operationError ''identity'' ''requires version 1 and bounded positive sequence''),
        AttemptOperationScopeV1_Validate (op_Scope v),
        when_set (op_SearchWire v) (\<lambda>w.
          require (\<not> (op_Kind v \<noteq> AttemptOperationWebSearchV1 \<or>
              AttemptOperationSearchWireV1_Validate w \<noteq> None \<or> op_RequestBytes v > WebSearchWireBytesV1))
            (operationError ''search_wire''
               ''requires a complete search-only encoding and bounded physical request'')),
        ValidateOpaqueID ''attempt_operation.call_id'' (op_CallID v),
        ValidateOpaqueID ''attempt_operation.request_ref'' (op_RequestRef v),
        ValidateSHA256Digest ''attempt_operation.request_digest'' (op_RequestDigest v),
        AdmissionCostCeilingDigestV2_Validate (op_AdmissionCostCeilingDigest v),
        if op_Sequence v = 1 then
          require (\<not> (op_PredecessorObservationDigest v \<noteq> '''' \<or>
              op_Kind v \<noteq> AttemptOperationModelV1 \<and> op_Kind v \<noteq> AttemptOperationCompactionV1))
            (operationError ''predecessor''
               ''the first operation must be a model or pre-model compaction with no predecessor'')
        else AttemptOperationObservationDigestV1_Validate (op_PredecessorObservationDigest v),
        require (validCurrencyV1 (op_Currency v))
          (operationError ''currency'' ''requires canonical admission currency''),
        ValidateOpaqueID ''attempt_operation.price_revision'' (op_PriceRevision v),
        require (\<not> (op_Deadline v = 0 \<or> \<not> year_in_range (op_Deadline v) \<or> deb_ActiveDuration d \<le> 0 \<or>
            deb_ActiveDuration d > 30 * second \<or> deb_Operations d \<noteq> 1 \<or> op_RequestBytes v = 0 \<or>
            op_ResultBytes v = 0 \<or> op_RequestBytes v > 1048576 \<or> op_ResultBytes v > 1048576 \<or>
            deb_ResponseBytes d = 0 \<or> deb_ResponseBytes d > 1048576))
          (operationError ''limits'' ''requires finite request/result/network/time reservations''),
        require (\<not> (op_CleanupDuration v \<le> 0 \<or> op_CleanupDuration v > 30 * second))
          (operationError ''cleanup_duration'' ''requires a bounded separately admitted observation window''),
        require (\<not> (deb_BodyBytes d < op_RequestBytes v \<or> op_ResultBytes v > deb_BodyBytes d - op_RequestBytes v \<or>
            deb_BodyBytes d > 1048576))
          (operationError ''body_bytes'' ''must cover request and normalized result without overflow''),
        operation_kind_checks v])"

definition operation_json :: "AttemptOperationV1 \<Rightarrow> json" where
  "operation_json v = JObj
     ([(''version'', JNat (unat (op_Version v))), (''scope'', scope_json (op_Scope v)),
       (''sequence'', JNat (unat (op_Sequence v))), (''kind'', JStr (kind_text (op_Kind v))),
       (''call_id'', JStr (op_CallID v)), (''request_ref'', JStr (op_RequestRef v)),
       (''request_digest'', JStr (op_RequestDigest v)),
       (''predecessor_observation_digest'', JStr (op_PredecessorObservationDigest v)),
       (''model_response_digest'', JStr (op_ModelResponseDigest v)),
       (''arguments_digest'', JStr (op_ArgumentsDigest v)), (''query_digest'', JStr (op_QueryDigest v)),
       (''tool_grant_digest'', JStr (op_ToolGrantDigest v)),
       (''consent_request_digest'', JStr (op_ConsentRequestDigest v)),
       (''consent_decision_digest'', JStr (op_ConsentDecisionDigest v)),
       (''consent_decision_ref'', JStr (op_ConsentDecisionRef v)), (''deadline'', JTime (op_Deadline v)),
       (''cleanup_duration'', JInt (op_CleanupDuration v)), (''debit'', debit_json (op_Debit v)),
       (''request_bytes'', JNat (unat (op_RequestBytes v))),
       (''result_bytes'', JNat (unat (op_ResultBytes v))),
       (''context_bytes'', JNat (unat (op_ContextBytes v))),
       (''summary_bytes'', JNat (unat (op_SummaryBytes v))), (''currency'', JStr (op_Currency v)),
       (''price_revision'', JStr (op_PriceRevision v)),
       (''admission_cost_ceiling_digest'', JStr (op_AdmissionCostCeilingDigest v)),
       (''external_charge_evidence_digest'', JStr (op_ExternalChargeEvidenceDigest v))] @
      json_omitempty ''search_wire'' (\<lambda>w. JObj
        [(''version'', JNat (unat (sw_Version w))), (''api_profile'', JStr (sw_APIProfile w)),
         (''arguments_bytes'', JNat (unat (sw_ArgumentsBytes w))),
         (''compiler_artifact_digest'', JStr (sw_CompilerArtifactDigest w))]) (op_SearchWire v))"

definition operationDigest :: "string \<Rightarrow> json \<Rightarrow> string" where
  "operationDigest separator v = digest_sum (digest_bytes (newServerlessDigest separator) (json_Marshal v))"

definition AttemptOperationV1_Digest :: "AttemptOperationV1 \<Rightarrow> error + string" where
  "AttemptOperationV1_Digest v =
     (case AttemptOperationV1_Validate v of
        Some e \<Rightarrow> Inl e
      | None \<Rightarrow> Inr (operationDigest ''sessionless.attempt-operation.v1'' (operation_json v)))"

subsection \<open>Reservations\<close>

record AttemptOperationReservationV1 =
  rsv_Version :: u32
  rsv_Operation :: AttemptOperationV1
  rsv_OperationDigest :: string
  rsv_ReservedAt :: timestamp
  rsv_AggregateDebit :: AttemptOperationDebitV1
  rsv_RegisteredAllocationDigest :: string
  rsv_RegisteredProxyDigest :: string
  rsv_ComponentAmounts :: "u64 \<times> u64 \<times> u64 \<times> u64"

fun component_list :: "u64 \<times> u64 \<times> u64 \<times> u64 \<Rightarrow> u64 list" where
  "component_list (a, b, c, d) = [a, b, c, d]"

text \<open>The overflow-checked running sum of the component amounts.\<close>

fun sum_components :: "u64 \<Rightarrow> u64 list \<Rightarrow> u64 option" where
  "sum_components amount [] = Some amount"
| "sum_components amount (c # cs) =
     (if c > MaxUint64 - amount then None else sum_components (amount + c) cs)"

definition AttemptOperationReservationV1_Validate :: "AttemptOperationReservationV1 \<Rightarrow> error option" where
  "AttemptOperationReservationV1_Validate v =
     first_error
       [require (rsv_Version v = 1) (operationError ''reservation.version'' ''must equal 1''),
        require (\<not> (RegisteredAllocationDigestV2_Validate (rsv_RegisteredAllocationDigest v) \<noteq> None \<or>
            RegisteredProxyAttestationDigestV2_Validate (rsv_RegisteredProxyDigest v) \<noteq> None))
          (operationError ''reservation.registration''
             ''requires the exact registered allocation and proxy observations''),
        (case sum_components 0 (component_list (rsv_ComponentAmounts v)) of
           None \<Rightarrow> Some (operationError ''reservation.component_amounts'' ''must not overflow'')
         | Some amount \<Rightarrow>
             require (amount \<ge> deb_AmountMicrounits (rsv_AggregateDebit v))
               (operationError ''reservation.component_amounts'' ''cannot omit cumulative monetary reservations'')),
        (case AttemptOperationV1_Digest (rsv_Operation v) of
           Inl e \<Rightarrow> Some e
         | Inr digest \<Rightarrow>
             require (rsv_OperationDigest v = digest)
               (operationError ''reservation.operation_digest'' ''must exact-match immutable request'')),
        require (\<not> (rsv_ReservedAt v = 0 \<or> \<not> year_in_range (rsv_ReservedAt v) \<or>
            \<not> rsv_ReservedAt v < op_Deadline (rsv_Operation v) \<or>
            op_Deadline (rsv_Operation v) > rsv_ReservedAt v + deb_ActiveDuration (op_Debit (rsv_Operation v))))
          (operationError ''reservation.window'' ''must fit the reserved network window''),
        require (deb_Operations (rsv_AggregateDebit v) = op_Sequence (rsv_Operation v))
          (operationError ''reservation.sequence'' ''must exact-match cumulative operation count'')]"

definition reservation_json :: "AttemptOperationReservationV1 \<Rightarrow> json" where
  "reservation_json v = JObj
     [(''version'', JNat (unat (rsv_Version v))), (''operation'', operation_json (rsv_Operation v)),
      (''operation_digest'', JStr (rsv_OperationDigest v)), (''reserved_at'', JTime (rsv_ReservedAt v)),
      (''aggregate_debit'', debit_json (rsv_AggregateDebit v)),
      (''registered_allocation_digest'', JStr (rsv_RegisteredAllocationDigest v)),
      (''registered_proxy_digest'', JStr (rsv_RegisteredProxyDigest v)),
      (''component_amounts'', JArr (map (\<lambda>n. JNat (unat n)) (component_list (rsv_ComponentAmounts v))))]"

definition AttemptOperationReservationV1_Digest :: "AttemptOperationReservationV1 \<Rightarrow> error + string" where
  "AttemptOperationReservationV1_Digest v =
     (case AttemptOperationReservationV1_Validate v of
        Some e \<Rightarrow> Inl e
      | None \<Rightarrow> Inr (operationDigest ''sessionless.attempt-operation-reservation.v1'' (reservation_json v)))"

subsection \<open>Usage and observations\<close>

record AttemptOperationUsageV1 =
  use_State :: AttemptOperationUsageStateV1
  use_InputTokens :: "u64 option"
  use_OutputTokens :: "u64 option"
  use_AmountMicrounits :: "u64 option"

definition AttemptOperationUsageV1_Validate :: "AttemptOperationUsageV1 \<Rightarrow> error option" where
  "AttemptOperationUsageV1_Validate v =
     (if use_State v = AttemptOperationUsageUnknownV1 \<and> use_InputTokens v = None \<and>
         use_OutputTokens v = None \<and> use_AmountMicrounits v = None then None
      else if use_State v = AttemptOperationUsageObservedV1 \<and>
         (use_InputTokens v \<noteq> None \<or> use_OutputTokens v \<noteq> None \<or> use_AmountMicrounits v \<noteq> None) then None
      else if use_State v = AttemptOperationUsageProviderReportedV1 \<and> use_AmountMicrounits v = None \<and>
         (use_InputTokens v \<noteq> None \<or> use_OutputTokens v \<noteq> None) then None
      else Some (operationError ''observation.usage''
        ''requires measured metrics, provider-reported tokens without money, or wholly absent unknown metrics''))"

definition exceeds :: "u64 option \<Rightarrow> u64 \<Rightarrow> bool" where
  "exceeds metric limit = (case metric of None \<Rightarrow> False | Some n \<Rightarrow> n > limit)"

definition ExceedsReservation :: "AttemptOperationUsageV1 \<Rightarrow> AttemptOperationDebitV1 \<Rightarrow> bool" where
  "ExceedsReservation v d =
     (exceeds (use_InputTokens v) (deb_InputTokens d) \<or>
      exceeds (use_OutputTokens v) (deb_OutputTokens d) \<or>
      exceeds (use_AmountMicrounits v) (deb_AmountMicrounits d))"

record AttemptOperationObservationV1 =
  obs_Version :: u32
  obs_OperationDigest :: string
  obs_ReservationDigest :: string
  obs_Outcome :: AttemptOperationOutcomeV1
  obs_Reason :: AttemptOperationReasonV1
  obs_ResponseRef :: string
  obs_ResponseDigest :: string
  obs_ResponseBytes :: u64
  obs_ObservedAt :: timestamp
  obs_Usage :: AttemptOperationUsageV1

definition AttemptOperationObservationV1_Validate :: "AttemptOperationObservationV1 \<Rightarrow> error option" where
  "AttemptOperationObservationV1_Validate v =
     first_error
       [require (obs_Version v = 1) (operationError ''observation.version'' ''must equal 1''),
        AttemptOperationDigestV1_Validate (obs_OperationDigest v),
        AttemptOperationReservationDigestV1_Validate (obs_ReservationDigest v),
        AttemptOperationUsageV1_Validate (obs_Usage v),
        require (\<not> (obs_ObservedAt v = 0 \<or> \<not> year_in_range (obs_ObservedAt v)))
          (operationError ''observation.observed_at'' ''requires a canonical observed time''),
        (case obs_Reason v of
           AttemptOperationReasonOther _ \<Rightarrow>
             Some (operationError ''observation.reason'' ''requires a closed sanitized reason'')
         | _ \<Rightarrow> None),
        (case obs_Outcome v of
           AttemptOperationCompletedV1 \<Rightarrow> first_error
             [ValidateOpaqueID ''attempt_operation.observation.response_ref'' (obs_ResponseRef v),
              ValidateSHA256Digest ''attempt_operation.observation.response_digest'' (obs_ResponseDigest v),
              require (\<not> (obs_ResponseBytes v = 0 \<or> obs_ResponseBytes v > 1048576 \<or>
                  obs_Reason v \<noteq> AttemptOperationReasonNoneV1 \<and>
                  obs_Reason v \<noteq> AttemptOperationReasonServiceErrorV1))
                (operationError ''observation.response'' ''requires a bounded known durable response'')]
         | AttemptOperationOutcomeOther _ \<Rightarrow>
             Some (operationError ''observation.outcome'' ''is unsupported'')
         | _ \<Rightarrow>
             require (\<not> (obs_Reason v = AttemptOperationReasonNoneV1 \<or> obs_ResponseRef v \<noteq> '''' \<or>
                 obs_ResponseDigest v \<noteq> '''' \<or> obs_ResponseBytes v \<noteq> 0))
               (operationError ''observation.response''
                  ''unknown/rejected operations cannot fabricate a service response''))]"

definition AttemptOperationObservationV1_ValidateForReservation ::
    "AttemptOperationObservationV1 \<Rightarrow> AttemptOperationReservationV1 \<Rightarrow> error option" where
  "AttemptOperationObservationV1_ValidateForReservation v r =
     first_error
       [AttemptOperationObservationV1_Validate v,
        (case AttemptOperationReservationV1_Digest r of
           Inl e \<Rightarrow> Some e
         | Inr digest \<Rightarrow>
             require (\<not> (obs_OperationDigest v \<noteq> rsv_OperationDigest r \<or> obs_ReservationDigest v \<noteq> digest \<or>
                 obs_ObservedAt v < rsv_ReservedAt r \<or> obs_ResponseBytes v > op_ResultBytes (rsv_Operation r)))
               (operationError ''observation.correlation''
                  ''must exact-match the bounded immutable reservation'')),
        require (\<not> (use_State (obs_Usage v) = AttemptOperationUsageProviderReportedV1 \<and>
            op_Kind (rsv_Operation r) \<noteq> AttemptOperationModelV1 \<and>
            op_Kind (rsv_Operation r) \<noteq> AttemptOperationCompactionV1))
          (operationError ''observation.usage''
             ''provider-reported token usage is exclusive to model and compaction operations'')]"

definition observation_json :: "AttemptOperationObservationV1 \<Rightarrow> json" where
  "observation_json v = JObj
     [(''version'', JNat (unat (obs_Version v))), (''operation_digest'', JStr (obs_OperationDigest v)),
      (''reservation_digest'', JStr (obs_ReservationDigest v)),
      (''outcome'', JStr (outcome_text (obs_Outcome v))), (''reason'', JStr (reason_text (obs_Reason v))),
      (''response_ref'', JStr (obs_ResponseRef v)), (''response_digest'', JStr (obs_ResponseDigest v)),
      (''response_bytes'', JNat (unat (obs_ResponseBytes v))), (''observed_at'', JTime (obs_ObservedAt v)),
      (''usage'', JObj
        ([(''state'', JStr (usage_state_text (use_State (obs_Usage v))))] @
         json_omitempty ''input_tokens'' (\<lambda>n. JNat (unat n)) (use_InputTokens (obs_Usage v)) @
         json_omitempty ''output_tokens'' (\<lambda>n. JNat (unat n)) (use_OutputTokens (obs_Usage v)) @
         json_omitempty ''amount_microunits'' (\<lambda>n. JNat (unat n)) (use_AmountMicrounits (obs_Usage v))))]"

definition AttemptOperationObservationV1_Digest :: "AttemptOperationObservationV1 \<Rightarrow> error + string" where
  "AttemptOperationObservationV1_Digest v =
     (case AttemptOperationObservationV1_Validate v of
        Some e \<Rightarrow> Inl e
      | None \<Rightarrow> Inr (operationDigest ''sessionless.attempt-operation-observation.v1'' (observation_json v)))"

definition AttemptOperationV1_ValidatePredecessor ::
    "AttemptOperationV1 \<Rightarrow> AttemptOperationReservationV1 \<Rightarrow> AttemptOperationObservationV1 \<Rightarrow> error option" where
  "AttemptOperationV1_ValidatePredecessor v r o' =
     first_error
       [AttemptOperationV1_Validate v,
        AttemptOperationObservationV1_ValidateForReservation o' r,
        (let digest = (case AttemptOperationObservationV1_Digest o' of Inr d \<Rightarrow> d | Inl _ \<Rightarrow> '''')
         in require (\<not> (op_Scope v \<noteq> op_Scope (rsv_Operation r) \<or>
                op_Sequence v \<noteq> op_Sequence (rsv_Operation r) + 1 \<or>
                op_PredecessorObservationDigest v \<noteq> digest \<or> obs_Outcome o' \<noteq> AttemptOperationCompletedV1))
              (operationError ''predecessor''
                 ''requires the exact known durable prior operation in the same claim'')),
        require (\<not> ExceedsReservation (obs_Usage o') (op_Debit (rsv_Operation r)))
          (operationError ''predecessor.usage''
             ''measured or provider-reported overrun stops further effects''),
        when_true (is_tool (op_Kind v))
          (require (\<not> (op_Kind (rsv_Operation r) \<noteq> AttemptOperationModelV1 \<or>
               op_ModelResponseDigest v \<noteq> obs_ResponseDigest o'))
             (operationError ''predecessor.model_response''
                ''tool requires the exact durably completed model response''))]"

subsection \<open>Lemmas\<close>

text \<open>Checked addition is exact: no component ever wraps.\<close>

lemma Add_counters:
  assumes "AttemptOperationDebitV1_Add v w = Inr r"
  shows "map unat (debit_counters r) =
           map (\<lambda>(a, b). unat a + unat b) (zip (debit_counters v) (debit_counters w))"
  using assms
  by (auto simp: AttemptOperationDebitV1_Add_def debit_counters_def overflow_iff unat_add_exact
      split: if_splits)

lemma Add_Inr_iff:
  "(\<exists>r. AttemptOperationDebitV1_Add v w = Inr r) \<longleftrightarrow>
     list_all (\<lambda>(a, b). unat a + unat b < 2 ^ 64) (zip (debit_counters v) (debit_counters w)) \<and>
     0 \<le> deb_ActiveDuration v \<and> 0 \<le> deb_ActiveDuration w \<and>
     deb_ActiveDuration v + deb_ActiveDuration w < 2 ^ 63"
  by (auto simp: AttemptOperationDebitV1_Add_def debit_counters_def overflow_iff MaxInt64_def)

lemma sum_components_exact:
  "sum_components a cs = Some s \<Longrightarrow> unat s = unat a + sum_list (map unat cs)"
  by (induction cs arbitrary: a)
     (auto simp: overflow_iff unat_add_exact add.commute [of "unat _" "unat a"] split: if_splits)

subsection \<open>Chains of operations\<close>

text \<open>
  The history of an attempt that a store holding one head can build: the first operation has
  sequence one and every later one is validated against its predecessor's reservation and
  observation.
\<close>

fun operation_chain :: "(AttemptOperationReservationV1 \<times> AttemptOperationObservationV1) list \<Rightarrow> bool" where
  "operation_chain [] = True"
| "operation_chain [(r, ob)] = (AttemptOperationObservationV1_ValidateForReservation ob r = None)"
| "operation_chain ((r, ob) # (r', ob') # rest) =
     (AttemptOperationV1_ValidatePredecessor (rsv_Operation r') r ob = None \<and>
      operation_chain ((r', ob') # rest))"

lemma AttemptOperationV1_Validate_sequence:
  "AttemptOperationV1_Validate v = None \<Longrightarrow> 0 < unat (op_Sequence v) \<and> unat (op_Sequence v) \<le> 12"
  by (auto simp: AttemptOperationV1_Validate_def Let_def word_le_nat_alt not_less unat_gt_0)

lemma ValidateForReservation_operation:
  assumes "AttemptOperationObservationV1_ValidateForReservation ob r = None"
  shows "AttemptOperationV1_Validate (rsv_Operation r) = None"
  using assms
  by (auto simp: AttemptOperationObservationV1_ValidateForReservation_def AttemptOperationReservationV1_Digest_def
      AttemptOperationReservationV1_Validate_def AttemptOperationV1_Digest_def
      split: option.splits sum.splits)

lemma ValidatePredecessor_facts:
  assumes "AttemptOperationV1_ValidatePredecessor v r ob = None"
  shows "AttemptOperationV1_Validate v = None"
    and "AttemptOperationObservationV1_ValidateForReservation ob r = None"
    and "op_Scope v = op_Scope (rsv_Operation r)"
    and "op_Sequence v = op_Sequence (rsv_Operation r) + 1"
    and "obs_Outcome ob = AttemptOperationCompletedV1"
    and "\<not> ExceedsReservation (obs_Usage ob) (op_Debit (rsv_Operation r))"
    and "is_tool (op_Kind v) \<longrightarrow> op_Kind (rsv_Operation r) = AttemptOperationModelV1 \<and>
           op_ModelResponseDigest v = obs_ResponseDigest ob"
  using assms by (simp_all add: AttemptOperationV1_ValidatePredecessor_def Let_def)

lemma ValidatePredecessor_sequence:
  assumes "AttemptOperationV1_ValidatePredecessor v r ob = None"
  shows "unat (op_Sequence v) = Suc (unat (op_Sequence (rsv_Operation r)))"
proof -
  note f = ValidatePredecessor_facts [OF assms]
  have "unat (op_Sequence (rsv_Operation r)) \<le> 12"
    using AttemptOperationV1_Validate_sequence ValidateForReservation_operation f(2) by blast
  then show ?thesis by (simp add: f(4) unat_word_ariths)
qed

lemma operation_chain_head:
  "operation_chain ((r, ob) # rest) \<Longrightarrow> AttemptOperationObservationV1_ValidateForReservation ob r = None"
  by (cases rest) (auto dest: ValidatePredecessor_facts(2))

lemma operation_chain_nth:
  assumes "operation_chain c" "i < length c"
  shows "unat (op_Sequence (rsv_Operation (fst (c ! i)))) = i + unat (op_Sequence (rsv_Operation (fst (c ! 0)))) \<and>
     op_Scope (rsv_Operation (fst (c ! i))) = op_Scope (rsv_Operation (fst (c ! 0))) \<and>
     AttemptOperationV1_Validate (rsv_Operation (fst (c ! i))) = None"
  using assms
proof (induction c arbitrary: i rule: operation_chain.induct)
  case (3 r ob r' ob' rest)
  then show ?case
  proof (cases i)
    case 0
    then show ?thesis using 3 by (auto dest: ValidatePredecessor_facts(2) ValidateForReservation_operation)
  next
    case (Suc j)
    then have "operation_chain ((r', ob') # rest)" "j < length ((r', ob') # rest)"
      and p: "AttemptOperationV1_ValidatePredecessor (rsv_Operation r') r ob = None"
      using 3 by auto
    with 3(1) [of j] show ?thesis
      using Suc ValidatePredecessor_sequence [OF p] ValidatePredecessor_facts(3) [OF p] by simp
  qed
qed (auto dest: ValidateForReservation_operation)

lemma operation_chain_step:
  "operation_chain c \<Longrightarrow> Suc i < length c \<Longrightarrow>
     AttemptOperationV1_ValidatePredecessor (rsv_Operation (fst (c ! Suc i))) (fst (c ! i)) (snd (c ! i)) = None"
proof (induction c arbitrary: i rule: operation_chain.induct)
  case (3 r ob r' ob' rest)
  then show ?case by (cases i) auto
qed auto

lemma operation_chain_length:
  assumes "operation_chain c" "c \<noteq> []" "op_Sequence (rsv_Operation (fst (hd c))) = 1"
  shows "length c \<le> 12"
proof -
  let ?i = "length c - 1"
  have "?i < length c" using assms(2) by (cases c) auto
  from operation_chain_nth [OF assms(1) this]
  have s: "unat (op_Sequence (rsv_Operation (fst (c ! ?i)))) = length c - 1 + 1"
    and v: "AttemptOperationV1_Validate (rsv_Operation (fst (c ! ?i))) = None"
    using assms(2,3) by (auto simp: hd_conv_nth)
  from AttemptOperationV1_Validate_sequence [OF v] s show ?thesis by simp
qed

text \<open>
  C32: the sum of two debits is reported exactly when every counter of the sum fits 64 bits and the
  durations are non-negative with a sum that fits 63 bits; then each counter of the result is the sum of the
  counters, with no wrap-around.
\<close>

theorem Add_exact:
  "(\<exists>r. AttemptOperationDebitV1_Add v w = Inr r) =
     (list_all (\<lambda>(a, b). unat a + unat b < 2 ^ 64) (zip (debit_counters v) (debit_counters w)) \<and>
      0 \<le> deb_ActiveDuration v \<and> 0 \<le> deb_ActiveDuration w \<and> deb_ActiveDuration v + deb_ActiveDuration w < 2 ^ 63) \<and>
   (AttemptOperationDebitV1_Add v w = Inr r \<longrightarrow>
      map unat (debit_counters r) = map (\<lambda>(a, b). unat a + unat b) (zip (debit_counters v) (debit_counters w)))"
  using Add_Inr_iff Add_counters by blast

theorem Add_exact_witness:
  "let v = \<lparr>deb_Operations = 1, deb_ModelCalls = 1, deb_CompactionCalls = 0, deb_ToolDispatches = 0, deb_WebSearches = 0,
         deb_InputTokens = 7, deb_OutputTokens = 9, deb_BodyBytes = 0, deb_MCPOutboundMessages = 0, deb_MCPCatalogPages = 0,
         deb_MCPInboundFrames = 0, deb_MCPInboundBytes = 0, deb_ResponseBytes = 2 ^ 63, deb_AmountMicrounits = 5,
         deb_ActiveDuration = 8\<rparr>;
       r = v\<lparr>deb_Operations := 2, deb_ModelCalls := 2, deb_InputTokens := 14, deb_OutputTokens := 18,
             deb_ResponseBytes := 2 ^ 63 + 1, deb_AmountMicrounits := 10, deb_ActiveDuration := 16\<rparr>
   in AttemptOperationDebitV1_Add v (v\<lparr>deb_ResponseBytes := 1\<rparr>) = Inr r \<and>
      map unat (debit_counters r) =
        map (\<lambda>(a, b). unat a + unat b) (zip (debit_counters v) (debit_counters (v\<lparr>deb_ResponseBytes := 1\<rparr>)))"
proof -
  define v where "v = \<lparr>deb_Operations = 1, deb_ModelCalls = 1, deb_CompactionCalls = 0, deb_ToolDispatches = 0,
    deb_WebSearches = 0, deb_InputTokens = 7, deb_OutputTokens = 9, deb_BodyBytes = 0, deb_MCPOutboundMessages = 0,
    deb_MCPCatalogPages = 0, deb_MCPInboundFrames = 0, deb_MCPInboundBytes = 0, deb_ResponseBytes = 2 ^ 63,
    deb_AmountMicrounits = 5, deb_ActiveDuration = 8\<rparr>"
  define r where "r = v\<lparr>deb_Operations := 2, deb_ModelCalls := 2, deb_InputTokens := 14, deb_OutputTokens := 18,
    deb_ResponseBytes := 2 ^ 63 + 1, deb_AmountMicrounits := 10, deb_ActiveDuration := 16\<rparr>"
  have a: "AttemptOperationDebitV1_Add v (v\<lparr>deb_ResponseBytes := 1\<rparr>) = Inr r" unfolding r_def v_def by code_simp
  then show ?thesis using Add_exact [of v "v\<lparr>deb_ResponseBytes := 1\<rparr>" r] unfolding Let_def v_def r_def by simp
qed

text \<open>
  C27: a chain of operations, each accepted with \<open>ValidatePredecessor\<close> against the
  reservation and the observation of the one before, stays in one scope, has the sequence numbers of its positions,
  and ends after at most twelve operations; a tool call always follows the model response it names.
\<close>

theorem operation_chain_bounded:
  assumes "operation_chain c" "c \<noteq> []" "op_Sequence (rsv_Operation (fst (hd c))) = 1"
  shows "length c \<le> 12 \<and>
    (\<forall>i < length c. unat (op_Sequence (rsv_Operation (fst (c ! i)))) = Suc i \<and>
       op_Scope (rsv_Operation (fst (c ! i))) = op_Scope (rsv_Operation (fst (hd c)))) \<and>
    (\<forall>i. Suc i < length c \<longrightarrow> is_tool (op_Kind (rsv_Operation (fst (c ! Suc i)))) \<longrightarrow>
       op_Kind (rsv_Operation (fst (c ! i))) = AttemptOperationModelV1 \<and>
       op_ModelResponseDigest (rsv_Operation (fst (c ! Suc i))) = obs_ResponseDigest (snd (c ! i)))"
proof (intro conjI allI impI)
  have hd: "hd c = c ! 0" using assms(2) by (rule hd_conv_nth)
  show "length c \<le> 12" using assms by (rule operation_chain_length)
  show "unat (op_Sequence (rsv_Operation (fst (c ! i)))) = Suc i"
    "op_Scope (rsv_Operation (fst (c ! i))) = op_Scope (rsv_Operation (fst (hd c)))" if "i < length c" for i
    using operation_chain_nth [OF assms(1) that] assms(3) hd by auto
  show "op_Kind (rsv_Operation (fst (c ! i))) = AttemptOperationModelV1"
    "op_ModelResponseDigest (rsv_Operation (fst (c ! Suc i))) = obs_ResponseDigest (snd (c ! i))"
    if "Suc i < length c" "is_tool (op_Kind (rsv_Operation (fst (c ! Suc i))))" for i
    using ValidatePredecessor_facts(7) [OF operation_chain_step [OF assms(1) that(1)]] that(2) by blast+
qed

text \<open>A model call followed by the tool call its response asks for.\<close>

definition ex_digest :: string where
  "ex_digest = replicate 64 (CHR ''a'')"

definition ex_scope :: AttemptOperationScopeV1 where
  "ex_scope = \<lparr>scope_TenantID = ''t'', scope_SessionID = ''s'', scope_OwnerUserID = ''u'', scope_RunID = ''r'',
     scope_AttemptID = ''a'', scope_LeaseID = ''l'', scope_FenceToken = 1, scope_PhysicalInvocationClaimID = ''c'',
     scope_EffectReservationDigest = ex_digest, scope_InvocationAuthorityDigest = ex_digest,
     scope_HarnessBindingDigest = ex_digest, scope_AgentLoopPolicyDigest = ex_digest\<rparr>"

definition ex_debit :: AttemptOperationDebitV1 where
  "ex_debit = \<lparr>deb_Operations = 1, deb_ModelCalls = 1, deb_CompactionCalls = 0, deb_ToolDispatches = 0,
     deb_WebSearches = 0, deb_InputTokens = 10, deb_OutputTokens = 10, deb_BodyBytes = 8, deb_MCPOutboundMessages = 0,
     deb_MCPCatalogPages = 0, deb_MCPInboundFrames = 0, deb_MCPInboundBytes = 0, deb_ResponseBytes = 4,
     deb_AmountMicrounits = 0, deb_ActiveDuration = 10\<rparr>"

definition ex_model :: AttemptOperationV1 where
  "ex_model = \<lparr>op_Version = 1, op_Scope = ex_scope, op_Sequence = 1, op_Kind = AttemptOperationModelV1, op_CallID = ''c1'',
     op_RequestRef = ''q1'', op_RequestDigest = ex_digest, op_PredecessorObservationDigest = '''',
     op_ModelResponseDigest = '''', op_ArgumentsDigest = '''', op_QueryDigest = '''', op_ToolGrantDigest = '''',
     op_ConsentRequestDigest = '''', op_ConsentDecisionDigest = '''', op_ConsentDecisionRef = '''', op_Deadline = 10,
     op_CleanupDuration = 1, op_Debit = ex_debit, op_RequestBytes = 4, op_ResultBytes = 4, op_ContextBytes = 1,
     op_SummaryBytes = 0, op_Currency = ''USD'', op_PriceRevision = ''p1'', op_AdmissionCostCeilingDigest = ex_digest,
     op_ExternalChargeEvidenceDigest = '''', op_SearchWire = None\<rparr>"

definition ex_reserve :: "AttemptOperationV1 \<Rightarrow> AttemptOperationReservationV1" where
  "ex_reserve v = \<lparr>rsv_Version = 1, rsv_Operation = v,
     rsv_OperationDigest = operationDigest ''sessionless.attempt-operation.v1'' (operation_json v), rsv_ReservedAt = 5,
     rsv_AggregateDebit = ex_debit\<lparr>deb_Operations := op_Sequence v\<rparr>, rsv_RegisteredAllocationDigest = ex_digest,
     rsv_RegisteredProxyDigest = ex_digest, rsv_ComponentAmounts = (0, 0, 0, 0)\<rparr>"

definition ex_observe :: "AttemptOperationReservationV1 \<Rightarrow> AttemptOperationObservationV1" where
  "ex_observe r = \<lparr>obs_Version = 1, obs_OperationDigest = rsv_OperationDigest r,
     obs_ReservationDigest = operationDigest ''sessionless.attempt-operation-reservation.v1'' (reservation_json r),
     obs_Outcome = AttemptOperationCompletedV1, obs_Reason = AttemptOperationReasonNoneV1, obs_ResponseRef = ''o1'',
     obs_ResponseDigest = ex_digest, obs_ResponseBytes = 4, obs_ObservedAt = 7,
     obs_Usage = \<lparr>use_State = AttemptOperationUsageUnknownV1, use_InputTokens = None, use_OutputTokens = None,
       use_AmountMicrounits = None\<rparr>\<rparr>"

definition ex_tool :: AttemptOperationV1 where
  "ex_tool = ex_model\<lparr>op_Sequence := 2, op_Kind := AttemptOperationMCPToolV1,
     op_PredecessorObservationDigest := operationDigest ''sessionless.attempt-operation-observation.v1''
       (observation_json (ex_observe (ex_reserve ex_model))),
     op_ModelResponseDigest := ex_digest, op_ArgumentsDigest := ex_digest, op_ToolGrantDigest := ex_digest,
     op_ExternalChargeEvidenceDigest := ex_digest, op_ContextBytes := 0,
     op_Debit := ex_debit\<lparr>deb_ModelCalls := 0, deb_ToolDispatches := 1, deb_InputTokens := 0, deb_OutputTokens := 0,
       deb_MCPOutboundMessages := 1, deb_MCPInboundFrames := 1, deb_MCPInboundBytes := 4\<rparr>\<rparr>"

lemma sha256_digest_operation [simp]: "sha256_digest (operationDigest sep v)"
  by (simp add: operationDigest_def digest_sum_def)

lemma ex_digest_ok [simp]: "sha256_digest ex_digest" "ex_digest \<noteq> ''''"
  by code_simp+

lemma ex_response_ref [simp]: "opaque_id ''o1''"
  by code_simp

lemma ex_model_valid: "AttemptOperationV1_Validate ex_model = None"
  by code_simp

lemma ex_reserve_valid:
  "AttemptOperationV1_Validate v = None \<Longrightarrow> op_Deadline v = 10 \<Longrightarrow> deb_ActiveDuration (op_Debit v) = 10 \<Longrightarrow>
   AttemptOperationReservationV1_Validate (ex_reserve v) = None"
  by (simp add: AttemptOperationReservationV1_Validate_def ex_reserve_def AttemptOperationV1_Digest_def ex_debit_def
      year_in_range_def second_def)

lemma ex_observe_valid:
  "AttemptOperationReservationV1_Validate (ex_reserve v) = None \<Longrightarrow> op_ResultBytes v = 4 \<Longrightarrow>
   AttemptOperationObservationV1_ValidateForReservation (ex_observe (ex_reserve v)) (ex_reserve v) = None"
  by (simp add: AttemptOperationObservationV1_ValidateForReservation_def AttemptOperationReservationV1_Digest_def)
     (simp add: AttemptOperationObservationV1_Validate_def ex_observe_def ex_reserve_def
      AttemptOperationUsageV1_Validate_def year_in_range_def second_def)

lemmas ex_operation_defs = ex_tool_def ex_model_def ex_debit_def ex_scope_def

lemma ex_scope_valid: "AttemptOperationScopeV1_Validate ex_scope = None"
  by code_simp

lemma ex_tool_valid: "AttemptOperationV1_Validate ex_tool = None"
  using ex_model_valid ex_scope_valid
  by (simp add: AttemptOperationV1_Validate_def operation_kind_checks_def is_tool_def Let_def toolArgumentBytes_def
      ex_tool_def ex_model_def ex_debit_def)

lemma ex_predecessor:
  "AttemptOperationV1_ValidatePredecessor ex_tool (ex_reserve ex_model) (ex_observe (ex_reserve ex_model)) = None"
proof -
  have f: "AttemptOperationObservationV1_ValidateForReservation (ex_observe (ex_reserve ex_model)) (ex_reserve ex_model) = None"
    by (rule ex_observe_valid [OF ex_reserve_valid [OF ex_model_valid]]) (simp_all add: ex_model_def ex_debit_def)
  then have "AttemptOperationObservationV1_Validate (ex_observe (ex_reserve ex_model)) = None"
    by (simp add: AttemptOperationObservationV1_ValidateForReservation_def)
  then have "AttemptOperationObservationV1_Digest (ex_observe (ex_reserve ex_model)) =
      Inr (op_PredecessorObservationDigest ex_tool)"
    by (simp add: AttemptOperationObservationV1_Digest_def ex_tool_def)
  then show ?thesis using f ex_tool_valid
    by (simp add: AttemptOperationV1_ValidatePredecessor_def ExceedsReservation_def exceeds_def)
       (simp add: ex_tool_def ex_model_def ex_observe_def ex_reserve_def)
qed

theorem operation_chain_bounded_witness:
  "let c = [(ex_reserve ex_model, ex_observe (ex_reserve ex_model)), (ex_reserve ex_tool, ex_observe (ex_reserve ex_tool))]
   in operation_chain c \<and> length c \<le> 12 \<and> unat (op_Sequence (rsv_Operation (fst (c ! 1)))) = 2 \<and>
      op_ModelResponseDigest (rsv_Operation (fst (c ! 1))) = obs_ResponseDigest (snd (c ! 0))"
proof -
  define c where "c = [(ex_reserve ex_model, ex_observe (ex_reserve ex_model)),
    (ex_reserve ex_tool, ex_observe (ex_reserve ex_tool))]"
  have "AttemptOperationObservationV1_ValidateForReservation (ex_observe (ex_reserve ex_tool)) (ex_reserve ex_tool) = None"
    by (rule ex_observe_valid [OF ex_reserve_valid [OF ex_tool_valid]]) (simp_all add: ex_tool_def ex_model_def ex_debit_def)
  moreover have "rsv_Operation (ex_reserve ex_tool) = ex_tool" by (simp add: ex_reserve_def)
  ultimately have chain: "operation_chain c" using ex_predecessor by (simp add: c_def)
  have "is_tool (op_Kind (rsv_Operation (fst (c ! Suc 0))))"
    by (simp add: c_def ex_reserve_def ex_tool_def is_tool_def)
  then show ?thesis using chain operation_chain_bounded [OF chain]
    by (auto simp: Let_def c_def ex_reserve_def ex_model_def ex_tool_def)
qed

end
