(* ===== verification/RunEvidence.thy ===== *)
theory RunEvidence
  imports Operations
begin

text \<open>
  What a run carries besides its status: its capacity identity
  (\<open>internal/domain/local_capacity.go\<close>), the inventory of derived-context objects
  (\<open>run_derived_context.go\<close>), the terminal custody plan and correspondence
  (\<open>run_terminal_custody.go\<close>), local execution evidence (\<open>owned_execution_evidence.go\<close>) and
  terminal failures (\<open>run_terminal_failure.go\<close>). The checks against a run follow in
  \<^theory_text>\<open>Runs\<close>. JSON decoding is not modelled; the digests hash the JSON the code produces.
\<close>

subsection \<open>Capacity identity\<close>

datatype ProviderResourceKindV1 =
    ProviderResourceCredentiallessFixtureV1 | ProviderResourceSubscriptionV1
  | ProviderResourceAPIAccountV1 | ProviderResourceRouterAccountV1
  | ProviderResourceLocalEndpointV1 | ProviderResourceWebSearchAccountV1
  | ProviderResourceOther string

fun resource_kind_text :: "ProviderResourceKindV1 \<Rightarrow> string" where
  "resource_kind_text ProviderResourceCredentiallessFixtureV1 = ''credentialless_fixture''"
| "resource_kind_text ProviderResourceSubscriptionV1 = ''subscription''"
| "resource_kind_text ProviderResourceAPIAccountV1 = ''api_account''"
| "resource_kind_text ProviderResourceRouterAccountV1 = ''router_account''"
| "resource_kind_text ProviderResourceLocalEndpointV1 = ''local_endpoint''"
| "resource_kind_text ProviderResourceWebSearchAccountV1 = ''web_search_account''"
| "resource_kind_text (ProviderResourceOther s) = s"

record LocalCapacityAssociationV1 =
  lca_Version :: u32
  lca_Kind :: ProviderResourceKindV1
  lca_TenantID :: TenantID
  lca_OwnerUserID :: UserID
  lca_ResourceID :: string

definition LocalCapacityAssociationV1_Validate :: "LocalCapacityAssociationV1 \<Rightarrow> error option" where
  "LocalCapacityAssociationV1_Validate a =
     first_error
       [require (\<not> (lca_Version a \<noteq> 1 \<or> lca_Kind a \<noteq> ProviderResourceLocalEndpointV1))
          (ValidationError ''local_capacity_association'' ''requires version 1 and local_endpoint kind''),
        TenantID_Validate (lca_TenantID a),
        UserID_Validate (lca_OwnerUserID a),
        ValidateOpaqueID ''local_capacity_association.resource_id'' (lca_ResourceID a)]"

definition LocalCapacityAssociationV1_ValidateForScope ::
    "LocalCapacityAssociationV1 \<Rightarrow> TenantID \<Rightarrow> UserID \<Rightarrow> string \<Rightarrow> error option" where
  "LocalCapacityAssociationV1_ValidateForScope a tenant owner resource =
     first_error
       [LocalCapacityAssociationV1_Validate a,
        require (\<not> (lca_TenantID a \<noteq> tenant \<or> lca_OwnerUserID a \<noteq> owner \<or> lca_ResourceID a \<noteq> resource))
          (ValidationError ''local_capacity_association.scope''
             ''must match the original tenant, owner and resource'')]"

definition lca_json :: "LocalCapacityAssociationV1 \<Rightarrow> json" where
  "lca_json a = JObj
     [(''version'', JNat (unat (lca_Version a))), (''kind'', JStr (resource_kind_text (lca_Kind a))),
      (''tenant_id'', JStr (lca_TenantID a)), (''owner_id'', JStr (lca_OwnerUserID a)),
      (''resource_id'', JStr (lca_ResourceID a))]"

definition EncodeLocalCapacityAssociationV1 :: "LocalCapacityAssociationV1 \<Rightarrow> error + string" where
  "EncodeLocalCapacityAssociationV1 a =
     (case LocalCapacityAssociationV1_Validate a of
        Some e \<Rightarrow> Inl e
      | None \<Rightarrow>
          let raw = json_Marshal (lca_json a) in
          if raw = '''' \<or> length raw > 32768
          then Inl (ValidationError ''owned_agent_current.codec'' ''cannot encode bounded authority record'')
          else Inr raw)"

definition LocalCapacityAssociationV1_Digest :: "LocalCapacityAssociationV1 \<Rightarrow> error + string" where
  "LocalCapacityAssociationV1_Digest a =
     (case EncodeLocalCapacityAssociationV1 a of
        Inl e \<Rightarrow> Inl e
      | Inr raw \<Rightarrow> Inr (hex_encode (sha256 raw)))"

definition LocalCapacityAssociationV1_CapacityKey :: "LocalCapacityAssociationV1 \<Rightarrow> error + string" where
  "LocalCapacityAssociationV1_CapacityKey a =
     (case LocalCapacityAssociationV1_Digest a of
        Inl e \<Rightarrow> Inl e
      | Inr digest \<Rightarrow> Inr (''local-v1/'' @ digest))"

definition validateCapacityIdentity ::
    "TenantID \<Rightarrow> SubscriptionConnectionID \<Rightarrow> LocalCapacityAssociationV1 option \<Rightarrow> error option" where
  "validateCapacityIdentity tenant subscription local =
     (case local of
        None \<Rightarrow> SubscriptionConnectionID_Validate subscription
      | Some a \<Rightarrow> first_error
          [require (subscription = '''')
             (ValidationError ''capacity_identity'' ''local and subscription identities are mutually exclusive''),
           LocalCapacityAssociationV1_Validate a,
           EnsureSameTenant tenant (lca_TenantID a)])"

subsection \<open>Derived context\<close>

definition derivedContextError :: error where
  "derivedContextError = ValidationError ''run.derived_context''
     ''requires closed bounded original-scope metadata and exact retained-object identities''"

definition derivedDigestValid :: "string \<Rightarrow> bool" where
  "derivedDigestValid v = (length v = 64 \<and> list_all lower_hex v)"

definition derivedScopeValid :: "AttemptOperationScopeV1 \<Rightarrow> bool" where
  "derivedScopeValid s =
     (list_all (\<lambda>i. length i \<noteq> 0 \<and> length i \<le> 160)
        [scope_TenantID s, scope_SessionID s, scope_OwnerUserID s, scope_RunID s, scope_AttemptID s,
         scope_LeaseID s, scope_PhysicalInvocationClaimID s] \<and>
      list_all derivedDigestValid
        [scope_EffectReservationDigest s, scope_InvocationAuthorityDigest s,
         scope_HarnessBindingDigest s, scope_AgentLoopPolicyDigest s] \<and>
      AttemptOperationScopeV1_Validate s = None)"

record DerivedContextPlanV1 =
  plan_Version :: u32
  plan_Scope :: AttemptOperationScopeV1
  plan_Generation :: u64
  plan_OperationSequence :: u64
  plan_ReservationDigest :: string
  plan_ObservationDigest :: string
  plan_NormalizedResponseDigest :: string
  plan_SourceViewDigest :: string
  plan_Summary :: BlobRef
  plan_Manifest :: BlobRef

record DerivedContextHeadV1 =
  head_Version :: u32
  head_PlanDigest :: string

record RunDerivedContextV1 =
  rdc_Version :: u32
  rdc_Inventory :: "DerivedContextPlanV1 list"
  rdc_Head :: "DerivedContextHeadV1 option"

definition DerivedContextObjectKeyV1 ::
    "AttemptOperationScopeV1 \<Rightarrow> u64 \<Rightarrow> string \<Rightarrow> string \<Rightarrow> error + string" where
  "DerivedContextObjectKeyV1 s generation kind digest =
     (if \<not> derivedScopeValid s \<or> generation < 1 \<or> generation > 2 \<or>
         kind \<noteq> ''summary'' \<and> kind \<noteq> ''manifest'' \<or> \<not> derivedDigestValid digest
      then Inl derivedContextError
      else Inr (SessionRunObjectPrefix (scope_TenantID s) (scope_SessionID s) (scope_RunID s) @
        ''derived-context-v1/'' @
        hex_encode (sha256 (''sessionless.derived-context-scope.v1'' @ [char_of (0::nat)] @ json_Marshal (scope_json s))) @
        ''/'' @ FormatNat (unat generation) @ ''/'' @ kind @ ''/sha256/'' @ digest @ ''.json''))"

definition derived_object_ok :: "DerivedContextPlanV1 \<Rightarrow> string \<Rightarrow> BlobRef \<Rightarrow> int \<Rightarrow> bool" where
  "derived_object_ok p kind ref limit =
     (\<not> (length (blob_Key ref) = 0 \<or> length (blob_Key ref) > 1024 \<or>
         blob_TenantID ref \<noteq> scope_TenantID (plan_Scope p) \<or> blob_Size ref \<le> 0 \<or> blob_Size ref > limit \<or>
         \<not> derivedDigestValid (blob_SHA256 ref)) \<and>
      DerivedContextObjectKeyV1 (plan_Scope p) (plan_Generation p) kind (blob_SHA256 ref) = Inr (blob_Key ref) \<and>
      BlobRef_Validate ref = None)"

definition DerivedContextPlanV1_Validate :: "DerivedContextPlanV1 \<Rightarrow> error option" where
  "DerivedContextPlanV1_Validate p =
     first_error
       [require (\<not> (plan_Version p \<noteq> 1 \<or> \<not> derivedScopeValid (plan_Scope p) \<or> plan_Generation p < 1 \<or>
           plan_Generation p > 2 \<or> plan_OperationSequence p < 1 \<or> plan_OperationSequence p > 12))
          derivedContextError,
        require (list_all derivedDigestValid
            [plan_ReservationDigest p, plan_ObservationDigest p, plan_NormalizedResponseDigest p,
             plan_SourceViewDigest p]) derivedContextError,
        require (derived_object_ok p ''summary'' (plan_Summary p) 32768) derivedContextError,
        require (derived_object_ok p ''manifest'' (plan_Manifest p) 131072) derivedContextError]"

definition blob_json :: "BlobRef \<Rightarrow> json" where
  "blob_json b = JObj
     [(''tenant_id'', JStr (blob_TenantID b)), (''key'', JStr (blob_Key b)),
      (''size'', JInt (blob_Size b)), (''sha256'', JStr (blob_SHA256 b))]"

definition plan_json :: "DerivedContextPlanV1 \<Rightarrow> json" where
  "plan_json p = JObj
     [(''version'', JNat (unat (plan_Version p))), (''scope'', scope_json (plan_Scope p)),
      (''generation'', JNat (unat (plan_Generation p))),
      (''operation_sequence'', JNat (unat (plan_OperationSequence p))),
      (''reservation_digest'', JStr (plan_ReservationDigest p)),
      (''observation_digest'', JStr (plan_ObservationDigest p)),
      (''normalized_response_digest'', JStr (plan_NormalizedResponseDigest p)),
      (''source_view_digest'', JStr (plan_SourceViewDigest p)),
      (''summary'', blob_json (plan_Summary p)), (''manifest'', blob_json (plan_Manifest p))]"

definition DerivedContextPlanV1_Digest :: "DerivedContextPlanV1 \<Rightarrow> error + string" where
  "DerivedContextPlanV1_Digest p =
     (if DerivedContextPlanV1_Validate p \<noteq> None then Inl derivedContextError
      else Inr (hex_encode (sha256 (''sessionless.derived-context-plan.v1'' @ [char_of (0::nat)] @
        json_Marshal (plan_json p)))))"

definition same_owner :: "AttemptOperationScopeV1 \<Rightarrow> AttemptOperationScopeV1 \<Rightarrow> bool" where
  "same_owner a b =
     (scope_TenantID a = scope_TenantID b \<and> scope_SessionID a = scope_SessionID b \<and>
      scope_RunID a = scope_RunID b \<and> scope_OwnerUserID a = scope_OwnerUserID b)"

text \<open>The inventory loop: \<open>prev\<close> is the previous plan, absent at index zero.\<close>

fun derived_inventory ::
    "DerivedContextPlanV1 \<Rightarrow> DerivedContextPlanV1 option \<Rightarrow> DerivedContextPlanV1 list \<Rightarrow> error option" where
  "derived_inventory fst_plan prev [] = None"
| "derived_inventory fst_plan prev (p # ps) =
     first_error
       [require (DerivedContextPlanV1_Validate p = None) derivedContextError,
        require (same_owner (plan_Scope p) (plan_Scope fst_plan)) derivedContextError,
        (case prev of
           None \<Rightarrow> require (plan_Generation p = 1) derivedContextError
         | Some q \<Rightarrow> first_error
             [if scope_AttemptID (plan_Scope p) = scope_AttemptID (plan_Scope q)
              then require (\<not> (plan_Scope p \<noteq> plan_Scope q \<or> plan_Generation p \<noteq> plan_Generation q + 1 \<or>
                  plan_OperationSequence p \<le> plan_OperationSequence q)) derivedContextError
              else require (plan_Generation p = 1) derivedContextError,
              require (\<not> (blob_Key (plan_Summary p) = blob_Key (plan_Summary q) \<or>
                  blob_Key (plan_Manifest p) = blob_Key (plan_Manifest q) \<or>
                  blob_Key (plan_Summary p) = blob_Key (plan_Manifest q) \<or>
                  blob_Key (plan_Manifest p) = blob_Key (plan_Summary q))) derivedContextError]),
        derived_inventory fst_plan (Some p) ps]"

fun head_matches :: "string \<Rightarrow> DerivedContextPlanV1 list \<Rightarrow> nat option" where
  "head_matches d [] = Some 0"
| "head_matches d (p # ps) =
     (case DerivedContextPlanV1_Digest p of
        Inl _ \<Rightarrow> None
      | Inr digest \<Rightarrow> map_option (\<lambda>n. if digest = d then Suc n else n) (head_matches d ps))"

definition RunDerivedContextV1_Validate :: "RunDerivedContextV1 \<Rightarrow> error option" where
  "RunDerivedContextV1_Validate v =
     first_error
       [require (\<not> (rdc_Version v \<noteq> 1 \<or> length (rdc_Inventory v) < 1 \<or> length (rdc_Inventory v) > 2))
          derivedContextError,
        derived_inventory (rdc_Inventory v ! 0) None (rdc_Inventory v),
        when_set (rdc_Head v) (\<lambda>h. first_error
          [require (\<not> (head_Version h \<noteq> 1 \<or> \<not> derivedDigestValid (head_PlanDigest h))) derivedContextError,
           require (head_matches (head_PlanDigest h) (rdc_Inventory v) = Some 1) derivedContextError])]"

definition rdc_json :: "RunDerivedContextV1 \<Rightarrow> json" where
  "rdc_json v = JObj
     ([(''version'', JNat (unat (rdc_Version v))), (''inventory'', JArr (map plan_json (rdc_Inventory v)))] @
      json_omitempty ''head'' (\<lambda>h. JObj
        [(''version'', JNat (unat (head_Version h))), (''plan_digest'', JStr (head_PlanDigest h))]) (rdc_Head v))"

text \<open>A zero value is returned for an oversized inventory, which \<open>Validate\<close> then refuses.\<close>

definition RunDerivedContextV1_Clone :: "RunDerivedContextV1 \<Rightarrow> RunDerivedContextV1" where
  "RunDerivedContextV1_Clone v =
     (if length (rdc_Inventory v) > 2 then \<lparr>rdc_Version = 0, rdc_Inventory = [], rdc_Head = None\<rparr> else v)"

definition MaxRunDerivedContextBytesV1 :: nat where "MaxRunDerivedContextBytesV1 = 32768"

definition EqualRunDerivedContextV1 ::
    "RunDerivedContextV1 option \<Rightarrow> RunDerivedContextV1 option \<Rightarrow> bool" where
  "EqualRunDerivedContextV1 left right =
     (case (left, right) of
        (Some l, Some r) \<Rightarrow>
          if RunDerivedContextV1_Validate l \<noteq> None \<or> RunDerivedContextV1_Validate r \<noteq> None then False
          else (let a = json_Marshal (rdc_json l); b = json_Marshal (rdc_json r)
                in length a \<le> MaxRunDerivedContextBytesV1 \<and> length b \<le> MaxRunDerivedContextBytesV1 \<and> a = b)
      | (None, None) \<Rightarrow> True
      | _ \<Rightarrow> False)"

subsection \<open>Terminal custody\<close>

definition terminalCustodyError :: error where
  "terminalCustodyError = ValidationError ''run.terminal_custody''
     ''requires closed bounded retained identities and exact original scope''"

definition MaxRunTerminalCustodyBytesV1 :: nat where "MaxRunTerminalCustodyBytesV1 = 32768"
definition MaxTerminalCapsuleBytesV1 :: int where "MaxTerminalCapsuleBytesV1 = 524288"

definition terminalHash :: "string \<Rightarrow> string \<Rightarrow> string" where
  "terminalHash namespace body = hex_encode (sha256 (namespace @ body))"

record TerminalCustodyPlanV1 =
  tcp_Scope :: AttemptOperationScopeV1
  tcp_Capsule :: BlobRef
  tcp_FrontierDigest :: string

record TerminalCorrespondenceV1 =
  tco_Version :: u32
  tco_CapsuleDigest :: string
  tco_TerminalAssistantEventID :: SessionEventID
  tco_CanonicalEventsDigest :: string
  tco_DerivedContextDigest :: string
  tco_AccountingDispositionDigest :: string

definition TerminalCustodyObjectKeyV1 :: "AttemptOperationScopeV1 \<Rightarrow> string \<Rightarrow> error + string" where
  "TerminalCustodyObjectKeyV1 s capsuleSHA256 =
     (if \<not> derivedScopeValid s \<or> \<not> derivedDigestValid capsuleSHA256 then Inl terminalCustodyError
      else Inr (SessionRunObjectPrefix (scope_TenantID s) (scope_SessionID s) (scope_RunID s) @
        ''terminal-custody-v1/'' @
        terminalHash (''sessionless.terminal-custody-scope.v1'' @ [char_of (0::nat)]) (json_Marshal (scope_json s)) @
        ''/sha256/'' @ capsuleSHA256 @ ''.json''))"

definition TerminalCustodyPlanV1_Validate :: "TerminalCustodyPlanV1 \<Rightarrow> error option" where
  "TerminalCustodyPlanV1_Validate p =
     first_error
       [require (\<not> (\<not> derivedScopeValid (tcp_Scope p) \<or> \<not> derivedDigestValid (tcp_FrontierDigest p) \<or>
           length (blob_Key (tcp_Capsule p)) = 0 \<or> length (blob_Key (tcp_Capsule p)) > 1024 \<or>
           blob_TenantID (tcp_Capsule p) \<noteq> scope_TenantID (tcp_Scope p) \<or> blob_Size (tcp_Capsule p) \<le> 0 \<or>
           blob_Size (tcp_Capsule p) > MaxTerminalCapsuleBytesV1 \<or>
           \<not> derivedDigestValid (blob_SHA256 (tcp_Capsule p)) \<or> BlobRef_Validate (tcp_Capsule p) \<noteq> None))
          terminalCustodyError,
        require (TerminalCustodyObjectKeyV1 (tcp_Scope p) (blob_SHA256 (tcp_Capsule p)) =
            Inr (blob_Key (tcp_Capsule p))) terminalCustodyError]"

definition TerminalDerivedContextDigestV1 :: "RunDerivedContextV1 option \<Rightarrow> error + string" where
  "TerminalDerivedContextDigestV1 metadata =
     (if (case metadata of None \<Rightarrow> False | Some m \<Rightarrow> RunDerivedContextV1_Validate m \<noteq> None)
      then Inl terminalCustodyError
      else let body = json_Marshal (case metadata of None \<Rightarrow> JNull | Some m \<Rightarrow> rdc_json m)
           in if length body > MaxRunDerivedContextBytesV1 then Inl terminalCustodyError
              else Inr (terminalHash (''sessionless.terminal-derived-context.v1'' @ [char_of (0::nat)]) body))"

subsection \<open>Local execution evidence\<close>

record LocalExecutionEvidenceV1 =
  lee_Version :: u32
  lee_Scope :: AttemptOperationScopeV1
  lee_ParentDigest :: string
  lee_SourceDigest :: string
  lee_ProfileDigest :: string
  lee_OriginalAllocationDigest :: string
  lee_RetiredAllocationDigest :: string
  lee_FrontierDigest :: string
  lee_Capsule :: BlobRef
  lee_ResidualInventoryDigest :: string
  lee_ResidualReceiptDigest :: string
  lee_AccountingDispositionDigest :: string
  lee_StoppedAt :: timestamp
  lee_RetiredAt :: timestamp
  lee_ErasedAt :: timestamp
  lee_EvidenceDigest :: string

definition ownedExecutionEvidenceError :: error where
  "ownedExecutionEvidenceError = ValidationError ''execution_evidence.v2''
     ''requires a closed bounded exact original execution evidence arm''"

definition LocalExecutionEvidenceV1_validateContent :: "LocalExecutionEvidenceV1 \<Rightarrow> error option" where
  "LocalExecutionEvidenceV1_validateContent v =
     first_error
       [require (\<not> (lee_Version v \<noteq> 1 \<or>
           TerminalCustodyPlanV1_Validate \<lparr>tcp_Scope = lee_Scope v, tcp_Capsule = lee_Capsule v,
             tcp_FrontierDigest = lee_FrontierDigest v\<rparr> \<noteq> None)) ownedExecutionEvidenceError,
        require (list_all derivedDigestValid
           [lee_ParentDigest v, lee_SourceDigest v, lee_ProfileDigest v, lee_OriginalAllocationDigest v,
            lee_RetiredAllocationDigest v, lee_ResidualInventoryDigest v, lee_ResidualReceiptDigest v,
            lee_AccountingDispositionDigest v]) ownedExecutionEvidenceError,
        require (lee_OriginalAllocationDigest v \<noteq> lee_RetiredAllocationDigest v) ownedExecutionEvidenceError,
        require (list_all (\<lambda>t. \<not> (t = 0 \<or> \<not> year_in_range t \<or> t mod 1000 \<noteq> 0))
           [lee_StoppedAt v, lee_RetiredAt v, lee_ErasedAt v]) ownedExecutionEvidenceError,
        require (\<not> (lee_RetiredAt v < lee_StoppedAt v \<or> lee_ErasedAt v < lee_RetiredAt v))
          ownedExecutionEvidenceError]"

definition lee_json :: "LocalExecutionEvidenceV1 \<Rightarrow> json" where
  "lee_json v = JObj
     [(''version'', JNat (unat (lee_Version v))), (''scope'', scope_json (lee_Scope v)),
      (''parent_digest'', JStr (lee_ParentDigest v)), (''source_digest'', JStr (lee_SourceDigest v)),
      (''profile_digest'', JStr (lee_ProfileDigest v)),
      (''original_allocation_digest'', JStr (lee_OriginalAllocationDigest v)),
      (''retired_allocation_digest'', JStr (lee_RetiredAllocationDigest v)),
      (''frontier_digest'', JStr (lee_FrontierDigest v)), (''capsule'', blob_json (lee_Capsule v)),
      (''residual_inventory_digest'', JStr (lee_ResidualInventoryDigest v)),
      (''residual_receipt_digest'', JStr (lee_ResidualReceiptDigest v)),
      (''accounting_disposition_digest'', JStr (lee_AccountingDispositionDigest v)),
      (''stopped_at'', JTime (lee_StoppedAt v)), (''retired_at'', JTime (lee_RetiredAt v)),
      (''erased_at'', JTime (lee_ErasedAt v))]"

definition LocalExecutionEvidenceV1_Digest :: "LocalExecutionEvidenceV1 \<Rightarrow> error + string" where
  "LocalExecutionEvidenceV1_Digest v =
     (if LocalExecutionEvidenceV1_validateContent v \<noteq> None then Inl ownedExecutionEvidenceError
      else Inr (terminalHash (''sessionless.local-execution-evidence.v1'' @ [char_of (0::nat)])
        (json_Marshal (lee_json v))))"

definition LocalExecutionEvidenceV1_Validate :: "LocalExecutionEvidenceV1 \<Rightarrow> error option" where
  "LocalExecutionEvidenceV1_Validate v =
     first_error
       [require (derivedDigestValid (lee_EvidenceDigest v)) ownedExecutionEvidenceError,
        require (LocalExecutionEvidenceV1_Digest v = Inr (lee_EvidenceDigest v)) ownedExecutionEvidenceError]"

subsection \<open>Custody records\<close>

record RunTerminalCustodyV1 =
  rtc_Version :: u32
  rtc_Plan :: TerminalCustodyPlanV1
  rtc_Correspondence :: "TerminalCorrespondenceV1 option"
  rtc_LocalEvidence :: "LocalExecutionEvidenceV1 option"

definition RunTerminalCustodyV1_Validate :: "RunTerminalCustodyV1 \<Rightarrow> error option" where
  "RunTerminalCustodyV1_Validate v =
     first_error
       [require (\<not> (rtc_Version v \<noteq> 1 \<or> TerminalCustodyPlanV1_Validate (rtc_Plan v) \<noteq> None)) terminalCustodyError,
        when_set (rtc_Correspondence v) (\<lambda>c. first_error
          [require (\<not> (tco_Version c \<noteq> 1 \<or> length (tco_TerminalAssistantEventID c) = 0 \<or>
              length (tco_TerminalAssistantEventID c) > 160 \<or>
              SessionEventID_Validate (tco_TerminalAssistantEventID c) \<noteq> None \<or>
              tco_CapsuleDigest c \<noteq> blob_SHA256 (tcp_Capsule (rtc_Plan v)))) terminalCustodyError,
           require (list_all derivedDigestValid
              [tco_CapsuleDigest c, tco_CanonicalEventsDigest c, tco_DerivedContextDigest c,
               tco_AccountingDispositionDigest c]) terminalCustodyError]),
        when_set (rtc_LocalEvidence v) (\<lambda>e.
          require (case rtc_Correspondence v of
              None \<Rightarrow> False
            | Some c \<Rightarrow> LocalExecutionEvidenceV1_Validate e = None \<and> lee_Scope e = tcp_Scope (rtc_Plan v) \<and>
                lee_Capsule e = tcp_Capsule (rtc_Plan v) \<and> lee_FrontierDigest e = tcp_FrontierDigest (rtc_Plan v) \<and>
                lee_AccountingDispositionDigest e = tco_AccountingDispositionDigest c) terminalCustodyError)]"

definition rtc_json :: "RunTerminalCustodyV1 \<Rightarrow> json" where
  "rtc_json v = JObj
     ([(''version'', JNat (unat (rtc_Version v))),
       (''plan'', JObj
          [(''scope'', scope_json (tcp_Scope (rtc_Plan v))), (''capsule'', blob_json (tcp_Capsule (rtc_Plan v))),
           (''frontier_digest'', JStr (tcp_FrontierDigest (rtc_Plan v)))])] @
      json_omitempty ''correspondence'' (\<lambda>c. JObj
        [(''version'', JNat (unat (tco_Version c))), (''capsule_digest'', JStr (tco_CapsuleDigest c)),
         (''terminal_assistant_event_id'', JStr (tco_TerminalAssistantEventID c)),
         (''canonical_events_digest'', JStr (tco_CanonicalEventsDigest c)),
         (''derived_context_digest'', JStr (tco_DerivedContextDigest c)),
         (''accounting_disposition_digest'', JStr (tco_AccountingDispositionDigest c))]) (rtc_Correspondence v) @
      json_omitempty ''local_evidence'' (\<lambda>e.
        case lee_json e of JObj fs \<Rightarrow> JObj (fs @ [(''evidence_digest'', JStr (lee_EvidenceDigest e))])
        | j \<Rightarrow> j) (rtc_LocalEvidence v))"

definition EqualRunTerminalCustodyV1 ::
    "RunTerminalCustodyV1 option \<Rightarrow> RunTerminalCustodyV1 option \<Rightarrow> bool" where
  "EqualRunTerminalCustodyV1 a b =
     (case (a, b) of
        (Some l, Some r) \<Rightarrow>
          if RunTerminalCustodyV1_Validate l \<noteq> None \<or> RunTerminalCustodyV1_Validate r \<noteq> None then False
          else (let x = json_Marshal (rtc_json l); y = json_Marshal (rtc_json r)
                in length x \<le> MaxRunTerminalCustodyBytesV1 \<and> length y \<le> MaxRunTerminalCustodyBytesV1 \<and> x = y)
      | (None, None) \<Rightarrow> True
      | _ \<Rightarrow> False)"

subsection \<open>Terminal failures\<close>

definition KnownMCPServiceErrorV1 :: string where "KnownMCPServiceErrorV1 = ''mcp_service_error''"
definition ModelOutcomeUnknownV2 :: string where "ModelOutcomeUnknownV2 = ''model_outcome_unknown''"
definition MCPOutcomeUnknownV3 :: string where "MCPOutcomeUnknownV3 = ''mcp_outcome_unknown''"
definition SearchConsentStoppedV4 :: string where "SearchConsentStoppedV4 = ''search_consent_stopped''"
definition SearchRejectedBeforeSendV4 :: string where
  "SearchRejectedBeforeSendV4 = ''search_rejected_before_send''"
definition SearchServiceErrorV4 :: string where "SearchServiceErrorV4 = ''search_service_error''"
definition SearchOutcomeUnknownV4 :: string where "SearchOutcomeUnknownV4 = ''search_outcome_unknown''"
definition ModelAfterSearchFailureV4 :: string where
  "ModelAfterSearchFailureV4 = ''model_after_search_failure''"

definition SearchFailureStopV4 :: "string \<Rightarrow> bool" where
  "SearchFailureStopV4 stop =
     (stop \<in> {SearchConsentStoppedV4, SearchRejectedBeforeSendV4, SearchServiceErrorV4,
              SearchOutcomeUnknownV4, ModelAfterSearchFailureV4})"

definition SearchFailureRejectedReasonV4 :: "AttemptOperationReasonV1 \<Rightarrow> bool" where
  "SearchFailureRejectedReasonV4 reason =
     (reason \<in> {AttemptOperationReasonAuthorityDeniedV1, AttemptOperationReasonCancelledV1,
                AttemptOperationReasonDeadlineV1, AttemptOperationReasonTransportUnknownV1,
                AttemptOperationReasonWorkerLostV1})"

definition SearchFailureUnknownReasonV4 :: "AttemptOperationReasonV1 \<Rightarrow> bool" where
  "SearchFailureUnknownReasonV4 reason =
     (SearchFailureRejectedReasonV4 reason \<or> reason = AttemptOperationReasonMalformedV1 \<or>
      reason = AttemptOperationReasonOverflowV1)"

record SearchFailureNoticeV4 =
  sfn_Schema :: string
  sfn_Code :: string
  sfn_Execution :: string
  sfn_Kind :: AttemptOperationKindV1
  sfn_Outcome :: AttemptOperationOutcomeV1
  sfn_Reason :: AttemptOperationReasonV1
  sfn_Operation :: string
  sfn_Reservation :: string
  sfn_Observation :: string

definition SearchFailureNoticeV4_Validate :: "SearchFailureNoticeV4 \<Rightarrow> error option" where
  "SearchFailureNoticeV4_Validate v =
     first_error
       [require (\<not> (sfn_Schema v \<noteq> ''sessionless.run-terminal-notice.v4'' \<or> \<not> SearchFailureStopV4 (sfn_Code v) \<or>
           AttemptOperationDigestV1_Validate (sfn_Operation v) \<noteq> None \<or>
           AttemptOperationReservationDigestV1_Validate (sfn_Reservation v) \<noteq> None \<or>
           AttemptOperationObservationDigestV1_Validate (sfn_Observation v) \<noteq> None)) ErrMembershipDenied,
        require
          (if sfn_Code v = SearchConsentStoppedV4 then
             sfn_Execution v = ''not_executed'' \<and> sfn_Kind v = AttemptOperationModelV1 \<and>
             sfn_Outcome v = AttemptOperationCompletedV1 \<and> sfn_Reason v = AttemptOperationReasonNoneV1
           else if sfn_Code v = SearchRejectedBeforeSendV4 then
             sfn_Execution v = ''not_sent'' \<and> sfn_Kind v = AttemptOperationWebSearchV1 \<and>
             sfn_Outcome v = AttemptOperationRejectedBeforeSendV1 \<and> SearchFailureRejectedReasonV4 (sfn_Reason v)
           else if sfn_Code v = SearchServiceErrorV4 then
             sfn_Execution v = ''known_service_error'' \<and> sfn_Kind v = AttemptOperationWebSearchV1 \<and>
             sfn_Outcome v = AttemptOperationCompletedV1 \<and> sfn_Reason v = AttemptOperationReasonServiceErrorV1
           else if sfn_Code v = SearchOutcomeUnknownV4 then
             sfn_Execution v = ''unknown'' \<and> sfn_Kind v = AttemptOperationWebSearchV1 \<and>
             sfn_Outcome v = AttemptOperationAcceptedOutcomeUnknownV1 \<and> SearchFailureUnknownReasonV4 (sfn_Reason v)
           else if sfn_Code v = ModelAfterSearchFailureV4 then
             sfn_Kind v = AttemptOperationModelV1 \<and>
             (sfn_Execution v = ''not_sent'' \<and> sfn_Outcome v = AttemptOperationRejectedBeforeSendV1 \<and>
                sfn_Reason v = AttemptOperationReasonTransportUnknownV1 \<or>
              sfn_Execution v = ''unknown'' \<and> sfn_Outcome v = AttemptOperationAcceptedOutcomeUnknownV1 \<and>
                sfn_Reason v \<in> {AttemptOperationReasonTransportUnknownV1, AttemptOperationReasonMalformedV1,
                                 AttemptOperationReasonWorkerLostV1})
           else False) ErrMembershipDenied]"

definition TerminalFailureSchemaStopValid :: "string \<Rightarrow> string \<Rightarrow> bool" where
  "TerminalFailureSchemaStopValid schema stop =
     (schema = ''sessionless.terminal-failure-custody.v1'' \<and> stop = KnownMCPServiceErrorV1 \<or>
      schema = ''sessionless.terminal-failure-custody.v2'' \<and> stop = ModelOutcomeUnknownV2 \<or>
      schema = ''sessionless.terminal-failure-custody.v3'' \<and> stop = MCPOutcomeUnknownV3 \<or>
      schema = ''sessionless.terminal-failure-custody.v4'' \<and> SearchFailureStopV4 stop)"

record RunTerminalFailureV1 =
  rtf_Version :: u32
  rtf_Scope :: AttemptOperationScopeV1
  rtf_ParentDigest :: string
  rtf_Plan :: TerminalCustodyPlanV1
  rtf_CapsuleSchema :: string
  rtf_AccountingDigest :: string
  rtf_EventsDigest :: string
  rtf_RetainedBodiesDigest :: string
  rtf_RetiredAllocationDigest :: string
  rtf_CapturedAt :: timestamp
  rtf_Stop :: string
  rtf_Cleanup :: string

end
