(* ===== verification/Lifecycle.thy ===== *)
theory Lifecycle
  imports GoLib
begin

text \<open>
  The contract shared by every \<open>Transition\<close> method of the domain package. Runs, attempts,
  quota reservations, dispatch and projection outbox records and deliveries each have a status,
  an \<open>UpdatedAt\<close> and a transition table; a transition applies a permitted edge at a time that
  does not run backwards, and otherwise returns an error and leaves the record alone. The
  locale states this contract; its lemmas speak about arbitrary sequences of requests and are
  obtained for each record type by interpretation.
\<close>

text \<open>A client issues requests one after another, ignoring the errors it gets.\<close>

fun apply_requests ::
    "('s option \<Rightarrow> 'st \<Rightarrow> timestamp \<Rightarrow> 's option outcome) \<Rightarrow> 's option \<Rightarrow> ('st \<times> timestamp) list \<Rightarrow> 's option" where
  "apply_requests step s [] = s"
| "apply_requests step s ((st, at) # rs) = apply_requests step (fst (step s st at)) rs"

locale status_machine =
  fixes status :: "'s \<Rightarrow> 'st"
    and updated :: "'s \<Rightarrow> timestamp"
    and can :: "'st \<Rightarrow> 'st \<Rightarrow> bool"
    and terminal :: "'st \<Rightarrow> bool"
    and step :: "'s option \<Rightarrow> 'st \<Rightarrow> timestamp \<Rightarrow> 's option outcome"
    and inv :: "'s \<Rightarrow> bool"
  assumes step_nil: "\<exists>e. step None st at = (None, Some e)"
    and step_ok: "can (status s) st \<Longrightarrow> updated s \<le> at \<Longrightarrow>
      \<exists>s'. step (Some s) st at = (Some s', None) \<and> status s' = st \<and> updated s' = at"
    and step_err: "\<not> (can (status s) st \<and> updated s \<le> at) \<Longrightarrow>
      \<exists>e. step (Some s) st at = (Some s, Some e)"
    and step_inv: "inv s \<Longrightarrow> step (Some s) st at = (Some s', None) \<Longrightarrow> inv s'"
    and terminal_final: "terminal st \<Longrightarrow> \<not> can st st'"
begin

lemma step_cases:
  obtains (ok) s' where "step (Some s) st at = (Some s', None)" "status s' = st" "updated s' = at"
      "can (status s) st" "updated s \<le> at"
  | (err) e where "step (Some s) st at = (Some s, Some e)" "\<not> (can (status s) st \<and> updated s \<le> at)"
  using step_ok [of s st at] step_err [of s st at] by blast

lemma accepted_iff: "snd (step (Some s) st at) = None \<longleftrightarrow> can (status s) st \<and> updated s \<le> at"
  by (rule step_cases [of s st at]) auto

lemma nil_requests: "apply_requests step None rs = None"
proof (induction rs)
  case (Cons r rs)
  obtain st at where r: "r = (st, at)" by (cases r)
  obtain e where "step None st at = (None, Some e)" using step_nil by blast
  then show ?case using Cons r by simp
qed simp

lemma terminal_requests: "terminal (status s) \<Longrightarrow> apply_requests step (Some s) rs = Some s"
proof (induction rs)
  case (Cons r rs)
  obtain st at where r: "r = (st, at)" by (cases r)
  have "fst (step (Some s) st at) = Some s"
    by (rule step_cases [of s st at]) (use terminal_final Cons.prems in auto)
  then show ?case using Cons r by simp
qed simp

lemma requests_reach:
  "\<exists>s'. apply_requests step (Some s) rs = Some s' \<and> can\<^sup>*\<^sup>* (status s) (status s') \<and>
     updated s \<le> updated s' \<and> (inv s \<longrightarrow> inv s')"
proof (induction rs arbitrary: s)
  case (Cons r rs)
  obtain st at where r: "r = (st, at)" by (cases r)
  show ?case
  proof (rule step_cases [of s st at])
    fix s1 assume s1: "step (Some s) st at = (Some s1, None)" "status s1 = st" "updated s1 = at"
      "can (status s) st" "updated s \<le> at"
    obtain s' where s': "apply_requests step (Some s1) rs = Some s'" "can\<^sup>*\<^sup>* (status s1) (status s')"
      "updated s1 \<le> updated s'" "inv s1 \<longrightarrow> inv s'" using Cons.IH by blast
    have "can\<^sup>*\<^sup>* (status s) (status s')"
      using s1(2,4) s'(2) converse_rtranclp_into_rtranclp by metis
    then show ?thesis using r s1 s' step_inv by fastforce
  qed (use Cons.IH r in auto)
qed auto

end

end
