(* ===== verification/Runs.thy ===== *)
theory Runs
  imports RunEvidence Lifecycle
begin

text \<open>
  Runs, attempts, leases and checkpoints: \<open>internal/domain/run.go\<close> and \<open>work.go\<close>, with the
  \<open>ValidateForRun\<close> checks of the evidence a run carries and of \<open>ArtifactManifest\<close>.
\<close>

subsection \<open>Run status\<close>

datatype RunStatus =
    RunCreated | RunAdmitted | RunQueued | RunRunning | RunSucceeded | RunFailed | RunCancelled
  | RunQuotaBlocked | RunStatusOther string

fun runTransitions :: "RunStatus \<Rightarrow> RunStatus list option" where
  "runTransitions RunCreated = Some [RunAdmitted, RunQuotaBlocked, RunCancelled, RunFailed]"
| "runTransitions RunAdmitted = Some [RunQueued, RunQuotaBlocked, RunCancelled, RunFailed]"
| "runTransitions RunQueued = Some [RunRunning, RunQuotaBlocked, RunCancelled, RunFailed]"
| "runTransitions RunRunning = Some [RunSucceeded, RunQuotaBlocked, RunCancelled, RunFailed]"
| "runTransitions RunQuotaBlocked = Some [RunAdmitted, RunCancelled, RunFailed]"
| "runTransitions RunSucceeded = Some []"
| "runTransitions RunFailed = Some []"
| "runTransitions RunCancelled = Some []"
| "runTransitions (RunStatusOther s) = None"

definition RunStatus_Valid :: "RunStatus \<Rightarrow> bool" where
  "RunStatus_Valid status = (runTransitions status \<noteq> None)"

definition RunStatus_Terminal :: "RunStatus \<Rightarrow> bool" where
  "RunStatus_Terminal status = (status = RunSucceeded \<or> status = RunFailed \<or> status = RunCancelled)"

definition CanTransitionRun :: "RunStatus \<Rightarrow> RunStatus \<Rightarrow> bool" where
  "CanTransitionRun from to' =
     (case runTransitions from of None \<Rightarrow> False | Some nxt \<Rightarrow> to' \<in> set nxt)"

subsection \<open>Runs\<close>

record Run =
  run_ID :: RunID
  run_TenantID :: TenantID
  run_SessionID :: SessionID
  run_TriggerEventID :: SessionEventID
  run_SubscriptionConnectionID :: SubscriptionConnectionID
  run_LocalCapacityAssociation :: "LocalCapacityAssociationV1 option"
  run_Status :: RunStatus
  run_IdempotencyKey :: IdempotencyKey
  run_CancellationRequestedAt :: "timestamp option"
  run_StartedAt :: "timestamp option"
  run_FinishedAt :: "timestamp option"
  run_CreatedAt :: timestamp
  run_UpdatedAt :: timestamp
  run_DerivedContext :: "RunDerivedContextV1 option"
  run_TerminalCustody :: "RunTerminalCustodyV1 option"
  run_TerminalFailure :: "RunTerminalFailureV1 option"

definition scope_of_run :: "AttemptOperationScopeV1 \<Rightarrow> Run \<Rightarrow> bool" where
  "scope_of_run s run =
     (scope_TenantID s = run_TenantID run \<and> scope_SessionID s = run_SessionID run \<and>
      scope_RunID s = run_ID run)"

definition RunDerivedContextV1_ValidateForRun :: "RunDerivedContextV1 \<Rightarrow> Run \<Rightarrow> error option" where
  "RunDerivedContextV1_ValidateForRun v run =
     first_error
       [require (RunDerivedContextV1_Validate v = None) derivedContextError,
        require (list_all (\<lambda>p. scope_of_run (plan_Scope p) run) (rdc_Inventory v)) derivedContextError]"

definition RunTerminalCustodyV1_ValidateForRun :: "RunTerminalCustodyV1 \<Rightarrow> Run \<Rightarrow> error option" where
  "RunTerminalCustodyV1_ValidateForRun v run =
     first_error
       [require (RunTerminalCustodyV1_Validate v = None \<and> scope_of_run (tcp_Scope (rtc_Plan v)) run)
          terminalCustodyError,
        require (\<not> ((rtc_Correspondence v \<noteq> None \<or> rtc_LocalEvidence v \<noteq> None) \<and> run_Status run \<noteq> RunSucceeded))
          terminalCustodyError,
        when_set (rtc_LocalEvidence v) (\<lambda>e.
          require (\<not> (lee_StoppedAt e < run_CreatedAt run \<or>
              (case run_FinishedAt run of None \<Rightarrow> True | Some f \<Rightarrow> lee_ErasedAt e > f))) terminalCustodyError),
        when_set (run_DerivedContext run) (\<lambda>d. first_error
          [require (RunDerivedContextV1_ValidateForRun d run = None) terminalCustodyError,
           require (list_all (\<lambda>p. scope_OwnerUserID (plan_Scope p) = scope_OwnerUserID (tcp_Scope (rtc_Plan v)))
              (rdc_Inventory d)) terminalCustodyError]),
        when_set (rtc_Correspondence v) (\<lambda>c.
          require (TerminalDerivedContextDigestV1 (run_DerivedContext run) = Inr (tco_DerivedContextDigest c))
            terminalCustodyError)]"

definition terminalFailureError :: error where
  "terminalFailureError = ValidationError ''run.terminal_failure''
     ''requires exact known-error retained correspondence''"

definition RunTerminalFailureV1_ValidateForRun :: "RunTerminalFailureV1 \<Rightarrow> Run \<Rightarrow> error option" where
  "RunTerminalFailureV1_ValidateForRun v run =
     first_error
       [require (\<not> (rtf_Version v \<noteq> 1 \<or> AttemptOperationScopeV1_Validate (rtf_Scope v) \<noteq> None \<or>
           TerminalCustodyPlanV1_Validate (rtf_Plan v) \<noteq> None \<or> tcp_Scope (rtf_Plan v) \<noteq> rtf_Scope v \<or>
           \<not> scope_of_run (rtf_Scope v) run \<or> rtf_CapturedAt v = 0 \<or> rtf_CapturedAt v mod 1000 \<noteq> 0 \<or>
           rtf_CapturedAt v < run_CreatedAt run \<or> rtf_CapturedAt v > run_UpdatedAt run \<or>
           \<not> TerminalFailureSchemaStopValid (rtf_CapsuleSchema v) (rtf_Stop v) \<or>
           rtf_Cleanup v \<noteq> ''joined_retained'' \<or> run_Status run \<noteq> RunFailed \<or>
           (case run_TerminalCustody run of
              None \<Rightarrow> True
            | Some c \<Rightarrow> rtc_Plan c \<noteq> rtf_Plan v \<or> rtc_Correspondence c \<noteq> None \<or> rtc_LocalEvidence c \<noteq> None)))
          terminalFailureError,
        require (\<not> ((case run_StartedAt run of None \<Rightarrow> False | Some s \<Rightarrow> rtf_CapturedAt v < s) \<or>
           run_FinishedAt run \<noteq> Some (run_UpdatedAt run))) terminalFailureError,
        require (list_all derivedDigestValid
           [rtf_ParentDigest v, rtf_AccountingDigest v, rtf_EventsDigest v, rtf_RetainedBodiesDigest v,
            rtf_RetiredAllocationDigest v]) terminalFailureError]"

definition EqualRunTerminalFailureV1 ::
    "RunTerminalFailureV1 option \<Rightarrow> RunTerminalFailureV1 option \<Rightarrow> bool" where
  "EqualRunTerminalFailureV1 a b = (a = b)"

definition Run_Validate :: "Run \<Rightarrow> error option" where
  "Run_Validate run =
     first_error
       [RunID_Validate (run_ID run),
        TenantID_Validate (run_TenantID run),
        SessionID_Validate (run_SessionID run),
        SessionEventID_Validate (run_TriggerEventID run),
        validateCapacityIdentity (run_TenantID run) (run_SubscriptionConnectionID run)
          (run_LocalCapacityAssociation run),
        require (RunStatus_Valid (run_Status run)) (ValidationError ''run.status'' ''is unknown''),
        IdempotencyKey_Validate (run_IdempotencyKey run),
        require (run_CreatedAt run \<noteq> 0) (ValidationError ''run.created_at'' ''must not be zero''),
        require (\<not> run_UpdatedAt run < run_CreatedAt run)
          (ValidationError ''run.updated_at'' ''must not be before created_at''),
        when_set (run_CancellationRequestedAt run) (\<lambda>t. require (\<not> t < run_CreatedAt run)
          (ValidationError ''run.cancellation_requested_at'' ''must not be before created_at'')),
        when_set (run_StartedAt run) (\<lambda>t. require (\<not> t < run_CreatedAt run)
          (ValidationError ''run.started_at'' ''must not be before created_at'')),
        if RunStatus_Terminal (run_Status run)
        then require (run_FinishedAt run \<noteq> None)
          (ValidationError ''run.finished_at'' ''is required for a terminal run'')
        else require (run_FinishedAt run = None)
          (ValidationError ''run.finished_at'' ''is allowed only for a terminal run''),
        when_set (run_DerivedContext run) (\<lambda>d. RunDerivedContextV1_ValidateForRun d run),
        when_set (run_TerminalCustody run) (\<lambda>c. RunTerminalCustodyV1_ValidateForRun c run),
        when_set (run_TerminalFailure run) (\<lambda>f. RunTerminalFailureV1_ValidateForRun f run)]"

definition Run_Clone :: "Run \<Rightarrow> Run" where
  "Run_Clone run = run\<lparr>run_DerivedContext := map_option RunDerivedContextV1_Clone (run_DerivedContext run)\<rparr>"

definition Run_Transition :: "Run option \<Rightarrow> RunStatus \<Rightarrow> timestamp \<Rightarrow> Run option outcome" where
  "Run_Transition p to' at =
     (case p of
        None \<Rightarrow> (None, Some (ValidationError ''run'' ''must not be nil''))
      | Some run \<Rightarrow>
          if \<not> CanTransitionRun (run_Status run) to'
          then (Some run, Some (ValidationError ''run.status'' ''transition is not allowed''))
          else if at < run_UpdatedAt run
          then (Some run, Some (ValidationError ''run.updated_at'' ''transition time must not move backwards''))
          else
            let run = run\<lparr>run_Status := to', run_UpdatedAt := at\<rparr>;
                run = (if to' = RunRunning \<and> run_StartedAt run = None then run\<lparr>run_StartedAt := Some at\<rparr> else run);
                run = (if RunStatus_Terminal to' then run\<lparr>run_FinishedAt := Some at\<rparr> else run)
            in (Some run, None))"

definition Run_RequestCancellation :: "Run option \<Rightarrow> timestamp \<Rightarrow> Run option outcome" where
  "Run_RequestCancellation p at =
     (case p of
        None \<Rightarrow> (None, Some (ValidationError ''run'' ''must not be nil''))
      | Some run \<Rightarrow>
          if RunStatus_Terminal (run_Status run)
          then (Some run, Some (ValidationError ''run.cancellation'' ''cannot request cancellation for a terminal run''))
          else if at < run_CreatedAt run
          then (Some run, Some (ValidationError ''run.cancellation_requested_at'' ''must not be before created_at''))
          else (Some (if run_CancellationRequestedAt run = None
                      then run\<lparr>run_CancellationRequestedAt := Some at\<rparr> else run), None))"

subsection \<open>Artifact manifests\<close>

record ArtifactManifest =
  man_ID :: ArtifactManifestID
  man_TenantID :: TenantID
  man_RunID :: RunID
  man_Artifacts :: "Artifact list"
  man_CreatedAt :: timestamp

fun manifest_artifacts :: "Run \<Rightarrow> string list \<Rightarrow> Artifact list \<Rightarrow> error option" where
  "manifest_artifacts run seen [] = None"
| "manifest_artifacts run seen (a # as) =
     first_error
       [Artifact_Validate a,
        require (HasPrefix (blob_Key (art_Blob a)) (SessionObjectPrefix (run_TenantID run) (run_SessionID run)))
          (ValidationError ''artifact.blob.key''
            (''must be under session prefix '' @ quoted (SessionObjectPrefix (run_TenantID run) (run_SessionID run)))),
        EnsureSameTenant (run_TenantID run) (blob_TenantID (art_Blob a)),
        require (art_Name a \<notin> set seen)
          (ValidationError ''artifact_manifest.artifacts'' ''artifact names must be unique''),
        manifest_artifacts run (art_Name a # seen) as]"

definition ArtifactManifest_ValidateForRun :: "ArtifactManifest \<Rightarrow> Run \<Rightarrow> error option" where
  "ArtifactManifest_ValidateForRun manifest run =
     first_error
       [Run_Validate run,
        ArtifactManifestID_Validate (man_ID manifest),
        EnsureSameTenant (run_TenantID run) (man_TenantID manifest),
        require (man_RunID manifest = run_ID run)
          (ValidationError ''artifact_manifest.run_id'' ''must reference the owning run''),
        require (man_CreatedAt manifest \<noteq> 0)
          (ValidationError ''artifact_manifest.created_at'' ''must not be zero''),
        manifest_artifacts run [] (man_Artifacts manifest)]"

subsection \<open>Attempts\<close>

datatype AttemptStatus =
    AttemptCreated | AttemptRunning | AttemptSucceeded | AttemptFailed | AttemptCancelled
  | AttemptStatusOther string

definition AttemptStatus_Valid :: "AttemptStatus \<Rightarrow> bool" where
  "AttemptStatus_Valid status = (case status of AttemptStatusOther _ \<Rightarrow> False | _ \<Rightarrow> True)"

definition AttemptStatus_Terminal :: "AttemptStatus \<Rightarrow> bool" where
  "AttemptStatus_Terminal status =
     (status = AttemptSucceeded \<or> status = AttemptFailed \<or> status = AttemptCancelled)"

fun CanTransitionAttempt :: "AttemptStatus \<Rightarrow> AttemptStatus \<Rightarrow> bool" where
  "CanTransitionAttempt AttemptCreated to' =
     (to' = AttemptRunning \<or> to' = AttemptFailed \<or> to' = AttemptCancelled)"
| "CanTransitionAttempt AttemptRunning to' =
     (to' = AttemptSucceeded \<or> to' = AttemptFailed \<or> to' = AttemptCancelled)"
| "CanTransitionAttempt _ to' = False"

record Attempt =
  att_ID :: AttemptID
  att_TenantID :: TenantID
  att_RunID :: RunID
  att_Number :: u32
  att_Status :: AttemptStatus
  att_WorkerID :: string
  att_CreatedAt :: timestamp
  att_UpdatedAt :: timestamp
  att_FinishedAt :: "timestamp option"

definition Attempt_ValidateForRun :: "Attempt \<Rightarrow> Run \<Rightarrow> error option" where
  "Attempt_ValidateForRun attempt run =
     first_error
       [Run_Validate run,
        AttemptID_Validate (att_ID attempt),
        EnsureSameTenant (run_TenantID run) (att_TenantID attempt),
        require (att_RunID attempt = run_ID run)
          (ValidationError ''attempt.run_id'' ''must reference the owning run''),
        require (att_Number attempt \<noteq> 0) (ValidationError ''attempt.number'' ''must be positive''),
        require (AttemptStatus_Valid (att_Status attempt)) (ValidationError ''attempt.status'' ''is unknown''),
        when_true (att_WorkerID attempt \<noteq> '''') (ValidateOpaqueID ''attempt.worker_id'' (att_WorkerID attempt)),
        require (\<not> (att_CreatedAt attempt = 0 \<or> att_UpdatedAt attempt < att_CreatedAt attempt))
          (ValidationError ''attempt.updated_at'' ''must not be before a non-zero created_at''),
        require (AttemptStatus_Terminal (att_Status attempt) = (att_FinishedAt attempt \<noteq> None))
          (ValidationError ''attempt.finished_at'' ''must be present exactly when the attempt is terminal'')]"

definition Attempt_Transition :: "Attempt option \<Rightarrow> AttemptStatus \<Rightarrow> timestamp \<Rightarrow> Attempt option outcome" where
  "Attempt_Transition p to' at =
     (case p of
        None \<Rightarrow> (None, Some (ValidationError ''attempt'' ''must not be nil''))
      | Some attempt \<Rightarrow>
          if \<not> CanTransitionAttempt (att_Status attempt) to'
          then (Some attempt, Some (ValidationError ''attempt.status'' ''transition is not allowed''))
          else if at < att_UpdatedAt attempt
          then (Some attempt, Some (ValidationError ''attempt.updated_at'' ''transition time must not move backwards''))
          else
            let attempt = attempt\<lparr>att_Status := to', att_UpdatedAt := at\<rparr>
            in (Some (if AttemptStatus_Terminal to' then attempt\<lparr>att_FinishedAt := Some at\<rparr> else attempt), None))"

subsection \<open>Leases and checkpoints\<close>

record Lease =
  lease_ID :: LeaseID
  lease_TenantID :: TenantID
  lease_RunID :: RunID
  lease_AttemptID :: AttemptID
  lease_WorkerID :: string
  lease_FenceToken :: u64
  lease_AcquiredAt :: timestamp
  lease_ExpiresAt :: timestamp

definition Lease_ValidateForAttempt :: "Lease \<Rightarrow> Run \<Rightarrow> Attempt \<Rightarrow> error option" where
  "Lease_ValidateForAttempt lease run attempt =
     first_error
       [Attempt_ValidateForRun attempt run,
        LeaseID_Validate (lease_ID lease),
        EnsureSameTenant (run_TenantID run) (lease_TenantID lease),
        require (\<not> (lease_RunID lease \<noteq> run_ID run \<or> lease_AttemptID lease \<noteq> att_ID attempt))
          (ValidationError ''lease'' ''must reference the owning run and attempt''),
        ValidateOpaqueID ''lease.worker_id'' (lease_WorkerID lease),
        require (lease_FenceToken lease \<noteq> 0) (ValidationError ''lease.fence_token'' ''must be positive''),
        require (\<not> (lease_AcquiredAt lease = 0 \<or> \<not> lease_ExpiresAt lease > lease_AcquiredAt lease))
          (ValidationError ''lease.expires_at'' ''must be after a non-zero acquired_at'')]"

definition Lease_ActiveAt :: "Lease \<Rightarrow> timestamp \<Rightarrow> bool" where
  "Lease_ActiveAt lease at = (\<not> at < lease_AcquiredAt lease \<and> at < lease_ExpiresAt lease)"

record Checkpoint =
  chk_ID :: CheckpointID
  chk_TenantID :: TenantID
  chk_RunID :: RunID
  chk_AttemptID :: AttemptID
  chk_Sequence :: u64
  chk_State :: BlobRef
  chk_CreatedAt :: timestamp

definition Checkpoint_ValidateForAttempt :: "Checkpoint \<Rightarrow> Run \<Rightarrow> Attempt \<Rightarrow> error option" where
  "Checkpoint_ValidateForAttempt checkpoint run attempt =
     (let prefix = SessionRunObjectPrefix (run_TenantID run) (run_SessionID run) (run_ID run) @ ''checkpoints/''
      in first_error
       [Attempt_ValidateForRun attempt run,
        CheckpointID_Validate (chk_ID checkpoint),
        EnsureSameTenant (run_TenantID run) (chk_TenantID checkpoint),
        require (\<not> (chk_RunID checkpoint \<noteq> run_ID run \<or> chk_AttemptID checkpoint \<noteq> att_ID attempt))
          (ValidationError ''checkpoint'' ''must reference the owning run and attempt''),
        require (chk_Sequence checkpoint \<noteq> 0) (ValidationError ''checkpoint.sequence'' ''must be positive''),
        BlobRef_Validate (chk_State checkpoint),
        EnsureSameTenant (run_TenantID run) (blob_TenantID (chk_State checkpoint)),
        require (HasPrefix (blob_Key (chk_State checkpoint)) prefix)
          (ValidationError ''checkpoint.state.key'' (''must be under '' @ quoted prefix)),
        require (chk_CreatedAt checkpoint \<noteq> 0)
          (ValidationError ''checkpoint.created_at'' ''must not be zero'')])"

subsection \<open>Runs keep their invariant\<close>

lemma RunStatus_Terminal_simps [simp]:
  "RunStatus_Terminal RunSucceeded" "RunStatus_Terminal RunFailed" "RunStatus_Terminal RunCancelled"
  "\<not> RunStatus_Terminal RunCreated" "\<not> RunStatus_Terminal RunAdmitted" "\<not> RunStatus_Terminal RunQueued"
  "\<not> RunStatus_Terminal RunRunning" "\<not> RunStatus_Terminal RunQuotaBlocked"
  by (simp_all add: RunStatus_Terminal_def)

lemma terminal_run_stuck: "RunStatus_Terminal s \<Longrightarrow> \<not> CanTransitionRun s t"
  by (auto simp: RunStatus_Terminal_def CanTransitionRun_def)

lemma CanTransitionRun_Valid: "CanTransitionRun s t \<Longrightarrow> RunStatus_Valid t"
  by (cases s) (auto simp: CanTransitionRun_def RunStatus_Valid_def)

text \<open>
  A live run carries no success correspondence and no terminal failure, so the evidence checks
  do not depend on the fields a transition or a cancellation request writes.
\<close>

definition same_identity :: "Run \<Rightarrow> Run \<Rightarrow> bool" where
  "same_identity a b =
     (run_ID a = run_ID b \<and> run_TenantID a = run_TenantID b \<and> run_SessionID a = run_SessionID b \<and>
      run_DerivedContext a = run_DerivedContext b \<and> run_TerminalCustody a = run_TerminalCustody b \<and>
      run_TerminalFailure a = run_TerminalFailure b)"

lemma derived_for_run_cong:
  "same_identity a b \<Longrightarrow> RunDerivedContextV1_ValidateForRun d a = RunDerivedContextV1_ValidateForRun d b"
  by (simp add: RunDerivedContextV1_ValidateForRun_def scope_of_run_def same_identity_def)

lemma custody_for_live_run:
  assumes "RunTerminalCustodyV1_ValidateForRun c a = None" "run_Status a \<noteq> RunSucceeded" "same_identity a b"
  shows "RunTerminalCustodyV1_ValidateForRun c b = None"
proof -
  have "rtc_Correspondence c = None" "rtc_LocalEvidence c = None"
    using assms(1,2) by (auto simp: RunTerminalCustodyV1_ValidateForRun_def)
  moreover have "scope_of_run (tcp_Scope (rtc_Plan c)) a = scope_of_run (tcp_Scope (rtc_Plan c)) b"
    and "run_DerivedContext a = run_DerivedContext b"
    using assms(3) by (auto simp: scope_of_run_def same_identity_def)
  ultimately show ?thesis
    using assms(1) derived_for_run_cong [OF assms(3)]
    by (auto simp: RunTerminalCustodyV1_ValidateForRun_def when_set_None_iff)
qed

lemma no_failure_on_live_run:
  "RunTerminalFailureV1_ValidateForRun f run = None \<Longrightarrow> run_Status run = RunFailed"
  by (auto simp: RunTerminalFailureV1_ValidateForRun_def)

lemma evidence_for_live_run:
  assumes v: "Run_Validate a = None" and live: "\<not> RunStatus_Terminal (run_Status a)" and same: "same_identity a b"
  shows "when_set (run_DerivedContext b) (\<lambda>d. RunDerivedContextV1_ValidateForRun d b) = None"
    and "when_set (run_TerminalCustody b) (\<lambda>c. RunTerminalCustodyV1_ValidateForRun c b) = None"
    and "run_TerminalFailure b = None"
proof -
  have s: "run_Status a \<noteq> RunSucceeded" "run_Status a \<noteq> RunFailed" using live by auto
  have d: "when_set (run_DerivedContext a) (\<lambda>d. RunDerivedContextV1_ValidateForRun d a) = None"
    and c: "when_set (run_TerminalCustody a) (\<lambda>c. RunTerminalCustodyV1_ValidateForRun c a) = None"
    and f: "when_set (run_TerminalFailure a) (\<lambda>f. RunTerminalFailureV1_ValidateForRun f a) = None"
    using v by (simp_all add: Run_Validate_def)
  show "when_set (run_DerivedContext b) (\<lambda>d. RunDerivedContextV1_ValidateForRun d b) = None"
    using d derived_for_run_cong [OF same] same by (auto simp: when_set_None_iff same_identity_def)
  show "when_set (run_TerminalCustody b) (\<lambda>c. RunTerminalCustodyV1_ValidateForRun c b) = None"
    using c custody_for_live_run [OF _ s(1) same] same by (auto simp: when_set_None_iff same_identity_def)
  show "run_TerminalFailure b = None"
    using f no_failure_on_live_run s(2) same
    by (cases "run_TerminalFailure a") (auto simp: same_identity_def when_set_None_iff)
qed

lemma Run_Transition_valid:
  assumes v: "Run_Validate run = None" and t: "Run_Transition (Some run) st at = (Some run', None)"
  shows "Run_Validate run' = None"
proof -
  have can: "CanTransitionRun (run_Status run) st" and at: "run_UpdatedAt run \<le> at"
    using t by (auto simp: Run_Transition_def split: if_splits)
  have live: "\<not> RunStatus_Terminal (run_Status run)" using can terminal_run_stuck by blast
  have same: "same_identity run run'"
    using t by (auto simp: Run_Transition_def Let_def same_identity_def split: if_splits)
  note ev = evidence_for_live_run [OF v live same]
  have fields: "run_Status run' = st" "run_UpdatedAt run' = at" "run_CreatedAt run' = run_CreatedAt run"
    "run_StartedAt run' = (if st = RunRunning \<and> run_StartedAt run = None then Some at else run_StartedAt run)"
    "run_FinishedAt run' = (if RunStatus_Terminal st then Some at else run_FinishedAt run)"
    "run_CancellationRequestedAt run' = run_CancellationRequestedAt run"
    "run_IdempotencyKey run' = run_IdempotencyKey run" "run_TriggerEventID run' = run_TriggerEventID run"
    "run_SubscriptionConnectionID run' = run_SubscriptionConnectionID run"
    "run_LocalCapacityAssociation run' = run_LocalCapacityAssociation run"
    "run_ID run' = run_ID run" "run_TenantID run' = run_TenantID run" "run_SessionID run' = run_SessionID run"
    using t by (auto simp: Run_Transition_def Let_def split: if_splits)
  show ?thesis
    using v live at CanTransitionRun_Valid [OF can]
    by (auto simp: Run_Validate_def fields ev when_set_None_iff split: if_splits)
qed

lemma Run_RequestCancellation_valid:
  assumes v: "Run_Validate run = None" and t: "Run_RequestCancellation (Some run) at = (Some run', None)"
  shows "Run_Validate run' = None"
proof -
  have live: "\<not> RunStatus_Terminal (run_Status run)" and at: "run_CreatedAt run \<le> at"
    and run': "run' = run \<or> run_CancellationRequestedAt run = None \<and> run' = run\<lparr>run_CancellationRequestedAt := Some at\<rparr>"
    using t by (auto simp: Run_RequestCancellation_def split: if_splits)
  show ?thesis
  proof (cases "run' = run")
    case False
    then have r: "run' = run\<lparr>run_CancellationRequestedAt := Some at\<rparr>" using run' by blast
    have same: "same_identity run run'" by (simp add: r same_identity_def)
    note ev = evidence_for_live_run [OF v live same]
    show ?thesis using v at live ev by (simp add: Run_Validate_def r)
  qed (use v in simp)
qed

interpretation run_machine: status_machine run_Status run_UpdatedAt CanTransitionRun RunStatus_Terminal
  Run_Transition "\<lambda>run. Run_Validate run = None"
proof unfold_locales
  show "\<exists>e. Run_Transition None st at = (None, Some e)" for st at
    by (simp add: Run_Transition_def)
  show "CanTransitionRun (run_Status s) st \<Longrightarrow> run_UpdatedAt s \<le> at \<Longrightarrow>
      \<exists>s'. Run_Transition (Some s) st at = (Some s', None) \<and> run_Status s' = st \<and> run_UpdatedAt s' = at" for s st at
    by (auto simp: Run_Transition_def Let_def)
  show "\<not> (CanTransitionRun (run_Status s) st \<and> run_UpdatedAt s \<le> at) \<Longrightarrow>
      \<exists>e. Run_Transition (Some s) st at = (Some s, Some e)" for s st at
    by (auto simp: Run_Transition_def)
qed (auto intro: Run_Transition_valid dest: terminal_run_stuck)

lemma Attempt_Transition_valid:
  assumes "Attempt_ValidateForRun a run = None" "Attempt_Transition (Some a) st at = (Some a', None)"
  shows "Attempt_ValidateForRun a' run = None"
proof -
  have "CanTransitionAttempt (att_Status a) st" "att_UpdatedAt a \<le> at"
    and a': "a' = (if AttemptStatus_Terminal st then a\<lparr>att_Status := st, att_UpdatedAt := at, att_FinishedAt := Some at\<rparr>
            else a\<lparr>att_Status := st, att_UpdatedAt := at\<rparr>)"
    using assms(2) by (auto simp: Attempt_Transition_def Let_def split: if_splits)
  moreover have "AttemptStatus_Valid st \<and> \<not> AttemptStatus_Terminal (att_Status a)"
    using calculation(1)
    by (cases "att_Status a") (auto simp: AttemptStatus_Valid_def AttemptStatus_Terminal_def)
  ultimately show ?thesis
    using assms(1) by (auto simp: Attempt_ValidateForRun_def a')
qed

interpretation attempt_machine: status_machine att_Status att_UpdatedAt CanTransitionAttempt
  AttemptStatus_Terminal Attempt_Transition "\<lambda>a. Attempt_ValidateForRun a run = None" for run
proof unfold_locales
  show "\<exists>e. Attempt_Transition None st at = (None, Some e)" for st at
    by (simp add: Attempt_Transition_def)
  show "CanTransitionAttempt (att_Status s) st \<Longrightarrow> att_UpdatedAt s \<le> at \<Longrightarrow>
      \<exists>s'. Attempt_Transition (Some s) st at = (Some s', None) \<and> att_Status s' = st \<and> att_UpdatedAt s' = at" for s st at
    by (auto simp: Attempt_Transition_def Let_def)
  show "\<not> (CanTransitionAttempt (att_Status s) st \<and> att_UpdatedAt s \<le> at) \<Longrightarrow>
      \<exists>e. Attempt_Transition (Some s) st at = (Some s, Some e)" for s st at
    by (auto simp: Attempt_Transition_def)
  show "AttemptStatus_Terminal st \<Longrightarrow> \<not> CanTransitionAttempt st st'" for st st'
    by (auto simp: AttemptStatus_Terminal_def)
qed (rule Attempt_Transition_valid)

subsection \<open>Manifests\<close>

lemma manifest_artifacts_None:
  "manifest_artifacts run seen as = None \<longleftrightarrow>
     (\<forall>a \<in> set as. Artifact_Validate a = None \<and>
        HasPrefix (blob_Key (art_Blob a)) (SessionObjectPrefix (run_TenantID run) (run_SessionID run)) \<and>
        EnsureSameTenant (run_TenantID run) (blob_TenantID (art_Blob a)) = None) \<and>
     distinct (map art_Name as) \<and> set (map art_Name as) \<inter> set seen = {}"
  by (induction run seen as rule: manifest_artifacts.induct) auto

text \<open>
  C10: whatever sequence of transition requests a run receives, it stays valid, its status moves only along
  the transition table, \<open>UpdatedAt\<close> never runs backwards, and once the status is terminal nothing changes
  the run any more.
\<close>

theorem run_requests:
  assumes "Run_Validate run = None"
  shows "\<exists>run'. apply_requests Run_Transition (Some run) rs = Some run' \<and> Run_Validate run' = None \<and>
    CanTransitionRun\<^sup>*\<^sup>* (run_Status run) (run_Status run') \<and> run_UpdatedAt run \<le> run_UpdatedAt run' \<and>
    (RunStatus_Terminal (run_Status run) \<longrightarrow> run' = run)"
  using run_machine.requests_reach [of run rs] run_machine.terminal_requests [of run rs] assms by auto

definition ex_run :: Run where
  "ex_run = \<lparr>run_ID = ''r1'', run_TenantID = ''acme'', run_SessionID = ''s1'', run_TriggerEventID = ''e1'',
     run_SubscriptionConnectionID = ''sub1'', run_LocalCapacityAssociation = None, run_Status = RunRunning,
     run_IdempotencyKey = ''k1'', run_CancellationRequestedAt = None, run_StartedAt = Some 12, run_FinishedAt = None,
     run_CreatedAt = 10, run_UpdatedAt = 12, run_DerivedContext = None, run_TerminalCustody = None,
     run_TerminalFailure = None\<rparr>"

lemma ex_run_valid: "Run_Validate ex_run = None"
  by (simp add: Run_Validate_def ex_run_def validateCapacityIdentity_def RunStatus_Valid_def opaque_eval)

theorem run_requests_witness:
  "Run_Validate ex_run = None \<and>
   (\<exists>run'. apply_requests Run_Transition (Some ex_run) [(RunSucceeded, 11), (RunSucceeded, 20), (RunFailed, 30)] = Some run' \<and>
      run_Status run' = RunSucceeded \<and> run_UpdatedAt run' = 20 \<and> Run_Validate run' = None)"
proof -
  have "apply_requests Run_Transition (Some ex_run) [(RunSucceeded, 11), (RunSucceeded, 20), (RunFailed, 30)] =
      Some (ex_run\<lparr>run_Status := RunSucceeded, run_FinishedAt := Some 20, run_UpdatedAt := 20\<rparr>)"
    by (simp add: Run_Transition_def CanTransitionRun_def ex_run_def)
  then show ?thesis
    using run_requests [OF ex_run_valid, of "[(RunSucceeded, 11), (RunSucceeded, 20), (RunFailed, 30)]"] ex_run_valid by simp
qed

text \<open>
  A cancellation request recorded on a valid run leaves a valid run whose status has not
  changed, and keeps the time of the first request.
\<close>

lemma run_cancellation:
  assumes "Run_Validate run = None" "Run_RequestCancellation (Some run) at = (Some run', None)"
  shows "Run_Validate run' = None \<and> run_Status run' = run_Status run \<and>
    run_CancellationRequestedAt run' =
      (if run_CancellationRequestedAt run = None then Some at else run_CancellationRequestedAt run)"
  using Run_RequestCancellation_valid [OF assms] assms(2)
  by (auto simp: Run_RequestCancellation_def split: if_splits option.splits)

text \<open>
  An attempt of a run stays valid under every sequence of transition requests, follows its
  transition table, and is final once its status is terminal.
\<close>

lemma attempt_requests:
  assumes "Attempt_ValidateForRun a run = None"
  shows "\<exists>a'. apply_requests Attempt_Transition (Some a) rs = Some a' \<and> Attempt_ValidateForRun a' run = None \<and>
    CanTransitionAttempt\<^sup>*\<^sup>* (att_Status a) (att_Status a') \<and> (AttemptStatus_Terminal (att_Status a) \<longrightarrow> a' = a)"
  using attempt_machine.requests_reach [of a rs run] attempt_machine.terminal_requests [of a rs] assms by auto

end
