(* ===== verification/Sessions.thy ===== *)
theory Sessions
  imports Runs
begin

text \<open>
  Sessions: \<open>internal/domain/session.go\<close> and \<open>session_display.go\<close>. The canonical
  conversation and its archive state, participants and their rights, frontend bindings with
  compare-and-swap revisions, the append-only event log, snapshots and the context handed to a
  worker.
\<close>

subsection \<open>Sessions\<close>

datatype SessionStatus = SessionActive | SessionArchived | SessionStatusOther string

definition SessionStatus_Valid :: "SessionStatus \<Rightarrow> bool" where
  "SessionStatus_Valid status = (status = SessionActive \<or> status = SessionArchived)"

record Session =
  ses_ID :: SessionID
  ses_TenantID :: TenantID
  ses_CreatedBy :: UserID
  ses_Status :: SessionStatus
  ses_LastEventSequence :: u64
  ses_CreatedAt :: timestamp
  ses_UpdatedAt :: timestamp
  ses_ArchivedAt :: "timestamp option"

definition Session_Validate :: "Session \<Rightarrow> error option" where
  "Session_Validate session =
     first_error
       [SessionID_Validate (ses_ID session),
        TenantID_Validate (ses_TenantID session),
        UserID_Validate (ses_CreatedBy session),
        require (SessionStatus_Valid (ses_Status session)) (ValidationError ''session.status'' ''is unknown''),
        require (ses_CreatedAt session \<noteq> 0) (ValidationError ''session.created_at'' ''must not be zero''),
        require (\<not> ses_UpdatedAt session < ses_CreatedAt session)
          (ValidationError ''session.updated_at'' ''must not be before created_at''),
        require (\<not> (ses_Status session = SessionArchived \<and> ses_ArchivedAt session = None))
          (ValidationError ''session.archived_at'' ''is required for an archived session''),
        require (\<not> (ses_Status session = SessionActive \<and> ses_ArchivedAt session \<noteq> None))
          (ValidationError ''session.archived_at'' ''is allowed only for an archived session'')]"

definition Session_Archive :: "Session option \<Rightarrow> timestamp \<Rightarrow> Session option outcome" where
  "Session_Archive p at =
     (case p of
        None \<Rightarrow> (None, Some (ValidationError ''session'' ''must not be nil''))
      | Some session \<Rightarrow>
          (case Session_Validate session of
             Some err \<Rightarrow> (Some session, Some err)
           | None \<Rightarrow>
               if ses_Status session = SessionArchived then (Some session, None)
               else if at < ses_UpdatedAt session
               then (Some session, Some (ValidationError ''session.updated_at'' ''transition time must not move backwards''))
               else (Some (session\<lparr>ses_Status := SessionArchived, ses_UpdatedAt := at, ses_ArchivedAt := Some at\<rparr>), None)))"

definition Session_Unarchive :: "Session option \<Rightarrow> timestamp \<Rightarrow> Session option outcome" where
  "Session_Unarchive p at =
     (case p of
        None \<Rightarrow> (None, Some (ValidationError ''session'' ''must not be nil''))
      | Some session \<Rightarrow>
          (case Session_Validate session of
             Some err \<Rightarrow> (Some session, Some err)
           | None \<Rightarrow>
               if ses_Status session = SessionActive then (Some session, None)
               else if at < ses_UpdatedAt session
               then (Some session, Some (ValidationError ''session.updated_at'' ''transition time must not move backwards''))
               else (Some (session\<lparr>ses_Status := SessionActive, ses_UpdatedAt := at, ses_ArchivedAt := None\<rparr>), None)))"

subsection \<open>Participants\<close>

datatype SessionParticipantRole =
    SessionParticipantOwner | SessionParticipantMember | SessionParticipantViewer
  | SessionParticipantRoleOther string

datatype SessionParticipantStatus =
    SessionParticipantActive | SessionParticipantRemoved | SessionParticipantStatusOther string




subsection \<open>Frontend bindings\<close>

record FrontendBinding =
  bind_ID :: FrontendBindingID
  bind_TenantID :: TenantID
  bind_Frontend :: Frontend
  bind_ExternalConversationID :: string
  bind_SessionID :: SessionID
  bind_Revision :: u64
  bind_CreatedAt :: timestamp
  bind_UpdatedAt :: timestamp

definition FrontendBinding_Validate :: "FrontendBinding \<Rightarrow> error option" where
  "FrontendBinding_Validate binding =
     first_error
       [FrontendBindingID_Validate (bind_ID binding),
        TenantID_Validate (bind_TenantID binding),
        Frontend_Validate (bind_Frontend binding),
        require (TrimSpace (bind_ExternalConversationID binding) \<noteq> '''')
          (ValidationError ''frontend_binding.external_conversation_id'' ''must not be empty''),
        SessionID_Validate (bind_SessionID binding),
        require (bind_Revision binding \<noteq> 0) (ValidationError ''frontend_binding.revision'' ''must be positive''),
        require (\<not> (bind_CreatedAt binding = 0 \<or> bind_UpdatedAt binding < bind_CreatedAt binding))
          (ValidationError ''frontend_binding.updated_at'' ''must not be before created_at'')]"

definition FrontendBinding_Switch ::
    "FrontendBinding option \<Rightarrow> u64 \<Rightarrow> SessionID \<Rightarrow> timestamp \<Rightarrow> FrontendBinding option outcome" where
  "FrontendBinding_Switch p expected sessionID at =
     (case p of
        None \<Rightarrow> (None, Some (ValidationError ''frontend_binding'' ''must not be nil''))
      | Some binding \<Rightarrow>
          (case first_error
             [FrontendBinding_Validate binding,
              require (bind_Revision binding = expected) (StaleBindingError expected (bind_Revision binding)),
              SessionID_Validate sessionID,
              require (\<not> at < bind_UpdatedAt binding)
                (ValidationError ''frontend_binding.updated_at'' ''switch time must not move backwards'')] of
             Some err \<Rightarrow> (Some binding, Some err)
           | None \<Rightarrow> (Some (binding\<lparr>bind_SessionID := sessionID, bind_Revision := bind_Revision binding + 1,
               bind_UpdatedAt := at\<rparr>), None)))"

subsection \<open>Events\<close>

datatype SessionEventKind =
    SessionEventUserMessage | SessionEventAssistantMessage | SessionEventToolCall
  | SessionEventToolResult | SessionEventSystemNotice | SessionEventKindOther string

definition SessionEventKind_Valid :: "SessionEventKind \<Rightarrow> bool" where
  "SessionEventKind_Valid kind = (case kind of SessionEventKindOther _ \<Rightarrow> False | _ \<Rightarrow> True)"

record SessionEvent =
  ev_ID :: SessionEventID
  ev_TenantID :: TenantID
  ev_SessionID :: SessionID
  ev_Sequence :: u64
  ev_Kind :: SessionEventKind
  ev_AuthorUserID :: "UserID option"
  ev_RunID :: "RunID option"
  ev_IdempotencyKey :: IdempotencyKey
  ev_Payload :: BlobRef
  ev_CreatedAt :: timestamp

definition SessionEvent_validateMaterialScope :: "SessionEvent \<Rightarrow> error option" where
  "SessionEvent_validateMaterialScope event =
     first_error
       [SessionEventID_Validate (ev_ID event),
        TenantID_Validate (ev_TenantID event),
        SessionID_Validate (ev_SessionID event)]"

definition SessionEvent_validateMaterialBody :: "SessionEvent \<Rightarrow> error option" where
  "SessionEvent_validateMaterialBody event =
     first_error
       [require (SessionEventKind_Valid (ev_Kind event)) (ValidationError ''session_event.kind'' ''is unknown''),
        when_set (ev_AuthorUserID event) UserID_Validate,
        when_set (ev_RunID event) RunID_Validate,
        require (\<not> (ev_Kind event = SessionEventUserMessage \<and> ev_AuthorUserID event = None))
          (ValidationError ''session_event.author_user_id'' ''is required for a user message''),
        require (\<not> ((ev_Kind event = SessionEventAssistantMessage \<or> ev_Kind event = SessionEventToolCall \<or>
            ev_Kind event = SessionEventToolResult) \<and> ev_RunID event = None))
          (ValidationError ''session_event.run_id'' ''is required for assistant and tool events''),
        IdempotencyKey_Validate (ev_IdempotencyKey event),
        ValidateSessionEventBlob (ev_TenantID event) (ev_SessionID event) (ev_ID event) (ev_Payload event)]"

definition SessionEvent_Validate :: "SessionEvent \<Rightarrow> error option" where
  "SessionEvent_Validate event =
     first_error
       [SessionEvent_validateMaterialScope event,
        require (ev_Sequence event \<noteq> 0) (ValidationError ''session_event.sequence'' ''must be positive''),
        SessionEvent_validateMaterialBody event,
        require (ev_CreatedAt event \<noteq> 0) (ValidationError ''session_event.created_at'' ''must not be zero'')]"

definition SessionEvent_ValidateMaterialIdentity :: "SessionEvent \<Rightarrow> error option" where
  "SessionEvent_ValidateMaterialIdentity event =
     first_error [SessionEvent_validateMaterialScope event, SessionEvent_validateMaterialBody event]"

definition equalUserID :: "UserID option \<Rightarrow> UserID option \<Rightarrow> bool" where
  "equalUserID left right =
     (left = None \<and> right = None \<or> left \<noteq> None \<and> right \<noteq> None \<and> the left = the right)"

definition equalRunID :: "RunID option \<Rightarrow> RunID option \<Rightarrow> bool" where
  "equalRunID left right =
     (left = None \<and> right = None \<or> left \<noteq> None \<and> right \<noteq> None \<and> the left = the right)"

definition sameSessionEvent :: "SessionEvent \<Rightarrow> SessionEvent \<Rightarrow> bool" where
  "sameSessionEvent left right =
     (ev_ID left = ev_ID right \<and> ev_TenantID left = ev_TenantID right \<and>
      ev_SessionID left = ev_SessionID right \<and> ev_Sequence left = ev_Sequence right \<and>
      ev_Kind left = ev_Kind right \<and> equalUserID (ev_AuthorUserID left) (ev_AuthorUserID right) \<and>
      equalRunID (ev_RunID left) (ev_RunID right) \<and> ev_IdempotencyKey left = ev_IdempotencyKey right \<and>
      ev_Payload left = ev_Payload right \<and> ev_CreatedAt left = ev_CreatedAt right)"

definition AppendSessionEvent ::
    "Session option \<Rightarrow> SessionEvent \<Rightarrow> SessionEvent option \<Rightarrow> Session option \<times> bool \<times> error option" where
  "AppendSessionEvent p event existing =
     (case p of
        None \<Rightarrow> (None, False, Some (ValidationError ''session'' ''must not be nil''))
      | Some session \<Rightarrow>
          (case first_error
             [Session_Validate session,
              SessionEvent_Validate event,
              EnsureSameTenant (ses_TenantID session) (ev_TenantID event),
              require (ses_ID session = ev_SessionID event)
                (ValidationError ''session_event.session_id'' ''must reference the owning session'')] of
             Some err \<Rightarrow> (Some session, False, Some err)
           | None \<Rightarrow>
               (case existing of
                  Some prior \<Rightarrow>
                    if sameSessionEvent prior event then (Some session, False, None)
                    else (Some session, False, Some ErrEventIdempotencyConflict)
                | None \<Rightarrow>
                    if ses_Status session \<noteq> SessionActive
                    then (Some session, False, Some (ValidationError ''session.status'' ''must be active to append an event''))
                    else if ev_Sequence event \<noteq> ses_LastEventSequence session + 1
                    then (Some session, False,
                      Some (ValidationError ''session_event.sequence'' ''must be exactly the next session sequence''))
                    else if ev_CreatedAt event < ses_UpdatedAt session
                    then (Some session, False,
                      Some (ValidationError ''session_event.created_at'' ''must not move session time backwards''))
                    else (Some (session\<lparr>ses_LastEventSequence := ev_Sequence event,
                                         ses_UpdatedAt := ev_CreatedAt event\<rparr>), True, None))))"

subsection \<open>Snapshots and context\<close>

record SessionSnapshot =
  snap_ID :: SessionSnapshotID
  snap_TenantID :: TenantID
  snap_SessionID :: SessionID
  snap_Version :: u64
  snap_ThroughSequence :: u64
  snap_FormatVersion :: u32
  snap_Compression :: string
  snap_EventCount :: u64
  snap_UncompressedSize :: u64
  snap_Payload :: BlobRef
  snap_CreatedAt :: timestamp

definition SessionSnapshotFormatV1 :: u32 where "SessionSnapshotFormatV1 = 1"
definition SessionSnapshotCompressionZstandard :: string where "SessionSnapshotCompressionZstandard = ''zstd''"

definition SessionSnapshot_Validate :: "SessionSnapshot \<Rightarrow> error option" where
  "SessionSnapshot_Validate snapshot =
     first_error
       [SessionSnapshotID_Validate (snap_ID snapshot),
        TenantID_Validate (snap_TenantID snapshot),
        SessionID_Validate (snap_SessionID snapshot),
        require (snap_Version snapshot \<noteq> 0) (ValidationError ''session_snapshot.version'' ''must be positive''),
        require (\<not> (snap_ThroughSequence snapshot = 0 \<or> snap_EventCount snapshot \<noteq> snap_ThroughSequence snapshot))
          (ValidationError ''session_snapshot.event_count''
             ''format v1 must cover every event through the declared sequence''),
        require (snap_FormatVersion snapshot = SessionSnapshotFormatV1)
          (ValidationError ''session_snapshot.format_version'' ''is unsupported''),
        require (snap_Compression snapshot = SessionSnapshotCompressionZstandard)
          (ValidationError ''session_snapshot.compression'' ''is unsupported''),
        require (snap_UncompressedSize snapshot \<noteq> 0)
          (ValidationError ''session_snapshot.uncompressed_size'' ''must be positive''),
        ValidateSessionSnapshotBlob (snap_TenantID snapshot) (snap_SessionID snapshot) (snap_Version snapshot)
          (snap_Payload snapshot),
        require (snap_CreatedAt snapshot \<noteq> 0) (ValidationError ''session_snapshot.created_at'' ''must not be zero'')]"

record SessionContextWindow =
  win_SnapshotVersion :: "u64 option"
  win_AfterSequence :: u64
  win_ThroughSequence :: u64

definition SessionContextWindow_Validate :: "SessionContextWindow \<Rightarrow> error option" where
  "SessionContextWindow_Validate window =
     first_error
       [require (win_ThroughSequence window \<noteq> 0)
          (ValidationError ''session_context_window.through_sequence'' ''must be positive''),
        require (\<not> win_AfterSequence window > win_ThroughSequence window)
          (ValidationError ''session_context_window.after_sequence'' ''must not exceed through_sequence''),
        (case win_SnapshotVersion window of
           None \<Rightarrow> require (win_AfterSequence window = 0)
             (ValidationError ''session_context_window.after_sequence'' ''requires a snapshot version when positive'')
         | Some version \<Rightarrow> require (\<not> (version = 0 \<or> win_AfterSequence window = 0))
             (ValidationError ''session_context_window.snapshot_version''
                ''snapshot version and covered sequence must be positive together''))]"

record SessionContextInput =
  ctx_TenantID :: TenantID
  ctx_SessionID :: SessionID
  ctx_Snapshot :: "SessionSnapshot option"
  ctx_Events :: "SessionEvent list"

fun context_events :: "TenantID \<Rightarrow> SessionID \<Rightarrow> u64 \<Rightarrow> SessionEvent list \<Rightarrow> error option" where
  "context_events tenant session nxt [] = None"
| "context_events tenant session nxt (event # events) =
     first_error
       [SessionEvent_Validate event,
        require (\<not> (ev_TenantID event \<noteq> tenant \<or> ev_SessionID event \<noteq> session))
          (ValidationError ''session_context.events'' ''must belong to the requested tenant and session''),
        require (ev_Sequence event = nxt)
          (ValidationError ''session_context.events'' ''must form a contiguous ordered range after the snapshot''),
        context_events tenant session (nxt + 1) events]"

definition SessionContextInput_Validate :: "SessionContextInput \<Rightarrow> error option" where
  "SessionContextInput_Validate input =
     first_error
       [TenantID_Validate (ctx_TenantID input),
        SessionID_Validate (ctx_SessionID input),
        when_set (ctx_Snapshot input) (\<lambda>snapshot. first_error
          [SessionSnapshot_Validate snapshot,
           EnsureSameTenant (ctx_TenantID input) (snap_TenantID snapshot),
           require (snap_SessionID snapshot = ctx_SessionID input)
             (ValidationError ''session_context.snapshot'' ''must belong to the requested session'')]),
        context_events (ctx_TenantID input) (ctx_SessionID input)
          (case ctx_Snapshot input of None \<Rightarrow> 1 | Some snapshot \<Rightarrow> snap_ThroughSequence snapshot + 1)
          (ctx_Events input)]"

subsection \<open>Display rows\<close>

definition MaxSessionTitleRunes :: nat where "MaxSessionTitleRunes = 120"
definition MaxSessionPreviewRunes :: nat where "MaxSessionPreviewRunes = 280"

record SessionDisplay =
  disp_TenantID :: TenantID
  disp_SessionID :: SessionID
  disp_Title :: string
  disp_Preview :: string
  disp_Origin :: "Frontend option"
  disp_CurrentRunID :: "RunID option"
  disp_CurrentStatus :: "RunStatus option"
  disp_UpdatedAt :: timestamp

definition SessionDisplay_Validate :: "SessionDisplay \<Rightarrow> error option" where
  "SessionDisplay_Validate display =
     first_error
       [TenantID_Validate (disp_TenantID display),
        SessionID_Validate (disp_SessionID display),
        when_set (disp_Origin display) Frontend_Validate,
        (case disp_CurrentRunID display of
           Some runID \<Rightarrow> first_error
             [RunID_Validate runID,
              require (case disp_CurrentStatus display of None \<Rightarrow> False | Some s \<Rightarrow> RunStatus_Valid s)
                (ValidationError ''session_display.current_run_status'' ''is required with a current run'')]
         | None \<Rightarrow> require (disp_CurrentStatus display = None)
             (ValidationError ''session_display.current_run'' ''status requires a run ID'')),
        require (disp_UpdatedAt display \<noteq> 0) (ValidationError ''session_display.updated_at'' ''must not be zero''),
        require (\<not> (RuneCount (disp_Title display) > MaxSessionTitleRunes \<or>
            RuneCount (disp_Preview display) > MaxSessionPreviewRunes))
          (ValidationError ''session_display'' ''title or preview exceeds its bounded length'')]"

subsection \<open>Archiving\<close>

lemma Session_Archive_valid:
  "Session_Archive (Some s) at = (Some s', None) \<Longrightarrow>
     Session_Validate s' = None \<and> ses_Status s' = SessionArchived"
  by (auto simp: Session_Archive_def Session_Validate_def SessionStatus_Valid_def split: option.splits if_splits)

lemma Session_Unarchive_valid:
  "Session_Unarchive (Some s) at = (Some s', None) \<Longrightarrow>
     Session_Validate s' = None \<and> ses_Status s' = SessionActive"
  by (auto simp: Session_Unarchive_def Session_Validate_def SessionStatus_Valid_def split: option.splits if_splits)



subsection \<open>The event log\<close>

lemma AppendSessionEvent_appended:
  assumes "AppendSessionEvent (Some s) e ex = (Some s', True, None)"
  shows "Session_Validate s = None" and "SessionEvent_Validate e = None" and "ses_Status s = SessionActive"
    and "ev_TenantID e = ses_TenantID s" and "ev_SessionID e = ses_ID s"
    and "ev_Sequence e = ses_LastEventSequence s + 1" and "ses_UpdatedAt s \<le> ev_CreatedAt e"
    and "s' = s\<lparr>ses_LastEventSequence := ev_Sequence e, ses_UpdatedAt := ev_CreatedAt e\<rparr>"
  using assms by (auto simp: AppendSessionEvent_def split: option.splits if_splits)

lemma AppendSessionEvent_valid:
  "AppendSessionEvent (Some s) e ex = (Some s', True, None) \<Longrightarrow> Session_Validate s' = None"
  using AppendSessionEvent_appended [of s e ex s'] by (auto simp: Session_Validate_def)


text \<open>
  The histories a session can have when its store applies \<open>AppendSessionEvent\<close>,
  \<open>Archive\<close> and \<open>Unarchive\<close> and keeps every appended event.
\<close>

inductive session_log :: "Session \<Rightarrow> SessionEvent list \<Rightarrow> bool" where
  start: "Session_Validate s = None \<Longrightarrow> ses_LastEventSequence s = 0 \<Longrightarrow> session_log s []"
| append: "session_log s es \<Longrightarrow> AppendSessionEvent (Some s) e ex = (Some s', True, None) \<Longrightarrow>
     session_log s' (es @ [e])"
| archive: "session_log s es \<Longrightarrow> Session_Archive (Some s) at = (Some s', None) \<Longrightarrow> session_log s' es"
| unarchive: "session_log s es \<Longrightarrow> Session_Unarchive (Some s) at = (Some s', None) \<Longrightarrow> session_log s' es"

lemma session_log_valid: "session_log s es \<Longrightarrow> Session_Validate s = None"
  by (induction rule: session_log.induct)
     (auto dest: AppendSessionEvent_valid Session_Archive_valid Session_Unarchive_valid)




subsection \<open>Bindings\<close>

lemma FrontendBinding_Switch_ok:
  assumes "FrontendBinding_Switch (Some b) r s at = (Some b', None)"
  shows "FrontendBinding_Validate b = None" and "bind_Revision b = r" and "opaque_id s"
    and "bind_UpdatedAt b \<le> at" and "b' = b\<lparr>bind_SessionID := s, bind_Revision := r + 1, bind_UpdatedAt := at\<rparr>"
  using assms by (auto simp: FrontendBinding_Switch_def split: option.splits)

lemma FrontendBinding_Switch_error:
  "FrontendBinding_Switch p r s at = (p', Some e) \<Longrightarrow> p' = p"
  by (auto simp: FrontendBinding_Switch_def split: option.splits)











text \<open>
  C30: switching a frontend binding succeeds only at the expected revision, installs the new
  session and the next revision, and makes every other switch that expected the same revision fail without effect.
  The binding stays valid unless the 64-bit revision wraps.
\<close>

theorem switch_is_compare_and_swap:
  assumes "FrontendBinding_Switch (Some b) r s at = (Some b', None)"
  shows "bind_Revision b = r \<and> bind_SessionID b' = s \<and> bind_Revision b' = r + 1 \<and>
    (FrontendBinding_Validate b' = None \<longleftrightarrow> r + 1 \<noteq> 0) \<and>
    (\<exists>err. FrontendBinding_Switch (Some b') r s2 at2 = (Some b', Some err))"
proof -
  note f = FrontendBinding_Switch_ok [OF assms]
  have ne: "r \<noteq> r + 1" by simp
  have v: "FrontendBinding_Validate b' = None \<longleftrightarrow> r + 1 \<noteq> 0"
    using f by (auto simp: FrontendBinding_Validate_def)
  have "\<exists>err. FrontendBinding_Switch (Some b') r s2 at2 = (Some b', Some err)"
    using f(5) ne by (auto simp: FrontendBinding_Switch_def require_def split: option.splits)
  then show ?thesis using f v by simp
qed

definition ex_binding_row :: FrontendBinding where
  "ex_binding_row = \<lparr>bind_ID = ''b1'', bind_TenantID = ''acme'', bind_Frontend = ''telegram'',
     bind_ExternalConversationID = ''42'', bind_SessionID = ''s1'', bind_Revision = 7, bind_CreatedAt = 10,
     bind_UpdatedAt = 11\<rparr>"

theorem switch_is_compare_and_swap_witness:
  "\<exists>b'. FrontendBinding_Switch (Some ex_binding_row) 7 ''s2'' 12 = (Some b', None) \<and> bind_SessionID b' = ''s2'' \<and>
     bind_Revision b' = 8 \<and> (\<exists>err. FrontendBinding_Switch (Some b') 7 ''s3'' 13 = (Some b', Some err))"
proof -
  have "FrontendBinding_Validate ex_binding_row = None" "SessionID_Validate ''s2'' = None" by code_simp+
  then have "FrontendBinding_Switch (Some ex_binding_row) 7 ''s2'' 12 =
      (Some (ex_binding_row\<lparr>bind_SessionID := ''s2'', bind_Revision := 8, bind_UpdatedAt := 12\<rparr>), None)"
    by (simp add: FrontendBinding_Switch_def del: id_Validate_None) (simp add: ex_binding_row_def)
  then show ?thesis using switch_is_compare_and_swap by fastforce
qed


end
