(* ===== verification/Deletion.thy ===== *)
theory Deletion
  imports Sessions "HOL-Library.Char_ord" "HOL-Library.List_Lexorder" "HOL-Library.Multiset"
begin

text \<open>
  Removal of a session: \<open>internal/domain/session_lifecycle.go\<close> and
  \<open>session_deletion_verification.go\<close>. The deletion tombstone and its state machine, legal
  holds, the inventory of objects and rows that a deletion removes, and the retained
  verification that commits to request and inventory by digest.
\<close>

subsection \<open>Tombstones and retained verification\<close>

datatype SessionDeletionState =
    SessionDeletionRequested | SessionDeletionDeleting | SessionDeletionCompleted
  | SessionDeletionStateOther string

definition SessionDeletionState_Valid :: "SessionDeletionState \<Rightarrow> bool" where
  "SessionDeletionState_Valid state = (case state of SessionDeletionStateOther _ \<Rightarrow> False | _ \<Rightarrow> True)"

record RetainedDeletionVerificationV1 =
  rdv_Schema :: string
  rdv_TenantID :: TenantID
  rdv_SessionID :: SessionID
  rdv_RequestDigest :: string
  rdv_MetadataDigest :: string
  rdv_InventoryDigest :: string
  rdv_Rows :: u64
  rdv_Objects :: u64
  rdv_Bytes :: u64
  rdv_VerifiedRuns :: u64
  rdv_VerifiedAt :: timestamp

record SessionDeletion =
  del_TenantID :: TenantID
  del_SessionID :: SessionID
  del_RequestedBy :: UserID
  del_Reason :: string
  del_State :: SessionDeletionState
  del_RequestedAt :: timestamp
  del_StartedAt :: "timestamp option"
  del_CompletedAt :: "timestamp option"
  del_DeletedObjects :: u64
  del_DeletedBytes :: u64
  del_RetainedVerification :: "RetainedDeletionVerificationV1 option"

definition retainedDeletionError :: error where
  "retainedDeletionError = ValidationError ''session_deletion.retained_verification''
     ''requires the bounded original request and exact retained inventory commitment''"

definition SessionDeletionRequestDigestV1 :: "SessionDeletion \<Rightarrow> error + string" where
  "SessionDeletionRequestDigestV1 d =
     (if TenantID_Validate (del_TenantID d) \<noteq> None \<or> SessionID_Validate (del_SessionID d) \<noteq> None \<or>
         UserID_Validate (del_RequestedBy d) \<noteq> None \<or> del_RequestedAt d = 0 \<or> length (del_Reason d) = 0 \<or>
         length (del_Reason d) > 1024
      then Inl retainedDeletionError
      else if \<not> time_marshals (del_RequestedAt d) then Inl retainedDeletionError
      else Inr (terminalHash (''sessionless.retained-deletion-request.v1'' @ [char_of (0::nat)])
        (json_Marshal (JObj
          [(''Tenant'', JStr (del_TenantID d)), (''Session'', JStr (del_SessionID d)),
           (''Owner'', JStr (del_RequestedBy d)), (''Reason'', JStr (del_Reason d)),
           (''RequestedAt'', JTime (del_RequestedAt d))]))))"

definition RetainedDeletionVerificationV1_validate :: "RetainedDeletionVerificationV1 \<Rightarrow> error option" where
  "RetainedDeletionVerificationV1_validate v =
     require (\<not> (rdv_Schema v \<noteq> ''sessionless.retained-deletion.v1'' \<or> TenantID_Validate (rdv_TenantID v) \<noteq> None \<or>
         SessionID_Validate (rdv_SessionID v) \<noteq> None \<or> \<not> derivedDigestValid (rdv_RequestDigest v) \<or>
         \<not> derivedDigestValid (rdv_MetadataDigest v) \<or> \<not> derivedDigestValid (rdv_InventoryDigest v) \<or>
         rdv_Rows v > 10000 \<or> rdv_Objects v > 10000 \<or> rdv_VerifiedRuns v = 0 \<or> rdv_VerifiedRuns v > rdv_Rows v \<or>
         rdv_VerifiedAt v = 0 \<or> rdv_VerifiedAt v mod 1000 \<noteq> 0 \<or> \<not> year_in_range (rdv_VerifiedAt v) \<or>
         rdv_Bytes v > 0x7FFFFFFFFFFFFFFF)) retainedDeletionError"

definition RetainedDeletionVerificationV1_ValidateForDeletion ::
    "RetainedDeletionVerificationV1 \<Rightarrow> SessionDeletion \<Rightarrow> error option" where
  "RetainedDeletionVerificationV1_ValidateForDeletion v d =
     first_error
       [require (SessionDeletionRequestDigestV1 d = Inr (rdv_RequestDigest v) \<and>
           RetainedDeletionVerificationV1_validate v = None \<and> rdv_TenantID v = del_TenantID d \<and>
           rdv_SessionID v = del_SessionID d \<and> del_State d \<noteq> SessionDeletionRequested \<and>
           \<not> rdv_VerifiedAt v < del_RequestedAt d \<and> del_StartedAt d = Some (rdv_VerifiedAt v)) retainedDeletionError,
        require (\<not> (del_State d = SessionDeletionCompleted \<and>
           (del_DeletedObjects d \<noteq> rdv_Objects v \<or> del_DeletedBytes d \<noteq> rdv_Bytes v))) retainedDeletionError]"

definition SessionDeletion_Validate :: "SessionDeletion \<Rightarrow> error option" where
  "SessionDeletion_Validate deletion =
     first_error
       [TenantID_Validate (del_TenantID deletion),
        SessionID_Validate (del_SessionID deletion),
        UserID_Validate (del_RequestedBy deletion),
        require (\<not> (TrimSpace (del_Reason deletion) = '''' \<or> length (del_Reason deletion) > 1024))
          (ValidationError ''session_deletion.reason'' ''must contain 1 to 1024 characters''),
        require (SessionDeletionState_Valid (del_State deletion)) (ValidationError ''session_deletion.state'' ''is unknown''),
        require (del_RequestedAt deletion \<noteq> 0) (ValidationError ''session_deletion.requested_at'' ''must not be zero''),
        when_set (del_RetainedVerification deletion) (\<lambda>v.
          require (RetainedDeletionVerificationV1_ValidateForDeletion v deletion = None) retainedDeletionError),
        (case del_State deletion of
           SessionDeletionRequested \<Rightarrow>
             require (\<not> (del_StartedAt deletion \<noteq> None \<or> del_CompletedAt deletion \<noteq> None \<or>
                 del_DeletedObjects deletion \<noteq> 0 \<or> del_DeletedBytes deletion \<noteq> 0))
               (ValidationError ''session_deletion'' ''requested deletion must not contain execution results'')
         | SessionDeletionDeleting \<Rightarrow>
             require (\<not> ((case del_StartedAt deletion of None \<Rightarrow> True | Some s \<Rightarrow> s < del_RequestedAt deletion) \<or>
                 del_CompletedAt deletion \<noteq> None))
               (ValidationError ''session_deletion.started_at'' ''must follow the request while deleting'')
         | SessionDeletionCompleted \<Rightarrow>
             require (case (del_StartedAt deletion, del_CompletedAt deletion) of
                 (Some s, Some c) \<Rightarrow> \<not> (s < del_RequestedAt deletion \<or> c < s)
               | _ \<Rightarrow> False)
               (ValidationError ''session_deletion.completed_at'' ''must follow deletion start'')
         | SessionDeletionStateOther _ \<Rightarrow> None)]"

definition SessionDeletion_Start :: "SessionDeletion option \<Rightarrow> timestamp \<Rightarrow> SessionDeletion option outcome" where
  "SessionDeletion_Start p at =
     (case p of
        None \<Rightarrow> (None, Some (ValidationError ''session_deletion'' ''must not be nil''))
      | Some deletion \<Rightarrow>
          (case SessionDeletion_Validate deletion of
             Some err \<Rightarrow> (Some deletion, Some err)
           | None \<Rightarrow>
               if del_State deletion = SessionDeletionDeleting \<or> del_State deletion = SessionDeletionCompleted
               then (Some deletion, None)
               else if at < del_RequestedAt deletion
               then (Some deletion, Some (ValidationError ''session_deletion.started_at'' ''must not precede the request''))
               else (Some (deletion\<lparr>del_State := SessionDeletionDeleting, del_StartedAt := Some at\<rparr>), None)))"

definition SessionDeletion_Complete ::
    "SessionDeletion option \<Rightarrow> timestamp \<Rightarrow> u64 \<Rightarrow> u64 \<Rightarrow> SessionDeletion option outcome" where
  "SessionDeletion_Complete p at deletedObjects deletedBytes =
     (case p of
        None \<Rightarrow> (None, Some (ValidationError ''session_deletion'' ''must not be nil''))
      | Some deletion \<Rightarrow>
          (case SessionDeletion_Validate deletion of
             Some err \<Rightarrow> (Some deletion, Some err)
           | None \<Rightarrow>
               if del_State deletion = SessionDeletionCompleted
               then if del_DeletedObjects deletion = deletedObjects \<and> del_DeletedBytes deletion = deletedBytes
                    then (Some deletion, None)
                    else (Some deletion, Some (PlainError ''session deletion completion conflicts with the durable tombstone''))
               else if del_State deletion \<noteq> SessionDeletionDeleting \<or>
                    (case del_StartedAt deletion of None \<Rightarrow> True | Some s \<Rightarrow> at < s)
               then (Some deletion, Some (ValidationError ''session_deletion.completed_at''
                 ''requires a started deletion and monotonic time''))
               else (Some (deletion\<lparr>del_State := SessionDeletionCompleted, del_CompletedAt := Some at,
                 del_DeletedObjects := deletedObjects, del_DeletedBytes := deletedBytes\<rparr>), None)))"

subsection \<open>Legal holds\<close>

datatype SessionLegalHoldState =
  SessionLegalHoldActive | SessionLegalHoldReleased | SessionLegalHoldStateOther string

record SessionLegalHold =
  hold_TenantID :: TenantID
  hold_SessionID :: SessionID
  hold_State :: SessionLegalHoldState
  hold_Reason :: string
  hold_SetBy :: UserID
  hold_SetAt :: timestamp
  hold_ReleasedBy :: "UserID option"
  hold_ReleasedAt :: "timestamp option"

definition SessionLegalHold_Validate :: "SessionLegalHold \<Rightarrow> error option" where
  "SessionLegalHold_Validate hold =
     first_error
       [TenantID_Validate (hold_TenantID hold),
        SessionID_Validate (hold_SessionID hold),
        UserID_Validate (hold_SetBy hold),
        require (\<not> (TrimSpace (hold_Reason hold) = '''' \<or> length (hold_Reason hold) > 1024))
          (ValidationError ''session_legal_hold.reason'' ''must contain 1 to 1024 characters''),
        require (hold_SetAt hold \<noteq> 0) (ValidationError ''session_legal_hold.set_at'' ''must not be zero''),
        (case hold_State hold of
           SessionLegalHoldActive \<Rightarrow>
             require (\<not> (hold_ReleasedBy hold \<noteq> None \<or> hold_ReleasedAt hold \<noteq> None))
               (ValidationError ''session_legal_hold.release'' ''is allowed only for a released hold'')
         | SessionLegalHoldReleased \<Rightarrow>
             (case (hold_ReleasedBy hold, hold_ReleasedAt hold) of
                (Some by', Some at) \<Rightarrow> first_error
                  [require (\<not> at < hold_SetAt hold)
                     (ValidationError ''session_legal_hold.release'' ''must identify a monotonic release''),
                   UserID_Validate by']
              | _ \<Rightarrow> Some (ValidationError ''session_legal_hold.release'' ''must identify a monotonic release''))
         | SessionLegalHoldStateOther _ \<Rightarrow> Some (ValidationError ''session_legal_hold.state'' ''is unknown''))]"

definition SessionLegalHold_Release ::
    "SessionLegalHold option \<Rightarrow> UserID \<Rightarrow> timestamp \<Rightarrow> SessionLegalHold option outcome" where
  "SessionLegalHold_Release p userID at =
     (case p of
        None \<Rightarrow> (None, Some (ValidationError ''session_legal_hold'' ''must not be nil''))
      | Some hold \<Rightarrow>
          (case SessionLegalHold_Validate hold of
             Some err \<Rightarrow> (Some hold, Some err)
           | None \<Rightarrow>
               if hold_State hold = SessionLegalHoldReleased then (Some hold, None)
               else (case UserID_Validate userID of
                 Some err \<Rightarrow> (Some hold, Some err)
               | None \<Rightarrow>
                   if at < hold_SetAt hold
                   then (Some hold, Some (ValidationError ''session_legal_hold.released_at'' ''must not precede the hold''))
                   else (Some (hold\<lparr>hold_State := SessionLegalHoldReleased, hold_ReleasedBy := Some userID,
                     hold_ReleasedAt := Some at\<rparr>), None))))"

subsection \<open>Inventory\<close>

record SessionDeletionInventory =
  inv_TenantID :: TenantID
  inv_SessionID :: SessionID
  inv_Objects :: "BlobRef list"
  inv_EventRows :: u64
  inv_SnapshotRows :: u64
  inv_MaterialCurrentRows :: u64
  inv_MaterialBoundaryRows :: u64
  inv_MaterialSnapshotRows :: u64
  inv_RunRows :: u64
  inv_ManifestRows :: u64
  inv_DeliveryRows :: u64
  inv_CheckpointRows :: u64
  inv_ReceiptRows :: u64
  inv_ParticipantRows :: u64
  inv_OwnedAdmissionRows :: u64
  inv_BindingRows :: u64
  inv_ProjectionRows :: u64
  inv_RetainedRows :: u64
  inv_RunIDs :: "RunID list"
  inv_TotalBytes :: u64

fun inventory_runs :: "RunID list \<Rightarrow> RunID list \<Rightarrow> error option" where
  "inventory_runs seenRuns [] = None"
| "inventory_runs seenRuns (runID # rs) =
     first_error
       [RunID_Validate runID,
        require (runID \<notin> set seenRuns) (ValidationError ''session_deletion.run_ids'' ''contains duplicates''),
        inventory_runs (runID # seenRuns) rs]"

text \<open>The object loop with its accumulators: keys seen so far and the running byte count.\<close>

definition inventory_object ::
    "TenantID \<Rightarrow> string \<Rightarrow> string list \<Rightarrow> string list \<Rightarrow> u64 \<Rightarrow> BlobRef \<Rightarrow> error option" where
  "inventory_object tenant prefix runPrefixes seen bytes ref =
     first_error
        [BlobRef_Validate ref,
         EnsureSameTenant tenant (blob_TenantID ref),
         require (HasPrefix (blob_Key ref) prefix \<or> list_ex (HasPrefix (blob_Key ref)) runPrefixes)
           (ValidationError ''session_deletion.objects''
              (''must remain under '' @ quoted prefix @ '' or a proven legacy run prefix'')),
         require (blob_Key ref \<notin> set seen)
           (ValidationError ''session_deletion.objects'' ''contains duplicate object keys''),
         require (\<not> of_int (blob_Size ref) > MaxUint64 - bytes)
           (ValidationError ''session_deletion.total_bytes'' ''overflowed'')]"

fun inventory_objects ::
    "TenantID \<Rightarrow> string \<Rightarrow> string list \<Rightarrow> string list \<Rightarrow> u64 \<Rightarrow> BlobRef list \<Rightarrow> error + u64" where
  "inventory_objects tenant prefix runPrefixes seen bytes [] = Inr bytes"
| "inventory_objects tenant prefix runPrefixes seen bytes (ref # refs) =
     (case inventory_object tenant prefix runPrefixes seen bytes ref of
        Some err \<Rightarrow> Inl err
      | None \<Rightarrow> inventory_objects tenant prefix runPrefixes (blob_Key ref # seen) (bytes + of_int (blob_Size ref)) refs)"

definition SessionDeletionInventory_Validate :: "SessionDeletionInventory \<Rightarrow> u64 \<Rightarrow> error option" where
  "SessionDeletionInventory_Validate inventory maxObjects =
     first_error
       [TenantID_Validate (inv_TenantID inventory),
        SessionID_Validate (inv_SessionID inventory),
        require (\<not> (maxObjects = 0 \<or> of_nat (length (inv_Objects inventory)) > maxObjects))
          (ValidationError ''session_deletion.objects'' ''exceeds the configured exact-object bound''),
        inventory_runs [] (inv_RunIDs inventory),
        (case inventory_objects (inv_TenantID inventory)
            (SessionObjectPrefix (inv_TenantID inventory) (inv_SessionID inventory))
            (map (RunObjectPrefix (inv_TenantID inventory)) (inv_RunIDs inventory)) [] 0 (inv_Objects inventory) of
           Inl err \<Rightarrow> Some err
         | Inr bytes \<Rightarrow> require (bytes = inv_TotalBytes inventory)
             (ValidationError ''session_deletion.total_bytes'' ''does not match exact object metadata''))]"

definition inventory_row_counts :: "SessionDeletionInventory \<Rightarrow> u64 list" where
  "inventory_row_counts i =
     [inv_EventRows i, inv_SnapshotRows i, inv_MaterialCurrentRows i, inv_MaterialBoundaryRows i,
      inv_MaterialSnapshotRows i, inv_RunRows i, inv_ManifestRows i, inv_DeliveryRows i,
      inv_CheckpointRows i, inv_ReceiptRows i, inv_ParticipantRows i, inv_OwnedAdmissionRows i,
      inv_BindingRows i, inv_ProjectionRows i, inv_RetainedRows i]"

fun sum_rows :: "u64 \<Rightarrow> u64 list \<Rightarrow> error + u64" where
  "sum_rows n [] = Inr n"
| "sum_rows n (v # vs) = (if v > 10000 - n then Inl retainedDeletionError else sum_rows (n + v) vs)"

definition SessionDeletionInventoryRowsV1 :: "SessionDeletionInventory \<Rightarrow> error + u64" where
  "SessionDeletionInventoryRowsV1 i = sum_rows 0 (inventory_row_counts i)"

definition inventory_json :: "SessionDeletionInventory \<Rightarrow> json" where
  "inventory_json i = JObj
     ([(''tenant_id'', JStr (inv_TenantID i)), (''session_id'', JStr (inv_SessionID i)),
       (''objects'', if inv_Objects i = [] then JNull else JArr (map blob_json (inv_Objects i)))] @
      zip [''event_rows'', ''snapshot_rows'', ''material_current_rows'', ''material_boundary_rows'',
           ''material_snapshot_rows'', ''run_rows'', ''manifest_rows'', ''delivery_rows'',
           ''checkpoint_rows'', ''receipt_rows'', ''participant_rows'', ''owned_admission_rows'',
           ''binding_rows'', ''projection_rows'']
          (map (\<lambda>n. JNat (unat n)) (butlast (inventory_row_counts i))) @
      (if inv_RetainedRows i = 0 then [] else [(''retained_rows'', JNat (unat (inv_RetainedRows i)))]) @
      [(''run_ids'', if inv_RunIDs i = [] then JNull else JArr (map JStr (inv_RunIDs i))),
       (''total_bytes'', JNat (unat (inv_TotalBytes i)))])"

definition SessionDeletionInventoryDigestV1 :: "SessionDeletionInventory \<Rightarrow> error + string" where
  "SessionDeletionInventoryDigestV1 i =
     (if length (inv_Objects i) > 10000 \<or> length (inv_RunIDs i) > 10000 \<or>
         inv_RunRows i \<noteq> of_nat (length (inv_RunIDs i))
      then Inl retainedDeletionError
      else if SessionDeletionInventory_Validate i 10000 \<noteq> None then Inl retainedDeletionError
      else case SessionDeletionInventoryRowsV1 i of
        Inl err \<Rightarrow> Inl err
      | Inr _ \<Rightarrow>
          let i = i\<lparr>inv_Objects := sort_key blob_Key (inv_Objects i), inv_RunIDs := sort (inv_RunIDs i)\<rparr>
          in Inr (terminalHash (''sessionless.retained-deletion-inventory.v1'' @ [char_of (0::nat)])
               (json_Marshal (inventory_json i))))"

definition RetainedDeletionVerificationV1_ValidateInventory ::
    "RetainedDeletionVerificationV1 \<Rightarrow> SessionDeletion \<Rightarrow> SessionDeletionInventory \<Rightarrow> error option" where
  "RetainedDeletionVerificationV1_ValidateInventory v d i =
     require (RetainedDeletionVerificationV1_ValidateForDeletion v d = None \<and>
         SessionDeletionInventoryDigestV1 i = Inr (rdv_InventoryDigest v) \<and>
         SessionDeletionInventoryRowsV1 i = Inr (rdv_Rows v) \<and>
         rdv_Objects v = of_nat (length (inv_Objects i)) \<and> rdv_Bytes v = inv_TotalBytes i \<and>
         inv_TenantID i = del_TenantID d \<and> inv_SessionID i = del_SessionID d) retainedDeletionError"

subsection \<open>The tombstone's state machine\<close>

lemma requested_unverified:
  "SessionDeletion_Validate d = None \<Longrightarrow> del_State d = SessionDeletionRequested \<Longrightarrow> del_RetainedVerification d = None"
  by (cases "del_RetainedVerification d")
     (auto simp: SessionDeletion_Validate_def RetainedDeletionVerificationV1_ValidateForDeletion_def)

lemma SessionDeletion_Start_valid:
  assumes "SessionDeletion_Start (Some d) at = (Some d', None)"
  shows "SessionDeletion_Validate d' = None \<and> del_State d' \<noteq> SessionDeletionRequested"
proof -
  have v: "SessionDeletion_Validate d = None"
    using assms by (auto simp: SessionDeletion_Start_def split: option.splits)
  show ?thesis
  proof (cases "del_State d = SessionDeletionRequested")
    case True
    then have "d' = d\<lparr>del_State := SessionDeletionDeleting, del_StartedAt := Some at\<rparr>" "del_RequestedAt d \<le> at"
      using assms v by (auto simp: SessionDeletion_Start_def split: if_splits)
    then show ?thesis
      using v True requested_unverified [OF v True]
      by (auto simp: SessionDeletion_Validate_def SessionDeletionState_Valid_def)
  next
    case False
    then have "d' = d" using assms v
      by (cases "del_State d")
         (auto simp: SessionDeletion_Start_def SessionDeletion_Validate_def SessionDeletionState_Valid_def
           split: option.splits if_splits)
    then show ?thesis using v False by simp
  qed
qed

lemma request_digest_cong:
  "SessionDeletionRequestDigestV1 (d\<lparr>del_State := s, del_CompletedAt := c, del_DeletedObjects := n, del_DeletedBytes := b\<rparr>) =
     SessionDeletionRequestDigestV1 d"
  by (simp add: SessionDeletionRequestDigestV1_def)

text \<open>
  \<open>Complete\<close> keeps the tombstone valid exactly when the counts agree with the retained
  verification, if there is one.
\<close>

lemma SessionDeletion_Complete_valid:
  assumes "SessionDeletion_Complete (Some d) at n b = (Some d', None)"
  shows "SessionDeletion_Validate d' = None \<longleftrightarrow>
     (\<forall>v. del_RetainedVerification d = Some v \<longrightarrow> n = rdv_Objects v \<and> b = rdv_Bytes v)"
proof -
  have v: "SessionDeletion_Validate d = None"
    using assms by (auto simp: SessionDeletion_Complete_def split: option.splits)
  show ?thesis
  proof (cases "del_State d = SessionDeletionCompleted")
    case True
    then have "d' = d" "del_DeletedObjects d = n" "del_DeletedBytes d = b"
      using assms v by (auto simp: SessionDeletion_Complete_def split: if_splits)
    then show ?thesis
      using v True by (auto simp: SessionDeletion_Validate_def RetainedDeletionVerificationV1_ValidateForDeletion_def)
  next
    case False
    then obtain s where st: "del_State d = SessionDeletionDeleting" "del_StartedAt d = Some s" "s \<le> at"
      and d': "d' = d\<lparr>del_State := SessionDeletionCompleted, del_CompletedAt := Some at,
        del_DeletedObjects := n, del_DeletedBytes := b\<rparr>"
      using assms v by (auto simp: SessionDeletion_Complete_def split: if_splits option.splits)
    show ?thesis
      using v st
      by (auto simp: d' SessionDeletion_Validate_def SessionDeletionState_Valid_def when_set_None_iff
          RetainedDeletionVerificationV1_ValidateForDeletion_def request_digest_cong)
  qed
qed

subsection \<open>Inventories\<close>

lemma inventory_runs_None:
  "inventory_runs seen rs = None \<longleftrightarrow> list_all opaque_id rs \<and> distinct rs \<and> set rs \<inter> set seen = {}"
  by (induction seen rs rule: inventory_runs.induct) auto

definition object_allowed :: "TenantID \<Rightarrow> string \<Rightarrow> string list \<Rightarrow> BlobRef \<Rightarrow> bool" where
  "object_allowed tenant prefix runPrefixes ref =
     (BlobRef_Validate ref = None \<and> blob_TenantID ref = tenant \<and>
      (HasPrefix (blob_Key ref) prefix \<or> list_ex (HasPrefix (blob_Key ref)) runPrefixes))"

definition object_bytes :: "BlobRef \<Rightarrow> nat" where
  "object_bytes ref = nat (blob_Size ref)"

text \<open>Sizes are Go \<open>int64\<close> values.\<close>

definition int64_sizes :: "BlobRef list \<Rightarrow> bool" where
  "int64_sizes refs = list_all (\<lambda>ref. blob_Size ref < 2 ^ 63) refs"

lemma unat_size:
  assumes "BlobRef_Validate ref = None" "blob_Size ref < 2 ^ 63"
  shows "unat (of_int (blob_Size ref) :: u64) = object_bytes ref"
proof -
  have "0 \<le> blob_Size ref" using assms(1) by (simp add: BlobRef_Validate_None)
  then show ?thesis using assms(2) by (simp add: object_bytes_def unsigned_of_int take_bit_int_eq_self)
qed

lemma inventory_object_None:
  assumes "blob_Size ref < 2 ^ 63"
  shows "inventory_object tenant prefix ps seen bytes ref = None \<longleftrightarrow>
     object_allowed tenant prefix ps ref \<and> blob_Key ref \<notin> set seen \<and> unat bytes + object_bytes ref < 2 ^ 64"
proof (cases "object_allowed tenant prefix ps ref")
  case True
  then have "BlobRef_Validate ref = None" "tenant = blob_TenantID ref" "opaque_id tenant"
    by (auto simp: object_allowed_def BlobRef_Validate_None)
  then show ?thesis
    using True unat_size [OF _ assms]
    by (auto simp: inventory_object_def object_allowed_def overflow_iff)
qed (auto simp: inventory_object_def object_allowed_def)

lemma inventory_objects_Inr:
  assumes "int64_sizes refs"
  shows "inventory_objects tenant prefix ps seen bytes refs = Inr b \<longleftrightarrow>
     list_all (object_allowed tenant prefix ps) refs \<and> distinct (map blob_Key refs) \<and>
     set (map blob_Key refs) \<inter> set seen = {} \<and>
     unat bytes + sum_list (map object_bytes refs) < 2 ^ 64 \<and>
     unat b = unat bytes + sum_list (map object_bytes refs)"
  using assms
proof (induction refs arbitrary: seen bytes)
  case Nil
  then show ?case using unat_u64_less [of bytes] by (auto simp: word_unat_eq_iff)
next
  case (Cons ref refs)
  let ?s = "of_int (blob_Size ref) :: u64"
  have i: "int64_sizes refs" "blob_Size ref < 2 ^ 63" using Cons.prems by (auto simp: int64_sizes_def)
  show ?case
  proof (cases "inventory_object tenant prefix ps seen bytes ref")
    case None
    then have ok: "object_allowed tenant prefix ps ref" "blob_Key ref \<notin> set seen"
      "unat bytes + object_bytes ref < 2 ^ 64" using inventory_object_None [OF i(2)] by auto
    have "unat ?s = object_bytes ref" using unat_size i(2) ok(1) by (simp add: object_allowed_def)
    then have sum: "unat (bytes + ?s) = unat bytes + object_bytes ref"
      using ok(3) by (simp add: unat_add_exact)
    show ?thesis
      using Cons.IH [OF i(1), of "blob_Key ref # seen" "bytes + ?s"] None ok sum by auto
  next
    case (Some e)
    then have "\<not> (object_allowed tenant prefix ps ref \<and> blob_Key ref \<notin> set seen \<and>
        unat bytes + object_bytes ref < 2 ^ 64)" using inventory_object_None [OF i(2), of tenant prefix ps seen bytes] by simp
    then show ?thesis using Some by auto
  qed
qed

lemma Inventory_Validate_None:
  assumes "int64_sizes (inv_Objects i)"
  shows "SessionDeletionInventory_Validate i m = None \<longleftrightarrow>
     opaque_id (inv_TenantID i) \<and> opaque_id (inv_SessionID i) \<and> m \<noteq> 0 \<and>
     of_nat (length (inv_Objects i)) \<le> m \<and> list_all opaque_id (inv_RunIDs i) \<and> distinct (inv_RunIDs i) \<and>
     list_all (object_allowed (inv_TenantID i) (SessionObjectPrefix (inv_TenantID i) (inv_SessionID i))
       (map (RunObjectPrefix (inv_TenantID i)) (inv_RunIDs i))) (inv_Objects i) \<and>
     distinct (map blob_Key (inv_Objects i)) \<and>
     sum_list (map object_bytes (inv_Objects i)) = unat (inv_TotalBytes i)"
proof -
  let ?r = "inventory_objects (inv_TenantID i) (SessionObjectPrefix (inv_TenantID i) (inv_SessionID i))
       (map (RunObjectPrefix (inv_TenantID i)) (inv_RunIDs i)) [] 0 (inv_Objects i)"
  have "(case ?r of Inl err \<Rightarrow> Some err
      | Inr bytes \<Rightarrow> require (bytes = inv_TotalBytes i)
          (ValidationError ''session_deletion.total_bytes'' ''does not match exact object metadata'')) = None
     \<longleftrightarrow> ?r = Inr (inv_TotalBytes i)"
    by (auto split: sum.splits)
  moreover have "unat (inv_TotalBytes i) < 2 ^ 64" by (rule unat_u64_less)
  ultimately show ?thesis
    by (auto simp: SessionDeletionInventory_Validate_def inventory_runs_None
        inventory_objects_Inr [OF assms] not_less)
qed

subsection \<open>Row counts\<close>

lemma sum_rows_exact:
  "unat n \<le> 10000 \<Longrightarrow> sum_rows n vs = Inr m \<longleftrightarrow>
     unat n + sum_list (map unat vs) \<le> 10000 \<and> unat m = unat n + sum_list (map unat vs)"
proof (induction vs arbitrary: n)
  case (Cons v vs)
  have le: "n \<le> 10000" using Cons.prems by (simp add: word_le_nat_alt)
  then have sub: "unat (10000 - n) = 10000 - unat n" by (simp add: unat_sub)
  show ?case
  proof (cases "v > 10000 - n")
    case True
    then have "10000 - unat n < unat v" by (simp add: word_less_nat_alt sub)
    then show ?thesis using True by auto
  next
    case False
    then have v: "unat n + unat v \<le> 10000" using Cons.prems by (simp add: word_less_nat_alt sub)
    then have "unat (n + v) = unat n + unat v" by (simp add: unat_add_exact)
    then show ?thesis using False Cons.IH [of "n + v"] v by auto
  qed
qed (auto simp: word_unat_eq_iff)

subsection \<open>The digest does not depend on enumeration order\<close>

lemma sort_key_perm:
  assumes "mset xs = mset ys" "distinct (map k xs)"
  shows "sort_key k xs = sort_key k ys"
proof (rule sort_key_inj_key_eq)
  show "inj_on k (set xs)" using assms(2) by (simp add: distinct_map)
qed (use assms(1) in auto)

definition same_contents :: "SessionDeletionInventory \<Rightarrow> SessionDeletionInventory \<Rightarrow> bool" where
  "same_contents i j =
     (mset (inv_Objects i) = mset (inv_Objects j) \<and> mset (inv_RunIDs i) = mset (inv_RunIDs j) \<and>
      j = i\<lparr>inv_Objects := inv_Objects j, inv_RunIDs := inv_RunIDs j\<rparr>)"

lemma same_contents_fields:
  assumes "same_contents i j"
  shows "inv_TenantID j = inv_TenantID i" "inv_SessionID j = inv_SessionID i" "inv_RunRows j = inv_RunRows i"
    "inv_TotalBytes j = inv_TotalBytes i" "inventory_row_counts j = inventory_row_counts i"
    "length (inv_Objects j) = length (inv_Objects i)" "length (inv_RunIDs j) = length (inv_RunIDs i)"
    "set (inv_Objects j) = set (inv_Objects i)" "set (inv_RunIDs j) = set (inv_RunIDs i)"
proof -
  obtain os rs where j: "j = i\<lparr>inv_Objects := os, inv_RunIDs := rs\<rparr>" "mset os = mset (inv_Objects i)"
    "mset rs = mset (inv_RunIDs i)"
    using assms unfolding same_contents_def by metis
  then show "inv_TenantID j = inv_TenantID i" "inv_SessionID j = inv_SessionID i" "inv_RunRows j = inv_RunRows i"
    "inv_TotalBytes j = inv_TotalBytes i" "inventory_row_counts j = inventory_row_counts i"
    "length (inv_Objects j) = length (inv_Objects i)" "length (inv_RunIDs j) = length (inv_RunIDs i)"
    "set (inv_Objects j) = set (inv_Objects i)" "set (inv_RunIDs j) = set (inv_RunIDs i)"
    by (auto simp: inventory_row_counts_def dest: mset_eq_setD mset_eq_length)
qed

lemma same_contents_valid:
  assumes "same_contents i j" "int64_sizes (inv_Objects i)"
  shows "SessionDeletionInventory_Validate j m = None \<longleftrightarrow> SessionDeletionInventory_Validate i m = None"
proof -
  note f = same_contents_fields [OF assms(1)]
  have m: "mset (inv_Objects j) = mset (inv_Objects i)" "mset (inv_RunIDs j) = mset (inv_RunIDs i)"
    using assms(1) by (auto simp: same_contents_def)
  have i64: "int64_sizes (inv_Objects j)" using assms(2) f(8) by (simp add: int64_sizes_def list_all_iff)
  have "distinct (map blob_Key (inv_Objects j)) = distinct (map blob_Key (inv_Objects i))"
    "distinct (inv_RunIDs j) = distinct (inv_RunIDs i)"
    using m by (metis mset_map mset_eq_imp_distinct_iff)+
  moreover have "sum_list (map object_bytes (inv_Objects j)) = sum_list (map object_bytes (inv_Objects i))"
    using m(1) by (metis mset_map sum_mset_sum_list)
  moreover have "object_allowed t p (map g (inv_RunIDs j)) = object_allowed t p (map g (inv_RunIDs i))" for t p g
    using f(9) by (auto simp: object_allowed_def list_ex_iff fun_eq_iff)
  ultimately show ?thesis
    by (simp add: Inventory_Validate_None [OF assms(2)] Inventory_Validate_None [OF i64] f list_all_iff)
qed

lemma same_contents_sorted:
  assumes "same_contents i j" "distinct (map blob_Key (inv_Objects i))" "distinct (inv_RunIDs i)"
  shows "j\<lparr>inv_Objects := sort_key blob_Key (inv_Objects j), inv_RunIDs := sort (inv_RunIDs j)\<rparr> =
         i\<lparr>inv_Objects := sort_key blob_Key (inv_Objects i), inv_RunIDs := sort (inv_RunIDs i)\<rparr>"
proof -
  have "sort_key blob_Key (inv_Objects i) = sort_key blob_Key (inv_Objects j)"
    "sort (inv_RunIDs i) = sort (inv_RunIDs j)"
    using assms by (auto simp: same_contents_def intro!: sort_key_perm)
  moreover obtain os rs where "j = i\<lparr>inv_Objects := os, inv_RunIDs := rs\<rparr>"
    using assms(1) unfolding same_contents_def by metis
  ultimately show ?thesis by simp
qed

text \<open>
  C34: completing a started deletion records exactly the reported counts, and the completed record is
  valid exactly when a retained verification, if there is one, committed to the same counts. Completing again with the
  same counts changes nothing; with other counts it is refused.
\<close>

theorem deletion_complete:
  assumes "SessionDeletion_Complete (Some d) at n b = (Some d', None)"
  shows "del_State d' = SessionDeletionCompleted \<and> del_DeletedObjects d' = n \<and> del_DeletedBytes d' = b \<and>
    (SessionDeletion_Validate d' = None \<longleftrightarrow>
       (\<forall>v. del_RetainedVerification d = Some v \<longrightarrow> n = rdv_Objects v \<and> b = rdv_Bytes v)) \<and>
    (SessionDeletion_Validate d' = None \<longrightarrow>
       SessionDeletion_Complete (Some d') at2 n b = (Some d', None) \<and>
       ((n2, b2) \<noteq> (n, b) \<longrightarrow> (\<exists>err. SessionDeletion_Complete (Some d') at2 n2 b2 = (Some d', Some err))))"
proof -
  have f: "del_State d' = SessionDeletionCompleted" "del_DeletedObjects d' = n" "del_DeletedBytes d' = b"
    using assms by (auto simp: SessionDeletion_Complete_def split: option.splits if_splits)
  then show ?thesis using SessionDeletion_Complete_valid [OF assms] by (auto simp: SessionDeletion_Complete_def)
qed

definition ex_deletion :: SessionDeletion where
  "ex_deletion = \<lparr>del_TenantID = ''acme'', del_SessionID = ''s1'', del_RequestedBy = ''u1'', del_Reason = ''done'',
     del_State = SessionDeletionDeleting, del_RequestedAt = 10, del_StartedAt = Some 11, del_CompletedAt = None,
     del_DeletedObjects = 0, del_DeletedBytes = 0, del_RetainedVerification = None\<rparr>"

theorem deletion_complete_witness:
  "\<exists>d'. SessionDeletion_Complete (Some ex_deletion) 20 3 700 = (Some d', None) \<and> SessionDeletion_Validate d' = None \<and>
     del_DeletedBytes d' = 700 \<and> SessionDeletion_Complete (Some d') 30 3 700 = (Some d', None)"
proof -
  have "TrimSpace ''done'' = ''done''" by code_simp
  then have "SessionDeletion_Validate ex_deletion = None"
    by (simp add: SessionDeletion_Validate_def ex_deletion_def SessionDeletionState_Valid_def opaque_eval)
  then have c: "SessionDeletion_Complete (Some ex_deletion) 20 3 700 =
      (Some (ex_deletion\<lparr>del_State := SessionDeletionCompleted, del_CompletedAt := Some 20, del_DeletedObjects := 3,
         del_DeletedBytes := 700\<rparr>), None)"
    by (simp add: SessionDeletion_Complete_def) (simp add: ex_deletion_def)
  show ?thesis using c deletion_complete [OF c, of 30] by (auto simp: ex_deletion_def)
qed

text \<open>
  C28: an inventory is accepted exactly when it stays within the object limit, its runs are distinct
  identifiers, its objects are distinct valid references of the tenant under the session's or one of the listed runs'
  prefix, and the total is the true sum of the sizes: the checked 64-bit addition never wraps. Sizes are \<open>int64\<close>
  values in the code, which is what the hypothesis says.
\<close>

theorem inventory_exact:
  assumes "list_all (\<lambda>ref. blob_Size ref < 2 ^ 63) (inv_Objects i)"
  shows "SessionDeletionInventory_Validate i m = None \<longleftrightarrow>
     opaque_id (inv_TenantID i) \<and> opaque_id (inv_SessionID i) \<and> m \<noteq> 0 \<and>
     of_nat (length (inv_Objects i)) \<le> m \<and> list_all opaque_id (inv_RunIDs i) \<and> distinct (inv_RunIDs i) \<and>
     list_all (object_allowed (inv_TenantID i) (SessionObjectPrefix (inv_TenantID i) (inv_SessionID i))
       (map (RunObjectPrefix (inv_TenantID i)) (inv_RunIDs i))) (inv_Objects i) \<and>
     distinct (map blob_Key (inv_Objects i)) \<and>
     sum_list (map object_bytes (inv_Objects i)) = unat (inv_TotalBytes i)"
  using assms by (intro Inventory_Validate_None) (simp add: int64_sizes_def)

definition ex_object :: "string \<Rightarrow> int \<Rightarrow> BlobRef" where
  "ex_object key n = \<lparr>blob_TenantID = ''acme'', blob_Key = key, blob_Size = n,
     blob_SHA256 = replicate 64 (CHR ''a'')\<rparr>"

definition ex_inventory :: "BlobRef list \<Rightarrow> SessionDeletionInventory" where
  "ex_inventory objects = \<lparr>inv_TenantID = ''acme'', inv_SessionID = ''s1'', inv_Objects = objects, inv_EventRows = 2,
     inv_SnapshotRows = 0, inv_MaterialCurrentRows = 0, inv_MaterialBoundaryRows = 0, inv_MaterialSnapshotRows = 0,
     inv_RunRows = 1, inv_ManifestRows = 0, inv_DeliveryRows = 0, inv_CheckpointRows = 0, inv_ReceiptRows = 0,
     inv_ParticipantRows = 1, inv_OwnedAdmissionRows = 0, inv_BindingRows = 0, inv_ProjectionRows = 0,
     inv_RetainedRows = 0, inv_RunIDs = [''r1''], inv_TotalBytes = 7\<rparr>"

definition ex_objects :: "BlobRef list" where
  "ex_objects = [ex_object ''tenants/acme/sessions/s1/events/e1/p'' 3, ex_object ''tenants/acme/runs/r1/out'' 4]"

lemma ex_inventory_valid: "SessionDeletionInventory_Validate (ex_inventory ex_objects) 10000 = None"
  by code_simp

lemma ex_inventory_sizes: "list_all (\<lambda>ref. blob_Size ref < 2 ^ 63) (inv_Objects (ex_inventory ex_objects))"
  by (simp add: ex_inventory_def ex_objects_def ex_object_def)

theorem inventory_exact_witness:
  "SessionDeletionInventory_Validate (ex_inventory ex_objects) 10000 = None \<and>
   sum_list (map object_bytes ex_objects) = 7"
  using inventory_exact [OF ex_inventory_sizes, of 10000] ex_inventory_valid by (simp add: ex_inventory_def)

text \<open>
  C35: the digest an inventory is committed to does not depend on the order in which the store
  listed the objects and the runs.
\<close>

theorem inventory_digest_order:
  assumes "mset (inv_Objects i) = mset os" "mset (inv_RunIDs i) = mset rs"
    "list_all (\<lambda>ref. blob_Size ref < 2 ^ 63) (inv_Objects i)"
  shows "SessionDeletionInventoryDigestV1 (i\<lparr>inv_Objects := os, inv_RunIDs := rs\<rparr>) = SessionDeletionInventoryDigestV1 i"
proof -
  let ?j = "i\<lparr>inv_Objects := os, inv_RunIDs := rs\<rparr>"
  have same: "same_contents i ?j" and sizes: "int64_sizes (inv_Objects i)"
    using assms by (simp_all add: same_contents_def int64_sizes_def)
  note f = same_contents_fields [OF same]
  have rows: "SessionDeletionInventoryRowsV1 ?j = SessionDeletionInventoryRowsV1 i"
    using f(5) by (simp add: SessionDeletionInventoryRowsV1_def)
  have valid: "SessionDeletionInventory_Validate ?j 10000 = None \<longleftrightarrow> SessionDeletionInventory_Validate i 10000 = None"
    by (rule same_contents_valid [OF same sizes])
  show ?thesis
  proof (cases "SessionDeletionInventory_Validate i 10000 = None")
    case True
    then have "distinct (map blob_Key (inv_Objects i))" "distinct (inv_RunIDs i)"
      using Inventory_Validate_None [OF sizes] by blast+
    then have "?j\<lparr>inv_Objects := sort_key blob_Key (inv_Objects ?j), inv_RunIDs := sort (inv_RunIDs ?j)\<rparr> =
        i\<lparr>inv_Objects := sort_key blob_Key (inv_Objects i), inv_RunIDs := sort (inv_RunIDs i)\<rparr>"
      by (rule same_contents_sorted [OF same])
    then show ?thesis using True valid rows f unfolding SessionDeletionInventoryDigestV1_def Let_def by presburger
  qed (use valid f in \<open>simp add: SessionDeletionInventoryDigestV1_def\<close>)
qed

theorem inventory_digest_order_witness:
  "SessionDeletionInventoryDigestV1 (ex_inventory (rev ex_objects)) =
   SessionDeletionInventoryDigestV1 (ex_inventory ex_objects)"
proof -
  have "ex_inventory (rev ex_objects) = (ex_inventory ex_objects)\<lparr>inv_Objects := rev ex_objects, inv_RunIDs := [''r1'']\<rparr>"
    by (simp add: ex_inventory_def)
  then show ?thesis
    using inventory_digest_order [OF _ _ ex_inventory_sizes, of "rev ex_objects" "[''r1'']"] by (simp add: ex_inventory_def)
qed

end
