(* ===== verification/Delivery.thy ===== *)
theory Delivery
  imports Sessions
begin

text \<open>
  Outgoing work: \<open>internal/domain/projection.go\<close> and the transitions and the Telegram delivery
  record of \<open>outbox.go\<close>. A terminal worker event becomes a frontend projection that snapshots
  the binding, a dispatch record hands an attempt to a worker, and a delivery record is retried
  until it is sent, fails or is cancelled. The execution authority carried by a dispatch record
  (placement, harness binding, substrate, cost ceiling, owned source record) is one opaque
  field of type \<open>'a\<close>: transitions copy it and \<open>ValidateForAttempt\<close>, which inspects it, is not
  modelled.
\<close>

subsection \<open>Event drafts and projections\<close>

record SessionEventDraft =
  draft_ID :: SessionEventID
  draft_Kind :: SessionEventKind
  draft_IdempotencyKey :: IdempotencyKey
  draft_Payload :: BlobRef
  draft_DisplayText :: string
  draft_CreatedAt :: timestamp

definition SessionEventDraft_ValidateForRun :: "SessionEventDraft \<Rightarrow> Run \<Rightarrow> error option" where
  "SessionEventDraft_ValidateForRun draft run =
     first_error
       [Run_Validate run,
        SessionEventID_Validate (draft_ID draft),
        require (draft_Kind draft \<in> {SessionEventAssistantMessage, SessionEventToolCall, SessionEventToolResult,
            SessionEventSystemNotice})
          (ValidationError ''session_event_draft.kind'' ''is not a terminal worker event''),
        IdempotencyKey_Validate (draft_IdempotencyKey draft),
        ValidateSessionEventBlob (run_TenantID run) (run_SessionID run) (draft_ID draft) (draft_Payload draft),
        require (\<not> RuneCount (draft_DisplayText draft) > 32000)
          (ValidationError ''session_event_draft.display_text'' ''must not exceed 32000 Unicode characters''),
        require (\<not> (draft_CreatedAt draft = 0 \<or> draft_CreatedAt draft < run_CreatedAt run))
          (ValidationError ''session_event_draft.created_at'' ''must not precede the owning run'')]"

definition SessionEventDraft_ProjectionEligible :: "SessionEventDraft \<Rightarrow> bool" where
  "SessionEventDraft_ProjectionEligible draft =
     (draft_Kind draft = SessionEventAssistantMessage \<or> draft_Kind draft = SessionEventSystemNotice)"

datatype FrontendProjectionStatus = FrontendProjectionPending | FrontendProjectionStatusOther string

definition FrontendProjectionStatus_Valid :: "FrontendProjectionStatus \<Rightarrow> bool" where
  "FrontendProjectionStatus_Valid status = (status = FrontendProjectionPending)"

record FrontendProjection =
  proj_ID :: FrontendProjectionID
  proj_TenantID :: TenantID
  proj_SessionID :: SessionID
  proj_EventID :: SessionEventID
  proj_EventSequence :: u64
  proj_EventKind :: SessionEventKind
  proj_BindingID :: FrontendBindingID
  proj_BindingRevision :: u64
  proj_Frontend :: Frontend
  proj_Status :: FrontendProjectionStatus
  proj_IdempotencyKey :: IdempotencyKey
  proj_CreatedAt :: timestamp
  proj_UpdatedAt :: timestamp

record TelegramProjectionRef =
  tpr_ProjectionID :: FrontendProjectionID
  tpr_SessionID :: SessionID
  tpr_EventID :: SessionEventID
  tpr_EventSequence :: u64
  tpr_BindingID :: FrontendBindingID
  tpr_BindingRevision :: u64
  tpr_TriggerEventID :: SessionEventID

definition TelegramProjectionRef_Validate :: "TelegramProjectionRef \<Rightarrow> error option" where
  "TelegramProjectionRef_Validate ref =
     first_error
       [FrontendProjectionID_Validate (tpr_ProjectionID ref),
        SessionID_Validate (tpr_SessionID ref),
        SessionEventID_Validate (tpr_EventID ref),
        require (tpr_EventSequence ref \<noteq> 0)
          (ValidationError ''telegram_projection.event_sequence'' ''must be positive''),
        FrontendBindingID_Validate (tpr_BindingID ref),
        require (tpr_BindingRevision ref \<noteq> 0)
          (ValidationError ''telegram_projection.binding_revision'' ''must be positive''),
        SessionEventID_Validate (tpr_TriggerEventID ref)]"

definition FrontendProjection_ValidateFor ::
    "FrontendProjection \<Rightarrow> SessionEvent \<Rightarrow> FrontendBinding \<Rightarrow> error option" where
  "FrontendProjection_ValidateFor projection event binding =
     first_error
       [SessionEvent_Validate event,
        require (\<not> (ev_Kind event \<noteq> SessionEventAssistantMessage \<and> ev_Kind event \<noteq> SessionEventSystemNotice))
          (ValidationError ''frontend_projection.event_kind'' ''is not frontend-projectable''),
        FrontendBinding_Validate binding,
        FrontendProjectionID_Validate (proj_ID projection),
        EnsureSameTenant (ev_TenantID event) (proj_TenantID projection),
        EnsureSameTenant (ev_TenantID event) (bind_TenantID binding),
        require (\<not> (proj_SessionID projection \<noteq> ev_SessionID event \<or> proj_SessionID projection \<noteq> bind_SessionID binding))
          (ValidationError ''frontend_projection.session_id'' ''must reference the event and binding session''),
        require (\<not> (proj_EventID projection \<noteq> ev_ID event \<or> proj_EventSequence projection \<noteq> ev_Sequence event \<or>
            proj_EventKind projection \<noteq> ev_Kind event))
          (ValidationError ''frontend_projection.event'' ''must reference the canonical event''),
        require (\<not> (proj_BindingID projection \<noteq> bind_ID binding \<or> proj_BindingRevision projection \<noteq> bind_Revision binding \<or>
            proj_Frontend projection \<noteq> bind_Frontend binding))
          (ValidationError ''frontend_projection.binding'' ''must snapshot the current binding''),
        require (FrontendProjectionStatus_Valid (proj_Status projection))
          (ValidationError ''frontend_projection.status'' ''is unknown''),
        IdempotencyKey_Validate (proj_IdempotencyKey projection),
        require (\<not> (proj_CreatedAt projection = 0 \<or> proj_UpdatedAt projection < proj_CreatedAt projection))
          (ValidationError ''frontend_projection.updated_at'' ''must not be before created_at'')]"

subsection \<open>Dispatch records\<close>

datatype DispatchStatus = DispatchPending | DispatchPublished | DispatchCancelled | DispatchStatusOther string

definition DispatchStatus_Valid :: "DispatchStatus \<Rightarrow> bool" where
  "DispatchStatus_Valid status =
     (status = DispatchPending \<or> status = DispatchPublished \<or> status = DispatchCancelled)"

definition CanTransitionDispatch :: "DispatchStatus \<Rightarrow> DispatchStatus \<Rightarrow> bool" where
  "CanTransitionDispatch from to' = (from = DispatchPending \<and> (to' = DispatchPublished \<or> to' = DispatchCancelled))"

record 'a DispatchOutbox =
  dout_ID :: DispatchOutboxID
  dout_TenantID :: TenantID
  dout_RunID :: RunID
  dout_AttemptID :: AttemptID
  dout_InputManifestID :: ArtifactManifestID
  dout_ContextSnapshot :: BlobRef
  dout_ContextWindow :: "SessionContextWindow option"
  dout_WorkspaceSnapshot :: "BlobRef option"
  dout_SkillBundle :: "BlobRef option"
  dout_AllowedMCPServers :: "string list"
  dout_CredentialOwnerUserID :: UserID
  dout_Authority :: 'a
  dout_LocalCapacityAssociation :: "LocalCapacityAssociationV1 option"
  dout_Origin :: "FrontendEventOrigin option"
  dout_DeliveryChat :: TelegramChatRef
  dout_ReplyToMessageID :: int
  dout_Status :: DispatchStatus
  dout_IdempotencyKey :: IdempotencyKey
  dout_CreatedAt :: timestamp
  dout_UpdatedAt :: timestamp

definition DispatchOutbox_Transition ::
    "'a DispatchOutbox option \<Rightarrow> DispatchStatus \<Rightarrow> timestamp \<Rightarrow> 'a DispatchOutbox option outcome" where
  "DispatchOutbox_Transition p to' at =
     (case p of
        None \<Rightarrow> (None, Some (ValidationError ''dispatch_outbox'' ''must not be nil''))
      | Some outbox \<Rightarrow>
          if \<not> CanTransitionDispatch (dout_Status outbox) to'
          then (Some outbox, Some (ValidationError ''dispatch_outbox.status'' ''transition is not allowed''))
          else if at < dout_UpdatedAt outbox
          then (Some outbox, Some (ValidationError ''dispatch_outbox.updated_at'' ''transition time must not move backwards''))
          else (Some (outbox\<lparr>dout_Status := to', dout_UpdatedAt := at\<rparr>), None))"

subsection \<open>Telegram deliveries\<close>

datatype DeliveryStatus =
    DeliveryPending | DeliverySending | DeliveryRetryWait | DeliverySent | DeliveryFailed
  | DeliveryCancelled | DeliveryStatusOther string

definition DeliveryStatus_Valid :: "DeliveryStatus \<Rightarrow> bool" where
  "DeliveryStatus_Valid status = (case status of DeliveryStatusOther _ \<Rightarrow> False | _ \<Rightarrow> True)"

definition DeliveryStatus_Terminal :: "DeliveryStatus \<Rightarrow> bool" where
  "DeliveryStatus_Terminal status =
     (status = DeliverySent \<or> status = DeliveryFailed \<or> status = DeliveryCancelled)"

fun CanTransitionDelivery :: "DeliveryStatus \<Rightarrow> DeliveryStatus \<Rightarrow> bool" where
  "CanTransitionDelivery DeliveryPending to' = (to' = DeliverySending \<or> to' = DeliveryCancelled)"
| "CanTransitionDelivery DeliverySending to' =
     (to' = DeliverySent \<or> to' = DeliveryRetryWait \<or> to' = DeliveryFailed \<or> to' = DeliveryCancelled)"
| "CanTransitionDelivery DeliveryRetryWait to' =
     (to' = DeliverySending \<or> to' = DeliveryFailed \<or> to' = DeliveryCancelled)"
| "CanTransitionDelivery _ to' = False"

record TelegramDeliveryOutbox =
  tdo_ID :: TelegramDeliveryID
  tdo_TenantID :: TenantID
  tdo_RunID :: RunID
  tdo_Chat :: TelegramChatRef
  tdo_ReplyToMessageID :: int
  tdo_Payload :: BlobRef
  tdo_Text :: string
  tdo_ArtifactManifestID :: "ArtifactManifestID option"
  tdo_Projection :: "TelegramProjectionRef option"
  tdo_Status :: DeliveryStatus
  tdo_IdempotencyKey :: IdempotencyKey
  tdo_AttemptCount :: u32
  tdo_NextAttemptAt :: "timestamp option"
  tdo_CreatedAt :: timestamp
  tdo_UpdatedAt :: timestamp

definition TelegramDeliveryOutbox_ValidateForRun :: "TelegramDeliveryOutbox \<Rightarrow> Run \<Rightarrow> error option" where
  "TelegramDeliveryOutbox_ValidateForRun delivery run =
     (let hasText = TrimSpace (tdo_Text delivery) \<noteq> ''''; hasPayload = blob_Key (tdo_Payload delivery) \<noteq> ''''
      in first_error
       [Run_Validate run,
        TelegramDeliveryID_Validate (tdo_ID delivery),
        EnsureSameTenant (run_TenantID run) (tdo_TenantID delivery),
        require (tdo_RunID delivery = run_ID run)
          (ValidationError ''telegram_delivery.run_id'' ''must reference the owning run''),
        TelegramChatRef_Validate (tdo_Chat delivery),
        EnsureSameTenant (run_TenantID run) (chat_TenantID (tdo_Chat delivery)),
        require (\<not> (tdo_ReplyToMessageID delivery < 0 \<or> tdo_ReplyToMessageID delivery = 0 \<and> tdo_Projection delivery = None))
          (ValidationError ''telegram_delivery.reply_to_message_id''
             ''must be positive for legacy delivery and non-negative for a projection''),
        when_set (tdo_Projection delivery) (\<lambda>ref. first_error
          [TelegramProjectionRef_Validate ref,
           require (\<not> (tpr_SessionID ref \<noteq> run_SessionID run \<or> tpr_TriggerEventID ref \<noteq> run_TriggerEventID run))
             (ValidationError ''telegram_delivery.projection''
                ''must reference the owning run session and trigger event'')]),
        require (hasText \<noteq> hasPayload)
          (ValidationError ''telegram_delivery.content''
             ''must contain exactly one of inline text or a blob payload''),
        if hasText
        then require (\<not> RuneCount (tdo_Text delivery) > 4096)
          (ValidationError ''telegram_delivery.text'' ''must not exceed 4096 Unicode characters'')
        else first_error
          [BlobRef_Validate (tdo_Payload delivery),
           EnsureSameTenant (run_TenantID run) (blob_TenantID (tdo_Payload delivery))],
        when_set (tdo_ArtifactManifestID delivery) ArtifactManifestID_Validate,
        require (DeliveryStatus_Valid (tdo_Status delivery)) (ValidationError ''telegram_delivery.status'' ''is unknown''),
        IdempotencyKey_Validate (tdo_IdempotencyKey delivery),
        require (\<not> (tdo_Status delivery = DeliveryRetryWait \<and> tdo_NextAttemptAt delivery = None))
          (ValidationError ''telegram_delivery.next_attempt_at'' ''is required while waiting to retry''),
        require (\<not> (tdo_Status delivery \<noteq> DeliveryRetryWait \<and> tdo_NextAttemptAt delivery \<noteq> None))
          (ValidationError ''telegram_delivery.next_attempt_at'' ''is allowed only while waiting to retry''),
        require (\<not> (tdo_CreatedAt delivery = 0 \<or> tdo_UpdatedAt delivery < tdo_CreatedAt delivery))
          (ValidationError ''telegram_delivery.updated_at'' ''must not be before a non-zero created_at'')])"

definition TelegramDeliveryOutbox_Transition ::
    "TelegramDeliveryOutbox option \<Rightarrow> DeliveryStatus \<Rightarrow> timestamp \<Rightarrow> timestamp option \<Rightarrow>
     TelegramDeliveryOutbox option outcome" where
  "TelegramDeliveryOutbox_Transition p to' at retryAt =
     (case p of
        None \<Rightarrow> (None, Some (ValidationError ''telegram_delivery'' ''must not be nil''))
      | Some delivery \<Rightarrow>
          if \<not> CanTransitionDelivery (tdo_Status delivery) to'
          then (Some delivery, Some (ValidationError ''telegram_delivery.status'' ''transition is not allowed''))
          else if at < tdo_UpdatedAt delivery
          then (Some delivery, Some (ValidationError ''telegram_delivery.updated_at'' ''transition time must not move backwards''))
          else if to' = DeliveryRetryWait \<and> (case retryAt of None \<Rightarrow> True | Some r \<Rightarrow> \<not> r > at)
          then (Some delivery, Some (ValidationError ''telegram_delivery.next_attempt_at'' ''must be after the transition time''))
          else
            let delivery = delivery\<lparr>tdo_NextAttemptAt := (if to' = DeliveryRetryWait then retryAt else None)\<rparr>;
                delivery = (if to' = DeliverySending
                  then delivery\<lparr>tdo_AttemptCount := tdo_AttemptCount delivery + 1\<rparr> else delivery)
            in (Some (delivery\<lparr>tdo_Status := to', tdo_UpdatedAt := at\<rparr>), None))"

subsection \<open>Lemmas\<close>

interpretation dispatch_machine: status_machine dout_Status dout_UpdatedAt CanTransitionDispatch
  "\<lambda>s. s \<noteq> DispatchPending" DispatchOutbox_Transition
  "\<lambda>d. DispatchStatus_Valid (dout_Status d) \<and> dout_CreatedAt d \<noteq> 0 \<and> dout_CreatedAt d \<le> dout_UpdatedAt d"
  by unfold_locales
     (auto simp: DispatchOutbox_Transition_def CanTransitionDispatch_def DispatchStatus_Valid_def split: if_splits)

lemma Delivery_Transition_ok:
  assumes "TelegramDeliveryOutbox_Transition (Some d) st at r = (Some d', None)"
  shows "CanTransitionDelivery (tdo_Status d) st" and "tdo_UpdatedAt d \<le> at"
    and "st = DeliveryRetryWait \<Longrightarrow> \<exists>t > at. r = Some t"
    and "d' = d\<lparr>tdo_NextAttemptAt := (if st = DeliveryRetryWait then r else None),
           tdo_AttemptCount := (if st = DeliverySending then tdo_AttemptCount d + 1 else tdo_AttemptCount d),
           tdo_Status := st, tdo_UpdatedAt := at\<rparr>"
  using assms by (auto simp: TelegramDeliveryOutbox_Transition_def Let_def split: if_splits option.splits)

lemma CanTransitionDelivery_Valid:
  "CanTransitionDelivery s t \<Longrightarrow> DeliveryStatus_Valid t \<and> \<not> DeliveryStatus_Terminal s"
  by (cases s) (auto simp: DeliveryStatus_Valid_def DeliveryStatus_Terminal_def)

lemma Delivery_Transition_valid:
  assumes "TelegramDeliveryOutbox_ValidateForRun d run = None"
    and "TelegramDeliveryOutbox_Transition (Some d) st at r = (Some d', None)"
  shows "TelegramDeliveryOutbox_ValidateForRun d' run = None"
  using assms(1) Delivery_Transition_ok [OF assms(2)] CanTransitionDelivery_Valid [of "tdo_Status d" st]
  by (auto simp: TelegramDeliveryOutbox_ValidateForRun_def Let_def split: if_splits)

lemma Delivery_Transition_error:
  "TelegramDeliveryOutbox_Transition p st at r = (p', Some e) \<Longrightarrow> p' = p"
  by (auto simp: TelegramDeliveryOutbox_Transition_def Let_def split: if_splits option.splits)

text \<open>
  C31: a delivery of a run stays valid under every accepted transition, counts exactly the attempts
  to send, waits for a retry only with a time strictly in the future, and a refused transition changes nothing.
\<close>

theorem delivery_transition:
  assumes "TelegramDeliveryOutbox_ValidateForRun d run = None"
    and "TelegramDeliveryOutbox_Transition (Some d) st at r = (Some d', e)"
  shows "TelegramDeliveryOutbox_ValidateForRun d' run = None \<and> (e \<noteq> None \<longrightarrow> d' = d) \<and>
    (e = None \<longrightarrow> CanTransitionDelivery (tdo_Status d) st \<and> tdo_Status d' = st \<and>
      tdo_AttemptCount d' = tdo_AttemptCount d + (if st = DeliverySending then 1 else 0) \<and>
      (st = DeliveryRetryWait \<longrightarrow> (\<exists>t > at. tdo_NextAttemptAt d' = Some t)))"
proof (cases e)
  case None
  with assms(2) have t: "TelegramDeliveryOutbox_Transition (Some d) st at r = (Some d', None)" by simp
  show ?thesis using None Delivery_Transition_valid [OF assms(1) t] Delivery_Transition_ok [OF t] by auto
next
  case (Some err)
  then have "d' = d" using Delivery_Transition_error assms(2) by blast
  then show ?thesis using Some assms(1) by simp
qed

definition ex_delivery :: TelegramDeliveryOutbox where
  "ex_delivery = \<lparr>tdo_ID = ''d1'', tdo_TenantID = ''acme'', tdo_RunID = ''r1'',
     tdo_Chat = \<lparr>chat_TenantID = ''acme'', chat_ChatID = 42\<rparr>, tdo_ReplyToMessageID = 5,
     tdo_Payload = \<lparr>blob_TenantID = '''', blob_Key = '''', blob_Size = 0, blob_SHA256 = ''''\<rparr>, tdo_Text = ''hi'',
     tdo_ArtifactManifestID = None, tdo_Projection = None, tdo_Status = DeliverySending, tdo_IdempotencyKey = ''k1'',
     tdo_AttemptCount = 1, tdo_NextAttemptAt = None, tdo_CreatedAt = 10, tdo_UpdatedAt = 12\<rparr>"

theorem delivery_transition_witness:
  "TelegramDeliveryOutbox_ValidateForRun ex_delivery ex_run = None \<and>
   (\<exists>d'. TelegramDeliveryOutbox_Transition (Some ex_delivery) DeliveryRetryWait 20 (Some 50) = (Some d', None) \<and>
      tdo_Status d' = DeliveryRetryWait \<and> tdo_NextAttemptAt d' = Some 50 \<and>
      TelegramDeliveryOutbox_ValidateForRun d' ex_run = None)"
proof -
  have "TrimSpace ''hi'' = ''hi''" "RuneCount ''hi'' = 2" by code_simp+
  then have v: "TelegramDeliveryOutbox_ValidateForRun ex_delivery ex_run = None"
    using ex_run_valid
    by (simp add: TelegramDeliveryOutbox_ValidateForRun_def ex_delivery_def TelegramChatRef_Validate_def
        DeliveryStatus_Valid_def opaque_eval) (simp add: ex_run_def opaque_eval)
  have t: "TelegramDeliveryOutbox_Transition (Some ex_delivery) DeliveryRetryWait 20 (Some 50) =
      (Some (ex_delivery\<lparr>tdo_NextAttemptAt := Some 50, tdo_Status := DeliveryRetryWait, tdo_UpdatedAt := 20\<rparr>), None)"
    by (simp add: TelegramDeliveryOutbox_Transition_def ex_delivery_def)
  show ?thesis using v t delivery_transition [OF v t] by simp
qed

end
