(* ===== verification/Scheduling.thy ===== *)
theory Scheduling
  imports Runs
begin

text \<open>
  Admission: \<open>internal/domain/scheduling.go\<close> (limits, workloads, the capacity slot),
  \<open>internal/domain/quota.go\<close> (reservations, quota and entitlement observations, usage) and the
  admission decision \<open>Evaluate\<close> of \<open>internal/scheduler/policy.go\<close>.
\<close>

subsection \<open>Limits and workloads\<close>



record ProductLimits =
  lim_MaxTenantQueueDepth :: u32
  lim_MaxActiveRuns :: u32
  lim_MaxRuntime :: duration
  lim_MaxTurns :: u32
  lim_MaxInputBytes :: u64
  lim_MaxContextBytes :: u64
  lim_MaxContextEvents :: u64
  lim_MaxArtifacts :: u32
  lim_MaxToolEvents :: u32
  lim_MaxToolEventBytes :: u64



definition EffectiveMaxContextEvents :: "ProductLimits \<Rightarrow> u64" where
  "EffectiveMaxContextEvents limits =
     (if lim_MaxContextEvents limits \<noteq> 0 then lim_MaxContextEvents limits
      else ucast (lim_MaxTurns limits) * 4)"

definition EffectiveToolEventLimits :: "ProductLimits \<Rightarrow> u32 \<times> u64" where
  "EffectiveToolEventLimits limits =
     (if lim_MaxToolEvents limits \<noteq> 0 then (lim_MaxToolEvents limits, lim_MaxToolEventBytes limits)
      else let maxEvents = lim_MaxTurns limits;
               maxEvents = (if maxEvents > MaxUint32 div 2 then MaxUint32 else maxEvents * 2)
           in (maxEvents, lim_MaxContextBytes limits))"





subsection \<open>Reservations\<close>

datatype ReservationStatus =
    ReservationHeld | ReservationCommitted | ReservationReleased | ReservationExpired
  | ReservationStatusOther string

definition ReservationStatus_Valid :: "ReservationStatus \<Rightarrow> bool" where
  "ReservationStatus_Valid status = (case status of ReservationStatusOther _ \<Rightarrow> False | _ \<Rightarrow> True)"

definition CanTransitionReservation :: "ReservationStatus \<Rightarrow> ReservationStatus \<Rightarrow> bool" where
  "CanTransitionReservation from to' =
     (from = ReservationHeld \<and>
      (to' = ReservationCommitted \<or> to' = ReservationReleased \<or> to' = ReservationExpired))"

record QuotaReservation =
  qr_ID :: QuotaReservationID
  qr_TenantID :: TenantID
  qr_RunID :: RunID
  qr_SubscriptionConnectionID :: SubscriptionConnectionID
  qr_LocalCapacityAssociation :: "LocalCapacityAssociationV1 option"
  qr_Status :: ReservationStatus
  qr_CapacityUnits :: u32
  qr_HeldAt :: timestamp
  qr_ExpiresAt :: timestamp
  qr_UpdatedAt :: timestamp

definition QuotaReservation_ValidateForRun :: "QuotaReservation \<Rightarrow> Run \<Rightarrow> error option" where
  "QuotaReservation_ValidateForRun reservation run =
     first_error
       [Run_Validate run,
        QuotaReservationID_Validate (qr_ID reservation),
        EnsureSameTenant (run_TenantID run) (qr_TenantID reservation),
        require (qr_RunID reservation = run_ID run)
          (ValidationError ''quota_reservation.run_id'' ''must reference the owning run''),
        require (qr_SubscriptionConnectionID reservation = run_SubscriptionConnectionID run)
          (ValidationError ''quota_reservation.subscription_connection_id'' ''must match the owning run''),
        validateCapacityIdentity (qr_TenantID reservation) (qr_SubscriptionConnectionID reservation)
          (qr_LocalCapacityAssociation reservation),
        require (qr_LocalCapacityAssociation reservation = run_LocalCapacityAssociation run)
          (ValidationError ''quota_reservation.local_capacity_association'' ''must match the owning run''),
        require (ReservationStatus_Valid (qr_Status reservation))
          (ValidationError ''quota_reservation.status'' ''is unknown''),
        require (qr_CapacityUnits reservation \<noteq> 0)
          (ValidationError ''quota_reservation.capacity_units'' ''must be positive''),
        require (\<not> (qr_HeldAt reservation = 0 \<or> \<not> qr_ExpiresAt reservation > qr_HeldAt reservation))
          (ValidationError ''quota_reservation.expires_at'' ''must be after a non-zero held_at''),
        require (\<not> qr_UpdatedAt reservation < qr_HeldAt reservation)
          (ValidationError ''quota_reservation.updated_at'' ''must not be before held_at'')]"

definition QuotaReservation_Transition ::
    "QuotaReservation option \<Rightarrow> ReservationStatus \<Rightarrow> timestamp \<Rightarrow> QuotaReservation option outcome" where
  "QuotaReservation_Transition p to' at =
     (case p of
        None \<Rightarrow> (None, Some (ValidationError ''quota_reservation'' ''must not be nil''))
      | Some reservation \<Rightarrow>
          if \<not> CanTransitionReservation (qr_Status reservation) to'
          then (Some reservation, Some (ValidationError ''quota_reservation.status'' ''transition is not allowed''))
          else if at < qr_UpdatedAt reservation
          then (Some reservation, Some (ValidationError ''quota_reservation.updated_at'' ''transition time must not move backwards''))
          else (Some (reservation\<lparr>qr_Status := to', qr_UpdatedAt := at\<rparr>), None))"

subsection \<open>Provider observations\<close>

datatype ProviderQuotaState =
    ProviderQuotaUnknown | ProviderQuotaAvailable | ProviderQuotaLimited | ProviderQuotaExhausted
  | ProviderQuotaOther string

definition ProviderQuotaState_Valid :: "ProviderQuotaState \<Rightarrow> bool" where
  "ProviderQuotaState_Valid state = (case state of ProviderQuotaOther _ \<Rightarrow> False | _ \<Rightarrow> True)"

definition CanTransitionProviderQuota :: "ProviderQuotaState \<Rightarrow> ProviderQuotaState \<Rightarrow> bool" where
  "CanTransitionProviderQuota from to' =
     (if \<not> ProviderQuotaState_Valid from \<or> \<not> ProviderQuotaState_Valid to' \<or> from = to' then False else True)"

record ProviderQuotaSnapshot =
  pqs_TenantID :: TenantID
  pqs_SubscriptionConnectionID :: SubscriptionConnectionID
  pqs_State :: ProviderQuotaState
  pqs_Remaining :: "int option"
  pqs_ResetAt :: "timestamp option"
  pqs_ObservedAt :: timestamp

definition ProviderQuotaSnapshot_Validate :: "ProviderQuotaSnapshot \<Rightarrow> error option" where
  "ProviderQuotaSnapshot_Validate snapshot =
     first_error
       [TenantID_Validate (pqs_TenantID snapshot),
        SubscriptionConnectionID_Validate (pqs_SubscriptionConnectionID snapshot),
        require (ProviderQuotaState_Valid (pqs_State snapshot)) (ValidationError ''provider_quota.state'' ''is unknown''),
        require (pqs_ObservedAt snapshot \<noteq> 0) (ValidationError ''provider_quota.observed_at'' ''must not be zero''),
        when_set (pqs_Remaining snapshot) (\<lambda>n. require (\<not> n < 0)
          (ValidationError ''provider_quota.remaining'' ''must not be negative'')),
        require (\<not> (pqs_State snapshot = ProviderQuotaUnknown \<and> (pqs_Remaining snapshot \<noteq> None \<or> pqs_ResetAt snapshot \<noteq> None)))
          (ValidationError ''provider_quota'' ''unknown quota must not fabricate remaining or reset values'')]"

datatype UsageSource = UsageSourceProvider | UsageSourceHarness | UsageSourceOther string

record UsageObservation =
  uo_ID :: UsageObservationID
  uo_TenantID :: TenantID
  uo_RunID :: RunID
  uo_AttemptID :: AttemptID
  uo_SubscriptionConnectionID :: SubscriptionConnectionID
  uo_LocalCapacityAssociation :: "LocalCapacityAssociationV1 option"
  uo_Source :: UsageSource
  uo_InputTokens :: "u64 option"
  uo_OutputTokens :: "u64 option"
  uo_ObservedAt :: timestamp

definition UsageObservation_ValidateForAttempt :: "UsageObservation \<Rightarrow> Run \<Rightarrow> Attempt \<Rightarrow> error option" where
  "UsageObservation_ValidateForAttempt observation run attempt =
     first_error
       [Attempt_ValidateForRun attempt run,
        UsageObservationID_Validate (uo_ID observation),
        EnsureSameTenant (run_TenantID run) (uo_TenantID observation),
        require (\<not> (uo_RunID observation \<noteq> run_ID run \<or> uo_AttemptID observation \<noteq> att_ID attempt))
          (ValidationError ''usage_observation'' ''must reference the owning run and attempt''),
        require (uo_SubscriptionConnectionID observation = run_SubscriptionConnectionID run)
          (ValidationError ''usage_observation.subscription_connection_id'' ''must match the owning run''),
        validateCapacityIdentity (uo_TenantID observation) (uo_SubscriptionConnectionID observation)
          (uo_LocalCapacityAssociation observation),
        require (uo_LocalCapacityAssociation observation = run_LocalCapacityAssociation run)
          (ValidationError ''usage_observation.local_capacity_association'' ''must match the owning run''),
        require (uo_Source observation = UsageSourceProvider \<or> uo_Source observation = UsageSourceHarness)
          (ValidationError ''usage_observation.source'' ''is unknown''),
        require (\<not> (uo_InputTokens observation = None \<and> uo_OutputTokens observation = None))
          (ValidationError ''usage_observation'' ''must include at least one observed token count''),
        require (uo_ObservedAt observation \<noteq> 0)
          (ValidationError ''usage_observation.observed_at'' ''must not be zero'')]"

datatype EntitlementState =
    EntitlementDisconnected | EntitlementUnknown | EntitlementActive | EntitlementInactive
  | EntitlementReauthRequired | EntitlementOther string

definition EntitlementState_Valid :: "EntitlementState \<Rightarrow> bool" where
  "EntitlementState_Valid state = (case state of EntitlementOther _ \<Rightarrow> False | _ \<Rightarrow> True)"

record EntitlementSnapshot =
  ent_TenantID :: TenantID
  ent_SubscriptionConnectionID :: SubscriptionConnectionID
  ent_State :: EntitlementState
  ent_ObservedAt :: timestamp

definition EntitlementSnapshot_Validate :: "EntitlementSnapshot \<Rightarrow> error option" where
  "EntitlementSnapshot_Validate snapshot =
     first_error
       [TenantID_Validate (ent_TenantID snapshot),
        SubscriptionConnectionID_Validate (ent_SubscriptionConnectionID snapshot),
        require (EntitlementState_Valid (ent_State snapshot)) (ValidationError ''entitlement.state'' ''is unknown''),
        require (ent_ObservedAt snapshot \<noteq> 0) (ValidationError ''entitlement.observed_at'' ''must not be zero'')]"

subsection \<open>The admission decision\<close>






subsection \<open>Lemmas\<close>

lemma QuotaReservation_Transition_valid:
  assumes "QuotaReservation_ValidateForRun r run = None" "QuotaReservation_Transition (Some r) st at = (Some r', None)"
  shows "QuotaReservation_ValidateForRun r' run = None"
  using assms
  by (auto simp: QuotaReservation_Transition_def QuotaReservation_ValidateForRun_def CanTransitionReservation_def
      ReservationStatus_Valid_def split: if_splits)

interpretation reservation_machine: status_machine qr_Status qr_UpdatedAt CanTransitionReservation
  "\<lambda>s. s \<noteq> ReservationHeld" QuotaReservation_Transition "\<lambda>r. QuotaReservation_ValidateForRun r run = None" for run
  by unfold_locales
     (auto simp: QuotaReservation_Transition_def CanTransitionReservation_def split: if_splits
       dest: QuotaReservation_Transition_valid)

lemma EffectiveMaxContextEvents_exact:
  "lim_MaxContextEvents l = 0 \<Longrightarrow> unat (EffectiveMaxContextEvents l) = 4 * unat (lim_MaxTurns l)"
proof -
  have "unat (lim_MaxTurns l) < 2 ^ 32" using unsigned_less [of "lim_MaxTurns l"] by simp
  then show "lim_MaxContextEvents l = 0 \<Longrightarrow> ?thesis"
    by (simp add: EffectiveMaxContextEvents_def unat_word_ariths unsigned_ucast_eq take_bit_nat_eq_self)
qed

lemma EffectiveToolEventLimits_exact:
  "lim_MaxToolEvents l = 0 \<Longrightarrow>
     unat (fst (EffectiveToolEventLimits l)) = min (2 * unat (lim_MaxTurns l)) (2 ^ 32 - 1)"
proof -
  have b: "unat (lim_MaxTurns l) < 2 ^ 32" using unsigned_less [of "lim_MaxTurns l"] by simp
  have h: "unat (MaxUint32 div 2) = 2 ^ 31 - 1" by (simp add: MaxUint32_def unat_div)
  show "lim_MaxToolEvents l = 0 \<Longrightarrow> ?thesis"
  proof (cases "lim_MaxTurns l > MaxUint32 div 2")
    case True
    then have "2 ^ 31 - 1 < unat (lim_MaxTurns l)" by (simp only: word_less_nat_alt h)
    then show "lim_MaxToolEvents l = 0 \<Longrightarrow> ?thesis"
      using True by (simp add: EffectiveToolEventLimits_def MaxUint32_def)
  next
    case False
    then have "unat (lim_MaxTurns l) \<le> 2 ^ 31 - 1" by (simp only: word_less_nat_alt h not_less)
    then show "lim_MaxToolEvents l = 0 \<Longrightarrow> ?thesis"
      using False by (simp add: EffectiveToolEventLimits_def unat_word_ariths)
  qed
qed





text \<open>
  C33: a quota reservation of a run stays valid under every sequence of transition requests and is
  settled at most once: after it has left the held state no request changes it.
\<close>

theorem reservation_requests:
  assumes "QuotaReservation_ValidateForRun r run = None"
  shows "\<exists>r'. apply_requests QuotaReservation_Transition (Some r) rs = Some r' \<and>
    QuotaReservation_ValidateForRun r' run = None \<and> CanTransitionReservation\<^sup>*\<^sup>* (qr_Status r) (qr_Status r') \<and>
    (qr_Status r \<noteq> ReservationHeld \<longrightarrow> r' = r)"
  using reservation_machine.requests_reach [of r rs run] reservation_machine.terminal_requests [of r rs] assms by auto

theorem reservation_requests_witness:
  "let r = \<lparr>qr_ID = ''q1'', qr_TenantID = ''acme'', qr_RunID = ''r1'', qr_SubscriptionConnectionID = ''sub1'',
         qr_LocalCapacityAssociation = None, qr_Status = ReservationHeld, qr_CapacityUnits = 1, qr_HeldAt = 10,
         qr_ExpiresAt = 90, qr_UpdatedAt = 10\<rparr>
   in QuotaReservation_ValidateForRun r ex_run = None \<and>
      (\<exists>r'. apply_requests QuotaReservation_Transition (Some r) [(ReservationCommitted, 20), (ReservationReleased, 30)] =
           Some r' \<and> qr_Status r' = ReservationCommitted \<and> QuotaReservation_ValidateForRun r' ex_run = None)"
proof -
  define r where "r = \<lparr>qr_ID = ''q1'', qr_TenantID = ''acme'', qr_RunID = ''r1'', qr_SubscriptionConnectionID = ''sub1'',
    qr_LocalCapacityAssociation = None, qr_Status = ReservationHeld, qr_CapacityUnits = 1, qr_HeldAt = 10,
    qr_ExpiresAt = 90, qr_UpdatedAt = 10\<rparr>"
  let ?rs = "[(ReservationCommitted, 20), (ReservationReleased, 30)]"
  have v: "QuotaReservation_ValidateForRun r ex_run = None" using ex_run_valid
    by (simp add: QuotaReservation_ValidateForRun_def r_def validateCapacityIdentity_def ReservationStatus_Valid_def
        opaque_eval) (simp add: ex_run_def opaque_eval)
  have "apply_requests QuotaReservation_Transition (Some r) ?rs =
      Some (r\<lparr>qr_Status := ReservationCommitted, qr_UpdatedAt := 20\<rparr>)"
    by (simp add: r_def QuotaReservation_Transition_def CanTransitionReservation_def)
  then show ?thesis using v reservation_requests [OF v, of ?rs] by (simp add: Let_def r_def)
qed

text \<open>
  The limits derived from the number of turns, when no explicit limit is configured, are computed
  without wrap-around: four events per turn, and two tool events per turn capped at the 32-bit maximum.
\<close>

lemma effective_limits:
  assumes "lim_MaxContextEvents l = 0" "lim_MaxToolEvents l = 0"
  shows "unat (EffectiveMaxContextEvents l) = 4 * unat (lim_MaxTurns l) \<and>
    unat (fst (EffectiveToolEventLimits l)) = min (2 * unat (lim_MaxTurns l)) (2 ^ 32 - 1)"
  using EffectiveMaxContextEvents_exact [OF assms(1)] EffectiveToolEventLimits_exact [OF assms(2)] by simp

end
