(* ===== verification/RateLimit.thy ===== *)
theory RateLimit
  imports Operations
begin

text \<open>
  The rate limiter of run explanations: \<open>internal/runexplanationrate/limiter.go\<close>. Identities
  hash to four probe rows of a fixed table; a row holds a theoretical arrival time (a generic
  cell rate algorithm with an interval of five seconds and a burst of two) and the receipts that
  make retries of one request free. Decoding a row from JSON is not modelled.
\<close>

subsection \<open>Constants and rows\<close>

definition rate_Version :: u32 where "rate_Version = 1"
definition MaxSlots :: nat where "MaxSlots = 4096"
definition ProbeCount :: nat where "ProbeCount = 4"
definition MaxRowBytes :: nat where "MaxRowBytes = 8192"
definition MaxReceipts :: nat where "MaxReceipts = 16"
definition Interval :: duration where "Interval = 5 * second"
definition ReceiptTTL :: duration where "ReceiptTTL = 30 * second"
definition IdleTTL :: duration where "IdleTTL = 10 * minute"

lemmas rate_times = Interval_def ReceiptTTL_def IdleTTL_def minute_def second_def

record Receipt =
  rc_RequestID :: string
  rc_SelectorDigest :: string
  rc_DebitedAt :: timestamp

record Slot =
  sl_Version :: u32
  sl_IdentityDigest :: string
  sl_TheoreticalArrivalAt :: timestamp
  sl_LastDebitAt :: timestamp
  sl_ExpiresAt :: timestamp
  sl_Receipts :: "Receipt list"

record RateDecision =
  rd_Allowed :: bool
  rd_Debited :: bool
  rd_RetryAfter :: duration
  rd_SlotID :: nat
  rd_Slot :: "Slot option"

subsection \<open>Digests and probe keys\<close>

definition framedDigest :: "string \<Rightarrow> string list \<Rightarrow> string" where
  "framedDigest prefix values =
     hex_encode (sha256 (prefix @ [char_of (0::nat)] @
       concat (map (\<lambda>v. be_bytes 8 (of_nat (length v) :: u64) @ v) values)))"

definition rate_validDigest :: "string \<Rightarrow> bool" where
  "rate_validDigest v =
     (length v = 64 \<and> list_all (\<lambda>c. 48 \<le> c \<and> c \<le> 57 \<or> 97 \<le> c \<and> c \<le> 102) (runes v))"

definition hex_val :: "char \<Rightarrow> nat" where
  "hex_val c = (if is_digit c then byte c - 48 else byte c - 87)"

definition hex_number :: "string \<Rightarrow> nat" where
  "hex_number s = foldl (\<lambda>n c. 16 * n + hex_val c) 0 s"

text \<open>The first eight decoded bytes are the first sixteen hexadecimal digits.\<close>

definition identityKeys :: "string \<Rightarrow> error + nat list" where
  "identityKeys identity =
     (if \<not> rate_validDigest identity then Inl ErrInvalidState
      else let base = hex_number (take 16 identity) mod MaxSlots
           in Inr (map (\<lambda>i. (base + i) mod MaxSlots) [0..<ProbeCount]))"

definition IdentityKeys :: "TenantID \<Rightarrow> UserID \<Rightarrow> error + string \<times> nat list" where
  "IdentityKeys tenantID userID =
     (if TenantID_Validate tenantID \<noteq> None \<or> UserID_Validate userID \<noteq> None then Inl ErrInvalidState
      else let digest = framedDigest ''sessionless.run-explanation-rate.identity.v1'' [tenantID, userID]
           in Inr (digest, case identityKeys digest of Inr keys \<Rightarrow> keys | Inl _ \<Rightarrow> replicate ProbeCount 0))"

definition SelectorDigest :: "RunID \<Rightarrow> error + string" where
  "SelectorDigest runID =
     (if RunID_Validate runID \<noteq> None then Inl ErrInvalidState
      else Inr (framedDigest ''sessionless.run-explanation-rate.resource.v1'' [runID]))"

subsection \<open>Row validation\<close>

definition validTime :: "timestamp \<Rightarrow> bool" where
  "validTime t = (t \<noteq> 0 \<and> year_in_range t)"

definition addTime :: "timestamp \<Rightarrow> duration \<Rightarrow> timestamp \<times> bool" where
  "addTime t d = (let result = t + d in (result, validTime result \<and> result > t))"

fun validate_receipts :: "timestamp \<Rightarrow> Receipt list \<Rightarrow> Receipt list \<Rightarrow> bool" where
  "validate_receipts lastDebit seen [] = True"
| "validate_receipts lastDebit seen (r # rs) =
     (\<not> (ValidateOpaqueID ''request_id'' (rc_RequestID r) \<noteq> None \<or> \<not> rate_validDigest (rc_SelectorDigest r) \<or>
         \<not> validTime (rc_DebitedAt r) \<or> rc_DebitedAt r > lastDebit \<or> time_Sub lastDebit (rc_DebitedAt r) \<ge> ReceiptTTL \<or>
         (case seen of [] \<Rightarrow> False | p # _ \<Rightarrow> rc_DebitedAt r < rc_DebitedAt p)) \<and>
      rc_RequestID r \<notin> set (map rc_RequestID seen) \<and>
      validate_receipts lastDebit (r # seen) rs)"

definition validateSlot :: "Slot \<Rightarrow> error option" where
  "validateSlot slot =
     first_error
       [require (\<not> (sl_Version slot \<noteq> rate_Version \<or> \<not> rate_validDigest (sl_IdentityDigest slot) \<or>
           \<not> validTime (sl_LastDebitAt slot) \<or> \<not> validTime (sl_TheoreticalArrivalAt slot) \<or>
           \<not> validTime (sl_ExpiresAt slot) \<or> length (sl_Receipts slot) = 0 \<or> length (sl_Receipts slot) > MaxReceipts))
          ErrInvalidState,
        (let (minimum, minOK) = addTime (sl_LastDebitAt slot) Interval;
             (maximum, maxOK) = addTime (sl_LastDebitAt slot) (2 * Interval);
             (expires, expiryOK) = addTime (sl_LastDebitAt slot) IdleTTL
         in require (\<not> (\<not> minOK \<or> \<not> maxOK \<or> \<not> expiryOK \<or> sl_TheoreticalArrivalAt slot < minimum \<or>
              sl_TheoreticalArrivalAt slot > maximum \<or> sl_ExpiresAt slot \<noteq> expires)) ErrInvalidState),
        require (validate_receipts (sl_LastDebitAt slot) [] (sl_Receipts slot)) ErrInvalidState,
        require (list_ex (\<lambda>r. rc_DebitedAt r = sl_LastDebitAt slot) (sl_Receipts slot)) ErrInvalidState]"

definition slot_json :: "Slot \<Rightarrow> json" where
  "slot_json slot = JObj
     [(''version'', JNat (unat (sl_Version slot))), (''identity_digest'', JStr (sl_IdentityDigest slot)),
      (''theoretical_arrival_at'', JTime (sl_TheoreticalArrivalAt slot)),
      (''last_debit_at'', JTime (sl_LastDebitAt slot)), (''expires_at'', JTime (sl_ExpiresAt slot)),
      (''receipts'', JArr (map (\<lambda>r. JObj
         [(''request_id'', JStr (rc_RequestID r)), (''selector_digest'', JStr (rc_SelectorDigest r)),
          (''debited_at'', JTime (rc_DebitedAt r))]) (sl_Receipts slot)))]"

definition EncodeSlot :: "Slot \<Rightarrow> error + string" where
  "EncodeSlot slot =
     (if validateSlot slot \<noteq> None then Inl ErrInvalidState
      else let data = json_Marshal (slot_json slot)
           in if length data > MaxRowBytes then Inl ErrInvalidState else Inr data)"

subsection \<open>Evaluation\<close>

text \<open>
  The scan over the probe rows: \<open>own\<close> and \<open>available\<close> are the indices found so far
  (\<open>-1\<close> is \<open>None\<close>).
\<close>

fun scan_slots ::
    "timestamp \<Rightarrow> string \<Rightarrow> nat list \<Rightarrow> nat \<Rightarrow> Slot option list \<Rightarrow> nat option \<Rightarrow> nat option \<Rightarrow>
     error + nat option \<times> nat option" where
  "scan_slots now identity candidates i [] own available = Inr (own, available)"
| "scan_slots now identity candidates i (None # rest) own available =
     scan_slots now identity candidates (Suc i) rest own (if available = None then Some i else available)"
| "scan_slots now identity candidates i (Some slot # rest) own available =
     (if (case EncodeSlot slot of Inl _ \<Rightarrow> True | Inr _ \<Rightarrow> False) \<or> sl_LastDebitAt slot > now
      then Inl ErrInvalidState
      else case identityKeys (sl_IdentityDigest slot) of
        Inl _ \<Rightarrow> Inl ErrInvalidState
      | Inr occupantKeys \<Rightarrow>
          if \<not> list_ex (\<lambda>key. key = candidates ! i) occupantKeys then Inl ErrInvalidState
          else if sl_IdentityDigest slot = identity \<and> own \<noteq> None then Inl ErrInvalidState
          else scan_slots now identity candidates (Suc i) rest
                 (if sl_IdentityDigest slot = identity then Some i else own)
                 (if \<not> now < sl_ExpiresAt slot \<and> available = None then Some i else available))"

text \<open>
  The receipts loop: a live receipt of the same request decides the call, otherwise the live
  receipts are collected.
\<close>

datatype replay = ReplayConflict | ReplayHit | Fresh "Receipt list"

fun replay_receipts :: "timestamp \<Rightarrow> string \<Rightarrow> string \<Rightarrow> Receipt list \<Rightarrow> Receipt list \<Rightarrow> replay" where
  "replay_receipts now requestID selector acc [] = Fresh acc"
| "replay_receipts now requestID selector acc (r # rs) =
     (if time_Sub now (rc_DebitedAt r) \<ge> ReceiptTTL then replay_receipts now requestID selector acc rs
      else if rc_RequestID r = requestID
      then (if rc_SelectorDigest r \<noteq> selector then ReplayConflict else ReplayHit)
      else replay_receipts now requestID selector (acc @ [r]) rs)"

definition no_decision :: RateDecision where
  "no_decision = \<lparr>rd_Allowed = False, rd_Debited = False, rd_RetryAfter = 0, rd_SlotID = 0, rd_Slot = None\<rparr>"

definition debit_slot ::
    "timestamp \<Rightarrow> string \<Rightarrow> nat \<Rightarrow> string \<Rightarrow> string \<Rightarrow> timestamp \<Rightarrow> Receipt list \<Rightarrow> error + RateDecision" where
  "debit_slot now identity slotID requestID selector tat receipts =
     (if length receipts \<ge> MaxReceipts then Inl ErrInvalidState
      else let tat = (if tat < now then now else tat);
               (nextTAT, tatOK) = addTime tat Interval;
               (expires, expOK) = addTime now IdleTTL;
               nxt = \<lparr>sl_Version = rate_Version, sl_IdentityDigest = identity, sl_TheoreticalArrivalAt = nextTAT,
                 sl_LastDebitAt = now, sl_ExpiresAt = expires,
                 sl_Receipts = receipts @ [\<lparr>rc_RequestID = requestID, rc_SelectorDigest = selector, rc_DebitedAt = now\<rparr>]\<rparr>
           in if \<not> tatOK then Inl ErrInvalidState
              else if \<not> expOK then Inl ErrInvalidState
              else case EncodeSlot nxt of
                Inl _ \<Rightarrow> Inl ErrInvalidState
              | Inr _ \<Rightarrow> Inr (no_decision\<lparr>rd_Allowed := True, rd_Debited := True, rd_SlotID := slotID, rd_Slot := Some nxt\<rparr>))"

text \<open>The decision on the identity's own live row.\<close>

definition rate_live ::
    "timestamp \<Rightarrow> string \<Rightarrow> nat \<Rightarrow> string \<Rightarrow> string \<Rightarrow> timestamp \<Rightarrow> Slot \<Rightarrow> error + RateDecision" where
  "rate_live now identity slotID requestID selector eligibility current =
     (case replay_receipts now requestID selector [] (sl_Receipts current) of
        ReplayConflict \<Rightarrow> Inl ErrInvalidState
      | ReplayHit \<Rightarrow> Inr (no_decision\<lparr>rd_Allowed := True, rd_SlotID := slotID\<rparr>)
      | Fresh receipts \<Rightarrow>
          let tat = sl_TheoreticalArrivalAt current in
          if tat > eligibility then
            let remaining = time_Sub tat eligibility;
                seconds = remaining div second + (if remaining mod second \<noteq> 0 then 1 else 0)
            in Inr (no_decision\<lparr>rd_RetryAfter := seconds * second, rd_SlotID := slotID\<rparr>)
          else debit_slot now identity slotID requestID selector tat receipts)"

definition rate_decide ::
    "timestamp \<Rightarrow> string \<Rightarrow> nat list \<Rightarrow> Slot option list \<Rightarrow> string \<Rightarrow> string \<Rightarrow> timestamp \<Rightarrow>
     nat option \<Rightarrow> nat option \<Rightarrow> error + RateDecision" where
  "rate_decide now identity candidates slots requestID selector eligibility own available =
     (case (if own \<noteq> None then own else available) of
        None \<Rightarrow> Inr (no_decision\<lparr>rd_RetryAfter := Interval\<rparr>)
      | Some selected \<Rightarrow>
          (case (own, slots ! selected) of
             (Some _, Some current) \<Rightarrow>
               if now < sl_ExpiresAt current
               then rate_live now identity (candidates ! selected) requestID selector eligibility current
               else debit_slot now identity (candidates ! selected) requestID selector now []
           | _ \<Rightarrow> debit_slot now identity (candidates ! selected) requestID selector now []))"

definition Rate_Evaluate ::
    "timestamp \<Rightarrow> string \<Rightarrow> nat list \<Rightarrow> Slot option list \<Rightarrow> string \<Rightarrow> string \<Rightarrow> error + RateDecision" where
  "Rate_Evaluate now identity candidates slots requestID selector =
     (if identityKeys identity \<noteq> Inr candidates \<or> \<not> validTime now \<or>
         ValidateOpaqueID ''request_id'' requestID \<noteq> None \<or> \<not> rate_validDigest selector
      then Inl ErrInvalidState
      else if \<not> snd (addTime now Interval) then Inl ErrInvalidState
      else case scan_slots now identity candidates 0 slots None None of
          Inl e \<Rightarrow> Inl ErrInvalidState
        | Inr (own, available) \<Rightarrow>
            rate_decide now identity candidates slots requestID selector (fst (addTime now Interval)) own available)"

subsection \<open>What the scan finds\<close>

definition occupied_by :: "string \<Rightarrow> Slot option \<Rightarrow> bool" where
  "occupied_by identity p = (case p of None \<Rightarrow> False | Some s \<Rightarrow> sl_IdentityDigest s = identity)"

lemma scan_slots_step:
  assumes "scan_slots now identity cs i (p # slots) own avail = Inr r"
  shows "\<exists>av. scan_slots now identity cs (Suc i) slots (if occupied_by identity p then Some i else own) av = Inr r"
    and "occupied_by identity p \<Longrightarrow> own = None"
  using assms by (cases p; auto simp: occupied_by_def split: if_splits sum.splits)+

lemma scan_slots_taken:
  "scan_slots now identity cs i slots (Some k) avail = Inr (own', avail') \<Longrightarrow>
     own' = Some k \<and> (\<forall>p \<in> set slots. \<not> occupied_by identity p)"
proof (induction slots arbitrary: i avail)
  case (Cons p slots)
  have p: "\<not> occupied_by identity p" using scan_slots_step(2) [OF Cons.prems] by auto
  then obtain av where "scan_slots now identity cs (Suc i) slots (Some k) av = Inr (own', avail')"
    using scan_slots_step(1) [OF Cons.prems] by auto
  from Cons.IH [OF this] p show ?case by simp
qed simp

lemma scan_slots_own:
  "scan_slots now identity cs i slots None avail = Inr (own', avail') \<Longrightarrow>
     (case own' of
        None \<Rightarrow> \<forall>p \<in> set slots. \<not> occupied_by identity p
      | Some k \<Rightarrow> \<exists>pre p post. slots = pre @ p # post \<and> k = i + length pre \<and> occupied_by identity p \<and>
          (\<forall>q \<in> set pre \<union> set post. \<not> occupied_by identity q))"
proof (induction slots arbitrary: i avail)
  case (Cons p slots)
  show ?case
  proof (cases "occupied_by identity p")
    case True
    then obtain av where "scan_slots now identity cs (Suc i) slots (Some i) av = Inr (own', avail')"
      using scan_slots_step(1) [OF Cons.prems] by auto
    from scan_slots_taken [OF this] True
    have "own' = Some i" "\<forall>q \<in> set slots. \<not> occupied_by identity q" by auto
    then show ?thesis using True
      by (auto intro!: exI [of _ "[]"] exI [of _ p] exI [of _ slots])
  next
    case False
    then obtain av where "scan_slots now identity cs (Suc i) slots None av = Inr (own', avail')"
      using scan_slots_step(1) [OF Cons.prems] by auto
    note ih = Cons.IH [OF this]
    show ?thesis
    proof (cases own')
      case (Some k)
      then obtain pre q post where q: "slots = pre @ q # post" "k = Suc i + length pre" "occupied_by identity q"
        "\<forall>q \<in> set pre \<union> set post. \<not> occupied_by identity q" using ih by auto
      have "p # slots = (p # pre) @ q # post \<and> k = i + length (p # pre) \<and> occupied_by identity q \<and>
          (\<forall>q \<in> set (p # pre) \<union> set post. \<not> occupied_by identity q)" using q False by simp
      then show ?thesis using Some by (simp only: option.case) blast
    qed (use ih False in auto)
  qed
qed (auto split: option.splits)

lemma scan_slots_checked:
  assumes "scan_slots now identity cs i slots own avail = Inr r" "Some s \<in> set slots"
  shows "validateSlot s = None \<and> sl_LastDebitAt s \<le> now"
  using assms
proof (induction slots arbitrary: i own avail)
  case (Cons p slots)
  then show ?case
    by (cases p) (auto simp: EncodeSlot_def Let_def split: if_splits sum.splits)
qed simp

lemma validateSlot_times:
  assumes "validateSlot s = None"
  shows "sl_LastDebitAt s + Interval \<le> sl_TheoreticalArrivalAt s"
    and "sl_TheoreticalArrivalAt s \<le> sl_LastDebitAt s + 2 * Interval"
    and "sl_ExpiresAt s = sl_LastDebitAt s + IdleTTL"
  using assms by (auto simp: validateSlot_def addTime_def Let_def)

lemma debit_slot_result:
  assumes "debit_slot now identity sid rid sel tat rs = Inr d"
  shows "\<exists>s. rd_Slot d = Some s \<and> rd_Allowed d \<and> rd_Debited d \<and> sl_IdentityDigest s = identity \<and>
     sl_LastDebitAt s = now \<and> sl_TheoreticalArrivalAt s = max tat now + Interval \<and> validateSlot s = None"
proof -
  let ?s = "\<lparr>sl_Version = rate_Version, sl_IdentityDigest = identity,
      sl_TheoreticalArrivalAt = (if tat < now then now else tat) + Interval,
      sl_LastDebitAt = now, sl_ExpiresAt = now + IdleTTL,
      sl_Receipts = rs @ [\<lparr>rc_RequestID = rid, rc_SelectorDigest = sel, rc_DebitedAt = now\<rparr>]\<rparr>"
  have e: "\<exists>x. EncodeSlot ?s = Inr x"
    and d: "d = no_decision\<lparr>rd_Allowed := True, rd_Debited := True, rd_SlotID := sid, rd_Slot := Some ?s\<rparr>"
    using assms by (auto simp: debit_slot_def Let_def addTime_def split: if_splits sum.splits)
  have "validateSlot ?s = None" using e by (auto simp: EncodeSlot_def split: if_splits)
  then show ?thesis by (simp add: d max_def)
qed

lemma Rate_Evaluate_Inr:
  assumes "Rate_Evaluate now identity cs slots rid sel = Inr d"
  obtains own avail where "scan_slots now identity cs 0 slots None None = Inr (own, avail)"
    "rate_decide now identity cs slots rid sel (now + Interval) own avail = Inr d"
  using assms by (auto simp: Rate_Evaluate_def addTime_def Let_def split: if_splits sum.splits)

lemma rate_live_debit:
  assumes "rate_live now identity sid rid sel el row = Inr d" "rd_Debited d"
  shows "sl_TheoreticalArrivalAt row \<le> el \<and>
     (\<exists>rs. debit_slot now identity sid rid sel (sl_TheoreticalArrivalAt row) rs = Inr d)"
  using assms by (auto simp: rate_live_def Let_def no_decision_def split: replay.splits if_splits)

text \<open>
  The arrival time a debit is computed from: that of the identity's own row while it is live,
  the current time otherwise.
\<close>

lemma debit_from:
  assumes "Rate_Evaluate now identity cs slots rid sel = Inr d" and "rd_Debited d"
  obtains (live) row where "Some row \<in> set slots" "sl_IdentityDigest row = identity"
      "now < sl_ExpiresAt row" "sl_LastDebitAt row \<le> now" "validateSlot row = None"
      "sl_TheoreticalArrivalAt row \<le> now + Interval"
      "\<exists>sid rs. debit_slot now identity sid rid sel (sl_TheoreticalArrivalAt row) rs = Inr d"
  | (fresh) "\<forall>row. Some row \<in> set slots \<longrightarrow> sl_IdentityDigest row = identity \<longrightarrow> \<not> now < sl_ExpiresAt row"
      "\<exists>sid. debit_slot now identity sid rid sel now [] = Inr d"
proof -
  obtain own avail where sc: "scan_slots now identity cs 0 slots None None = Inr (own, avail)"
    and dec: "rate_decide now identity cs slots rid sel (now + Interval) own avail = Inr d"
    using Rate_Evaluate_Inr [OF assms(1)] .
  note so = scan_slots_own [OF sc]
  show ?thesis
  proof (cases own)
    case None
    then have none: "\<forall>p \<in> set slots. \<not> occupied_by identity p" using so by auto
    have "\<exists>sid. debit_slot now identity sid rid sel now [] = Inr d"
      using dec None assms(2) by (auto simp: rate_decide_def no_decision_def split: option.splits)
    moreover have "sl_IdentityDigest row \<noteq> identity" if "Some row \<in> set slots" for row
      using bspec [OF none that] by (simp add: occupied_by_def)
    ultimately show ?thesis using fresh by blast
  next
    case (Some k)
    then obtain pre p post where k: "slots = pre @ p # post" "k = length pre" "occupied_by identity p"
      "\<forall>q \<in> set pre \<union> set post. \<not> occupied_by identity q" using so by auto
    then obtain row where p: "p = Some row" and row: "slots ! k = Some row" "sl_IdentityDigest row = identity"
      by (auto simp: occupied_by_def split: option.splits)
    have mem: "Some row \<in> set slots" using k(1) p by simp
    note ck = scan_slots_checked [OF sc mem]
    show ?thesis
    proof (cases "now < sl_ExpiresAt row")
      case True
      then have "rate_live now identity (cs ! k) rid sel (now + Interval) row = Inr d"
        using dec Some row(1) by (simp add: rate_decide_def)
      from rate_live_debit [OF this assms(2)] show ?thesis using live mem row ck True by blast
    next
      case False
      then have "\<exists>sid. debit_slot now identity sid rid sel now [] = Inr d"
        using dec Some row(1) by (auto simp: rate_decide_def)
      moreover have "row' = row" if r': "Some row' \<in> set slots" "sl_IdentityDigest row' = identity" for row'
      proof -
        have "occupied_by identity (Some row')" using r'(2) by (simp add: occupied_by_def)
        then show ?thesis using k(1,4) p r'(1) by auto
      qed
      ultimately show ?thesis using fresh False by blast
    qed
  qed
qed

subsection \<open>Histories of debits\<close>

text \<open>
  The store hands the limiter the row it wrote at the identity's last debit, except that a row
  which has expired may meanwhile have been taken over by another identity.
\<close>

definition row_visible :: "string \<Rightarrow> Slot option \<Rightarrow> timestamp \<Rightarrow> Slot option list \<Rightarrow> bool" where
  "row_visible identity prior now slots =
     (case prior of
        None \<Rightarrow> True
      | Some row \<Rightarrow> Some row \<in> set slots \<or>
          sl_ExpiresAt row \<le> now \<and> (\<forall>p \<in> set slots. \<not> occupied_by identity p))"

inductive debit_history :: "string \<Rightarrow> Slot option \<Rightarrow> timestamp list \<Rightarrow> bool" for identity where
  no_debit: "debit_history identity None []"
| debit: "debit_history identity prior ts \<Longrightarrow> row_visible identity prior now slots \<Longrightarrow>
     Rate_Evaluate now identity cs slots rid sel = Inr d \<Longrightarrow> rd_Debited d \<Longrightarrow>
     debit_history identity (rd_Slot d) (ts @ [now])"

text \<open>A debit moves the arrival time of the previous row by at least one interval.\<close>

lemma debit_advances:
  assumes "row_visible identity (Some row) now slots" "sl_IdentityDigest row = identity" "validateSlot row = None"
    and "Rate_Evaluate now identity cs slots rid sel = Inr d" "rd_Debited d"
  shows "\<exists>s. rd_Slot d = Some s \<and> sl_IdentityDigest s = identity \<and> validateSlot s = None \<and> sl_LastDebitAt s = now \<and>
     sl_TheoreticalArrivalAt row + Interval \<le> sl_TheoreticalArrivalAt s \<and> now + Interval \<le> sl_TheoreticalArrivalAt s"
proof -
  have own: "row' = row" if "Some row' \<in> set slots" "sl_IdentityDigest row' = identity" "now < sl_ExpiresAt row'" for row'
  proof -
    have vis: "occupied_by identity (Some row')" using that(2) by (simp add: occupied_by_def)
    then have mem: "Some row \<in> set slots" using assms(1) that(1) by (auto simp: row_visible_def)
    obtain own avail where sc: "scan_slots now identity cs 0 slots None None = Inr (own, avail)"
      using Rate_Evaluate_Inr [OF assms(4)] .
    have "occupied_by identity (Some row)" using assms(2) by (simp add: occupied_by_def)
    then show ?thesis using scan_slots_own [OF sc] vis mem that(1) by (auto split: option.splits)
  qed
  note t = validateSlot_times [OF assms(3)]
  show ?thesis
  proof (cases rule: debit_from [OF assms(4,5)])
    case (1 row')
    then obtain sid rs where "debit_slot now identity sid rid sel (sl_TheoreticalArrivalAt row) rs = Inr d"
      using own by blast
    from debit_slot_result [OF this] show ?thesis by auto
  next
    case 2
    then have "sl_ExpiresAt row \<le> now"
      using assms(1,2) by (auto simp: row_visible_def)
    then have "sl_TheoreticalArrivalAt row \<le> now" using t by (simp add: rate_times)
    moreover obtain sid where "debit_slot now identity sid rid sel now [] = Inr d" using 2 by blast
    ultimately show ?thesis using debit_slot_result by fastforce
  qed
qed

lemma debit_history_rate:
  assumes "debit_history identity st ts"
  shows "(ts = [] \<longleftrightarrow> st = None) \<and>
    (\<forall>row. st = Some row \<longrightarrow> sl_IdentityDigest row = identity \<and> validateSlot row = None \<and>
       (\<forall>i < length ts. ts ! i + int (length ts - i) * Interval \<le> sl_TheoreticalArrivalAt row)) \<and>
    (\<forall>j < length ts. \<forall>i \<le> j. int (j - i + 1) * Interval \<le> ts ! j - ts ! i + 2 * Interval)"
  using assms
proof (induction rule: debit_history.induct)
  case (debit prior ts now slots cs rid sel d)
  obtain s where s: "rd_Slot d = Some s" "sl_IdentityDigest s = identity" "validateSlot s = None" "sl_LastDebitAt s = now"
    and now: "now + Interval \<le> sl_TheoreticalArrivalAt s"
    and prev: "\<And>row. prior = Some row \<Longrightarrow> sl_TheoreticalArrivalAt row + Interval \<le> sl_TheoreticalArrivalAt s"
  proof (cases prior)
    case None
    obtain tat sid rs where "debit_slot now identity sid rid sel tat rs = Inr d"
      by (rule debit_from [OF debit.hyps(3,4)]) blast+
    from debit_slot_result [OF this] None show ?thesis using that by fastforce
  next
    case (Some row)
    then have "sl_IdentityDigest row = identity" "validateSlot row = None" using debit.IH by auto
    from debit_advances [OF _ this debit.hyps(3,4)] debit.hyps(2) Some show ?thesis using that by blast
  qed
  have upto: "(ts @ [now]) ! i + int (length (ts @ [now]) - i) * Interval \<le> sl_TheoreticalArrivalAt s"
    if i: "i < length (ts @ [now])" for i
  proof (cases "i < length ts")
    case True
    then obtain row where row: "prior = Some row" using debit.IH by (cases prior) auto
    then have "ts ! i + int (length ts - i) * Interval \<le> sl_TheoreticalArrivalAt row"
      using debit.IH True by auto
    then show ?thesis using prev [OF row] True by (simp add: nth_append Suc_diff_le algebra_simps)
  next
    case False
    then have "i = length ts" using i by simp
    then show ?thesis using now by simp
  qed
  have last: "sl_TheoreticalArrivalAt s \<le> now + 2 * Interval"
    using validateSlot_times(2) [OF s(3)] s(4) by simp
  have "int (j - i + 1) * Interval \<le> (ts @ [now]) ! j - (ts @ [now]) ! i + 2 * Interval"
    if "j < length (ts @ [now])" "i \<le> j" for i j
  proof (cases "j < length ts")
    case True
    then show ?thesis using debit.IH that by (simp add: nth_append)
  next
    case False
    then have "j = length ts" using that(1) by simp
    then show ?thesis using upto [of i] last that(2) by (simp add: nth_append Suc_diff_le algebra_simps)
  qed
  then show ?case using s upto by auto
qed simp

text \<open>
  C16: over any history of debits of one identity, a burst of \<open>n\<close> debits spans at least
  \<open>n - 2\<close> intervals of five seconds, whatever rows of other identities the store holds: no window sees more
  than the configured rate plus a burst of two.
\<close>

theorem rate_bound:
  assumes "debit_history identity row ts" "i \<le> j" "j < length ts"
  shows "int (j - i + 1) * Interval \<le> ts ! j - ts ! i + 2 * Interval"
  using debit_history_rate [OF assms(1), THEN conjunct2, THEN conjunct2] assms(2,3) by blast






subsection \<open>Rows fit the store\<close>

lemma opaque_plain: "opaque_id s \<Longrightarrow> list_all plain_char s \<and> length s \<le> 160"
  by (cases s) (auto simp: opaque_id_def list_all_iff id_tail_char_def is_alnum_def is_digit_def plain_char_def byte_def)

lemma validDigest_plain:
  assumes "rate_validDigest s"
  shows "list_all plain_char s" "length s = 64"
proof -
  have r: "\<forall>r \<in> set (runes s). r < 0x80" using assms by (auto simp: rate_validDigest_def list_all_iff)
  then have "\<forall>c \<in> set s. byte c < 0x80" using small_runes_ascii by blast
  then have "runes s = map byte s" by (simp add: runes_def decode_runes_ascii comp_def)
  then show "list_all plain_char s"
    using assms by (auto simp: rate_validDigest_def list_all_iff plain_char_def)
  show "length s = 64" using assms by (simp add: rate_validDigest_def)
qed

text \<open>Receipts are written one by one; a separator precedes each but the first.\<close>

lemma join_with_length: "(\<And>x. x \<in> set xs \<Longrightarrow> length x \<le> n) \<Longrightarrow> length (join_with [c] xs) \<le> length xs * Suc n"
  by (induction "[c]" xs rule: join_with.induct) fastforce+

lemma key_lengths:
  "length (json_string ''request_id'') = 12" "length (json_string ''selector_digest'') = 17"
  "length (json_string ''debited_at'') = 12" "length (json_string ''version'') = 9"
  "length (json_string ''identity_digest'') = 17" "length (json_string ''theoretical_arrival_at'') = 24"
  "length (json_string ''last_debit_at'') = 15" "length (json_string ''expires_at'') = 12"
  "length (json_string ''receipts'') = 10"
  by (simp_all add: json_string_length plain_char_def byte_def)

definition receipt_json :: "Receipt \<Rightarrow> json" where
  "receipt_json r = JObj [(''request_id'', JStr (rc_RequestID r)), (''selector_digest'', JStr (rc_SelectorDigest r)),
     (''debited_at'', JTime (rc_DebitedAt r))]"

lemma receipt_length:
  assumes "opaque_id (rc_RequestID r)" "rate_validDigest (rc_SelectorDigest r)" "validTime (rc_DebitedAt r)"
  shows "length (json_Marshal (receipt_json r)) \<le> 400"
proof -
  have "length (json_Marshal (JTime (rc_DebitedAt r))) \<le> 42"
    using assms(3) JTime_length by (simp add: validTime_def)
  moreover have "length (json_string (rc_RequestID r)) \<le> 162" "length (json_string (rc_SelectorDigest r)) = 66"
    using opaque_plain [OF assms(1)] validDigest_plain [OF assms(2)] by (simp_all add: json_string_length)
  ultimately show ?thesis by (simp add: receipt_json_def key_lengths)
qed

lemma validate_receipts_each:
  "validate_receipts t seen rs \<Longrightarrow> r \<in> set rs \<Longrightarrow>
   opaque_id (rc_RequestID r) \<and> rate_validDigest (rc_SelectorDigest r) \<and> validTime (rc_DebitedAt r)"
  by (induction rs arbitrary: seen) auto

lemma validateSlot_receipts:
  assumes "validateSlot s = None"
  shows "validate_receipts (sl_LastDebitAt s) [] (sl_Receipts s)" "length (sl_Receipts s) \<le> 16"
    "rate_validDigest (sl_IdentityDigest s)" "sl_Version s = rate_Version"
    "validTime (sl_LastDebitAt s)" "validTime (sl_TheoreticalArrivalAt s)" "validTime (sl_ExpiresAt s)"
  using assms by (simp_all add: validateSlot_def MaxReceipts_def)

lemma row_length:
  assumes "validateSlot s = None"
  shows "length (json_Marshal (slot_json s)) \<le> 8192"
proof -
  note v = validateSlot_receipts [OF assms]
  let ?rs = "map (json_Marshal \<circ> receipt_json) (sl_Receipts s)"
  have "length x \<le> 400" if "x \<in> set ?rs" for x
    using that validate_receipts_each [OF v(1)] receipt_length by auto
  then have "length (join_with '','' ?rs) \<le> length ?rs * Suc 400" by (rule join_with_length)
  then have rs: "length (join_with '','' ?rs) \<le> 6416" using v(2) by simp
  have "length (FormatNat (unat rate_Version)) \<le> 1" by (rule FormatNat_length) (simp_all add: rate_Version_def)
  moreover have "length (json_Marshal (JTime (sl_LastDebitAt s))) \<le> 42"
    "length (json_Marshal (JTime (sl_TheoreticalArrivalAt s))) \<le> 42" "length (json_Marshal (JTime (sl_ExpiresAt s))) \<le> 42"
    using v(5-7) JTime_length by (simp_all add: validTime_def)
  moreover have "length (json_string (sl_IdentityDigest s)) = 66"
    using validDigest_plain [OF v(3)] by (simp add: json_string_length)
  ultimately show ?thesis
    using rs v(4)
    by (simp add: slot_json_def receipt_json_def [abs_def] comp_def key_lengths MaxRowBytes_def)
qed

text \<open>
  C38: every valid rate row fits the store: its JSON encoding never exceeds the 8192 byte limit, so the size
  check of \<open>EncodeSlot\<close> refuses no valid row.
\<close>

theorem row_fits:
  assumes "validateSlot s = None"
  shows "length (json_Marshal (slot_json s)) \<le> MaxRowBytes \<and> EncodeSlot s = Inr (json_Marshal (slot_json s))"
  using row_length [OF assms] assms by (simp add: EncodeSlot_def MaxRowBytes_def)

text \<open>One identity in an empty table.\<close>

definition ex_identity :: string where
  "ex_identity = replicate 64 (CHR ''0'')"

definition ex_now :: timestamp where
  "ex_now = 63000000000 * second"

definition ex_slot :: Slot where
  "ex_slot = \<lparr>sl_Version = rate_Version, sl_IdentityDigest = ex_identity, sl_TheoreticalArrivalAt = ex_now + Interval,
     sl_LastDebitAt = ex_now, sl_ExpiresAt = ex_now + IdleTTL,
     sl_Receipts = [\<lparr>rc_RequestID = ''q1'', rc_SelectorDigest = ex_identity, rc_DebitedAt = ex_now\<rparr>]\<rparr>"

lemma ex_identity_valid [simp]: "rate_validDigest ex_identity" "length ex_identity = 64"
proof -
  have "runes ex_identity = map byte ex_identity"
    by (simp add: runes_def decode_runes_ascii ex_identity_def comp_def byte_def)
  then show "rate_validDigest ex_identity" by (simp add: rate_validDigest_def ex_identity_def byte_def list_all_iff)
qed (simp add: ex_identity_def)

lemmas rate_eval = validTime_def addTime_def ex_now_def second_def minute_def Interval_def IdleTTL_def ReceiptTTL_def
  year_in_range_def Let_def time_Sub_def

lemma ex_slot_valid: "validateSlot ex_slot = None"
  by (simp add: validateSlot_def ex_slot_def MaxReceipts_def rate_eval opaque_eval)

theorem row_fits_witness: "validateSlot ex_slot = None \<and> length (json_Marshal (slot_json ex_slot)) \<le> 8192"
  using row_fits [OF ex_slot_valid] ex_slot_valid by (simp add: MaxRowBytes_def)

lemma ex_slot_encodes: "EncodeSlot ex_slot = Inr (json_Marshal (slot_json ex_slot))"
proof -
  have "length (json_Marshal (slot_json ex_slot)) \<le> 8192" by (rule row_length [OF ex_slot_valid])
  then show ?thesis using ex_slot_valid by (simp add: EncodeSlot_def Let_def MaxRowBytes_def)
qed

lemma ex_keys: "identityKeys ex_identity = Inr [0, 1, 2, 3]"
proof -
  have "hex_number (replicate 16 (CHR ''0'')) = 0" by (simp add: hex_number_def hex_val_def is_digit_def byte_def numeral_eq_Suc)
  then show ?thesis by (simp add: identityKeys_def MaxSlots_def ProbeCount_def upt_rec) (simp add: ex_identity_def)
qed

lemma ex_debit_first:
  "Rate_Evaluate ex_now ex_identity [0, 1, 2, 3] [None, None, None, None] ''q1'' ex_identity =
     Inr (no_decision\<lparr>rd_Allowed := True, rd_Debited := True, rd_SlotID := 0, rd_Slot := Some ex_slot\<rparr>)"
  using ex_slot_encodes
  by (simp add: Rate_Evaluate_def ex_keys rate_decide_def debit_slot_def ex_slot_def rate_eval opaque_eval MaxReceipts_def)

lemma ex_history: "debit_history ex_identity (Some ex_slot) [ex_now]"
proof -
  have "row_visible ex_identity None ex_now [None, None, None, None]" by (simp add: row_visible_def)
  from debit_history.debit [OF debit_history.no_debit this ex_debit_first] show ?thesis by (simp add: no_decision_def)
qed

text \<open>A second request one second later, and the first one repeated.\<close>

definition ex_slot2 :: Slot where
  "ex_slot2 = ex_slot\<lparr>sl_TheoreticalArrivalAt := ex_now + 2 * Interval, sl_LastDebitAt := ex_now + second,
     sl_ExpiresAt := ex_now + second + IdleTTL, sl_Receipts := sl_Receipts ex_slot @
       [\<lparr>rc_RequestID = ''q2'', rc_SelectorDigest = ex_identity, rc_DebitedAt = ex_now + second\<rparr>]\<rparr>"

lemma ex_slot2_valid: "validateSlot ex_slot2 = None"
  by (simp add: validateSlot_def ex_slot2_def ex_slot_def MaxReceipts_def rate_eval opaque_eval)

lemma ex_slot2_encodes: "EncodeSlot ex_slot2 = Inr (json_Marshal (slot_json ex_slot2))"
  using row_length [OF ex_slot2_valid] ex_slot2_valid by (simp add: EncodeSlot_def MaxRowBytes_def)

lemma ex_scan:
  assumes "ex_now \<le> t" "t < ex_now + IdleTTL"
  shows "scan_slots t ex_identity [0, 1, 2, 3] 0 [Some ex_slot, None, None, None] None None = Inr (Some 0, Some 1)"
  using assms ex_slot_encodes ex_keys by (simp add: ex_slot_def)

lemma ex_debit_second:
  "Rate_Evaluate (ex_now + second) ex_identity [0, 1, 2, 3] [Some ex_slot, None, None, None] ''q2'' ex_identity =
     Inr (no_decision\<lparr>rd_Allowed := True, rd_Debited := True, rd_SlotID := 0, rd_Slot := Some ex_slot2\<rparr>)"
proof -
  have "scan_slots (ex_now + second) ex_identity [0, 1, 2, 3] 0 [Some ex_slot, None, None, None] None None =
      Inr (Some 0, Some 1)" by (rule ex_scan) (simp_all add: rate_eval)
  then show ?thesis using ex_slot2_encodes
    by (simp add: Rate_Evaluate_def ex_keys rate_decide_def rate_live_def debit_slot_def ex_slot2_def ex_slot_def
        MaxReceipts_def rate_eval opaque_eval)
qed


theorem rate_bound_witness:
  "debit_history ex_identity (Some ex_slot2) [ex_now, ex_now + second] \<and>
   2 * Interval \<le> (ex_now + second) - ex_now + 2 * Interval"
proof -
  have "row_visible ex_identity (Some ex_slot) (ex_now + second) [Some ex_slot, None, None, None]"
    by (simp add: row_visible_def)
  from debit_history.debit [OF ex_history this ex_debit_second]
  have h: "debit_history ex_identity (Some ex_slot2) [ex_now, ex_now + second]" by (simp add: no_decision_def)
  then show ?thesis using rate_bound [OF h, of 0 1] by simp
qed


end
