(* ===== verification/Negotiation.thy ===== *)
theory Negotiation
  imports GoLib
begin

text \<open>
  Error values and version negotiation of the attached-worker protocol
  (\<open>src/internal/attachedworkerprotocol/errors.go\<close>, \<open>version.go\<close>). A version window is at
  most eight versions wide, an offer lists the supported versions of its window in strictly
  increasing order, and negotiation selects the greatest version that both offers list and
  the implementation names. The lemmas give that selection as the maximum of an intersection.
\<close>

named_theorems protocol_validate "what the validators of the attached-worker protocol accept"

subsection \<open>Protocol errors\<close>

datatype ErrorCode =
    ErrorMalformedFrame
  | ErrorFrameTooLarge
  | ErrorUnsupportedVersion
  | ErrorProtocolViolation
  | ErrorUnauthorized
  | ErrorConflict
  | ErrorRetryLater
  | ErrorCodeOther string

fun ErrorCode_text :: "ErrorCode \<Rightarrow> string" where
  "ErrorCode_text ErrorMalformedFrame = ''malformed_frame''"
| "ErrorCode_text ErrorFrameTooLarge = ''frame_too_large''"
| "ErrorCode_text ErrorUnsupportedVersion = ''unsupported_version''"
| "ErrorCode_text ErrorProtocolViolation = ''protocol_violation''"
| "ErrorCode_text ErrorUnauthorized = ''unauthorized''"
| "ErrorCode_text ErrorConflict = ''conflict''"
| "ErrorCode_text ErrorRetryLater = ''retry_later''"
| "ErrorCode_text (ErrorCodeOther s) = s"

abbreviation ErrorInvalidFrame :: ErrorCode where "ErrorInvalidFrame \<equiv> ErrorMalformedFrame"
abbreviation ErrorInvalidSignature :: ErrorCode where "ErrorInvalidSignature \<equiv> ErrorUnauthorized"
abbreviation ErrorAuthentication :: ErrorCode where "ErrorAuthentication \<equiv> ErrorUnauthorized"
abbreviation ErrorInvalidTransition :: ErrorCode where "ErrorInvalidTransition \<equiv> ErrorProtocolViolation"
abbreviation ErrorSequenceMismatch :: ErrorCode where "ErrorSequenceMismatch \<equiv> ErrorProtocolViolation"
abbreviation ErrorBindingMismatch :: ErrorCode where "ErrorBindingMismatch \<equiv> ErrorConflict"

record ProtocolError =
  pe_Code :: ErrorCode
  pe_Retryable :: bool

text \<open>
  A call ends with a protocol error or, where the code follows a nil pointer, with a run-time
  panic, so that the absence of the latter is a statement about the definitions.
\<close>

datatype fault = Fault ProtocolError | NilDereference

definition ProtocolError_Error :: "ProtocolError option \<Rightarrow> string" where
  "ProtocolError_Error err =
     (case err of None \<Rightarrow> ErrorCode_text ErrorInvalidFrame | Some e \<Rightarrow> ErrorCode_text (pe_Code e))"

definition protocolError :: "ErrorCode \<Rightarrow> fault" where
  "protocolError code = Fault \<lparr>pe_Code = code, pe_Retryable = (code = ErrorRetryLater)\<rparr>"

text \<open>\<open>if bad { return protocolError(code) }\<close> at the end of a validator.\<close>

definition reject :: "bool \<Rightarrow> ErrorCode \<Rightarrow> fault option" where
  "reject bad code = (if bad then Some (protocolError code) else None)"

lemma reject_None [simp]: "reject bad code = None \<longleftrightarrow> \<not> bad"
  by (simp add: reject_def)

lemma protocolError_panic [simp]: "protocolError code \<noteq> NilDereference"
  by (simp add: protocolError_def)

lemma protocolError_eq [simp]: "protocolError a = protocolError b \<longleftrightarrow> a = b"
  by (auto simp: protocolError_def)

lemma reject_no_panic [simp]: "reject bad code \<noteq> Some NilDereference"
  by (simp add: reject_def)

subsection \<open>Versions\<close>

type_synonym ProtocolVersion = u32

definition ProtocolVersionV1 :: ProtocolVersion where "ProtocolVersionV1 = 1"
definition maxVersionWidth :: nat where "maxVersionWidth = 8"

record VersionWindow =
  vw_Minimum :: ProtocolVersion
  vw_Maximum :: ProtocolVersion

record VersionOfferV1 =
  vo_Window :: VersionWindow
  vo_Supported :: "ProtocolVersion list"

definition VersionWindow_Validate :: "VersionWindow \<Rightarrow> fault option" where
  "VersionWindow_Validate w =
     reject (vw_Minimum w = 0 \<or> vw_Maximum w < vw_Minimum w \<or>
             (of_nat maxVersionWidth :: u64) < ucast (vw_Maximum w) - ucast (vw_Minimum w) + 1)
       ErrorUnsupportedVersion"

text \<open>The loop over \<open>Supported\<close> with the previous version.\<close>

fun supported_ordered :: "VersionWindow \<Rightarrow> ProtocolVersion \<Rightarrow> ProtocolVersion list \<Rightarrow> bool" where
  "supported_ordered w prev [] = True"
| "supported_ordered w prev (v # vs) =
     (if v < vw_Minimum w \<or> vw_Maximum w < v \<or> v \<le> prev then False else supported_ordered w v vs)"

definition VersionOfferV1_Validate :: "VersionOfferV1 \<Rightarrow> fault option" where
  "VersionOfferV1_Validate offer =
     (if VersionWindow_Validate (vo_Window offer) \<noteq> None \<or> length (vo_Supported offer) = 0 \<or>
         maxVersionWidth < length (vo_Supported offer)
      then Some (protocolError ErrorUnsupportedVersion)
      else reject (\<not> supported_ordered (vo_Window offer) 0 (vo_Supported offer)) ErrorUnsupportedVersion)"

text \<open>The scan of \<open>implemented\<close> with the set of versions seen: no zero, no duplicate.\<close>

fun implemented_set :: "ProtocolVersion list \<Rightarrow> ProtocolVersion set \<Rightarrow> fault + ProtocolVersion set" where
  "implemented_set [] seen = Inr seen"
| "implemented_set (v # vs) seen =
     (if v = 0 \<or> v \<in> seen then Inl (protocolError ErrorUnsupportedVersion)
      else implemented_set vs (insert v seen))"

fun select_version ::
    "(ProtocolVersion \<Rightarrow> bool) \<Rightarrow> ProtocolVersion list \<Rightarrow> ProtocolVersion \<Rightarrow> ProtocolVersion" where
  "select_version P [] selected = selected"
| "select_version P (v # vs) selected =
     select_version P vs (if P v \<and> selected < v then v else selected)"

definition in_window :: "VersionWindow \<Rightarrow> ProtocolVersion \<Rightarrow> bool" where
  "in_window w v = (vw_Minimum w \<le> v \<and> v \<le> vw_Maximum w)"

definition NegotiateVersion ::
    "VersionWindow \<Rightarrow> VersionWindow \<Rightarrow> ProtocolVersion list \<Rightarrow> fault + ProtocolVersion" where
  "NegotiateVersion local peer implemented =
     (if VersionWindow_Validate local \<noteq> None \<or> VersionWindow_Validate peer \<noteq> None \<or>
         length implemented = 0 \<or> maxVersionWidth < length implemented
      then Inl (protocolError ErrorUnsupportedVersion)
      else case implemented_set implemented {} of
        Inl e \<Rightarrow> Inl e
      | Inr _ \<Rightarrow>
          let selected = select_version (\<lambda>v. in_window local v \<and> in_window peer v) implemented 0
          in if selected = 0 then Inl (protocolError ErrorUnsupportedVersion) else Inr selected)"

definition NegotiateOffers ::
    "VersionOfferV1 \<Rightarrow> VersionOfferV1 \<Rightarrow> ProtocolVersion list \<Rightarrow> fault + ProtocolVersion" where
  "NegotiateOffers local peer implemented =
     (if VersionOfferV1_Validate local \<noteq> None \<or> VersionOfferV1_Validate peer \<noteq> None \<or>
         length implemented = 0 \<or> maxVersionWidth < length implemented
      then Inl (protocolError ErrorUnsupportedVersion)
      else case implemented_set implemented {} of
        Inl e \<Rightarrow> Inl e
      | Inr implementedSet \<Rightarrow>
          let peerSet = set (vo_Supported peer);
              selected = select_version (\<lambda>v. v \<in> peerSet \<and> v \<in> implementedSet) (vo_Supported local) 0
          in if selected = 0 then Inl (protocolError ErrorUnsupportedVersion) else Inr selected)"

definition sameVersionOffer :: "VersionOfferV1 \<Rightarrow> VersionOfferV1 \<Rightarrow> bool" where
  "sameVersionOffer left right =
     (vo_Window left = vo_Window right \<and> length (vo_Supported left) = length (vo_Supported right) \<and>
      (\<forall>i < length (vo_Supported left). vo_Supported left ! i = vo_Supported right ! i))"

definition versionOfferSupports :: "VersionOfferV1 \<Rightarrow> ProtocolVersion \<Rightarrow> bool" where
  "versionOfferSupports offer selected = list_ex (\<lambda>v. v = selected) (vo_Supported offer)"

subsection \<open>What negotiation selects\<close>

lemma sameVersionOffer_eq [simp]: "sameVersionOffer left right \<longleftrightarrow> left = right"
  by (auto simp: sameVersionOffer_def list_eq_iff_nth_eq)

lemma versionOfferSupports_iff [simp]: "versionOfferSupports offer v \<longleftrightarrow> v \<in> set (vo_Supported offer)"
  by (auto simp: versionOfferSupports_def list_ex_iff)

lemma implemented_set_Inr:
  "implemented_set vs seen = Inr S \<longleftrightarrow>
     0 \<notin> set vs \<and> distinct vs \<and> set vs \<inter> seen = {} \<and> S = set vs \<union> seen"
  by (induction vs seen rule: implemented_set.induct) auto

lemma implemented_set_Inl: "implemented_set vs seen = Inl e \<Longrightarrow> e = protocolError ErrorUnsupportedVersion"
  by (induction vs seen rule: implemented_set.induct) (auto split: if_splits)

lemma select_version_max:
  "select_version P vs s = Max (insert s {v \<in> set vs. P v})"
proof (induction P vs s rule: select_version.induct)
  case (2 P v vs selected)
  have "{x \<in> set (v # vs). P x} = (if P v then insert v {x \<in> set vs. P x} else {x \<in> set vs. P x})"
    by auto
  moreover have "Max (insert selected (insert v {x \<in> set vs. P x})) =
      Max (insert (max selected v) {x \<in> set vs. P x})"
  proof (cases "{x \<in> set vs. P x} = {}")
    case True
    then show ?thesis unfolding True by simp
  next
    case False
    then show ?thesis by (simp add: Max_insert max.assoc)
  qed
  ultimately show ?case using 2 by (auto simp: max_def not_less)
qed simp

lemma supported_ordered_window:
  "supported_ordered w prev vs \<Longrightarrow> v \<in> set vs \<Longrightarrow> in_window w v \<and> prev < v"
  by (induction w prev vs rule: supported_ordered.induct) (auto simp: in_window_def split: if_splits)

lemma supported_ordered_sorted: "supported_ordered w prev vs \<Longrightarrow> sorted_wrt (<) vs"
  by (induction w prev vs rule: supported_ordered.induct)
    (auto dest: supported_ordered_window split: if_splits)

lemma VersionOfferV1_Validate_None:
  assumes "VersionOfferV1_Validate offer = None"
  shows "VersionWindow_Validate (vo_Window offer) = None" and "vo_Supported offer \<noteq> []"
    and "sorted_wrt (<) (vo_Supported offer)"
    and "\<And>v. v \<in> set (vo_Supported offer) \<Longrightarrow> in_window (vo_Window offer) v"
  using assms
  by (auto simp: VersionOfferV1_Validate_def split: if_splits
      dest: supported_ordered_sorted supported_ordered_window)

definition offers_acceptable :: "VersionOfferV1 \<Rightarrow> VersionOfferV1 \<Rightarrow> ProtocolVersion list \<Rightarrow> bool" where
  "offers_acceptable local peer implemented =
     (VersionOfferV1_Validate local = None \<and> VersionOfferV1_Validate peer = None \<and>
      implemented \<noteq> [] \<and> length implemented \<le> maxVersionWidth \<and> 0 \<notin> set implemented \<and> distinct implemented)"

definition common_versions :: "VersionOfferV1 \<Rightarrow> VersionOfferV1 \<Rightarrow> ProtocolVersion list \<Rightarrow> ProtocolVersion set" where
  "common_versions local peer implemented =
     set (vo_Supported local) \<inter> set (vo_Supported peer) \<inter> set implemented"

lemma NegotiateOffers_eq:
  "NegotiateOffers local peer implemented =
     (if offers_acceptable local peer implemented \<and> common_versions local peer implemented \<noteq> {}
      then Inr (Max (common_versions local peer implemented))
      else Inl (protocolError ErrorUnsupportedVersion))"
proof (cases "offers_acceptable local peer implemented")
  case True
  then have S: "implemented_set implemented {} = Inr (set implemented)"
    by (auto simp: implemented_set_Inr offers_acceptable_def)
  let ?C = "common_versions local peer implemented"
  have C: "{v \<in> set (vo_Supported local). v \<in> set (vo_Supported peer) \<and> v \<in> set implemented} = ?C"
    by (auto simp: common_versions_def)
  have z: "0 \<notin> ?C" and fin: "finite ?C"
    using True by (auto simp: common_versions_def offers_acceptable_def)
  have "Max (insert 0 ?C) = (if ?C = {} then 0 else Max ?C)"
    using fin by (auto simp: max_def)
  moreover have "?C \<noteq> {} \<Longrightarrow> Max ?C \<noteq> 0" using Max_in [OF fin] z by metis
  ultimately show ?thesis
    using True S by (simp add: NegotiateOffers_def offers_acceptable_def select_version_max C Let_def)
next
  case False
  then show ?thesis
    by (auto simp: NegotiateOffers_def offers_acceptable_def implemented_set_Inr
        dest: implemented_set_Inl split: sum.splits)
qed

lemma common_versions_commute: "common_versions a b i = common_versions b a i"
  by (auto simp: common_versions_def)

lemma offers_acceptable_commute: "offers_acceptable a b i = offers_acceptable b a i"
  by (auto simp: offers_acceptable_def)

end
