(* ===== verification/Wire.thy ===== *)
theory Wire
  imports Negotiation Encoding
begin

text \<open>
  The messages of the attached-worker protocol
  (\<open>src/internal/attachedworkerprotocol/types.go\<close>, the data types of \<open>manifest.go\<close>,
  \<open>reconciliation.go\<close> and \<open>machine.go\<close>), their JSON form, and the fingerprints and digests
  computed from them. A frame has an envelope and one optional pointer per payload kind.
  A nil and an empty byte slice are one value here; both lengths are zero, and the code seals
  its own summaries with empty slices, which marshal as the empty string.
\<close>

subsection \<open>Enumerations\<close>

datatype MessageKind =
    MessageHello | MessageChallenge | MessageAttach | MessageAttachAccepted | MessageReconnect
  | MessageReconnectAccepted | MessageManifest | MessageHeartbeat | MessageLeaseOffer
  | MessageLeaseClaim | MessageLeaseAccepted | MessageProgress | MessageCancel | MessageCancelAck
  | MessageTerminal | MessageTerminalAck | MessageDrain | MessageDrained | MessageRevoke
  | MessageRevoked | MessageError | MessageKindOther string

fun MessageKind_text :: "MessageKind \<Rightarrow> string" where
  "MessageKind_text MessageHello = ''hello''"
| "MessageKind_text MessageChallenge = ''challenge''"
| "MessageKind_text MessageAttach = ''attach''"
| "MessageKind_text MessageAttachAccepted = ''attach_accepted''"
| "MessageKind_text MessageReconnect = ''reconnect''"
| "MessageKind_text MessageReconnectAccepted = ''reconnect_accepted''"
| "MessageKind_text MessageManifest = ''manifest''"
| "MessageKind_text MessageHeartbeat = ''heartbeat''"
| "MessageKind_text MessageLeaseOffer = ''lease_offer''"
| "MessageKind_text MessageLeaseClaim = ''lease_claim''"
| "MessageKind_text MessageLeaseAccepted = ''lease_accepted''"
| "MessageKind_text MessageProgress = ''progress''"
| "MessageKind_text MessageCancel = ''cancel''"
| "MessageKind_text MessageCancelAck = ''cancel_ack''"
| "MessageKind_text MessageTerminal = ''terminal''"
| "MessageKind_text MessageTerminalAck = ''terminal_ack''"
| "MessageKind_text MessageDrain = ''drain''"
| "MessageKind_text MessageDrained = ''drained''"
| "MessageKind_text MessageRevoke = ''revoke''"
| "MessageKind_text MessageRevoked = ''revoked''"
| "MessageKind_text MessageError = ''error''"
| "MessageKind_text (MessageKindOther s) = s"

datatype Direction = DirectionPlatformToWorker | DirectionWorkerToPlatform | DirectionOther string

fun Direction_text :: "Direction \<Rightarrow> string" where
  "Direction_text DirectionPlatformToWorker = ''platform_to_worker''"
| "Direction_text DirectionWorkerToPlatform = ''worker_to_platform''"
| "Direction_text (DirectionOther s) = s"

datatype AttemptState =
    AttemptIdle | AttemptOffered | AttemptClaimPending | AttemptClaimed | AttemptCancelRequested
  | AttemptCancelAcked | AttemptFenced | AttemptTerminalPending | AttemptTerminalCommitted
  | AttemptStateOther string

fun AttemptState_text :: "AttemptState \<Rightarrow> string" where
  "AttemptState_text AttemptIdle = ''idle''"
| "AttemptState_text AttemptOffered = ''offered''"
| "AttemptState_text AttemptClaimPending = ''claim_pending''"
| "AttemptState_text AttemptClaimed = ''claimed''"
| "AttemptState_text AttemptCancelRequested = ''cancel_requested''"
| "AttemptState_text AttemptCancelAcked = ''cancel_acked''"
| "AttemptState_text AttemptFenced = ''fenced''"
| "AttemptState_text AttemptTerminalPending = ''terminal_pending''"
| "AttemptState_text AttemptTerminalCommitted = ''terminal_committed''"
| "AttemptState_text (AttemptStateOther s) = s"

datatype ProgressStage = ProgressStarted | ProgressActive | ProgressStageOther string

fun ProgressStage_text :: "ProgressStage \<Rightarrow> string" where
  "ProgressStage_text ProgressStarted = ''started''"
| "ProgressStage_text ProgressActive = ''active''"
| "ProgressStage_text (ProgressStageOther s) = s"

datatype CancelCode = CancelRequested | CancelFenced | CancelCodeOther string

abbreviation CancelUnset :: CancelCode where "CancelUnset \<equiv> CancelCodeOther ''''"

fun CancelCode_text :: "CancelCode \<Rightarrow> string" where
  "CancelCode_text CancelRequested = ''requested''"
| "CancelCode_text CancelFenced = ''fenced''"
| "CancelCode_text (CancelCodeOther s) = s"

datatype TerminalStatus = TerminalSucceeded | TerminalFailed | TerminalCancelled | TerminalStatusOther string

abbreviation TerminalStatusUnset :: TerminalStatus where "TerminalStatusUnset \<equiv> TerminalStatusOther ''''"

fun TerminalStatus_text :: "TerminalStatus \<Rightarrow> string" where
  "TerminalStatus_text TerminalSucceeded = ''succeeded''"
| "TerminalStatus_text TerminalFailed = ''failed''"
| "TerminalStatus_text TerminalCancelled = ''cancelled''"
| "TerminalStatus_text (TerminalStatusOther s) = s"

datatype TerminalResult =
    TerminalResultCompleted | TerminalResultFailed | TerminalResultCancelled | TerminalResultOther string

abbreviation TerminalResultUnset :: TerminalResult where "TerminalResultUnset \<equiv> TerminalResultOther ''''"

fun TerminalResult_text :: "TerminalResult \<Rightarrow> string" where
  "TerminalResult_text TerminalResultCompleted = ''completed''"
| "TerminalResult_text TerminalResultFailed = ''failed''"
| "TerminalResult_text TerminalResultCancelled = ''cancelled''"
| "TerminalResult_text (TerminalResultOther s) = s"

datatype ReconnectTerminalDecision =
    ReconnectTerminalNone | ReconnectTerminalReplay | ReconnectTerminalDiscard
  | ReconnectTerminalCommitted | ReconnectTerminalOther string

fun ReconnectTerminalDecision_text :: "ReconnectTerminalDecision \<Rightarrow> string" where
  "ReconnectTerminalDecision_text ReconnectTerminalNone = ''none''"
| "ReconnectTerminalDecision_text ReconnectTerminalReplay = ''replay''"
| "ReconnectTerminalDecision_text ReconnectTerminalDiscard = ''discard''"
| "ReconnectTerminalDecision_text ReconnectTerminalCommitted = ''committed''"
| "ReconnectTerminalDecision_text (ReconnectTerminalOther s) = s"

subsection \<open>Attempt bindings and attempt messages\<close>

record AttemptBindingV1 =
  ab_RunID :: string
  ab_AttemptID :: string
  ab_LeaseID :: string
  ab_LeaseGeneration :: u64
  ab_FenceToken :: string
  ab_ExpiresAtUnixMicro :: int
  ab_ContextDigest :: string
  ab_CapabilityDigest :: string
  ab_PolicyDigest :: string

definition zero_binding :: AttemptBindingV1 where
  "zero_binding = \<lparr>ab_RunID = '''', ab_AttemptID = '''', ab_LeaseID = '''', ab_LeaseGeneration = 0,
     ab_FenceToken = '''', ab_ExpiresAtUnixMicro = 0, ab_ContextDigest = '''',
     ab_CapabilityDigest = '''', ab_PolicyDigest = ''''\<rparr>"

record LeaseOfferV1 =
  lo_Binding :: AttemptBindingV1
  lo_AttemptSequence :: u64

record LeaseClaimV1 =
  lc_Binding :: AttemptBindingV1
  lc_AttemptSequence :: u64

record LeaseAcceptedV1 =
  la_Binding :: AttemptBindingV1
  la_AttemptSequence :: u64

record ProgressV1 =
  pg_Binding :: AttemptBindingV1
  pg_AttemptSequence :: u64
  pg_ProgressSequence :: u64
  pg_Stage :: ProgressStage

record CancelV1 =
  cn_Binding :: AttemptBindingV1
  cn_AttemptSequence :: u64
  cn_CancelRevision :: u64
  cn_Code :: CancelCode

record CancelAckV1 =
  ca_Binding :: AttemptBindingV1
  ca_AttemptSequence :: u64
  ca_CancelRevision :: u64

record TerminalV1 =
  tm_Binding :: AttemptBindingV1
  tm_AttemptSequence :: u64
  tm_TerminalSequence :: u64
  tm_Status :: TerminalStatus
  tm_Result :: TerminalResult
  tm_EvidenceDigest :: string

record TerminalAckV1 =
  ta_Binding :: AttemptBindingV1
  ta_AttemptSequence :: u64
  ta_TerminalSequence :: u64
  ta_Status :: TerminalStatus
  ta_Result :: TerminalResult
  ta_EvidenceDigest :: string

subsection \<open>Summaries and replay plans\<close>

record ConnectionWatermarksV1 =
  wm_PlatformSequence :: u64
  wm_WorkerSequence :: u64
  wm_PlatformAck :: u64
  wm_WorkerAck :: u64

record AttemptSummaryV1 =
  as_State :: AttemptState
  as_Binding :: AttemptBindingV1
  as_PlatformSequence :: u64
  as_WorkerSequence :: u64
  as_ProgressSequence :: u64
  as_CancelRevision :: u64
  as_CancelCode :: CancelCode
  as_TerminalSequence :: u64
  as_TerminalStatus :: TerminalStatus
  as_TerminalResult :: TerminalResult
  as_TerminalEvidenceDigest :: string
  as_Digest :: string

record ReplayPlanV1 =
  rp_PlatformEnvelopeAfter :: u64
  rp_WorkerEnvelopeAfter :: u64
  rp_PlatformAttemptAfter :: u64
  rp_WorkerAttemptAfter :: u64
  rp_TerminalDecision :: ReconnectTerminalDecision

subsection \<open>Connection messages\<close>

type_synonym IsolationEvidenceV1 = string
type_synonym ProtocolFeatureV1 = string
type_synonym HarnessSurfaceV1 = string

record CapabilityManifestV1 =
  cm_WorkerID :: string
  cm_EnrollmentGeneration :: u64
  cm_Revision :: u64
  cm_ProtocolOffer :: VersionOfferV1
  cm_OperatingSystem :: string
  cm_Architecture :: string
  cm_BuildID :: string
  cm_HarnessName :: string
  cm_HarnessVersion :: string
  cm_HarnessSurface :: HarnessSurfaceV1
  cm_HarnessExecutableDigest :: string
  cm_IsolationEvidence :: "IsolationEvidenceV1 list"
  cm_Features :: "ProtocolFeatureV1 list"
  cm_MaxConcurrentAttempts :: u32

record HelloV1 =
  he_Offer :: VersionOfferV1
  he_WorkerNonce :: string

record ChallengeV1 =
  ch_WorkerOffer :: VersionOfferV1
  ch_PlatformOffer :: VersionOfferV1
  ch_SelectedVersion :: ProtocolVersion
  ch_WorkerNonce :: string
  ch_PlatformNonce :: string

record AttachV1 =
  at_WorkerOffer :: VersionOfferV1
  at_PlatformOffer :: VersionOfferV1
  at_SelectedVersion :: ProtocolVersion
  at_WorkerNonce :: string
  at_PlatformNonce :: string
  at_CapabilityDigest :: string
  at_Signature :: string

record ReconnectV1 =
  rc_WorkerOffer :: VersionOfferV1
  rc_PlatformOffer :: VersionOfferV1
  rc_SelectedVersion :: ProtocolVersion
  rc_PreviousConnectionGeneration :: u64
  rc_WorkerNonce :: string
  rc_PlatformNonce :: string
  rc_CapabilityDigest :: string
  rc_PreviousWatermarks :: ConnectionWatermarksV1
  rc_AttemptSummary :: AttemptSummaryV1
  rc_PendingTerminalReplay :: "TerminalV1 option"
  rc_Signature :: string

record AttachAcceptedV1 =
  aa_WorkerOffer :: VersionOfferV1
  aa_PlatformOffer :: VersionOfferV1
  aa_SelectedVersion :: ProtocolVersion
  aa_WorkerNonce :: string
  aa_PlatformNonce :: string
  aa_CapabilityDigest :: string

record ReconnectAcceptedV1 =
  ra_WorkerOffer :: VersionOfferV1
  ra_PlatformOffer :: VersionOfferV1
  ra_SelectedVersion :: ProtocolVersion
  ra_WorkerNonce :: string
  ra_PlatformNonce :: string
  ra_CapabilityDigest :: string
  ra_AuthoritativeWatermarks :: ConnectionWatermarksV1
  ra_AuthoritativeAttempt :: AttemptSummaryV1
  ra_AuthoritativePendingTerminalReplay :: "TerminalV1 option"
  ra_ReplayPlan :: ReplayPlanV1

record ManifestV1 =
  mf_Manifest :: CapabilityManifestV1
  mf_Digest :: string
  mf_Signature :: string

record HeartbeatV1 =
  hb_ObservedAtUnixMicro :: int
  hb_Available :: bool
  hb_ActiveAttempts :: u32

record DrainV1 =
  dr_Revision :: u64

record DrainedV1 =
  dd_Revision :: u64

record RevokeV1 =
  rv_Revision :: u64
  rv_NextEnrollmentGeneration :: u64
  rv_NextConnectionGeneration :: u64

record RevokedV1 =
  rd_Revision :: u64
  rd_NextEnrollmentGeneration :: u64
  rd_NextConnectionGeneration :: u64

record ErrorV1 =
  ev_Code :: ErrorCode
  ev_Retryable :: bool

subsection \<open>Frames\<close>

record FrameV1 =
  fr_Version :: ProtocolVersion
  fr_MessageID :: string
  fr_WorkerID :: string
  fr_EnrollmentGeneration :: u64
  fr_ConnectionGeneration :: u64
  fr_Sequence :: u64
  fr_Ack :: u64
  fr_Kind :: MessageKind
  fr_Hello :: "HelloV1 option"
  fr_Challenge :: "ChallengeV1 option"
  fr_Attach :: "AttachV1 option"
  fr_AttachAccepted :: "AttachAcceptedV1 option"
  fr_Reconnect :: "ReconnectV1 option"
  fr_ReconnectAccepted :: "ReconnectAcceptedV1 option"
  fr_Manifest :: "ManifestV1 option"
  fr_Heartbeat :: "HeartbeatV1 option"
  fr_LeaseOffer :: "LeaseOfferV1 option"
  fr_LeaseClaim :: "LeaseClaimV1 option"
  fr_LeaseAccepted :: "LeaseAcceptedV1 option"
  fr_Progress :: "ProgressV1 option"
  fr_Cancel :: "CancelV1 option"
  fr_CancelAck :: "CancelAckV1 option"
  fr_Terminal :: "TerminalV1 option"
  fr_TerminalAck :: "TerminalAckV1 option"
  fr_Drain :: "DrainV1 option"
  fr_Drained :: "DrainedV1 option"
  fr_Revoke :: "RevokeV1 option"
  fr_Revoked :: "RevokedV1 option"
  fr_Error :: "ErrorV1 option"

text \<open>The frame literal \<open>FrameV1{Kind: kind}\<close>.\<close>

definition empty_frame :: "MessageKind \<Rightarrow> FrameV1" where
  "empty_frame kind = \<lparr>fr_Version = 0, fr_MessageID = '''', fr_WorkerID = '''',
     fr_EnrollmentGeneration = 0, fr_ConnectionGeneration = 0, fr_Sequence = 0, fr_Ack = 0, fr_Kind = kind,
     fr_Hello = None, fr_Challenge = None, fr_Attach = None, fr_AttachAccepted = None,
     fr_Reconnect = None, fr_ReconnectAccepted = None, fr_Manifest = None, fr_Heartbeat = None,
     fr_LeaseOffer = None, fr_LeaseClaim = None, fr_LeaseAccepted = None, fr_Progress = None,
     fr_Cancel = None, fr_CancelAck = None, fr_Terminal = None, fr_TerminalAck = None,
     fr_Drain = None, fr_Drained = None, fr_Revoke = None, fr_Revoked = None, fr_Error = None\<rparr>"

record BatchV1 =
  bt_Version :: ProtocolVersion
  bt_Frames :: "FrameV1 list"

end
