(* ===== verification/Canonical.thy ===== *)
theory Canonical
  imports Wire
begin

text \<open>
  The two byte encodings of protocol messages. The JSON form (struct tags of
  \<open>src/internal/attachedworkerprotocol/types.go\<close>) gives the frame and attempt fingerprints of
  \<open>machine.go\<close>. The canonical form of \<open>manifest.go\<close> and \<open>crypto.go\<close>, with explicit length
  prefixes and fixed-width integers, gives the digests that are signed. The lemmas show that
  the canonical form is uniquely decodable: equal encodings have equal fields.
\<close>

subsection \<open>JSON\<close>

definition VersionOfferV1_json :: "VersionOfferV1 \<Rightarrow> json" where
  "VersionOfferV1_json o' = JObj
     [(''window'', JObj [(''minimum'', JNat (unat (vw_Minimum (vo_Window o')))),
                        (''maximum'', JNat (unat (vw_Maximum (vo_Window o'))))]),
      (''supported'', JArr (map (\<lambda>v. JNat (unat v)) (vo_Supported o')))]"

definition AttemptBindingV1_json :: "AttemptBindingV1 \<Rightarrow> json" where
  "AttemptBindingV1_json b = JObj
     [(''run_id'', JStr (ab_RunID b)), (''attempt_id'', JStr (ab_AttemptID b)), (''lease_id'', JStr (ab_LeaseID b)),
      (''lease_generation'', JNat (unat (ab_LeaseGeneration b))), (''fence_token'', JStr (ab_FenceToken b)),
      (''expires_at_unix_micro'', JInt (ab_ExpiresAtUnixMicro b)), (''context_digest'', JBytes (ab_ContextDigest b)),
      (''capability_digest'', JBytes (ab_CapabilityDigest b)), (''policy_digest'', JBytes (ab_PolicyDigest b))]"

definition LeaseOfferV1_json :: "LeaseOfferV1 \<Rightarrow> json" where
  "LeaseOfferV1_json x = JObj
     [(''binding'', AttemptBindingV1_json (lo_Binding x)), (''attempt_sequence'', JNat (unat (lo_AttemptSequence x)))]"

definition LeaseClaimV1_json :: "LeaseClaimV1 \<Rightarrow> json" where
  "LeaseClaimV1_json x = JObj
     [(''binding'', AttemptBindingV1_json (lc_Binding x)), (''attempt_sequence'', JNat (unat (lc_AttemptSequence x)))]"

definition LeaseAcceptedV1_json :: "LeaseAcceptedV1 \<Rightarrow> json" where
  "LeaseAcceptedV1_json x = JObj
     [(''binding'', AttemptBindingV1_json (la_Binding x)), (''attempt_sequence'', JNat (unat (la_AttemptSequence x)))]"

definition ProgressV1_json :: "ProgressV1 \<Rightarrow> json" where
  "ProgressV1_json x = JObj
     [(''binding'', AttemptBindingV1_json (pg_Binding x)), (''attempt_sequence'', JNat (unat (pg_AttemptSequence x))),
      (''progress_sequence'', JNat (unat (pg_ProgressSequence x))), (''stage'', JStr (ProgressStage_text (pg_Stage x)))]"

definition CancelV1_json :: "CancelV1 \<Rightarrow> json" where
  "CancelV1_json x = JObj
     [(''binding'', AttemptBindingV1_json (cn_Binding x)), (''attempt_sequence'', JNat (unat (cn_AttemptSequence x))),
      (''cancel_revision'', JNat (unat (cn_CancelRevision x))), (''code'', JStr (CancelCode_text (cn_Code x)))]"

definition CancelAckV1_json :: "CancelAckV1 \<Rightarrow> json" where
  "CancelAckV1_json x = JObj
     [(''binding'', AttemptBindingV1_json (ca_Binding x)), (''attempt_sequence'', JNat (unat (ca_AttemptSequence x))),
      (''cancel_revision'', JNat (unat (ca_CancelRevision x)))]"

definition TerminalV1_json :: "TerminalV1 \<Rightarrow> json" where
  "TerminalV1_json x = JObj
     [(''binding'', AttemptBindingV1_json (tm_Binding x)), (''attempt_sequence'', JNat (unat (tm_AttemptSequence x))),
      (''terminal_sequence'', JNat (unat (tm_TerminalSequence x))), (''status'', JStr (TerminalStatus_text (tm_Status x))),
      (''result'', JStr (TerminalResult_text (tm_Result x))), (''evidence_digest'', JBytes (tm_EvidenceDigest x))]"

definition TerminalAckV1_json :: "TerminalAckV1 \<Rightarrow> json" where
  "TerminalAckV1_json x = JObj
     [(''binding'', AttemptBindingV1_json (ta_Binding x)), (''attempt_sequence'', JNat (unat (ta_AttemptSequence x))),
      (''terminal_sequence'', JNat (unat (ta_TerminalSequence x))), (''status'', JStr (TerminalStatus_text (ta_Status x))),
      (''result'', JStr (TerminalResult_text (ta_Result x))), (''evidence_digest'', JBytes (ta_EvidenceDigest x))]"

definition ConnectionWatermarksV1_json :: "ConnectionWatermarksV1 \<Rightarrow> json" where
  "ConnectionWatermarksV1_json w = JObj
     [(''platform_sequence'', JNat (unat (wm_PlatformSequence w))), (''worker_sequence'', JNat (unat (wm_WorkerSequence w))),
      (''platform_ack'', JNat (unat (wm_PlatformAck w))), (''worker_ack'', JNat (unat (wm_WorkerAck w)))]"

definition AttemptSummaryV1_json :: "AttemptSummaryV1 \<Rightarrow> json" where
  "AttemptSummaryV1_json s = JObj
     [(''state'', JStr (AttemptState_text (as_State s))), (''binding'', AttemptBindingV1_json (as_Binding s)),
      (''platform_sequence'', JNat (unat (as_PlatformSequence s))), (''worker_sequence'', JNat (unat (as_WorkerSequence s))),
      (''progress_sequence'', JNat (unat (as_ProgressSequence s))), (''cancel_revision'', JNat (unat (as_CancelRevision s))),
      (''cancel_code'', JStr (CancelCode_text (as_CancelCode s))), (''terminal_sequence'', JNat (unat (as_TerminalSequence s))),
      (''terminal_status'', JStr (TerminalStatus_text (as_TerminalStatus s))),
      (''terminal_result'', JStr (TerminalResult_text (as_TerminalResult s))),
      (''terminal_evidence_digest'', JBytes (as_TerminalEvidenceDigest s)), (''digest'', JBytes (as_Digest s))]"

definition ReplayPlanV1_json :: "ReplayPlanV1 \<Rightarrow> json" where
  "ReplayPlanV1_json p = JObj
     [(''platform_envelope_after'', JNat (unat (rp_PlatformEnvelopeAfter p))),
      (''worker_envelope_after'', JNat (unat (rp_WorkerEnvelopeAfter p))),
      (''platform_attempt_after'', JNat (unat (rp_PlatformAttemptAfter p))),
      (''worker_attempt_after'', JNat (unat (rp_WorkerAttemptAfter p))),
      (''terminal_decision'', JStr (ReconnectTerminalDecision_text (rp_TerminalDecision p)))]"

definition CapabilityManifestV1_json :: "CapabilityManifestV1 \<Rightarrow> json" where
  "CapabilityManifestV1_json m = JObj
     [(''worker_id'', JStr (cm_WorkerID m)), (''enrollment_generation'', JNat (unat (cm_EnrollmentGeneration m))),
      (''revision'', JNat (unat (cm_Revision m))), (''protocol_offer'', VersionOfferV1_json (cm_ProtocolOffer m)),
      (''operating_system'', JStr (cm_OperatingSystem m)), (''architecture'', JStr (cm_Architecture m)),
      (''build_id'', JStr (cm_BuildID m)), (''harness_name'', JStr (cm_HarnessName m)),
      (''harness_version'', JStr (cm_HarnessVersion m)), (''harness_surface'', JStr (cm_HarnessSurface m)),
      (''harness_executable_digest'', JBytes (cm_HarnessExecutableDigest m)),
      (''isolation_evidence'', JArr (map JStr (cm_IsolationEvidence m))),
      (''features'', JArr (map JStr (cm_Features m))),
      (''max_concurrent_attempts'', JNat (unat (cm_MaxConcurrentAttempts m)))]"

definition HelloV1_json :: "HelloV1 \<Rightarrow> json" where
  "HelloV1_json x = JObj [(''offer'', VersionOfferV1_json (he_Offer x)), (''worker_nonce'', JBytes (he_WorkerNonce x))]"

definition ChallengeV1_json :: "ChallengeV1 \<Rightarrow> json" where
  "ChallengeV1_json x = JObj
     [(''worker_offer'', VersionOfferV1_json (ch_WorkerOffer x)), (''platform_offer'', VersionOfferV1_json (ch_PlatformOffer x)),
      (''selected_version'', JNat (unat (ch_SelectedVersion x))), (''worker_nonce'', JBytes (ch_WorkerNonce x)),
      (''platform_nonce'', JBytes (ch_PlatformNonce x))]"

definition AttachV1_json :: "AttachV1 \<Rightarrow> json" where
  "AttachV1_json x = JObj
     [(''worker_offer'', VersionOfferV1_json (at_WorkerOffer x)), (''platform_offer'', VersionOfferV1_json (at_PlatformOffer x)),
      (''selected_version'', JNat (unat (at_SelectedVersion x))), (''worker_nonce'', JBytes (at_WorkerNonce x)),
      (''platform_nonce'', JBytes (at_PlatformNonce x)), (''capability_digest'', JBytes (at_CapabilityDigest x)),
      (''signature'', JBytes (at_Signature x))]"

definition AttachAcceptedV1_json :: "AttachAcceptedV1 \<Rightarrow> json" where
  "AttachAcceptedV1_json x = JObj
     [(''worker_offer'', VersionOfferV1_json (aa_WorkerOffer x)), (''platform_offer'', VersionOfferV1_json (aa_PlatformOffer x)),
      (''selected_version'', JNat (unat (aa_SelectedVersion x))), (''worker_nonce'', JBytes (aa_WorkerNonce x)),
      (''platform_nonce'', JBytes (aa_PlatformNonce x)), (''capability_digest'', JBytes (aa_CapabilityDigest x))]"

definition ReconnectV1_json :: "ReconnectV1 \<Rightarrow> json" where
  "ReconnectV1_json x = JObj
     ([(''worker_offer'', VersionOfferV1_json (rc_WorkerOffer x)), (''platform_offer'', VersionOfferV1_json (rc_PlatformOffer x)),
       (''selected_version'', JNat (unat (rc_SelectedVersion x))),
       (''previous_connection_generation'', JNat (unat (rc_PreviousConnectionGeneration x))),
       (''worker_nonce'', JBytes (rc_WorkerNonce x)), (''platform_nonce'', JBytes (rc_PlatformNonce x)),
       (''capability_digest'', JBytes (rc_CapabilityDigest x)),
       (''previous_watermarks'', ConnectionWatermarksV1_json (rc_PreviousWatermarks x)),
       (''attempt_summary'', AttemptSummaryV1_json (rc_AttemptSummary x))] @
      json_omitempty ''pending_terminal_replay'' TerminalV1_json (rc_PendingTerminalReplay x) @
      [(''signature'', JBytes (rc_Signature x))])"

definition ReconnectAcceptedV1_json :: "ReconnectAcceptedV1 \<Rightarrow> json" where
  "ReconnectAcceptedV1_json x = JObj
     ([(''worker_offer'', VersionOfferV1_json (ra_WorkerOffer x)), (''platform_offer'', VersionOfferV1_json (ra_PlatformOffer x)),
       (''selected_version'', JNat (unat (ra_SelectedVersion x))),
       (''worker_nonce'', JBytes (ra_WorkerNonce x)), (''platform_nonce'', JBytes (ra_PlatformNonce x)),
       (''capability_digest'', JBytes (ra_CapabilityDigest x)),
       (''authoritative_watermarks'', ConnectionWatermarksV1_json (ra_AuthoritativeWatermarks x)),
       (''authoritative_attempt'', AttemptSummaryV1_json (ra_AuthoritativeAttempt x))] @
      json_omitempty ''authoritative_pending_terminal_replay'' TerminalV1_json (ra_AuthoritativePendingTerminalReplay x) @
      [(''replay_plan'', ReplayPlanV1_json (ra_ReplayPlan x))])"

definition ManifestV1_json :: "ManifestV1 \<Rightarrow> json" where
  "ManifestV1_json x = JObj
     [(''manifest'', CapabilityManifestV1_json (mf_Manifest x)), (''digest'', JBytes (mf_Digest x)),
      (''signature'', JBytes (mf_Signature x))]"

definition HeartbeatV1_json :: "HeartbeatV1 \<Rightarrow> json" where
  "HeartbeatV1_json x = JObj
     [(''observed_at_unix_micro'', JInt (hb_ObservedAtUnixMicro x)), (''available'', JBool (hb_Available x)),
      (''active_attempts'', JNat (unat (hb_ActiveAttempts x)))]"

definition RevokeV1_json :: "RevokeV1 \<Rightarrow> json" where
  "RevokeV1_json x = JObj
     [(''revision'', JNat (unat (rv_Revision x))),
      (''next_enrollment_generation'', JNat (unat (rv_NextEnrollmentGeneration x))),
      (''next_connection_generation'', JNat (unat (rv_NextConnectionGeneration x)))]"

definition RevokedV1_json :: "RevokedV1 \<Rightarrow> json" where
  "RevokedV1_json x = JObj
     [(''revision'', JNat (unat (rd_Revision x))),
      (''next_enrollment_generation'', JNat (unat (rd_NextEnrollmentGeneration x))),
      (''next_connection_generation'', JNat (unat (rd_NextConnectionGeneration x)))]"

definition ErrorV1_json :: "ErrorV1 \<Rightarrow> json" where
  "ErrorV1_json x = JObj [(''code'', JStr (ErrorCode_text (ev_Code x))), (''retryable'', JBool (ev_Retryable x))]"

definition FrameV1_json :: "FrameV1 \<Rightarrow> json" where
  "FrameV1_json f = JObj
     ([(''version'', JNat (unat (fr_Version f))), (''message_id'', JStr (fr_MessageID f)),
       (''worker_id'', JStr (fr_WorkerID f)), (''enrollment_generation'', JNat (unat (fr_EnrollmentGeneration f))),
       (''connection_generation'', JNat (unat (fr_ConnectionGeneration f))), (''sequence'', JNat (unat (fr_Sequence f))),
       (''ack'', JNat (unat (fr_Ack f))), (''kind'', JStr (MessageKind_text (fr_Kind f)))] @
      json_omitempty ''hello'' HelloV1_json (fr_Hello f) @
      json_omitempty ''challenge'' ChallengeV1_json (fr_Challenge f) @
      json_omitempty ''attach'' AttachV1_json (fr_Attach f) @
      json_omitempty ''attach_accepted'' AttachAcceptedV1_json (fr_AttachAccepted f) @
      json_omitempty ''reconnect'' ReconnectV1_json (fr_Reconnect f) @
      json_omitempty ''reconnect_accepted'' ReconnectAcceptedV1_json (fr_ReconnectAccepted f) @
      json_omitempty ''manifest'' ManifestV1_json (fr_Manifest f) @
      json_omitempty ''heartbeat'' HeartbeatV1_json (fr_Heartbeat f) @
      json_omitempty ''lease_offer'' LeaseOfferV1_json (fr_LeaseOffer f) @
      json_omitempty ''lease_claim'' LeaseClaimV1_json (fr_LeaseClaim f) @
      json_omitempty ''lease_accepted'' LeaseAcceptedV1_json (fr_LeaseAccepted f) @
      json_omitempty ''progress'' ProgressV1_json (fr_Progress f) @
      json_omitempty ''cancel'' CancelV1_json (fr_Cancel f) @
      json_omitempty ''cancel_ack'' CancelAckV1_json (fr_CancelAck f) @
      json_omitempty ''terminal'' TerminalV1_json (fr_Terminal f) @
      json_omitempty ''terminal_ack'' TerminalAckV1_json (fr_TerminalAck f) @
      json_omitempty ''drain'' (\<lambda>d. JObj [(''revision'', JNat (unat (dr_Revision d)))]) (fr_Drain f) @
      json_omitempty ''drained'' (\<lambda>d. JObj [(''revision'', JNat (unat (dd_Revision d)))]) (fr_Drained f) @
      json_omitempty ''revoke'' RevokeV1_json (fr_Revoke f) @
      json_omitempty ''revoked'' RevokedV1_json (fr_Revoked f) @
      json_omitempty ''error'' ErrorV1_json (fr_Error f))"

definition frameFingerprint :: "FrameV1 \<Rightarrow> string" where
  "frameFingerprint frame = sha256 (json_Marshal (FrameV1_json frame))"

text \<open>A nil payload pointer in an interface value marshals as \<open>null\<close>.\<close>

definition json_pointer :: "('a \<Rightarrow> json) \<Rightarrow> 'a option \<Rightarrow> json" where
  "json_pointer f p = (case p of None \<Rightarrow> JNull | Some v \<Rightarrow> f v)"

fun attempt_payload_json :: "MessageKind \<Rightarrow> FrameV1 \<Rightarrow> json" where
  "attempt_payload_json MessageLeaseOffer f = json_pointer LeaseOfferV1_json (fr_LeaseOffer f)"
| "attempt_payload_json MessageLeaseClaim f = json_pointer LeaseClaimV1_json (fr_LeaseClaim f)"
| "attempt_payload_json MessageLeaseAccepted f = json_pointer LeaseAcceptedV1_json (fr_LeaseAccepted f)"
| "attempt_payload_json MessageProgress f = json_pointer ProgressV1_json (fr_Progress f)"
| "attempt_payload_json MessageCancel f = json_pointer CancelV1_json (fr_Cancel f)"
| "attempt_payload_json MessageCancelAck f = json_pointer CancelAckV1_json (fr_CancelAck f)"
| "attempt_payload_json MessageTerminal f = json_pointer TerminalV1_json (fr_Terminal f)"
| "attempt_payload_json MessageTerminalAck f = json_pointer TerminalAckV1_json (fr_TerminalAck f)"
| "attempt_payload_json _ f = JNull"

definition attemptFingerprint :: "FrameV1 \<Rightarrow> string" where
  "attemptFingerprint frame =
     sha256 (json_Marshal (JObj [(''kind'', JStr (MessageKind_text (fr_Kind frame))),
       (''payload'', attempt_payload_json (fr_Kind frame) frame)]))"

lemma length_fingerprint [simp]:
  "length (frameFingerprint f) = 32" "length (attemptFingerprint f) = 32"
  by (simp_all add: frameFingerprint_def attemptFingerprint_def)

subsection \<open>The canonical form\<close>

definition appendCanonicalUint32 :: "string \<Rightarrow> u32 \<Rightarrow> string" where
  "appendCanonicalUint32 destination value = destination @ be_bytes 4 value"

definition appendCanonicalUint64 :: "string \<Rightarrow> u64 \<Rightarrow> string" where
  "appendCanonicalUint64 destination value = destination @ be_bytes 8 value"

definition appendCanonicalField :: "string \<Rightarrow> string \<Rightarrow> string" where
  "appendCanonicalField destination value =
     appendCanonicalUint32 destination (of_nat (length value)) @ value"

definition appendVersionOffer :: "string \<Rightarrow> VersionOfferV1 \<Rightarrow> string" where
  "appendVersionOffer destination offer =
     (let d = appendCanonicalUint32 destination (vw_Minimum (vo_Window offer));
          d = appendCanonicalUint32 d (vw_Maximum (vo_Window offer));
          d = appendCanonicalUint32 d (of_nat (length (vo_Supported offer)))
      in foldl appendCanonicalUint32 d (vo_Supported offer))"

definition appendWatermarks :: "string \<Rightarrow> ConnectionWatermarksV1 \<Rightarrow> string" where
  "appendWatermarks destination w =
     appendCanonicalUint64 (appendCanonicalUint64 (appendCanonicalUint64 (appendCanonicalUint64 destination
       (wm_PlatformSequence w)) (wm_WorkerSequence w)) (wm_PlatformAck w)) (wm_WorkerAck w)"

subsection \<open>Unique decoding\<close>

lemma byte_inject: "byte a = byte b \<Longrightarrow> a = b"
  by (simp add: byte_def)

lemma be_bytes_nth_eq:
  fixes x y :: "'a::len word"
  assumes "be_bytes n x = be_bytes n y" and "i < n"
  shows "drop_bit (8 * i) x AND 255 = drop_bit (8 * i) y AND 255"
proof -
  let ?j = "n - 1 - i"
  have "be_bytes n x ! ?j = be_bytes n y ! ?j" using assms by simp
  then have c: "(char_of (uint (drop_bit (8 * i) x AND 255)) :: char) = char_of (uint (drop_bit (8 * i) y AND 255))"
    using assms(2) by (simp add: be_bytes_def)
  have lt: "uint (w AND 255) < 256" for w :: "'a word"
  proof -
    have "uint (w AND 255) = uint w AND uint (255 :: 'a word)" by (simp add: uint_and)
    also have "\<dots> \<le> uint (255 :: 'a word)" by (simp add: AND_upper2)
    also have "\<dots> \<le> 255"
      using uint_numeral [of "num.Bit1 (num.Bit1 (num.Bit1 (num.Bit1 (num.Bit1 (num.Bit1 (num.Bit1 num.One))))))", where 'a='a]
      by (simp add: zmod_le_nonneg_dividend)
    finally show ?thesis by simp
  qed
  have "uint (drop_bit (8 * i) x AND 255) = uint (drop_bit (8 * i) y AND 255)"
    using arg_cong [OF c, of "of_char :: char \<Rightarrow> int"] lt by simp
  then show ?thesis by (simp add: word_uint_eq_iff)
qed

lemma be_bytes_inject:
  fixes x y :: "'a::len word"
  assumes eq: "be_bytes n x = be_bytes n y" and len: "LENGTH('a) = 8 * n"
  shows "x = y"
proof (rule bit_word_eqI)
  fix k assume k: "k < LENGTH('a)"
  let ?i = "k div 8" and ?r = "k mod 8"
  have i: "?i < n" using k len by auto
  have "bit (drop_bit (8 * ?i) x AND 255) ?r = bit (drop_bit (8 * ?i) y AND 255) ?r"
    using be_bytes_nth_eq [OF eq i] by simp
  moreover have "bit (255 :: 'a word) ?r"
  proof -
    have "bit (mask 8 :: 'a word) ?r"
      using k by (simp add: bit_mask_iff)
    then show ?thesis by (simp add: mask_eq_exp_minus_1)
  qed
  ultimately show "bit x k = bit y k" using k by (simp add: bit_and_iff bit_drop_bit_eq)
qed

lemmas be_bytes_u32 = be_bytes_inject [where n = 4 and 'a = 32, simplified]
lemmas be_bytes_u64 = be_bytes_inject [where n = 8 and 'a = 64, simplified]

text \<open>
  An encoding is read from its end towards its start when the appended parts are peeled off,
  so the decoding lemmas are stated for the front: a sequence of parts is the concatenation
  of their byte strings.
\<close>

datatype part = PField string | PU32 u32 | PU64 u64 | PVersions "u32 list" | PFields "string list"

definition field_bytes :: "string \<Rightarrow> string" where
  "field_bytes v = be_bytes 4 (of_nat (length v) :: u32) @ v"

fun part_bytes :: "part \<Rightarrow> string" where
  "part_bytes (PField v) = field_bytes v"
| "part_bytes (PU32 v) = be_bytes 4 v"
| "part_bytes (PU64 v) = be_bytes 8 v"
| "part_bytes (PVersions vs) = be_bytes 4 (of_nat (length vs) :: u32) @ concat (map (be_bytes 4) vs)"
| "part_bytes (PFields vs) = be_bytes 4 (of_nat (length vs) :: u32) @ concat (map field_bytes vs)"

definition parts_bytes :: "part list \<Rightarrow> string" where
  "parts_bytes ps = concat (map part_bytes ps)"

fun same_shape :: "part \<Rightarrow> part \<Rightarrow> bool" where
  "same_shape (PField _) (PField _) = True"
| "same_shape (PU32 _) (PU32 _) = True"
| "same_shape (PU64 _) (PU64 _) = True"
| "same_shape (PVersions _) (PVersions _) = True"
| "same_shape (PFields _) (PFields _) = True"
| "same_shape _ _ = False"

fun part_fits :: "part \<Rightarrow> bool" where
  "part_fits (PField v) = (length v < 2 ^ 32)"
| "part_fits (PVersions vs) = (length vs < 2 ^ 32)"
| "part_fits (PFields vs) = (length vs < 2 ^ 32 \<and> (\<forall>v \<in> set vs. length v < 2 ^ 32))"
| "part_fits _ = True"

lemma of_nat_u32_inject: "(of_nat a :: u32) = of_nat b \<Longrightarrow> a < 2 ^ 32 \<Longrightarrow> b < 2 ^ 32 \<Longrightarrow> a = b"
  by (auto dest!: arg_cong [where f = unat] simp: unsigned_of_nat take_bit_nat_eq_self)

lemma versions_bytes_inject:
  "length vs = length ws \<Longrightarrow>
   concat (map (be_bytes 4) vs) @ r = concat (map (be_bytes 4) ws) @ s \<Longrightarrow> vs = (ws :: u32 list) \<and> r = s"
  by (induction vs ws rule: list_induct2) (auto dest: be_bytes_u32)

lemma count_inject:
  assumes "be_bytes 4 (of_nat a :: u32) @ r = be_bytes 4 (of_nat b :: u32) @ s" "a < 2 ^ 32" "b < 2 ^ 32"
  shows "a = b \<and> r = s"
proof -
  have e: "be_bytes 4 (of_nat a :: u32) = be_bytes 4 (of_nat b :: u32) \<and> r = s"
    using assms(1) append_eq_append_conv [of "be_bytes 4 (of_nat a :: u32)" "be_bytes 4 (of_nat b :: u32)" r s]
    unfolding length_be_bytes by blast
  show ?thesis using of_nat_u32_inject [OF be_bytes_u32 [OF conjunct1 [OF e]] assms(2,3)] conjunct2 [OF e] by blast
qed

lemma field_decode:
  assumes "field_bytes v @ r = field_bytes w @ s" "length v < 2 ^ 32" "length w < 2 ^ 32"
  shows "v = w \<and> r = s"
proof -
  have "length v = length w \<and> v @ r = w @ s"
    using assms(1) unfolding field_bytes_def append_assoc by (rule count_inject) (fact assms)+
  then show ?thesis by (metis append_eq_append_conv)
qed

lemma fields_decode:
  "length vs = length ws \<Longrightarrow> concat (map field_bytes vs) @ r = concat (map field_bytes ws) @ s \<Longrightarrow>
   \<forall>v \<in> set vs. length v < 2 ^ 32 \<Longrightarrow> \<forall>v \<in> set ws. length v < 2 ^ 32 \<Longrightarrow> vs = ws \<and> r = s"
proof (induction vs ws rule: list_induct2)
  case (Cons v vs w ws)
  have "v = w \<and> concat (map field_bytes vs) @ r = concat (map field_bytes ws) @ s"
    using Cons.prems by (intro field_decode) auto
  then show ?case using Cons.IH Cons.prems by auto
qed simp

lemma versions_decode:
  assumes "part_bytes (PVersions vs) @ r = part_bytes (PVersions ws) @ s"
    and "length vs < 2 ^ 32" "length ws < 2 ^ 32"
  shows "vs = ws \<and> r = s"
proof -
  have "length vs = length ws \<and> concat (map (be_bytes 4) vs) @ r = concat (map (be_bytes 4) ws) @ s"
    using assms by (intro count_inject) simp_all
  then show ?thesis by (intro versions_bytes_inject) simp_all
qed

lemma field_list_decode:
  assumes "part_bytes (PFields vs) @ r = part_bytes (PFields ws) @ s"
    and "part_fits (PFields vs)" "part_fits (PFields ws)"
  shows "vs = ws \<and> r = s"
proof -
  have "length vs = length ws \<and> concat (map field_bytes vs) @ r = concat (map field_bytes ws) @ s"
    using assms by (intro count_inject) simp_all
  then show ?thesis using assms by (intro fields_decode) simp_all
qed

lemma part_decode:
  assumes "part_bytes p @ r = part_bytes q @ s" "same_shape p q" "part_fits p" "part_fits q"
  shows "p = q \<and> r = s"
proof (cases p)
  case (PField v)
  then obtain w where "q = PField w" using assms(2) by (cases q) auto
  then show ?thesis using field_decode [of v r w s] assms PField by simp
next
  case (PU32 v)
  then obtain w where "q = PU32 w" using assms(2) by (cases q) auto
  then show ?thesis using be_bytes_u32 [of v w] assms PU32 by simp
next
  case (PU64 v)
  then obtain w where "q = PU64 w" using assms(2) by (cases q) auto
  then show ?thesis using be_bytes_u64 [of v w] assms PU64 by simp
next
  case (PVersions vs)
  then obtain ws where "q = PVersions ws" using assms(2) by (cases q) auto
  then show ?thesis using versions_decode [of vs r ws s] assms PVersions by simp
next
  case (PFields vs)
  then obtain ws where "q = PFields ws" using assms(2) by (cases q) auto
  then show ?thesis using field_list_decode [of vs r ws s] assms PFields by simp
qed

lemma parts_decode:
  "list_all2 same_shape ps qs \<Longrightarrow> list_all part_fits ps \<Longrightarrow> list_all part_fits qs \<Longrightarrow>
   parts_bytes ps @ r = parts_bytes qs @ s \<Longrightarrow> ps = qs \<and> r = s"
proof (induction ps qs arbitrary: r s rule: list_all2_induct)
  case (Cons p ps q qs)
  have "p = q \<and> parts_bytes ps @ r = parts_bytes qs @ s"
    using Cons.prems Cons.hyps(1) by (intro part_decode) (auto simp: parts_bytes_def)
  then show ?case using Cons.IH Cons.prems by auto
qed (simp add: parts_bytes_def)

lemma foldl_appendCanonicalUint32: "foldl appendCanonicalUint32 d vs = d @ concat (map (be_bytes 4) vs)"
  by (induction vs arbitrary: d) (auto simp: appendCanonicalUint32_def)

lemma foldl_appendCanonicalField: "foldl appendCanonicalField d vs = d @ concat (map field_bytes vs)"
  by (induction vs arbitrary: d) (auto simp: appendCanonicalField_def appendCanonicalUint32_def field_bytes_def)

text \<open>Every append is a part appended to what was there, so a whole encoding is a part list.\<close>

lemma append_as_parts:
  "appendCanonicalField (parts_bytes ps) v = parts_bytes (ps @ [PField v])"
  "appendCanonicalUint32 (parts_bytes ps) w = parts_bytes (ps @ [PU32 w])"
  "appendCanonicalUint64 (parts_bytes ps) x = parts_bytes (ps @ [PU64 x])"
  "appendVersionOffer (parts_bytes ps) offer = parts_bytes (ps @
     [PU32 (vw_Minimum (vo_Window offer)), PU32 (vw_Maximum (vo_Window offer)), PVersions (vo_Supported offer)])"
  "appendWatermarks (parts_bytes ps) m = parts_bytes (ps @
     [PU64 (wm_PlatformSequence m), PU64 (wm_WorkerSequence m), PU64 (wm_PlatformAck m), PU64 (wm_WorkerAck m)])"
  "foldl appendCanonicalField (appendCanonicalUint32 (parts_bytes ps) (of_nat (length fs))) fs =
     parts_bytes (ps @ [PFields fs])"
  by (simp_all add: appendCanonicalField_def appendCanonicalUint32_def appendCanonicalUint64_def appendWatermarks_def
      appendVersionOffer_def Let_def foldl_appendCanonicalUint32 foldl_appendCanonicalField parts_bytes_def field_bytes_def)

lemma append_first_part: "appendCanonicalField [] v = parts_bytes [PField v]"
  by (simp add: appendCanonicalField_def appendCanonicalUint32_def parts_bytes_def field_bytes_def)

lemma append_first_offer: "appendVersionOffer [] offer = parts_bytes
     [PU32 (vw_Minimum (vo_Window offer)), PU32 (vw_Maximum (vo_Window offer)), PVersions (vo_Supported offer)]"
  using append_as_parts(4) [of "[]"] by (simp add: parts_bytes_def)

lemma parts_bytes_inject:
  "parts_bytes ps = parts_bytes qs \<Longrightarrow> list_all2 same_shape ps qs \<Longrightarrow> list_all part_fits ps \<Longrightarrow>
   list_all part_fits qs \<Longrightarrow> ps = qs"
  using parts_decode [of ps qs "[]" "[]"] by simp

end
