(* ===== verification/Frames.thy ===== *)
theory Frames
  imports Canonical "HOL-Library.Char_ord" "HOL-Library.List_Lexorder"
begin

text \<open>
  The validators of the attached-worker protocol: bounded opaque strings, payloads, frames and
  batches (\<open>src/internal/attachedworkerprotocol/types.go\<close>), the authentication context
  (\<open>auth.go\<close>), the capability manifest and its digest (\<open>manifest.go\<close>), and the attempt
  summaries of \<open>reconciliation.go\<close>, whose digest is recomputed on validation. The lemmas say
  what an accepted value satisfies; in particular an accepted frame carries exactly the
  payload its kind names, and that payload is valid.
\<close>

subsection \<open>Bounds and primitive checks\<close>

definition MaxBatchFrames :: nat where "MaxBatchFrames = 32"
definition MaxBatchBytes :: nat where "MaxBatchBytes = 65536"
definition MaxAttemptMessages :: u64 where "MaxAttemptMessages = 64"
definition MaxProgressUpdates :: u64 where "MaxProgressUpdates = 32"
definition maxOpaqueBytes :: nat where "maxOpaqueBytes = 128"

definition validOpaque :: "string \<Rightarrow> bool" where
  "validOpaque value =
     (if value = [] \<or> maxOpaqueBytes < length value \<or> \<not> utf8_valid value \<or> value \<noteq> TrimSpace value then False
      else list_all (\<lambda>r. \<not> (r < 0x21 \<or> 0x7e < r \<or> r = 0x2f \<or> r = 0x5c)) (runes value))"

definition validBytes :: "string \<Rightarrow> nat \<Rightarrow> bool" where
  "validBytes value size' = (length value = size')"

definition validDirection :: "Direction \<Rightarrow> bool" where
  "validDirection d = (d = DirectionPlatformToWorker \<or> d = DirectionWorkerToPlatform)"

fun validTerminalResult :: "TerminalStatus \<Rightarrow> TerminalResult \<Rightarrow> bool" where
  "validTerminalResult TerminalSucceeded result = (result = TerminalResultCompleted)"
| "validTerminalResult TerminalFailed result = (result = TerminalResultFailed)"
| "validTerminalResult TerminalCancelled result = (result = TerminalResultCancelled)"
| "validTerminalResult (TerminalStatusOther _) result = False"

definition validTerminal :: "TerminalStatus \<Rightarrow> bool" where
  "validTerminal status = (status = TerminalSucceeded \<or> status = TerminalFailed \<or> status = TerminalCancelled)"

subsection \<open>The authentication context\<close>

record AuthContextV1 =
  ac_TenantID :: string
  ac_OwnerUserID :: string
  ac_WorkerID :: string
  ac_IdentityPublicKey :: string
  ac_EnrollmentGeneration :: u64
  ac_ConnectionGeneration :: u64
  ac_Version :: ProtocolVersion
  ac_ChannelBinding :: string

definition AuthContextV1_Validate :: "AuthContextV1 \<Rightarrow> fault option" where
  "AuthContextV1_Validate auth =
     reject (\<not> validOpaque (ac_TenantID auth) \<or> \<not> validOpaque (ac_OwnerUserID auth) \<or> \<not> validOpaque (ac_WorkerID auth) \<or>
             length (ac_IdentityPublicKey auth) \<noteq> 32 \<or> ac_EnrollmentGeneration auth = 0 \<or>
             ac_ConnectionGeneration auth = 0 \<or> ac_Version auth \<noteq> ProtocolVersionV1 \<or>
             length (ac_ChannelBinding auth) \<noteq> 32)
       ErrorAuthentication"

subsection \<open>The capability manifest\<close>

definition manifestDigestDomainV1 :: string where
  "manifestDigestDomainV1 = ''sessionless.attached-worker.capability-manifest.v1''"

definition IsolationProcessBoundary :: IsolationEvidenceV1 where "IsolationProcessBoundary = ''process_boundary''"
definition IsolationFilesystemBoundary :: IsolationEvidenceV1 where "IsolationFilesystemBoundary = ''filesystem_boundary''"
definition IsolationNetworkBoundary :: IsolationEvidenceV1 where "IsolationNetworkBoundary = ''network_boundary''"

definition FeatureCancellation :: ProtocolFeatureV1 where "FeatureCancellation = ''cancellation_v1''"
definition FeatureOutputReceipt :: ProtocolFeatureV1 where "FeatureOutputReceipt = ''output_receipt_v1''"
definition FeatureInlineOutputV2 :: ProtocolFeatureV1 where "FeatureInlineOutputV2 = ''output_inline_v2''"
definition FeatureProgress :: ProtocolFeatureV1 where "FeatureProgress = ''progress_v1''"
definition FeatureReconnect :: ProtocolFeatureV1 where "FeatureReconnect = ''reconnect_v1''"
definition HarnessSurfaceSessionTurn :: HarnessSurfaceV1 where "HarnessSurfaceSessionTurn = ''session_turn_v1''"

text \<open>The two loops over names: each is known, and greater than the one before.\<close>

fun ordered_names :: "string list \<Rightarrow> string \<Rightarrow> string list \<Rightarrow> bool" where
  "ordered_names known prev [] = True"
| "ordered_names known prev (n # ns) =
     (if n \<notin> set known then False
      else if prev \<noteq> '''' \<and> n \<le> prev then False
      else ordered_names known n ns)"

definition CapabilityManifestV1_Validate :: "CapabilityManifestV1 \<Rightarrow> fault option" where
  "CapabilityManifestV1_Validate m =
     (if \<not> validOpaque (cm_WorkerID m) \<or> cm_EnrollmentGeneration m = 0 \<or> cm_Revision m = 0 \<or>
         VersionOfferV1_Validate (cm_ProtocolOffer m) \<noteq> None \<or> \<not> validOpaque (cm_OperatingSystem m) \<or>
         \<not> validOpaque (cm_Architecture m) \<or> \<not> validOpaque (cm_BuildID m) \<or>
         \<not> validOpaque (cm_HarnessName m) \<or> \<not> validOpaque (cm_HarnessVersion m) \<or>
         cm_HarnessSurface m \<noteq> HarnessSurfaceSessionTurn \<or>
         \<not> validBytes (cm_HarnessExecutableDigest m) 32 \<or> cm_MaxConcurrentAttempts m \<noteq> 1 \<or>
         length (cm_IsolationEvidence m) = 0 \<or> 8 < length (cm_IsolationEvidence m) \<or>
         length (cm_Features m) = 0 \<or> 8 < length (cm_Features m)
      then Some (protocolError ErrorInvalidFrame)
      else if \<not> ordered_names [IsolationFilesystemBoundary, IsolationNetworkBoundary, IsolationProcessBoundary]
                  '''' (cm_IsolationEvidence m)
      then Some (protocolError ErrorInvalidFrame)
      else reject (\<not> ordered_names
          [FeatureCancellation, FeatureOutputReceipt, FeatureInlineOutputV2, FeatureProgress, FeatureReconnect]
          '''' (cm_Features m)) ErrorInvalidFrame)"

definition CanonicalManifestBytesV1 :: "CapabilityManifestV1 \<Rightarrow> fault + string" where
  "CanonicalManifestBytesV1 m =
     (case CapabilityManifestV1_Validate m of
        Some e \<Rightarrow> Inl e
      | None \<Rightarrow>
          let r = appendCanonicalField [] manifestDigestDomainV1;
              r = appendCanonicalField r (cm_WorkerID m);
              r = appendCanonicalUint64 r (cm_EnrollmentGeneration m);
              r = appendCanonicalUint64 r (cm_Revision m);
              r = appendVersionOffer r (cm_ProtocolOffer m);
              r = appendCanonicalField r (cm_OperatingSystem m);
              r = appendCanonicalField r (cm_Architecture m);
              r = appendCanonicalField r (cm_BuildID m);
              r = appendCanonicalField r (cm_HarnessName m);
              r = appendCanonicalField r (cm_HarnessVersion m);
              r = appendCanonicalField r (cm_HarnessSurface m);
              r = appendCanonicalField r (cm_HarnessExecutableDigest m);
              r = appendCanonicalUint32 r (cm_MaxConcurrentAttempts m);
              r = appendCanonicalUint32 r (of_nat (length (cm_IsolationEvidence m)));
              r = foldl appendCanonicalField r (cm_IsolationEvidence m);
              r = appendCanonicalUint32 r (of_nat (length (cm_Features m)));
              r = foldl appendCanonicalField r (cm_Features m)
          in Inr r)"

definition ManifestDigestV1 :: "CapabilityManifestV1 \<Rightarrow> fault + string" where
  "ManifestDigestV1 m = (case CanonicalManifestBytesV1 m of Inl e \<Rightarrow> Inl e | Inr b \<Rightarrow> Inr (sha256 b))"

subsection \<open>Payload validators\<close>

definition HelloV1_Validate :: "HelloV1 \<Rightarrow> fault option" where
  "HelloV1_Validate x =
     reject (VersionOfferV1_Validate (he_Offer x) \<noteq> None \<or> \<not> validBytes (he_WorkerNonce x) 32) ErrorInvalidFrame"

definition ChallengeV1_Validate :: "ChallengeV1 \<Rightarrow> fault option" where
  "ChallengeV1_Validate x =
     reject (VersionOfferV1_Validate (ch_WorkerOffer x) \<noteq> None \<or> VersionOfferV1_Validate (ch_PlatformOffer x) \<noteq> None \<or>
             ch_SelectedVersion x = 0 \<or> \<not> validBytes (ch_WorkerNonce x) 32 \<or> \<not> validBytes (ch_PlatformNonce x) 32)
       ErrorInvalidFrame"

definition validateNegotiationProof ::
    "VersionOfferV1 \<Rightarrow> VersionOfferV1 \<Rightarrow> ProtocolVersion \<Rightarrow> string \<Rightarrow> string \<Rightarrow> string \<Rightarrow> fault option" where
  "validateNegotiationProof workerOffer platformOffer selected workerNonce platformNonce capabilityDigest =
     reject (VersionOfferV1_Validate workerOffer \<noteq> None \<or> VersionOfferV1_Validate platformOffer \<noteq> None \<or>
             selected = 0 \<or> \<not> versionOfferSupports workerOffer selected \<or> \<not> versionOfferSupports platformOffer selected \<or>
             \<not> validBytes workerNonce 32 \<or> \<not> validBytes platformNonce 32 \<or> \<not> validBytes capabilityDigest 32)
       ErrorInvalidFrame"

definition AttachV1_Validate :: "AttachV1 \<Rightarrow> fault option" where
  "AttachV1_Validate x =
     reject (validateNegotiationProof (at_WorkerOffer x) (at_PlatformOffer x) (at_SelectedVersion x)
               (at_WorkerNonce x) (at_PlatformNonce x) (at_CapabilityDigest x) \<noteq> None \<or>
             \<not> validBytes (at_Signature x) 64) ErrorInvalidFrame"

definition AttachAcceptedV1_Validate :: "AttachAcceptedV1 \<Rightarrow> fault option" where
  "AttachAcceptedV1_Validate x =
     validateNegotiationProof (aa_WorkerOffer x) (aa_PlatformOffer x) (aa_SelectedVersion x)
       (aa_WorkerNonce x) (aa_PlatformNonce x) (aa_CapabilityDigest x)"

definition ManifestV1_Validate :: "ManifestV1 \<Rightarrow> fault option" where
  "ManifestV1_Validate x =
     reject (CapabilityManifestV1_Validate (mf_Manifest x) \<noteq> None \<or> \<not> validBytes (mf_Digest x) 32 \<or>
             \<not> validBytes (mf_Signature x) 64) ErrorInvalidFrame"

definition HeartbeatV1_Validate :: "HeartbeatV1 \<Rightarrow> fault option" where
  "HeartbeatV1_Validate x =
     reject (hb_ObservedAtUnixMicro x \<le> 0 \<or> 1 < hb_ActiveAttempts x \<or> hb_Available x \<and> hb_ActiveAttempts x \<noteq> 0)
       ErrorInvalidFrame"

definition AttemptBindingV1_Validate :: "AttemptBindingV1 \<Rightarrow> fault option" where
  "AttemptBindingV1_Validate b =
     reject (\<not> validOpaque (ab_RunID b) \<or> \<not> validOpaque (ab_AttemptID b) \<or> \<not> validOpaque (ab_LeaseID b) \<or>
             ab_LeaseGeneration b = 0 \<or> \<not> validOpaque (ab_FenceToken b) \<or> ab_ExpiresAtUnixMicro b \<le> 0 \<or>
             \<not> validBytes (ab_ContextDigest b) 32 \<or> \<not> validBytes (ab_CapabilityDigest b) 32 \<or>
             \<not> validBytes (ab_PolicyDigest b) 32) ErrorInvalidFrame"

definition validateAttempt :: "AttemptBindingV1 \<Rightarrow> u64 \<Rightarrow> fault option" where
  "validateAttempt binding sequence =
     reject (AttemptBindingV1_Validate binding \<noteq> None \<or> sequence = 0 \<or> MaxAttemptMessages < sequence) ErrorInvalidFrame"

definition LeaseOfferV1_Validate :: "LeaseOfferV1 \<Rightarrow> fault option" where
  "LeaseOfferV1_Validate x = validateAttempt (lo_Binding x) (lo_AttemptSequence x)"

definition LeaseClaimV1_Validate :: "LeaseClaimV1 \<Rightarrow> fault option" where
  "LeaseClaimV1_Validate x = validateAttempt (lc_Binding x) (lc_AttemptSequence x)"

definition LeaseAcceptedV1_Validate :: "LeaseAcceptedV1 \<Rightarrow> fault option" where
  "LeaseAcceptedV1_Validate x = validateAttempt (la_Binding x) (la_AttemptSequence x)"

definition ProgressV1_Validate :: "ProgressV1 \<Rightarrow> fault option" where
  "ProgressV1_Validate x =
     reject (validateAttempt (pg_Binding x) (pg_AttemptSequence x) \<noteq> None \<or> pg_ProgressSequence x = 0 \<or>
             MaxProgressUpdates < pg_ProgressSequence x \<or>
             pg_Stage x \<noteq> ProgressStarted \<and> pg_Stage x \<noteq> ProgressActive) ErrorInvalidFrame"

definition CancelV1_Validate :: "CancelV1 \<Rightarrow> fault option" where
  "CancelV1_Validate x =
     reject (validateAttempt (cn_Binding x) (cn_AttemptSequence x) \<noteq> None \<or> cn_CancelRevision x = 0 \<or>
             cn_Code x \<noteq> CancelRequested \<and> cn_Code x \<noteq> CancelFenced) ErrorInvalidFrame"

definition CancelAckV1_Validate :: "CancelAckV1 \<Rightarrow> fault option" where
  "CancelAckV1_Validate x =
     reject (validateAttempt (ca_Binding x) (ca_AttemptSequence x) \<noteq> None \<or> ca_CancelRevision x = 0) ErrorInvalidFrame"

definition TerminalV1_Validate :: "TerminalV1 \<Rightarrow> fault option" where
  "TerminalV1_Validate x =
     reject (validateAttempt (tm_Binding x) (tm_AttemptSequence x) \<noteq> None \<or> tm_TerminalSequence x = 0 \<or>
             \<not> validTerminalResult (tm_Status x) (tm_Result x) \<or> \<not> validBytes (tm_EvidenceDigest x) 32) ErrorInvalidFrame"

definition TerminalAckV1_Validate :: "TerminalAckV1 \<Rightarrow> fault option" where
  "TerminalAckV1_Validate x =
     reject (validateAttempt (ta_Binding x) (ta_AttemptSequence x) \<noteq> None \<or> ta_TerminalSequence x = 0 \<or>
             \<not> validTerminalResult (ta_Status x) (ta_Result x) \<or> \<not> validBytes (ta_EvidenceDigest x) 32) ErrorInvalidFrame"

definition DrainV1_Validate :: "DrainV1 \<Rightarrow> fault option" where
  "DrainV1_Validate x = reject (dr_Revision x = 0) ErrorInvalidFrame"

definition DrainedV1_Validate :: "DrainedV1 \<Rightarrow> fault option" where
  "DrainedV1_Validate x = DrainV1_Validate \<lparr>dr_Revision = dd_Revision x\<rparr>"

definition RevokeV1_Validate :: "RevokeV1 \<Rightarrow> fault option" where
  "RevokeV1_Validate x =
     reject (rv_Revision x = 0 \<or> rv_NextEnrollmentGeneration x = 0 \<or> rv_NextConnectionGeneration x = 0) ErrorInvalidFrame"

definition RevokedV1_Validate :: "RevokedV1 \<Rightarrow> fault option" where
  "RevokedV1_Validate x =
     RevokeV1_Validate \<lparr>rv_Revision = rd_Revision x, rv_NextEnrollmentGeneration = rd_NextEnrollmentGeneration x,
       rv_NextConnectionGeneration = rd_NextConnectionGeneration x\<rparr>"

definition ErrorV1_Validate :: "ErrorV1 \<Rightarrow> fault option" where
  "ErrorV1_Validate x =
     (case ev_Code x of
        ErrorCodeOther _ \<Rightarrow> Some (protocolError ErrorInvalidFrame)
      | code \<Rightarrow> reject (ev_Retryable x \<noteq> (code = ErrorRetryLater)) ErrorInvalidFrame)"

subsection \<open>Summaries\<close>

definition sameAttemptBinding :: "AttemptBindingV1 \<Rightarrow> AttemptBindingV1 \<Rightarrow> bool" where
  "sameAttemptBinding left right =
     (ab_RunID left = ab_RunID right \<and> ab_AttemptID left = ab_AttemptID right \<and> ab_LeaseID left = ab_LeaseID right \<and>
      ab_LeaseGeneration left = ab_LeaseGeneration right \<and> ab_FenceToken left = ab_FenceToken right \<and>
      ab_ExpiresAtUnixMicro left = ab_ExpiresAtUnixMicro right \<and> ab_ContextDigest left = ab_ContextDigest right \<and>
      ab_CapabilityDigest left = ab_CapabilityDigest right \<and> ab_PolicyDigest left = ab_PolicyDigest right)"

definition attemptBindingIsZero :: "AttemptBindingV1 \<Rightarrow> bool" where
  "attemptBindingIsZero b =
     (ab_RunID b = '''' \<and> ab_AttemptID b = '''' \<and> ab_LeaseID b = '''' \<and> ab_LeaseGeneration b = 0 \<and>
      ab_FenceToken b = '''' \<and> ab_ExpiresAtUnixMicro b = 0 \<and> length (ab_ContextDigest b) = 0 \<and>
      length (ab_CapabilityDigest b) = 0 \<and> length (ab_PolicyDigest b) = 0)"

definition ConnectionWatermarksV1_Validate :: "ConnectionWatermarksV1 \<Rightarrow> fault option" where
  "ConnectionWatermarksV1_Validate w =
     reject (wm_WorkerSequence w < wm_PlatformAck w \<or> wm_PlatformSequence w < wm_WorkerAck w) ErrorMalformedFrame"

definition attemptSummaryDomainV1 :: string where
  "attemptSummaryDomainV1 = ''sessionless.attached-worker.attempt-summary.v1''"

text \<open>\<open>uint64\<close> of a signed value keeps its two's complement bits.\<close>

definition attemptSummaryDigestV1 :: "AttemptSummaryV1 \<Rightarrow> string" where
  "attemptSummaryDigestV1 s =
     (let b = as_Binding s;
          r = appendCanonicalField [] attemptSummaryDomainV1;
          r = appendCanonicalField r (AttemptState_text (as_State s));
          r = appendCanonicalField r (ab_RunID b);
          r = appendCanonicalField r (ab_AttemptID b);
          r = appendCanonicalField r (ab_LeaseID b);
          r = appendCanonicalUint64 r (ab_LeaseGeneration b);
          r = appendCanonicalField r (ab_FenceToken b);
          r = appendCanonicalUint64 r (word_of_int (ab_ExpiresAtUnixMicro b));
          r = appendCanonicalField r (ab_ContextDigest b);
          r = appendCanonicalField r (ab_CapabilityDigest b);
          r = appendCanonicalField r (ab_PolicyDigest b);
          r = appendCanonicalUint64 r (as_PlatformSequence s);
          r = appendCanonicalUint64 r (as_WorkerSequence s);
          r = appendCanonicalUint64 r (as_ProgressSequence s);
          r = appendCanonicalUint64 r (as_CancelRevision s);
          r = appendCanonicalField r (CancelCode_text (as_CancelCode s));
          r = appendCanonicalUint64 r (as_TerminalSequence s);
          r = appendCanonicalField r (TerminalStatus_text (as_TerminalStatus s));
          r = appendCanonicalField r (TerminalResult_text (as_TerminalResult s));
          r = appendCanonicalField r (as_TerminalEvidenceDigest s)
      in sha256 r)"

text \<open>The checks of \<open>AttemptSummaryV1.Validate\<close> before the digest, in source order.\<close>

definition summary_fields_ok :: "AttemptSummaryV1 \<Rightarrow> bool" where
  "summary_fields_ok s =
     (if MaxAttemptMessages < as_PlatformSequence s \<or> MaxAttemptMessages < as_WorkerSequence s \<or>
         MaxProgressUpdates < as_ProgressSequence s \<or> \<not> validBytes (as_Digest s) 32 then False
      else if (if as_State s = AttemptIdle
               then as_PlatformSequence s \<noteq> 0 \<or> as_WorkerSequence s \<noteq> 0 \<or> as_ProgressSequence s \<noteq> 0 \<or>
                    as_CancelRevision s \<noteq> 0 \<or> as_CancelCode s \<noteq> CancelUnset \<or> as_TerminalSequence s \<noteq> 0 \<or>
                    as_TerminalStatus s \<noteq> TerminalStatusUnset \<or> as_TerminalResult s \<noteq> TerminalResultUnset \<or>
                    length (as_TerminalEvidenceDigest s) \<noteq> 0 \<or> \<not> attemptBindingIsZero (as_Binding s)
               else AttemptBindingV1_Validate (as_Binding s) \<noteq> None) then False
      else if (if as_CancelRevision s = 0 then as_CancelCode s \<noteq> CancelUnset
               else as_CancelCode s \<noteq> CancelRequested \<and> as_CancelCode s \<noteq> CancelFenced) then False
      else if (if as_TerminalSequence s = 0
               then as_TerminalStatus s \<noteq> TerminalStatusUnset \<or> as_TerminalResult s \<noteq> TerminalResultUnset \<or>
                    length (as_TerminalEvidenceDigest s) \<noteq> 0
               else \<not> validTerminalResult (as_TerminalStatus s) (as_TerminalResult s) \<or>
                    \<not> validBytes (as_TerminalEvidenceDigest s) 32) then False
      else \<not> (as_CancelCode s = CancelFenced \<and> as_TerminalSequence s \<noteq> 0 \<and> as_TerminalStatus s \<noteq> TerminalCancelled))"

definition summary_state_ok :: "AttemptSummaryV1 \<Rightarrow> bool" where
  "summary_state_ok s =
     (case as_State s of
        AttemptIdle \<Rightarrow> True
      | AttemptOffered \<Rightarrow> \<not> as_PlatformSequence s < 1
      | AttemptClaimPending \<Rightarrow> \<not> (as_PlatformSequence s < 1 \<or> as_WorkerSequence s < 1)
      | AttemptClaimed \<Rightarrow> \<not> (as_PlatformSequence s < 2 \<or> as_WorkerSequence s < 1)
      | AttemptCancelRequested \<Rightarrow> as_CancelRevision s = 1
      | AttemptCancelAcked \<Rightarrow> as_CancelRevision s = 1
      | AttemptFenced \<Rightarrow> as_CancelRevision s = 1
      | AttemptTerminalPending \<Rightarrow> as_TerminalSequence s = 1
      | AttemptTerminalCommitted \<Rightarrow> as_TerminalSequence s = 1
      | AttemptStateOther _ \<Rightarrow> False)"

definition AttemptSummaryV1_Validate :: "AttemptSummaryV1 \<Rightarrow> fault option" where
  "AttemptSummaryV1_Validate s =
     (if \<not> summary_fields_ok s then Some (protocolError ErrorMalformedFrame)
      else if \<not> summary_state_ok s then Some (protocolError ErrorMalformedFrame)
      else reject (attemptSummaryDigestV1 s \<noteq> as_Digest s) ErrorMalformedFrame)"

definition validatePendingTerminal :: "TerminalV1 option \<Rightarrow> AttemptSummaryV1 \<Rightarrow> fault option" where
  "validatePendingTerminal terminal summary =
     (case terminal of
        None \<Rightarrow> None
      | Some t \<Rightarrow> reject (TerminalV1_Validate t \<noteq> None \<or> \<not> sameAttemptBinding (tm_Binding t) (as_Binding summary))
                    ErrorMalformedFrame)"

definition ReplayPlanV1_Validate :: "ReplayPlanV1 \<Rightarrow> fault option" where
  "ReplayPlanV1_Validate p =
     (if MaxAttemptMessages < rp_PlatformAttemptAfter p \<or> MaxAttemptMessages < rp_WorkerAttemptAfter p
      then Some (protocolError ErrorMalformedFrame)
      else case rp_TerminalDecision p of
             ReconnectTerminalOther _ \<Rightarrow> Some (protocolError ErrorMalformedFrame)
           | _ \<Rightarrow> None)"

definition ReconnectV1_Validate :: "ReconnectV1 \<Rightarrow> fault option" where
  "ReconnectV1_Validate x =
     reject (rc_PreviousConnectionGeneration x = 0 \<or>
             validateNegotiationProof (rc_WorkerOffer x) (rc_PlatformOffer x) (rc_SelectedVersion x)
               (rc_WorkerNonce x) (rc_PlatformNonce x) (rc_CapabilityDigest x) \<noteq> None \<or>
             ConnectionWatermarksV1_Validate (rc_PreviousWatermarks x) \<noteq> None \<or>
             AttemptSummaryV1_Validate (rc_AttemptSummary x) \<noteq> None \<or>
             validatePendingTerminal (rc_PendingTerminalReplay x) (rc_AttemptSummary x) \<noteq> None \<or>
             \<not> validBytes (rc_Signature x) 64) ErrorInvalidFrame"

definition ReconnectAcceptedV1_Validate :: "ReconnectAcceptedV1 \<Rightarrow> fault option" where
  "ReconnectAcceptedV1_Validate x =
     reject (validateNegotiationProof (ra_WorkerOffer x) (ra_PlatformOffer x) (ra_SelectedVersion x)
               (ra_WorkerNonce x) (ra_PlatformNonce x) (ra_CapabilityDigest x) \<noteq> None \<or>
             ConnectionWatermarksV1_Validate (ra_AuthoritativeWatermarks x) \<noteq> None \<or>
             AttemptSummaryV1_Validate (ra_AuthoritativeAttempt x) \<noteq> None \<or>
             validatePendingTerminal (ra_AuthoritativePendingTerminalReplay x) (ra_AuthoritativeAttempt x) \<noteq> None \<or>
             ReplayPlanV1_Validate (ra_ReplayPlan x) \<noteq> None) ErrorMalformedFrame"

subsection \<open>Frames and batches\<close>

definition validateFrameCommon :: "FrameV1 \<Rightarrow> fault option" where
  "validateFrameCommon f =
     reject (fr_Version f \<noteq> ProtocolVersionV1 \<or> \<not> validOpaque (fr_MessageID f) \<or> \<not> validOpaque (fr_WorkerID f) \<or>
             fr_EnrollmentGeneration f = 0 \<or> fr_ConnectionGeneration f = 0 \<or> fr_Sequence f = 0) ErrorInvalidFrame"

definition check_payload :: "FrameV1 \<Rightarrow> MessageKind \<Rightarrow> 'a option \<Rightarrow> ('a \<Rightarrow> fault option) \<Rightarrow> fault option" where
  "check_payload f kind p validate =
     (case p of None \<Rightarrow> None | Some v \<Rightarrow> reject (fr_Kind f \<noteq> kind \<or> validate v \<noteq> None) ErrorInvalidFrame)"

definition payload_checks :: "FrameV1 \<Rightarrow> fault option list" where
  "payload_checks f =
     [check_payload f MessageHello (fr_Hello f) HelloV1_Validate,
      check_payload f MessageChallenge (fr_Challenge f) ChallengeV1_Validate,
      check_payload f MessageAttach (fr_Attach f) AttachV1_Validate,
      check_payload f MessageAttachAccepted (fr_AttachAccepted f) AttachAcceptedV1_Validate,
      check_payload f MessageReconnect (fr_Reconnect f) ReconnectV1_Validate,
      check_payload f MessageReconnectAccepted (fr_ReconnectAccepted f) ReconnectAcceptedV1_Validate,
      check_payload f MessageManifest (fr_Manifest f) ManifestV1_Validate,
      check_payload f MessageHeartbeat (fr_Heartbeat f) HeartbeatV1_Validate,
      check_payload f MessageLeaseOffer (fr_LeaseOffer f) LeaseOfferV1_Validate,
      check_payload f MessageLeaseClaim (fr_LeaseClaim f) LeaseClaimV1_Validate,
      check_payload f MessageLeaseAccepted (fr_LeaseAccepted f) LeaseAcceptedV1_Validate,
      check_payload f MessageProgress (fr_Progress f) ProgressV1_Validate,
      check_payload f MessageCancel (fr_Cancel f) CancelV1_Validate,
      check_payload f MessageCancelAck (fr_CancelAck f) CancelAckV1_Validate,
      check_payload f MessageTerminal (fr_Terminal f) TerminalV1_Validate,
      check_payload f MessageTerminalAck (fr_TerminalAck f) TerminalAckV1_Validate,
      check_payload f MessageDrain (fr_Drain f) DrainV1_Validate,
      check_payload f MessageDrained (fr_Drained f) DrainedV1_Validate,
      check_payload f MessageRevoke (fr_Revoke f) RevokeV1_Validate,
      check_payload f MessageRevoked (fr_Revoked f) RevokedV1_Validate,
      check_payload f MessageError (fr_Error f) ErrorV1_Validate]"

text \<open>The kinds of the payload pointers that are set, in the order the code counts them.\<close>

definition present :: "MessageKind \<Rightarrow> 'a option \<Rightarrow> MessageKind list" where
  "present kind p = (case p of None \<Rightarrow> [] | Some _ \<Rightarrow> [kind])"

definition payload_kinds :: "FrameV1 \<Rightarrow> MessageKind list" where
  "payload_kinds f = concat
     [present MessageHello (fr_Hello f), present MessageChallenge (fr_Challenge f),
      present MessageAttach (fr_Attach f), present MessageAttachAccepted (fr_AttachAccepted f),
      present MessageReconnect (fr_Reconnect f), present MessageReconnectAccepted (fr_ReconnectAccepted f),
      present MessageManifest (fr_Manifest f), present MessageHeartbeat (fr_Heartbeat f),
      present MessageLeaseOffer (fr_LeaseOffer f), present MessageLeaseClaim (fr_LeaseClaim f),
      present MessageLeaseAccepted (fr_LeaseAccepted f), present MessageProgress (fr_Progress f),
      present MessageCancel (fr_Cancel f), present MessageCancelAck (fr_CancelAck f),
      present MessageTerminal (fr_Terminal f), present MessageTerminalAck (fr_TerminalAck f),
      present MessageDrain (fr_Drain f), present MessageDrained (fr_Drained f),
      present MessageRevoke (fr_Revoke f), present MessageRevoked (fr_Revoked f),
      present MessageError (fr_Error f)]"

lemma set_present [simp]: "k \<in> set (present kind p) \<longleftrightarrow> p \<noteq> None \<and> k = kind"
  by (cases p) (auto simp: present_def)

fun first_fault :: "fault option list \<Rightarrow> fault option" where
  "first_fault [] = None"
| "first_fault (x # xs) = (case x of Some e \<Rightarrow> Some e | None \<Rightarrow> first_fault xs)"

definition FrameV1_Validate :: "FrameV1 \<Rightarrow> fault option" where
  "FrameV1_Validate f =
     (if validateFrameCommon f \<noteq> None then Some (protocolError ErrorInvalidFrame)
      else case first_fault (payload_checks f) of
             Some e \<Rightarrow> Some e
           | None \<Rightarrow> reject (length (payload_kinds f) \<noteq> 1) ErrorInvalidFrame)"

definition BatchV1_Validate :: "BatchV1 \<Rightarrow> fault option" where
  "BatchV1_Validate batch =
     (if bt_Version batch \<noteq> ProtocolVersionV1 \<or> length (bt_Frames batch) = 0 \<or> MaxBatchFrames < length (bt_Frames batch)
      then Some (protocolError ErrorInvalidFrame)
      else first_fault (map FrameV1_Validate (bt_Frames batch)))"

subsection \<open>What validation accepts\<close>

lemma sameAttemptBinding_eq [simp]: "sameAttemptBinding left right \<longleftrightarrow> left = right"
  by (auto simp: sameAttemptBinding_def)

lemma attemptBindingIsZero_eq [simp]: "attemptBindingIsZero b \<longleftrightarrow> b = zero_binding"
  by (auto simp: attemptBindingIsZero_def zero_binding_def)

lemma validBytes_iff [simp]: "validBytes v n \<longleftrightarrow> length v = n"
  by (simp add: validBytes_def)

lemma validDirection_cases:
  "validDirection d \<Longrightarrow> d = DirectionPlatformToWorker \<or> d = DirectionWorkerToPlatform"
  by (simp add: validDirection_def)

lemma first_fault_None [simp]: "first_fault xs = None \<longleftrightarrow> (\<forall>x \<in> set xs. x = None)"
  by (induction xs) (auto split: option.splits)

lemma check_payload_None [simp]:
  "check_payload f kind p validate = None \<longleftrightarrow> (\<forall>v. p = Some v \<longrightarrow> fr_Kind f = kind \<and> validate v = None)"
  by (cases p) (auto simp: check_payload_def)

lemma frame_common:
  assumes "FrameV1_Validate f = None"
  shows "fr_Sequence f \<noteq> 0" and "validOpaque (fr_WorkerID f)" and "fr_Version f = ProtocolVersionV1"
    and "fr_EnrollmentGeneration f \<noteq> 0" and "fr_ConnectionGeneration f \<noteq> 0"
  using assms by (auto simp: FrameV1_Validate_def validateFrameCommon_def split: if_splits)

lemma frame_checks:
  assumes "FrameV1_Validate f = None"
  shows "\<forall>x \<in> set (payload_checks f). x = None" and "length (payload_kinds f) = 1"
  using assms by (auto simp: FrameV1_Validate_def split: if_splits option.splits)

text \<open>
  The payload named by the kind is there and valid: every other payload would have been
  refused for its kind, and exactly one is present.
\<close>

lemma payload_kinds_checked:
  "\<forall>x \<in> set (payload_checks f). x = None \<Longrightarrow> k \<in> set (payload_kinds f) \<Longrightarrow> k = fr_Kind f"
  by (auto simp: payload_checks_def payload_kinds_def)

lemma frame_kind_present: "FrameV1_Validate f = None \<Longrightarrow> fr_Kind f \<in> set (payload_kinds f)"
  using frame_checks [of f] payload_kinds_checked [of f] by (cases "payload_kinds f") auto

lemma frame_payload:
  assumes "FrameV1_Validate f = None"
  shows "fr_Kind f = MessageHello \<Longrightarrow> \<exists>p. fr_Hello f = Some p \<and> HelloV1_Validate p = None"
    and "fr_Kind f = MessageChallenge \<Longrightarrow> \<exists>p. fr_Challenge f = Some p \<and> ChallengeV1_Validate p = None"
    and "fr_Kind f = MessageAttach \<Longrightarrow> \<exists>p. fr_Attach f = Some p \<and> AttachV1_Validate p = None"
    and "fr_Kind f = MessageAttachAccepted \<Longrightarrow> \<exists>p. fr_AttachAccepted f = Some p \<and> AttachAcceptedV1_Validate p = None"
    and "fr_Kind f = MessageReconnect \<Longrightarrow> \<exists>p. fr_Reconnect f = Some p \<and> ReconnectV1_Validate p = None"
    and "fr_Kind f = MessageReconnectAccepted \<Longrightarrow> \<exists>p. fr_ReconnectAccepted f = Some p \<and> ReconnectAcceptedV1_Validate p = None"
    and "fr_Kind f = MessageManifest \<Longrightarrow> \<exists>p. fr_Manifest f = Some p \<and> ManifestV1_Validate p = None"
    and "fr_Kind f = MessageHeartbeat \<Longrightarrow> \<exists>p. fr_Heartbeat f = Some p \<and> HeartbeatV1_Validate p = None"
    and "fr_Kind f = MessageLeaseOffer \<Longrightarrow> \<exists>p. fr_LeaseOffer f = Some p \<and> LeaseOfferV1_Validate p = None"
    and "fr_Kind f = MessageLeaseClaim \<Longrightarrow> \<exists>p. fr_LeaseClaim f = Some p \<and> LeaseClaimV1_Validate p = None"
    and "fr_Kind f = MessageLeaseAccepted \<Longrightarrow> \<exists>p. fr_LeaseAccepted f = Some p \<and> LeaseAcceptedV1_Validate p = None"
    and "fr_Kind f = MessageProgress \<Longrightarrow> \<exists>p. fr_Progress f = Some p \<and> ProgressV1_Validate p = None"
    and "fr_Kind f = MessageCancel \<Longrightarrow> \<exists>p. fr_Cancel f = Some p \<and> CancelV1_Validate p = None"
    and "fr_Kind f = MessageCancelAck \<Longrightarrow> \<exists>p. fr_CancelAck f = Some p \<and> CancelAckV1_Validate p = None"
    and "fr_Kind f = MessageTerminal \<Longrightarrow> \<exists>p. fr_Terminal f = Some p \<and> TerminalV1_Validate p = None"
    and "fr_Kind f = MessageTerminalAck \<Longrightarrow> \<exists>p. fr_TerminalAck f = Some p \<and> TerminalAckV1_Validate p = None"
    and "fr_Kind f = MessageDrain \<Longrightarrow> \<exists>p. fr_Drain f = Some p \<and> DrainV1_Validate p = None"
    and "fr_Kind f = MessageDrained \<Longrightarrow> \<exists>p. fr_Drained f = Some p \<and> DrainedV1_Validate p = None"
    and "fr_Kind f = MessageRevoke \<Longrightarrow> \<exists>p. fr_Revoke f = Some p \<and> RevokeV1_Validate p = None"
    and "fr_Kind f = MessageRevoked \<Longrightarrow> \<exists>p. fr_Revoked f = Some p \<and> RevokedV1_Validate p = None"
  using frame_kind_present [OF assms] frame_checks(1) [OF assms]
  by (auto simp: payload_checks_def payload_kinds_def)

subsection \<open>Opaque strings\<close>

text \<open>The white space and UTF-8 checks add nothing to the printable range.\<close>

definition opaque_char :: "char \<Rightarrow> bool" where
  "opaque_char c = (0x21 \<le> byte c \<and> byte c \<le> 0x7e \<and> byte c \<noteq> 0x2f \<and> byte c \<noteq> 0x5c)"

lemma space_len_opaque: "opaque_char c \<Longrightarrow> space_len (c # cs) = 0"
  by (auto simp: space_len_def opaque_char_def split: list.splits)

lemma TrimSpace_opaque:
  assumes "list_all opaque_char s"
  shows "TrimSpace s = s"
proof -
  have "trim_left s = s"
    using assms by (cases s) (auto simp: trim_left.simps space_len_opaque)
  moreover have "space_suffix_len s = 0"
  proof -
    have "space_len (drop (length s - k) s) \<noteq> k" if "0 < k" "k \<le> length s" for k
    proof (cases "drop (length s - k) s")
      case Nil
      then show ?thesis using that by simp
    next
      case (Cons c cs)
      then have "c \<in> set s" by (metis in_set_dropD list.set_intros(1))
      then have "opaque_char c" using assms by (auto simp: list_all_iff)
      then show ?thesis using Cons that by (simp add: space_len_opaque)
    qed
    then show ?thesis by (auto simp: space_suffix_len_def Let_def)
  qed
  ultimately show ?thesis by (simp add: TrimSpace_def trim_right.simps)
qed

lemma opaque_runes:
  assumes "list_all opaque_char s"
  shows "utf8_valid s" and "runes s = map byte s"
proof -
  have "decode_runes s = map (\<lambda>c. (byte c, 1)) s"
    using assms by (intro decode_runes_ascii) (auto simp: list_all_iff opaque_char_def)
  then show "utf8_valid s" "runes s = map byte s"
    using assms by (auto simp: list_all_iff opaque_char_def utf8_valid_def runes_def)
qed

lemma runes_opaque:
  assumes "list_all (\<lambda>r. \<not> (r < 0x21 \<or> 0x7e < r \<or> r = 0x2f \<or> r = 0x5c)) (runes s)"
  shows "list_all opaque_char s"
proof -
  have "\<forall>r \<in> set (runes s). r < 0x80" using assms by (force simp: list_all_iff)
  then have "\<forall>c \<in> set s. byte c < 0x80" using small_runes_ascii [of s] by blast
  then have "runes s = map byte s" by (simp add: runes_def decode_runes_ascii)
  then show ?thesis using assms by (force simp: list_all_iff opaque_char_def)
qed

lemma validOpaque_iff:
  "validOpaque s \<longleftrightarrow> s \<noteq> [] \<and> length s \<le> maxOpaqueBytes \<and> list_all opaque_char s"
proof (cases "list_all opaque_char s")
  case True
  then have "list_all (\<lambda>r. \<not> (r < 0x21 \<or> 0x7e < r \<or> r = 0x2f \<or> r = 0x5c)) (runes s)"
    unfolding opaque_runes(2) [OF True] by (force simp: list_all_iff opaque_char_def)
  then show ?thesis
    by (simp add: validOpaque_def True opaque_runes(1) [OF True] TrimSpace_opaque [OF True] not_less)
next
  case False
  then show ?thesis using runes_opaque [of s] unfolding validOpaque_def by presburger
qed

lemma validOpaque_length: "validOpaque s \<Longrightarrow> length s < 2 ^ 32"
  by (simp add: validOpaque_iff maxOpaqueBytes_def)

subsection \<open>The manifest digest\<close>

definition manifest_parts :: "CapabilityManifestV1 \<Rightarrow> part list" where
  "manifest_parts m =
     [PField manifestDigestDomainV1, PField (cm_WorkerID m), PU64 (cm_EnrollmentGeneration m), PU64 (cm_Revision m),
      PU32 (vw_Minimum (vo_Window (cm_ProtocolOffer m))), PU32 (vw_Maximum (vo_Window (cm_ProtocolOffer m))),
      PVersions (vo_Supported (cm_ProtocolOffer m)), PField (cm_OperatingSystem m), PField (cm_Architecture m),
      PField (cm_BuildID m), PField (cm_HarnessName m), PField (cm_HarnessVersion m), PField (cm_HarnessSurface m),
      PField (cm_HarnessExecutableDigest m), PU32 (cm_MaxConcurrentAttempts m),
      PFields (cm_IsolationEvidence m), PFields (cm_Features m)]"

lemma CanonicalManifestBytesV1_parts:
  "CanonicalManifestBytesV1 m =
     (case CapabilityManifestV1_Validate m of Some e \<Rightarrow> Inl e | None \<Rightarrow> Inr (parts_bytes (manifest_parts m)))"
  unfolding CanonicalManifestBytesV1_def Let_def append_first_part append_as_parts(1-5) manifest_parts_def append.simps
  by (simp add: foldl_appendCanonicalField append_as_parts(2) parts_bytes_def appendCanonicalUint32_def cong: option.case_cong)

lemma ordered_names_known: "ordered_names known prev ns \<Longrightarrow> n \<in> set ns \<Longrightarrow> n \<in> set known"
  by (induction known prev ns rule: ordered_names.induct) (auto split: if_splits)

lemma VersionOfferV1_length: "VersionOfferV1_Validate o' = None \<Longrightarrow> length (vo_Supported o') < 2 ^ 32"
  by (auto simp: VersionOfferV1_Validate_def maxVersionWidth_def split: if_splits)

lemma known_name_length:
  "n \<in> set [IsolationFilesystemBoundary, IsolationNetworkBoundary, IsolationProcessBoundary] \<Longrightarrow> length n < 2 ^ 32"
  "n \<in> set [FeatureCancellation, FeatureOutputReceipt, FeatureInlineOutputV2, FeatureProgress, FeatureReconnect] \<Longrightarrow>
     length n < 2 ^ 32"
  by (auto simp: IsolationFilesystemBoundary_def IsolationNetworkBoundary_def IsolationProcessBoundary_def
      FeatureCancellation_def FeatureOutputReceipt_def FeatureInlineOutputV2_def FeatureProgress_def FeatureReconnect_def)

lemma manifest_names:
  assumes "CapabilityManifestV1_Validate m = None"
  shows "\<And>n. n \<in> set (cm_IsolationEvidence m) \<Longrightarrow> length n < 2 ^ 32"
    and "\<And>n. n \<in> set (cm_Features m) \<Longrightarrow> length n < 2 ^ 32"
    and "length (cm_IsolationEvidence m) \<le> 8" and "length (cm_Features m) \<le> 8"
  using assms known_name_length
  by (auto simp: CapabilityManifestV1_Validate_def simp del: list.set split: if_splits dest!: ordered_names_known)

lemma manifest_parts_fit:
  assumes "CapabilityManifestV1_Validate m = None"
  shows "list_all part_fits (manifest_parts m)"
proof -
  have "validOpaque (cm_WorkerID m)" "validOpaque (cm_OperatingSystem m)" "validOpaque (cm_Architecture m)"
    "validOpaque (cm_BuildID m)" "validOpaque (cm_HarnessName m)" "validOpaque (cm_HarnessVersion m)"
    "cm_HarnessSurface m = HarnessSurfaceSessionTurn" "length (cm_HarnessExecutableDigest m) = 32"
    "VersionOfferV1_Validate (cm_ProtocolOffer m) = None"
    using assms by (auto simp: CapabilityManifestV1_Validate_def split: if_splits)
  then show ?thesis
    using manifest_names [OF assms] validOpaque_length VersionOfferV1_length
    by (fastforce simp: manifest_parts_def manifestDigestDomainV1_def HarnessSurfaceSessionTurn_def)
qed

lemma manifest_parts_inject: "manifest_parts m = manifest_parts n \<Longrightarrow> m = n"
  by (auto simp: manifest_parts_def)

lemma manifest_parts_shape: "list_all2 same_shape (manifest_parts m) (manifest_parts n)"
  by (simp add: manifest_parts_def)

lemma CanonicalManifestBytesV1_inject:
  assumes "CanonicalManifestBytesV1 m = Inr b" "CanonicalManifestBytesV1 n = Inr b"
  shows "m = n"
proof -
  have v: "CapabilityManifestV1_Validate m = None" "CapabilityManifestV1_Validate n = None"
    and e: "parts_bytes (manifest_parts m) = parts_bytes (manifest_parts n)"
    using assms by (auto simp: CanonicalManifestBytesV1_parts split: option.splits)
  show ?thesis
    using parts_bytes_inject [OF e manifest_parts_shape] manifest_parts_fit v by (simp add: manifest_parts_inject)
qed

subsection \<open>Summaries\<close>

lemma AttemptSummaryV1_Validate_None:
  "AttemptSummaryV1_Validate s = None \<longleftrightarrow>
     summary_fields_ok s \<and> summary_state_ok s \<and> attemptSummaryDigestV1 s = as_Digest s"
  by (simp add: AttemptSummaryV1_Validate_def)

lemma summary_fields_ok_iff:
  "summary_fields_ok s \<longleftrightarrow>
     as_PlatformSequence s \<le> MaxAttemptMessages \<and> as_WorkerSequence s \<le> MaxAttemptMessages \<and>
     as_ProgressSequence s \<le> MaxProgressUpdates \<and> length (as_Digest s) = 32 \<and>
     (as_State s = AttemptIdle \<longrightarrow>
        as_PlatformSequence s = 0 \<and> as_WorkerSequence s = 0 \<and> as_ProgressSequence s = 0 \<and>
        as_CancelRevision s = 0 \<and> as_TerminalSequence s = 0 \<and> as_Binding s = zero_binding) \<and>
     (as_State s \<noteq> AttemptIdle \<longrightarrow> AttemptBindingV1_Validate (as_Binding s) = None) \<and>
     (as_CancelRevision s = 0 \<longrightarrow> as_CancelCode s = CancelUnset) \<and>
     (as_CancelRevision s \<noteq> 0 \<longrightarrow> as_CancelCode s = CancelRequested \<or> as_CancelCode s = CancelFenced) \<and>
     (as_TerminalSequence s = 0 \<longrightarrow> as_TerminalStatus s = TerminalStatusUnset \<and>
        as_TerminalResult s = TerminalResultUnset \<and> as_TerminalEvidenceDigest s = []) \<and>
     (as_TerminalSequence s \<noteq> 0 \<longrightarrow>
        validTerminalResult (as_TerminalStatus s) (as_TerminalResult s) \<and> length (as_TerminalEvidenceDigest s) = 32) \<and>
     (as_CancelCode s = CancelFenced \<and> as_TerminalSequence s \<noteq> 0 \<longrightarrow> as_TerminalStatus s = TerminalCancelled)"
  unfolding summary_fields_ok_def
  by (cases "as_State s = AttemptIdle"; cases "as_CancelRevision s = 0"; cases "as_TerminalSequence s = 0")
    (simp_all add: not_le [symmetric], blast+)

lemma summary_state_ok_iff:
  "summary_state_ok s \<longleftrightarrow>
     (as_State s \<in> {AttemptOffered, AttemptClaimPending} \<longrightarrow> as_PlatformSequence s \<noteq> 0) \<and>
     (as_State s \<in> {AttemptClaimPending, AttemptClaimed} \<longrightarrow> as_WorkerSequence s \<noteq> 0) \<and>
     (as_State s = AttemptClaimed \<longrightarrow> 2 \<le> as_PlatformSequence s) \<and>
     (as_State s \<in> {AttemptCancelRequested, AttemptCancelAcked, AttemptFenced} \<longrightarrow> as_CancelRevision s = 1) \<and>
     (as_State s \<in> {AttemptTerminalPending, AttemptTerminalCommitted} \<longrightarrow> as_TerminalSequence s = 1) \<and>
     (\<forall>x. as_State s \<noteq> AttemptStateOther x)"
  by (cases "as_State s") (auto simp: summary_state_ok_def not_less)

lemma length_attemptSummaryDigestV1 [simp]: "length (attemptSummaryDigestV1 s) = 32"
  by (simp add: attemptSummaryDigestV1_def Let_def)

text \<open>The digest does not read the digest field.\<close>

lemma attemptSummaryDigestV1_update [simp]:
  "attemptSummaryDigestV1 (s\<lparr>as_Digest := d\<rparr>) = attemptSummaryDigestV1 s"
  by (simp add: attemptSummaryDigestV1_def)

lemma validatePendingTerminal_None:
  "validatePendingTerminal p s = None \<longleftrightarrow>
     (\<forall>t. p = Some t \<longrightarrow> TerminalV1_Validate t = None \<and> tm_Binding t = as_Binding s)"
  by (auto simp: validatePendingTerminal_def split: option.splits)

end
