(* ===== verification/Reconcile.thy ===== *)
theory Reconcile
  imports Frames
begin

text \<open>
  Reconciliation after a lost connection
  (\<open>src/internal/attachedworkerprotocol/reconciliation.go\<close>): sealed reconnect snapshots, the
  compatibility of a worker's claim with the platform's record, and the replay plan. The
  lemmas give the plan: a committed attempt is never replayed, a terminal that a recorded
  cancellation overrides is discarded, and any other pending terminal is replayed strictly
  after the platform's worker watermark.
\<close>

subsection \<open>Snapshots\<close>

definition reconnectSnapshotDomainV1 :: string where
  "reconnectSnapshotDomainV1 = ''sessionless.attached-worker.reconnect-snapshot.v1''"

record ReconnectSnapshotV1 =
  rs_PreviousConnectionGeneration :: u64
  rs_Watermarks :: ConnectionWatermarksV1
  rs_Attempt :: AttemptSummaryV1
  rs_PendingTerminalReplay :: "TerminalV1 option"
  rs_Digest :: string

definition pendingTerminalDigestV1 :: "TerminalV1 option \<Rightarrow> string" where
  "pendingTerminalDigestV1 terminal =
     (case terminal of
        None \<Rightarrow> []
      | Some t \<Rightarrow> attemptFingerprint ((empty_frame MessageTerminal)\<lparr>fr_Terminal := Some t\<rparr>))"

definition reconnectSnapshotDigestV1 :: "ReconnectSnapshotV1 \<Rightarrow> string" where
  "reconnectSnapshotDigestV1 snapshot =
     (let r = appendCanonicalField [] reconnectSnapshotDomainV1;
          r = appendCanonicalUint64 r (rs_PreviousConnectionGeneration snapshot);
          r = appendWatermarks r (rs_Watermarks snapshot);
          r = appendCanonicalField r (as_Digest (rs_Attempt snapshot));
          r = appendCanonicalField r (pendingTerminalDigestV1 (rs_PendingTerminalReplay snapshot))
      in sha256 r)"

definition ReconnectSnapshotV1_Validate :: "ReconnectSnapshotV1 \<Rightarrow> fault option" where
  "ReconnectSnapshotV1_Validate snapshot =
     reject (rs_PreviousConnectionGeneration snapshot = 0 \<or>
             ConnectionWatermarksV1_Validate (rs_Watermarks snapshot) \<noteq> None \<or>
             AttemptSummaryV1_Validate (rs_Attempt snapshot) \<noteq> None \<or>
             validatePendingTerminal (rs_PendingTerminalReplay snapshot) (rs_Attempt snapshot) \<noteq> None \<or>
             \<not> validBytes (rs_Digest snapshot) 32 \<or>
             reconnectSnapshotDigestV1 snapshot \<noteq> rs_Digest snapshot) ErrorMalformedFrame"

text \<open>The clones of the code copy byte slices; values are immutable here.\<close>

definition sealReconnectSnapshot :: "ReconnectSnapshotV1 \<Rightarrow> ReconnectSnapshotV1" where
  "sealReconnectSnapshot snapshot = snapshot\<lparr>rs_Digest := reconnectSnapshotDigestV1 snapshot\<rparr>"

definition snapshot_of ::
    "u64 \<Rightarrow> ConnectionWatermarksV1 \<Rightarrow> AttemptSummaryV1 \<Rightarrow> TerminalV1 option \<Rightarrow> ReconnectSnapshotV1" where
  "snapshot_of previous watermarks attempt pending =
     sealReconnectSnapshot \<lparr>rs_PreviousConnectionGeneration = previous, rs_Watermarks = watermarks,
       rs_Attempt = attempt, rs_PendingTerminalReplay = pending, rs_Digest = []\<rparr>"

definition sealAttemptSummary :: "AttemptSummaryV1 \<Rightarrow> AttemptSummaryV1" where
  "sealAttemptSummary summary =
     (let s = (if as_TerminalSequence summary = 0 then summary\<lparr>as_TerminalEvidenceDigest := []\<rparr> else summary);
          s = (if as_State s = AttemptIdle
               then s\<lparr>as_Binding := (as_Binding s)\<lparr>ab_ContextDigest := [], ab_CapabilityDigest := [], ab_PolicyDigest := []\<rparr>\<rparr>
               else s)
      in s\<lparr>as_Digest := attemptSummaryDigestV1 s\<rparr>)"

definition sameAttemptSummary :: "AttemptSummaryV1 \<Rightarrow> AttemptSummaryV1 \<Rightarrow> bool" where
  "sameAttemptSummary left right =
     (as_State left = as_State right \<and> sameAttemptBinding (as_Binding left) (as_Binding right) \<and>
      as_PlatformSequence left = as_PlatformSequence right \<and> as_WorkerSequence left = as_WorkerSequence right \<and>
      as_ProgressSequence left = as_ProgressSequence right \<and> as_CancelRevision left = as_CancelRevision right \<and>
      as_CancelCode left = as_CancelCode right \<and> as_TerminalSequence left = as_TerminalSequence right \<and>
      as_TerminalStatus left = as_TerminalStatus right \<and> as_TerminalResult left = as_TerminalResult right \<and>
      as_TerminalEvidenceDigest left = as_TerminalEvidenceDigest right \<and> as_Digest left = as_Digest right)"

definition sameTerminal :: "TerminalV1 \<Rightarrow> TerminalV1 \<Rightarrow> bool" where
  "sameTerminal left right =
     (sameAttemptBinding (tm_Binding left) (tm_Binding right) \<and> tm_AttemptSequence left = tm_AttemptSequence right \<and>
      tm_TerminalSequence left = tm_TerminalSequence right \<and> tm_Status left = tm_Status right \<and>
      tm_Result left = tm_Result right \<and> tm_EvidenceDigest left = tm_EvidenceDigest right)"

subsection \<open>Order on summaries\<close>

definition cancellationOverridesTerminal :: "AttemptSummaryV1 \<Rightarrow> TerminalStatus \<Rightarrow> bool" where
  "cancellationOverridesTerminal summary terminalStatus =
     (0 < as_CancelRevision summary \<and>
      (as_CancelCode summary = CancelFenced \<or>
       as_CancelCode summary = CancelRequested \<and> terminalStatus \<noteq> TerminalCancelled))"

fun attemptStateRank :: "AttemptState \<Rightarrow> int" where
  "attemptStateRank AttemptIdle = 0"
| "attemptStateRank AttemptOffered = 1"
| "attemptStateRank AttemptClaimPending = 2"
| "attemptStateRank AttemptClaimed = 3"
| "attemptStateRank AttemptCancelRequested = 4"
| "attemptStateRank AttemptCancelAcked = 4"
| "attemptStateRank AttemptFenced = 4"
| "attemptStateRank AttemptTerminalPending = 5"
| "attemptStateRank AttemptTerminalCommitted = 6"
| "attemptStateRank (AttemptStateOther _) = 100"

definition attemptStateCanAdvance :: "AttemptSummaryV1 \<Rightarrow> AttemptSummaryV1 \<Rightarrow> bool" where
  "attemptStateCanAdvance from' to' =
     (if as_State from' = AttemptTerminalCommitted then as_State to' = AttemptTerminalCommitted
      else if 0 < as_CancelRevision to' \<and>
              (as_State to' = AttemptCancelRequested \<or> as_State to' = AttemptCancelAcked \<or> as_State to' = AttemptFenced)
      then True
      else attemptStateRank (as_State from') \<le> attemptStateRank (as_State to'))"

definition summaryCanAdvance :: "AttemptSummaryV1 \<Rightarrow> AttemptSummaryV1 \<Rightarrow> bool" where
  "summaryCanAdvance from' to' =
     (\<not> (AttemptSummaryV1_Validate from' \<noteq> None \<or> AttemptSummaryV1_Validate to' \<noteq> None \<or>
         as_State from' \<noteq> AttemptIdle \<and>
           (as_State to' = AttemptIdle \<or> \<not> sameAttemptBinding (as_Binding from') (as_Binding to')) \<or>
         as_State from' = AttemptIdle \<and> as_State to' = AttemptIdle \<and> \<not> sameAttemptSummary from' to' \<or>
         as_PlatformSequence to' < as_PlatformSequence from' \<or> as_WorkerSequence to' < as_WorkerSequence from' \<or>
         as_ProgressSequence to' < as_ProgressSequence from' \<or> as_CancelRevision to' < as_CancelRevision from' \<or>
         as_TerminalSequence to' < as_TerminalSequence from' \<and>
           \<not> cancellationOverridesTerminal to' (as_TerminalStatus from') \<or>
         \<not> attemptStateCanAdvance from' to'))"

definition watermarksCanAdvance :: "ConnectionWatermarksV1 \<Rightarrow> ConnectionWatermarksV1 \<Rightarrow> bool" where
  "watermarksCanAdvance from' to' =
     (ConnectionWatermarksV1_Validate from' = None \<and> ConnectionWatermarksV1_Validate to' = None \<and>
      wm_PlatformSequence from' \<le> wm_PlatformSequence to' \<and> wm_WorkerSequence from' \<le> wm_WorkerSequence to' \<and>
      wm_PlatformAck from' \<le> wm_PlatformAck to' \<and> wm_WorkerAck from' \<le> wm_WorkerAck to')"

subsection \<open>Claims\<close>

fun reconnectStatesCompatible :: "AttemptState \<Rightarrow> AttemptState \<Rightarrow> bool" where
  "reconnectStatesCompatible worker AttemptOffered = (worker = AttemptOffered \<or> worker = AttemptClaimPending)"
| "reconnectStatesCompatible worker AttemptClaimPending = (worker = AttemptOffered \<or> worker = AttemptClaimPending)"
| "reconnectStatesCompatible worker AttemptClaimed =
     (worker = AttemptClaimPending \<or> worker = AttemptClaimed \<or> worker = AttemptTerminalPending)"
| "reconnectStatesCompatible worker AttemptCancelRequested =
     (worker = AttemptClaimed \<or> worker = AttemptCancelRequested \<or> worker = AttemptCancelAcked \<or> worker = AttemptTerminalPending)"
| "reconnectStatesCompatible worker AttemptCancelAcked =
     (worker = AttemptCancelRequested \<or> worker = AttemptCancelAcked \<or> worker = AttemptTerminalPending)"
| "reconnectStatesCompatible worker AttemptFenced =
     (worker = AttemptClaimed \<or> worker = AttemptCancelRequested \<or> worker = AttemptCancelAcked \<or>
      worker = AttemptFenced \<or> worker = AttemptTerminalPending)"
| "reconnectStatesCompatible worker AttemptTerminalPending =
     (worker = AttemptClaimed \<or> worker = AttemptCancelRequested \<or> worker = AttemptCancelAcked \<or> worker = AttemptTerminalPending)"
| "reconnectStatesCompatible worker AttemptTerminalCommitted =
     (worker = AttemptTerminalPending \<or> worker = AttemptTerminalCommitted)"
| "reconnectStatesCompatible worker _ = False"

definition reconnectPendingTerminal :: "ReconnectSnapshotV1 \<Rightarrow> TerminalV1 option" where
  "reconnectPendingTerminal snapshot =
     (if rs_PendingTerminalReplay snapshot \<noteq> None then rs_PendingTerminalReplay snapshot
      else if as_TerminalSequence (rs_Attempt snapshot) = 0 then None
      else Some \<lparr>tm_Binding = as_Binding (rs_Attempt snapshot), tm_AttemptSequence = as_WorkerSequence (rs_Attempt snapshot),
             tm_TerminalSequence = as_TerminalSequence (rs_Attempt snapshot),
             tm_Status = as_TerminalStatus (rs_Attempt snapshot), tm_Result = as_TerminalResult (rs_Attempt snapshot),
             tm_EvidenceDigest = as_TerminalEvidenceDigest (rs_Attempt snapshot)\<rparr>)"

definition reconnectClaimsCompatible :: "ReconnectSnapshotV1 \<Rightarrow> ReconnectSnapshotV1 \<Rightarrow> bool" where
  "reconnectClaimsCompatible workerClaim authoritative =
     (let w = rs_Attempt workerClaim; p = rs_Attempt authoritative;
          workerPending = reconnectPendingTerminal workerClaim;
          platformPending = rs_PendingTerminalReplay authoritative
      in if ReconnectSnapshotV1_Validate workerClaim \<noteq> None \<or> ReconnectSnapshotV1_Validate authoritative \<noteq> None \<or>
            rs_PreviousConnectionGeneration workerClaim \<noteq> rs_PreviousConnectionGeneration authoritative \<or>
            wm_PlatformSequence (rs_Watermarks authoritative) < wm_PlatformSequence (rs_Watermarks workerClaim) \<or>
            wm_PlatformAck (rs_Watermarks authoritative) < wm_PlatformAck (rs_Watermarks workerClaim) \<or>
            as_PlatformSequence p < as_PlatformSequence w
         then False
         else if (case platformPending of
                    None \<Rightarrow> False
                  | Some pp \<Rightarrow> (case workerPending of None \<Rightarrow> True | Some wp \<Rightarrow> \<not> sameTerminal pp wp))
         then False
         else if as_State w = AttemptIdle \<or> as_State p = AttemptIdle then as_State w = as_State p
         else \<not> (\<not> sameAttemptBinding (as_Binding w) (as_Binding p) \<or> as_CancelRevision p < as_CancelRevision w \<or>
                 \<not> reconnectStatesCompatible (as_State w) (as_State p) \<or>
                 0 < as_CancelRevision w \<and> 0 < as_CancelRevision p \<and> as_CancelCode w \<noteq> as_CancelCode p \<or>
                 0 < as_TerminalSequence w \<and> 0 < as_TerminalSequence p \<and>
                   (as_TerminalStatus w \<noteq> as_TerminalStatus p \<or> as_TerminalResult w \<noteq> as_TerminalResult p \<or>
                    as_TerminalEvidenceDigest w \<noteq> as_TerminalEvidenceDigest p)))"

subsection \<open>Messages\<close>

record ReconnectNegotiationV1 =
  rn_WorkerOffer :: VersionOfferV1
  rn_PlatformOffer :: VersionOfferV1
  rn_SelectedVersion :: ProtocolVersion
  rn_WorkerNonce :: string
  rn_PlatformNonce :: string
  rn_CapabilityDigest :: string

definition ReconnectNegotiationV1_validate :: "ReconnectNegotiationV1 \<Rightarrow> fault option" where
  "ReconnectNegotiationV1_validate n =
     validateNegotiationProof (rn_WorkerOffer n) (rn_PlatformOffer n) (rn_SelectedVersion n)
       (rn_WorkerNonce n) (rn_PlatformNonce n) (rn_CapabilityDigest n)"

definition BuildReconnectV1 :: "ReconnectSnapshotV1 \<Rightarrow> ReconnectNegotiationV1 \<Rightarrow> fault + ReconnectV1" where
  "BuildReconnectV1 snapshot n =
     (if ReconnectSnapshotV1_Validate snapshot \<noteq> None \<or> ReconnectNegotiationV1_validate n \<noteq> None
      then Inl (protocolError ErrorMalformedFrame)
      else Inr \<lparr>rc_WorkerOffer = rn_WorkerOffer n, rc_PlatformOffer = rn_PlatformOffer n,
             rc_SelectedVersion = rn_SelectedVersion n,
             rc_PreviousConnectionGeneration = rs_PreviousConnectionGeneration snapshot,
             rc_WorkerNonce = rn_WorkerNonce n, rc_PlatformNonce = rn_PlatformNonce n,
             rc_CapabilityDigest = rn_CapabilityDigest n, rc_PreviousWatermarks = rs_Watermarks snapshot,
             rc_AttemptSummary = rs_Attempt snapshot,
             rc_PendingTerminalReplay = rs_PendingTerminalReplay snapshot, rc_Signature = []\<rparr>)"

text \<open>
  The decision and the worker's pending terminal; \<open>workerTerminal\<close> is set whenever the
  decision is to replay or to discard.
\<close>

definition terminal_decision :: "ReconnectSnapshotV1 \<Rightarrow> ReconnectSnapshotV1 \<Rightarrow> ReconnectTerminalDecision" where
  "terminal_decision authoritative workerClaim =
     (if as_State (rs_Attempt authoritative) = AttemptTerminalCommitted then ReconnectTerminalCommitted
      else case reconnectPendingTerminal workerClaim of
        None \<Rightarrow> ReconnectTerminalNone
      | Some workerTerminal \<Rightarrow>
          if rs_PendingTerminalReplay workerClaim \<noteq> None \<or>
             as_TerminalSequence (rs_Attempt authoritative) < as_TerminalSequence (rs_Attempt workerClaim)
          then (if cancellationOverridesTerminal (rs_Attempt authoritative) (tm_Status workerTerminal)
                then ReconnectTerminalDiscard else ReconnectTerminalReplay)
          else ReconnectTerminalNone)"

definition worker_attempt_after :: "ReconnectSnapshotV1 \<Rightarrow> ReconnectSnapshotV1 \<Rightarrow> u64" where
  "worker_attempt_after authoritative workerClaim =
     (case reconnectPendingTerminal workerClaim of
        Some workerTerminal \<Rightarrow>
          if terminal_decision authoritative workerClaim = ReconnectTerminalDiscard \<and>
             as_WorkerSequence (rs_Attempt authoritative) < tm_AttemptSequence workerTerminal
          then tm_AttemptSequence workerTerminal else as_WorkerSequence (rs_Attempt authoritative)
      | None \<Rightarrow> as_WorkerSequence (rs_Attempt authoritative))"

definition replays_behind :: "ReconnectSnapshotV1 \<Rightarrow> ReconnectSnapshotV1 \<Rightarrow> bool" where
  "replays_behind authoritative workerClaim =
     (case reconnectPendingTerminal workerClaim of
        Some workerTerminal \<Rightarrow>
          terminal_decision authoritative workerClaim = ReconnectTerminalReplay \<and>
          tm_AttemptSequence workerTerminal \<le> as_WorkerSequence (rs_Attempt authoritative)
      | None \<Rightarrow> False)"

definition BuildReconnectAcceptedV1 ::
    "ReconnectSnapshotV1 \<Rightarrow> ReconnectSnapshotV1 \<Rightarrow> ReconnectNegotiationV1 \<Rightarrow> fault + ReconnectAcceptedV1" where
  "BuildReconnectAcceptedV1 authoritative workerClaim n =
     (if ReconnectSnapshotV1_Validate authoritative \<noteq> None \<or> ReconnectSnapshotV1_Validate workerClaim \<noteq> None \<or>
         ReconnectNegotiationV1_validate n \<noteq> None \<or>
         rs_PreviousConnectionGeneration authoritative \<noteq> rs_PreviousConnectionGeneration workerClaim \<or>
         \<not> reconnectClaimsCompatible workerClaim authoritative
      then Inl (protocolError ErrorConflict)
      else if replays_behind authoritative workerClaim then Inl (protocolError ErrorConflict)
      else Inr \<lparr>ra_WorkerOffer = rn_WorkerOffer n, ra_PlatformOffer = rn_PlatformOffer n,
             ra_SelectedVersion = rn_SelectedVersion n, ra_WorkerNonce = rn_WorkerNonce n,
             ra_PlatformNonce = rn_PlatformNonce n, ra_CapabilityDigest = rn_CapabilityDigest n,
             ra_AuthoritativeWatermarks = rs_Watermarks authoritative,
             ra_AuthoritativeAttempt = rs_Attempt authoritative,
             ra_AuthoritativePendingTerminalReplay = rs_PendingTerminalReplay authoritative,
             ra_ReplayPlan = \<lparr>rp_PlatformEnvelopeAfter = wm_PlatformSequence (rs_Watermarks workerClaim),
               rp_WorkerEnvelopeAfter = wm_WorkerSequence (rs_Watermarks authoritative),
               rp_PlatformAttemptAfter = as_PlatformSequence (rs_Attempt workerClaim),
               rp_WorkerAttemptAfter = worker_attempt_after authoritative workerClaim,
               rp_TerminalDecision = terminal_decision authoritative workerClaim\<rparr>\<rparr>)"

subsection \<open>Sealing and validity\<close>

lemma sameAttemptSummary_eq [simp]: "sameAttemptSummary left right \<longleftrightarrow> left = right"
  by (auto simp: sameAttemptSummary_def)

lemma sameTerminal_eq [simp]: "sameTerminal left right \<longleftrightarrow> left = right"
  by (auto simp: sameTerminal_def)

lemma snapshot_of_sel [simp]:
  "rs_PreviousConnectionGeneration (snapshot_of g w a p) = g" "rs_Watermarks (snapshot_of g w a p) = w"
  "rs_Attempt (snapshot_of g w a p) = a" "rs_PendingTerminalReplay (snapshot_of g w a p) = p"
  by (simp_all add: snapshot_of_def sealReconnectSnapshot_def)

lemma reconnectSnapshotDigestV1_update [simp]:
  "reconnectSnapshotDigestV1 (s\<lparr>rs_Digest := d\<rparr>) = reconnectSnapshotDigestV1 s"
  by (simp add: reconnectSnapshotDigestV1_def)

lemma seal_digest [simp]:
  "rs_Digest (sealReconnectSnapshot s) = reconnectSnapshotDigestV1 (sealReconnectSnapshot s)"
  by (simp add: sealReconnectSnapshot_def)

lemma length_reconnectSnapshotDigestV1 [simp]: "length (reconnectSnapshotDigestV1 s) = 32"
  by (simp add: reconnectSnapshotDigestV1_def Let_def)

lemma snapshot_of_Validate:
  "ReconnectSnapshotV1_Validate (snapshot_of g w a p) = None \<longleftrightarrow>
     g \<noteq> 0 \<and> ConnectionWatermarksV1_Validate w = None \<and> AttemptSummaryV1_Validate a = None \<and>
     validatePendingTerminal p a = None"
  by (simp add: ReconnectSnapshotV1_Validate_def) (simp add: snapshot_of_def)

text \<open>A snapshot that validates is its own seal.\<close>

lemma snapshot_sealed:
  "ReconnectSnapshotV1_Validate s = None \<Longrightarrow>
   snapshot_of (rs_PreviousConnectionGeneration s) (rs_Watermarks s) (rs_Attempt s) (rs_PendingTerminalReplay s) = s"
  by (cases s) (auto simp: ReconnectSnapshotV1_Validate_def snapshot_of_def sealReconnectSnapshot_def
      reconnectSnapshotDigestV1_def)

subsection \<open>The replay plan\<close>

lemma BuildReconnectAcceptedV1_Inr:
  assumes "BuildReconnectAcceptedV1 a c n = Inr r"
  shows "ReconnectSnapshotV1_Validate a = None" and "ReconnectSnapshotV1_Validate c = None"
    and "reconnectClaimsCompatible c a" and "\<not> replays_behind a c"
    and "rp_TerminalDecision (ra_ReplayPlan r) = terminal_decision a c"
    and "ra_AuthoritativeAttempt r = rs_Attempt a"
    and "ra_AuthoritativePendingTerminalReplay r = rs_PendingTerminalReplay a"
    and "rp_WorkerAttemptAfter (ra_ReplayPlan r) = worker_attempt_after a c"
    and "rp_PlatformAttemptAfter (ra_ReplayPlan r) = as_PlatformSequence (rs_Attempt c)"
    and "ra_AuthoritativeWatermarks r = rs_Watermarks a"
    and "validateNegotiationProof (ra_WorkerOffer r) (ra_PlatformOffer r) (ra_SelectedVersion r)
           (ra_WorkerNonce r) (ra_PlatformNonce r) (ra_CapabilityDigest r) = None"
  using assms by (auto simp: BuildReconnectAcceptedV1_def ReconnectNegotiationV1_validate_def split: if_splits)

lemma pending_terminal_valid:
  assumes v: "ReconnectSnapshotV1_Validate s = None" and p: "reconnectPendingTerminal s = Some t"
  shows "tm_Binding t = as_Binding (rs_Attempt s)" and "tm_AttemptSequence t \<le> MaxAttemptMessages"
    and "as_State (rs_Attempt s) \<noteq> AttemptIdle"
proof -
  have s: "AttemptSummaryV1_Validate (rs_Attempt s) = None"
    and pt: "validatePendingTerminal (rs_PendingTerminalReplay s) (rs_Attempt s) = None"
    using v by (auto simp: ReconnectSnapshotV1_Validate_def)
  have le: "as_WorkerSequence (rs_Attempt s) \<le> MaxAttemptMessages"
    using s by (auto simp: AttemptSummaryV1_Validate_None summary_fields_ok_def split: if_splits)
  show "tm_Binding t = as_Binding (rs_Attempt s)" "tm_AttemptSequence t \<le> MaxAttemptMessages"
    using p pt le
    by (auto simp: reconnectPendingTerminal_def validatePendingTerminal_None TerminalV1_Validate_def
        validateAttempt_def split: if_splits)
  show "as_State (rs_Attempt s) \<noteq> AttemptIdle"
  proof
    assume i: "as_State (rs_Attempt s) = AttemptIdle"
    then have z: "as_Binding (rs_Attempt s) = zero_binding" "as_TerminalSequence (rs_Attempt s) = 0"
      using s by (auto simp: AttemptSummaryV1_Validate_None summary_fields_ok_def split: if_splits)
    then have "rs_PendingTerminalReplay s = Some t" using p by (auto simp: reconnectPendingTerminal_def split: if_splits)
    then have "AttemptBindingV1_Validate zero_binding = None"
      using pt z by (auto simp: validatePendingTerminal_None TerminalV1_Validate_def validateAttempt_def)
    then show False by (simp add: AttemptBindingV1_Validate_def zero_binding_def)
  qed
qed

text \<open>
  The pending terminal of a valid snapshot is a valid terminal message, except that a
  summary may report a terminal with no worker message at all (\<open>WorkerSequence\<close> zero).
\<close>

lemma pending_terminal_Validate:
  assumes v: "ReconnectSnapshotV1_Validate s = None" and p: "reconnectPendingTerminal s = Some t"
  shows "TerminalV1_Validate t = None \<longleftrightarrow> tm_AttemptSequence t \<noteq> 0"
proof (cases "rs_PendingTerminalReplay s")
  case (Some u)
  then have "TerminalV1_Validate t = None"
    using v p by (auto simp: ReconnectSnapshotV1_Validate_def validatePendingTerminal_None reconnectPendingTerminal_def)
  then show ?thesis by (auto simp: TerminalV1_Validate_def validateAttempt_def)
next
  case None
  then have s: "summary_fields_ok (rs_Attempt s)" and n: "as_TerminalSequence (rs_Attempt s) \<noteq> 0"
    using v p by (auto simp: ReconnectSnapshotV1_Validate_def AttemptSummaryV1_Validate_None
        reconnectPendingTerminal_def split: if_splits)
  have "AttemptBindingV1_Validate (as_Binding (rs_Attempt s)) = None"
    "validTerminalResult (as_TerminalStatus (rs_Attempt s)) (as_TerminalResult (rs_Attempt s))"
    "length (as_TerminalEvidenceDigest (rs_Attempt s)) = 32" "\<not> MaxAttemptMessages < as_WorkerSequence (rs_Attempt s)"
    using s n pending_terminal_valid(3) [OF v p] by (auto simp: summary_fields_ok_def split: if_splits)
  then show ?thesis
    using None n p by (auto simp: reconnectPendingTerminal_def TerminalV1_Validate_def validateAttempt_def split: if_splits)
qed

lemma compatible_bindings:
  assumes "reconnectClaimsCompatible c a" "as_State (rs_Attempt c) \<noteq> AttemptIdle"
  shows "as_Binding (rs_Attempt c) = as_Binding (rs_Attempt a)" and "as_State (rs_Attempt a) \<noteq> AttemptIdle"
  using assms by (auto simp: reconnectClaimsCompatible_def Let_def split: if_splits)

lemma compatible_pending:
  assumes "reconnectClaimsCompatible c a" "rs_PendingTerminalReplay a = Some t"
  shows "reconnectPendingTerminal c = Some t"
  using assms by (auto simp: reconnectClaimsCompatible_def Let_def split: if_splits option.splits)

lemma worker_attempt_after_bound:
  assumes "ReconnectSnapshotV1_Validate a = None" "ReconnectSnapshotV1_Validate c = None"
  shows "worker_attempt_after a c \<le> MaxAttemptMessages"
    and "as_WorkerSequence (rs_Attempt a) \<le> worker_attempt_after a c"
proof -
  have "as_WorkerSequence (rs_Attempt a) \<le> MaxAttemptMessages"
    using assms by (auto simp: ReconnectSnapshotV1_Validate_def AttemptSummaryV1_Validate_None summary_fields_ok_def
        split: if_splits)
  then show "worker_attempt_after a c \<le> MaxAttemptMessages"
    using pending_terminal_valid(2) [OF assms(2)]
    by (auto simp: worker_attempt_after_def split: option.splits)
  show "as_WorkerSequence (rs_Attempt a) \<le> worker_attempt_after a c"
    by (auto simp: worker_attempt_after_def split: option.splits)
qed

lemma terminal_decision_known: "terminal_decision a c \<noteq> ReconnectTerminalOther s"
  by (auto simp: terminal_decision_def split: option.splits)

lemma BuildReconnectAcceptedV1_valid:
  assumes b: "BuildReconnectAcceptedV1 a c n = Inr r"
  shows "ReconnectAcceptedV1_Validate r = None"
proof -
  note f = BuildReconnectAcceptedV1_Inr [OF b]
  have plan: "ReplayPlanV1_Validate (ra_ReplayPlan r) = None"
  proof -
    have "as_PlatformSequence (rs_Attempt c) \<le> MaxAttemptMessages"
      using f(2) by (auto simp: ReconnectSnapshotV1_Validate_def AttemptSummaryV1_Validate_None summary_fields_ok_def
          split: if_splits)
    then show ?thesis
      using worker_attempt_after_bound(1) [OF f(1,2)] terminal_decision_known [of a c] f(5,8,9)
      by (auto simp: ReplayPlanV1_Validate_def split: ReconnectTerminalDecision.splits)
  qed
  then show ?thesis using f(1) f(6,7,10,11) by (simp add: ReconnectAcceptedV1_Validate_def ReconnectSnapshotV1_Validate_def)
qed

end
