(* ===== verification/Ed25519.thy ===== *)
theory Ed25519
  imports Encoding
begin

text \<open>
  \<open>crypto/ed25519\<close> as the attached-worker protocol uses it: SHA-512, the edwards25519 curve
  in affine coordinates over the integers modulo \<open>2 ^ 255 - 19\<close>, and the functions
  \<open>Sign\<close>, \<open>Public\<close> and \<open>Verify\<close> of RFC 8032 with the checks of Go's implementation (a
  canonical scalar, any encoding of a curve point as a public key, byte comparison of the
  recomputed commitment).
\<close>

subsection \<open>SHA-512\<close>

definition rotr64 :: "nat \<Rightarrow> u64 \<Rightarrow> u64" where
  "rotr64 n x = drop_bit n x OR push_bit (64 - n) x"

definition sha512_K :: "u64 list" where
  "sha512_K = map (\<lambda>p. of_int (int_root 3 (p * 2 ^ 192) 0 (2 ^ 68))) first_primes"

definition sha512_init :: "u64 list" where
  "sha512_init = map (\<lambda>p. of_int (int_root 2 (p * 2 ^ 128) 0 (2 ^ 67))) (take 8 first_primes)"

definition sha512_pad :: "string \<Rightarrow> string" where
  "sha512_pad m =
     m @ [char_of (128::nat)] @ replicate ((239 - length m mod 128) mod 128) (char_of (0::nat)) @
     be_bytes 16 (of_nat (8 * length m) :: 128 word)"

definition be_word64 :: "string \<Rightarrow> u64" where
  "be_word64 s = fold (\<lambda>c w. push_bit 8 w OR of_nat (byte c)) s 0"

fun sha512_schedule :: "nat \<Rightarrow> u64 list \<Rightarrow> u64 list" where
  "sha512_schedule 0 w = w"
| "sha512_schedule (Suc n) w =
     (let w15 = w ! 14; w2 = w ! 1;
          s0 = rotr64 1 w15 XOR rotr64 8 w15 XOR drop_bit 7 w15;
          s1 = rotr64 19 w2 XOR rotr64 61 w2 XOR drop_bit 6 w2
      in sha512_schedule n ((w ! 15 + s0 + w ! 6 + s1) # w))"

fun sha512_round :: "u64 \<times> u64 \<Rightarrow> u64 list \<Rightarrow> u64 list" where
  "sha512_round (k, w) [a, b, c, d, e, f, g, h] =
     (let S1 = rotr64 14 e XOR rotr64 18 e XOR rotr64 41 e;
          ch = (e AND f) XOR (NOT e AND g);
          t1 = h + S1 + ch + k + w;
          S0 = rotr64 28 a XOR rotr64 34 a XOR rotr64 39 a;
          maj = (a AND b) XOR (a AND c) XOR (b AND c)
      in [t1 + (S0 + maj), a, b, c, d + t1, e, f, g])"
| "sha512_round _ s = s"

definition sha512_block :: "u64 list \<Rightarrow> string \<Rightarrow> u64 list" where
  "sha512_block s blk =
     (let w0 = map (\<lambda>i. be_word64 (take 8 (drop (8 * i) blk))) [0..<16];
          w = rev (sha512_schedule 64 (rev w0))
      in map2 (+) s (fold sha512_round (zip sha512_K w) s))"

function sha512_blocks :: "u64 list \<Rightarrow> string \<Rightarrow> u64 list" where
  "sha512_blocks s m = (if m = [] then s else sha512_blocks (sha512_block s (take 128 m)) (drop 128 m))"
  by pat_completeness auto
termination
  by (relation "measure (length \<circ> snd)") auto

declare sha512_blocks.simps [simp del]

definition sha512 :: "string \<Rightarrow> string" where
  "sha512 m = concat (map (\<lambda>x. be_bytes 8 x) (sha512_blocks sha512_init (sha512_pad m)))"

subsection \<open>The field and the curve\<close>

definition fe_p :: int where "fe_p = 2 ^ 255 - 19"

function pow_mod :: "int \<Rightarrow> int \<Rightarrow> int \<Rightarrow> int" where
  "pow_mod m b e =
     (if e \<le> 0 then 1
      else let h = pow_mod m (b * b mod m) (e div 2) in if e mod 2 = 1 then b * h mod m else h)"
  by pat_completeness auto
termination
  by (relation "measure (\<lambda>(m, b, e). nat e)") auto

declare pow_mod.simps [simp del]

definition fe_inv :: "int \<Rightarrow> int" where
  "fe_inv x = pow_mod fe_p x (fe_p - 2)"

definition fe_d :: int where
  "fe_d = - 121665 * fe_inv 121666 mod fe_p"

definition fe_sqrtm1 :: int where
  "fe_sqrtm1 = pow_mod fe_p 2 ((fe_p - 1) div 4)"

text \<open>The non-negative (even) square root of \<open>u / v\<close>, if it is a square.\<close>

definition fe_SqrtRatio :: "int \<Rightarrow> int \<Rightarrow> int option" where
  "fe_SqrtRatio u v =
     (let v3 = v * v mod fe_p * v mod fe_p;
          v7 = v3 * v3 mod fe_p * v mod fe_p;
          r = u * v3 mod fe_p * pow_mod fe_p (u * v7 mod fe_p) ((fe_p - 5) div 8) mod fe_p;
          c = v * (r * r mod fe_p) mod fe_p;
          even_root = (\<lambda>r. if r mod 2 = 1 then fe_p - r else r)
      in if c = u mod fe_p then Some (even_root r)
         else if c = - u mod fe_p then Some (even_root (r * fe_sqrtm1 mod fe_p))
         else None)"

record point =
  pt_X :: int
  pt_Y :: int

definition pt_identity :: point where
  "pt_identity = \<lparr>pt_X = 0, pt_Y = 1\<rparr>"

text \<open>The addition law of the curve \<open>- x\<^sup>2 + y\<^sup>2 = 1 + d x\<^sup>2 y\<^sup>2\<close>, which has no exceptional pairs.\<close>

definition pt_add :: "point \<Rightarrow> point \<Rightarrow> point" where
  "pt_add p q =
     (let t = fe_d * pt_X p * pt_X q * pt_Y p * pt_Y q mod fe_p
      in \<lparr>pt_X = (pt_X p * pt_Y q + pt_X q * pt_Y p) * fe_inv ((1 + t) mod fe_p) mod fe_p,
         pt_Y = (pt_Y p * pt_Y q + pt_X p * pt_X q) * fe_inv ((1 - t) mod fe_p) mod fe_p\<rparr>)"

definition pt_negate :: "point \<Rightarrow> point" where
  "pt_negate p = p\<lparr>pt_X := - pt_X p mod fe_p\<rparr>"

function pt_mult :: "int \<Rightarrow> point \<Rightarrow> point" where
  "pt_mult k p =
     (if k \<le> 0 then pt_identity
      else let h = pt_mult (k div 2) (pt_add p p) in if k mod 2 = 1 then pt_add p h else h)"
  by pat_completeness auto
termination
  by (relation "measure (\<lambda>(k, p). nat k)") auto

declare pt_mult.simps [simp del]

subsection \<open>Encodings\<close>

definition le_int :: "string \<Rightarrow> int" where
  "le_int s = foldr (\<lambda>c n. int (byte c) + 256 * n) s 0"

definition le_bytes :: "nat \<Rightarrow> int \<Rightarrow> string" where
  "le_bytes n x = map (\<lambda>i. char_of (x div 256 ^ i mod 256)) [0..<n]"

text \<open>\<open>Point.SetBytes\<close>: the top bit is the sign of \<open>x\<close>, and \<open>y\<close> need not be reduced.\<close>

definition pt_SetBytes :: "string \<Rightarrow> point option" where
  "pt_SetBytes s =
     (let n = le_int s; y = n mod 2 ^ 255 mod fe_p; sign = n div 2 ^ 255 mod 2; y2 = y * y mod fe_p
      in if length s \<noteq> 32 then None
         else case fe_SqrtRatio ((y2 - 1) mod fe_p) ((y2 * fe_d + 1) mod fe_p) of
                None \<Rightarrow> None
              | Some x \<Rightarrow> Some \<lparr>pt_X = (if sign = 1 then - x mod fe_p else x), pt_Y = y\<rparr>)"

definition pt_Bytes :: "point \<Rightarrow> string" where
  "pt_Bytes p = le_bytes 32 (pt_Y p + (pt_X p mod 2) * 2 ^ 255)"

definition basepoint_bytes :: string where
  "basepoint_bytes = CHR 0x58 # replicate 31 (CHR 0x66)"

definition basepoint :: point where
  "basepoint = (case pt_SetBytes basepoint_bytes of Some p \<Rightarrow> p | None \<Rightarrow> pt_identity)"

definition group_order :: int where
  "group_order = 2 ^ 252 + 27742317777372353535851937790883648493"

subsection \<open>Signatures\<close>

definition PublicKeySize :: nat where "PublicKeySize = 32"
definition PrivateKeySize :: nat where "PrivateKeySize = 64"
definition SignatureSize :: nat where "SignatureSize = 64"

definition ed25519_Verify :: "string \<Rightarrow> string \<Rightarrow> string \<Rightarrow> bool" where
  "ed25519_Verify publicKey message sig =
     (if length sig \<noteq> SignatureSize then False
      else case pt_SetBytes publicKey of
        None \<Rightarrow> False
      | Some A \<Rightarrow>
          let R = take 32 sig; S = le_int (drop 32 sig);
              k = le_int (sha512 (R @ publicKey @ message)) mod group_order
          in S < group_order \<and>
             R = pt_Bytes (pt_add (pt_mult S basepoint) (pt_mult k (pt_negate A))))"

definition clamp_scalar :: "int \<Rightarrow> int" where
  "clamp_scalar n = n mod 2 ^ 254 div 8 * 8 + 2 ^ 254"

text \<open>A private key is the seed followed by the public key.\<close>

definition ed25519_Public :: "string \<Rightarrow> string" where
  "ed25519_Public privateKey = drop 32 privateKey"

definition ed25519_Sign :: "string \<Rightarrow> string \<Rightarrow> string" where
  "ed25519_Sign privateKey message =
     (let h = sha512 (take 32 privateKey); pub = drop 32 privateKey;
          s = clamp_scalar (le_int (take 32 h));
          r = le_int (sha512 (drop 32 h @ message)) mod group_order;
          R = pt_Bytes (pt_mult r basepoint);
          k = le_int (sha512 (R @ pub @ message)) mod group_order
      in R @ le_bytes 32 ((k * s + r) mod group_order))"

lemma length_le_bytes [simp]: "length (le_bytes n x) = n"
  by (simp add: le_bytes_def)

lemma length_pt_Bytes [simp]: "length (pt_Bytes p) = 32"
  by (simp add: pt_Bytes_def)

lemma length_ed25519_Sign [simp]: "length (ed25519_Sign k m) = SignatureSize"
  by (simp add: ed25519_Sign_def Let_def SignatureSize_def)

lemma ed25519_Verify_size: "ed25519_Verify k m sig \<Longrightarrow> length sig = 64 \<and> length k = 32"
  by (auto simp: ed25519_Verify_def pt_SetBytes_def Let_def SignatureSize_def split: if_splits option.splits)

end
