(* ===== verification/Signing.thy ===== *)
theory Signing
  imports Reconcile Ed25519
begin

text \<open>
  Signed transcripts (\<open>src/internal/attachedworkerprotocol/crypto.go\<close>). A worker signs the
  canonical form of its attach, reconnect and manifest frames with its enrolled ed25519 key; a
  transcript names a domain, the direction, the kind, the authenticated scope, the channel
  binding, the envelope and the digest of the body. The lemmas show that a transcript
  determines all of these, so that a signature made for one purpose, tenant, worker,
  generation, channel or position is over different bytes than any other.
\<close>

definition attachTranscriptDomainV1 :: string where
  "attachTranscriptDomainV1 = ''sessionless.attached-worker.attach.v1''"
definition reconnectTranscriptDomainV1 :: string where
  "reconnectTranscriptDomainV1 = ''sessionless.attached-worker.reconnect.v1''"
definition manifestTranscriptDomainV1 :: string where
  "manifestTranscriptDomainV1 = ''sessionless.attached-worker.manifest.v1''"

subsection \<open>Transcripts\<close>

definition hasExactlySignedPayload :: "FrameV1 \<Rightarrow> MessageKind \<Rightarrow> bool" where
  "hasExactlySignedPayload frame target =
     (fr_Kind frame = target \<and> target \<in> set (payload_kinds frame) \<and> length (payload_kinds frame) = 1)"

definition validateSignedFrame :: "AuthContextV1 \<Rightarrow> Direction \<Rightarrow> FrameV1 \<Rightarrow> MessageKind \<Rightarrow> fault option" where
  "validateSignedFrame auth direction frame kind =
     reject (AuthContextV1_Validate auth \<noteq> None \<or> \<not> validDirection direction \<or> validateFrameCommon frame \<noteq> None \<or>
             fr_Kind frame \<noteq> kind \<or> fr_Version frame \<noteq> ac_Version auth \<or> fr_WorkerID frame \<noteq> ac_WorkerID auth \<or>
             fr_EnrollmentGeneration frame \<noteq> ac_EnrollmentGeneration auth \<or>
             fr_ConnectionGeneration frame \<noteq> ac_ConnectionGeneration auth) ErrorAuthentication"

definition signedTranscript :: "string \<Rightarrow> AuthContextV1 \<Rightarrow> Direction \<Rightarrow> FrameV1 \<Rightarrow> string \<Rightarrow> string" where
  "signedTranscript domain auth direction frame body =
     (let bodyDigest = sha256 body;
          r = appendCanonicalField [] domain;
          r = appendCanonicalField r (Direction_text direction);
          r = appendCanonicalField r (MessageKind_text (fr_Kind frame));
          r = appendCanonicalUint32 r (ac_Version auth);
          r = appendCanonicalField r (ac_TenantID auth);
          r = appendCanonicalField r (ac_OwnerUserID auth);
          r = appendCanonicalField r (ac_WorkerID auth);
          r = appendCanonicalUint64 r (ac_EnrollmentGeneration auth);
          r = appendCanonicalUint64 r (ac_ConnectionGeneration auth);
          r = appendCanonicalField r (ac_ChannelBinding auth);
          r = appendCanonicalField r (fr_MessageID frame);
          r = appendCanonicalUint64 r (fr_Sequence frame);
          r = appendCanonicalUint64 r (fr_Ack frame);
          r = appendCanonicalField r bodyDigest
      in r)"

definition validateAttachForTranscript :: "AttachV1 \<Rightarrow> fault option" where
  "validateAttachForTranscript x =
     validateNegotiationProof (at_WorkerOffer x) (at_PlatformOffer x) (at_SelectedVersion x)
       (at_WorkerNonce x) (at_PlatformNonce x) (at_CapabilityDigest x)"

definition validateReconnectForTranscript :: "ReconnectV1 \<Rightarrow> fault option" where
  "validateReconnectForTranscript x =
     (if rc_PreviousConnectionGeneration x = 0 then Some (protocolError ErrorInvalidFrame)
      else validateNegotiationProof (rc_WorkerOffer x) (rc_PlatformOffer x) (rc_SelectedVersion x)
             (rc_WorkerNonce x) (rc_PlatformNonce x) (rc_CapabilityDigest x))"

definition validateManifestForTranscript :: "ManifestV1 \<Rightarrow> fault option" where
  "validateManifestForTranscript x =
     reject (CapabilityManifestV1_Validate (mf_Manifest x) \<noteq> None \<or> \<not> validBytes (mf_Digest x) 32) ErrorInvalidFrame"

definition attach_body :: "AttachV1 \<Rightarrow> string" where
  "attach_body x =
     (let b = appendVersionOffer [] (at_WorkerOffer x);
          b = appendVersionOffer b (at_PlatformOffer x);
          b = appendCanonicalUint32 b (at_SelectedVersion x);
          b = appendCanonicalField b (at_WorkerNonce x);
          b = appendCanonicalField b (at_PlatformNonce x);
          b = appendCanonicalField b (at_CapabilityDigest x)
      in b)"

definition reconnect_body :: "ReconnectV1 \<Rightarrow> string" where
  "reconnect_body x =
     (let b = appendVersionOffer [] (rc_WorkerOffer x);
          b = appendVersionOffer b (rc_PlatformOffer x);
          b = appendCanonicalUint32 b (rc_SelectedVersion x);
          b = appendCanonicalUint64 b (rc_PreviousConnectionGeneration x);
          b = appendCanonicalField b (rc_WorkerNonce x);
          b = appendCanonicalField b (rc_PlatformNonce x);
          b = appendCanonicalField b (rc_CapabilityDigest x);
          b = appendWatermarks b (rc_PreviousWatermarks x);
          b = appendCanonicalField b (as_Digest (rc_AttemptSummary x));
          b = appendCanonicalField b (pendingTerminalDigestV1 (rc_PendingTerminalReplay x))
      in b)"

definition AttachTranscriptV1 :: "AuthContextV1 \<Rightarrow> FrameV1 \<Rightarrow> fault + string" where
  "AttachTranscriptV1 auth frame =
     (if validateSignedFrame auth DirectionWorkerToPlatform frame MessageAttach \<noteq> None \<or>
         \<not> hasExactlySignedPayload frame MessageAttach then Inl (protocolError ErrorAuthentication)
      else case fr_Attach frame of
        None \<Rightarrow> Inl NilDereference
      | Some x \<Rightarrow>
          if validateAttachForTranscript x \<noteq> None then Inl (protocolError ErrorAuthentication)
          else if at_SelectedVersion x \<noteq> ac_Version auth then Inl (protocolError ErrorAuthentication)
          else Inr (signedTranscript attachTranscriptDomainV1 auth DirectionWorkerToPlatform frame (attach_body x)))"

definition ReconnectTranscriptV1 :: "AuthContextV1 \<Rightarrow> FrameV1 \<Rightarrow> fault + string" where
  "ReconnectTranscriptV1 auth frame =
     (if validateSignedFrame auth DirectionWorkerToPlatform frame MessageReconnect \<noteq> None \<or>
         \<not> hasExactlySignedPayload frame MessageReconnect then Inl (protocolError ErrorAuthentication)
      else case fr_Reconnect frame of
        None \<Rightarrow> Inl NilDereference
      | Some x \<Rightarrow>
          if validateReconnectForTranscript x \<noteq> None then Inl (protocolError ErrorAuthentication)
          else if rc_SelectedVersion x \<noteq> ac_Version auth then Inl (protocolError ErrorAuthentication)
          else Inr (signedTranscript reconnectTranscriptDomainV1 auth DirectionWorkerToPlatform frame (reconnect_body x)))"

definition ManifestTranscriptV1 :: "AuthContextV1 \<Rightarrow> FrameV1 \<Rightarrow> fault + string" where
  "ManifestTranscriptV1 auth frame =
     (if validateSignedFrame auth DirectionWorkerToPlatform frame MessageManifest \<noteq> None \<or>
         \<not> hasExactlySignedPayload frame MessageManifest then Inl (protocolError ErrorAuthentication)
      else case fr_Manifest frame of
        None \<Rightarrow> Inl NilDereference
      | Some x \<Rightarrow>
          if validateManifestForTranscript x \<noteq> None then Inl (protocolError ErrorAuthentication)
          else if ManifestDigestV1 (mf_Manifest x) \<noteq> Inr (mf_Digest x) then Inl (protocolError ErrorAuthentication)
          else Inr (signedTranscript manifestTranscriptDomainV1 auth DirectionWorkerToPlatform frame
                 (appendCanonicalField [] (mf_Digest x))))"

subsection \<open>Signing and verification\<close>

definition signFrame ::
    "string \<Rightarrow> AuthContextV1 \<Rightarrow> FrameV1 \<Rightarrow> (AuthContextV1 \<Rightarrow> FrameV1 \<Rightarrow> fault + string) \<Rightarrow>
     (string \<Rightarrow> FrameV1) \<Rightarrow> FrameV1 \<times> fault option" where
  "signFrame privateKey auth frame transcript setSignature =
     (if length privateKey \<noteq> PrivateKeySize \<or> AuthContextV1_Validate auth \<noteq> None \<or>
         ed25519_Public privateKey \<noteq> ac_IdentityPublicKey auth
      then (frame, Some (protocolError ErrorAuthentication))
      else case transcript auth frame of
        Inl _ \<Rightarrow> (frame, Some (protocolError ErrorAuthentication))
      | Inr encoded \<Rightarrow> (setSignature (ed25519_Sign privateKey encoded), None))"

definition sign_with ::
    "MessageKind \<Rightarrow> (FrameV1 \<Rightarrow> 'a option) \<Rightarrow> ('a \<Rightarrow> string) \<Rightarrow> ('a \<Rightarrow> string \<Rightarrow> FrameV1 \<Rightarrow> FrameV1) \<Rightarrow>
     (AuthContextV1 \<Rightarrow> FrameV1 \<Rightarrow> fault + string) \<Rightarrow> string \<Rightarrow> AuthContextV1 \<Rightarrow> FrameV1 option \<Rightarrow>
     FrameV1 option \<times> fault option" where
  "sign_with kind payload signature set_signature transcript privateKey auth frame =
     (case frame of
        None \<Rightarrow> (None, Some (protocolError ErrorUnauthorized))
      | Some f \<Rightarrow>
          if \<not> hasExactlySignedPayload f kind then (frame, Some (protocolError ErrorUnauthorized))
          else case payload f of
            None \<Rightarrow> (frame, Some NilDereference)
          | Some x \<Rightarrow>
              if length (signature x) \<noteq> 0 then (frame, Some (protocolError ErrorUnauthorized))
              else let (f', e) = signFrame privateKey auth f transcript (\<lambda>s. set_signature x s f)
                   in (Some f', e))"

definition SignAttachV1 :: "string \<Rightarrow> AuthContextV1 \<Rightarrow> FrameV1 option \<Rightarrow> FrameV1 option \<times> fault option" where
  "SignAttachV1 = sign_with MessageAttach fr_Attach at_Signature
     (\<lambda>x s f. f\<lparr>fr_Attach := Some (x\<lparr>at_Signature := s\<rparr>)\<rparr>) AttachTranscriptV1"

definition SignReconnectV1 :: "string \<Rightarrow> AuthContextV1 \<Rightarrow> FrameV1 option \<Rightarrow> FrameV1 option \<times> fault option" where
  "SignReconnectV1 = sign_with MessageReconnect fr_Reconnect rc_Signature
     (\<lambda>x s f. f\<lparr>fr_Reconnect := Some (x\<lparr>rc_Signature := s\<rparr>)\<rparr>) ReconnectTranscriptV1"

definition SignManifestV1 :: "string \<Rightarrow> AuthContextV1 \<Rightarrow> FrameV1 option \<Rightarrow> FrameV1 option \<times> fault option" where
  "SignManifestV1 = sign_with MessageManifest fr_Manifest mf_Signature
     (\<lambda>x s f. f\<lparr>fr_Manifest := Some (x\<lparr>mf_Signature := s\<rparr>)\<rparr>) ManifestTranscriptV1"

definition verifyFrame ::
    "AuthContextV1 \<Rightarrow> FrameV1 \<Rightarrow> (AuthContextV1 \<Rightarrow> FrameV1 \<Rightarrow> fault + string) \<Rightarrow> 'a option \<Rightarrow> ('a \<Rightarrow> string) \<Rightarrow>
     fault option" where
  "verifyFrame auth frame transcript payload signature =
     (case payload of
        None \<Rightarrow> Some (protocolError ErrorAuthentication)
      | Some x \<Rightarrow>
          if FrameV1_Validate frame \<noteq> None then Some (protocolError ErrorAuthentication)
          else case transcript auth frame of
            Inl _ \<Rightarrow> Some (protocolError ErrorAuthentication)
          | Inr encoded \<Rightarrow>
              reject (\<not> ed25519_Verify (ac_IdentityPublicKey auth) encoded (signature x)) ErrorAuthentication)"

definition VerifyAttachV1 :: "AuthContextV1 \<Rightarrow> FrameV1 \<Rightarrow> fault option" where
  "VerifyAttachV1 auth frame = verifyFrame auth frame AttachTranscriptV1 (fr_Attach frame) at_Signature"

definition VerifyReconnectV1 :: "AuthContextV1 \<Rightarrow> FrameV1 \<Rightarrow> fault option" where
  "VerifyReconnectV1 auth frame = verifyFrame auth frame ReconnectTranscriptV1 (fr_Reconnect frame) rc_Signature"

definition VerifyManifestV1 :: "AuthContextV1 \<Rightarrow> FrameV1 \<Rightarrow> fault option" where
  "VerifyManifestV1 auth frame = verifyFrame auth frame ManifestTranscriptV1 (fr_Manifest frame) mf_Signature"

subsection \<open>What a transcript determines\<close>

definition transcript_parts :: "string \<Rightarrow> AuthContextV1 \<Rightarrow> Direction \<Rightarrow> FrameV1 \<Rightarrow> string \<Rightarrow> part list" where
  "transcript_parts domain auth direction frame body =
     [PField domain, PField (Direction_text direction), PField (MessageKind_text (fr_Kind frame)),
      PU32 (ac_Version auth), PField (ac_TenantID auth), PField (ac_OwnerUserID auth), PField (ac_WorkerID auth),
      PU64 (ac_EnrollmentGeneration auth), PU64 (ac_ConnectionGeneration auth), PField (ac_ChannelBinding auth),
      PField (fr_MessageID frame), PU64 (fr_Sequence frame), PU64 (fr_Ack frame), PField (sha256 body)]"

lemma signedTranscript_parts:
  "signedTranscript domain auth direction frame body = parts_bytes (transcript_parts domain auth direction frame body)"
  by (simp only: signedTranscript_def Let_def append_first_part append_as_parts transcript_parts_def append.simps)

lemma transcript_shape: "list_all2 same_shape (transcript_parts d a r f b) (transcript_parts d' a' r' f' b')"
  by (simp add: transcript_parts_def)

definition transcript_domains :: "string set" where
  "transcript_domains = {attachTranscriptDomainV1, reconnectTranscriptDomainV1, manifestTranscriptDomainV1}"

lemma transcript_fits:
  assumes "AuthContextV1_Validate auth = None" "validateFrameCommon frame = None" "d \<in> transcript_domains"
    "validDirection r" "length (MessageKind_text (fr_Kind frame)) < 2 ^ 32"
  shows "list_all part_fits (transcript_parts d auth r frame b)"
proof -
  have "validOpaque (ac_TenantID auth)" "validOpaque (ac_OwnerUserID auth)" "validOpaque (ac_WorkerID auth)"
    "length (ac_ChannelBinding auth) = 32" "validOpaque (fr_MessageID frame)"
    using assms(1,2) by (auto simp: AuthContextV1_Validate_def validateFrameCommon_def)
  moreover have "length d < 2 ^ 32"
    using assms(3) by (auto simp: transcript_domains_def attachTranscriptDomainV1_def reconnectTranscriptDomainV1_def
        manifestTranscriptDomainV1_def)
  moreover have "length (Direction_text r) < 2 ^ 32"
    using assms(4) by (auto simp: validDirection_def)
  ultimately show ?thesis using assms(5) by (auto simp: transcript_parts_def dest: validOpaque_length)
qed

text \<open>The three transcripts and the kinds that use them.\<close>

definition transcript_of :: "MessageKind \<Rightarrow> AuthContextV1 \<Rightarrow> FrameV1 \<Rightarrow> fault + string" where
  "transcript_of kind =
     (if kind = MessageAttach then AttachTranscriptV1
      else if kind = MessageReconnect then ReconnectTranscriptV1 else ManifestTranscriptV1)"

definition signed_kinds :: "MessageKind set" where
  "signed_kinds = {MessageAttach, MessageReconnect, MessageManifest}"

definition kind_domain :: "MessageKind \<Rightarrow> string" where
  "kind_domain kind =
     (if kind = MessageAttach then attachTranscriptDomainV1
      else if kind = MessageReconnect then reconnectTranscriptDomainV1 else manifestTranscriptDomainV1)"

lemma transcript_of_Inr:
  assumes "transcript_of kind auth frame = Inr t" "kind \<in> signed_kinds"
  shows "AuthContextV1_Validate auth = None" and "validateFrameCommon frame = None" and "fr_Kind frame = kind"
    and "fr_WorkerID frame = ac_WorkerID auth"
    and "\<exists>body. t = parts_bytes (transcript_parts (kind_domain kind) auth DirectionWorkerToPlatform frame body)"
  using assms
  by (auto simp: transcript_of_def signed_kinds_def kind_domain_def AttachTranscriptV1_def ReconnectTranscriptV1_def
      ManifestTranscriptV1_def validateSignedFrame_def signedTranscript_parts split: if_splits option.splits)

lemma transcript_scope_inject:
  assumes t: "transcript_of kind auth frame = Inr t" "kind \<in> signed_kinds"
    and u: "transcript_of kind' auth' frame' = Inr t" "kind' \<in> signed_kinds"
  shows "kind = kind'" and "ac_TenantID auth = ac_TenantID auth'" and "ac_OwnerUserID auth = ac_OwnerUserID auth'"
    and "ac_WorkerID auth = ac_WorkerID auth'"
    and "ac_EnrollmentGeneration auth = ac_EnrollmentGeneration auth'"
    and "ac_ConnectionGeneration auth = ac_ConnectionGeneration auth'"
    and "ac_ChannelBinding auth = ac_ChannelBinding auth'"
    and "fr_MessageID frame = fr_MessageID frame'" and "fr_Sequence frame = fr_Sequence frame'"
    and "fr_Ack frame = fr_Ack frame'"
proof -
  note a = transcript_of_Inr [OF t] and b = transcript_of_Inr [OF u]
  obtain body body' where
    e: "parts_bytes (transcript_parts (kind_domain kind) auth DirectionWorkerToPlatform frame body) =
        parts_bytes (transcript_parts (kind_domain kind') auth' DirectionWorkerToPlatform frame' body')"
    using a(5) b(5) by auto
  have d: "kind_domain kind \<in> transcript_domains" "kind_domain kind' \<in> transcript_domains"
    by (auto simp: kind_domain_def transcript_domains_def)
  have k: "length (MessageKind_text (fr_Kind frame)) < 2 ^ 32" "length (MessageKind_text (fr_Kind frame')) < 2 ^ 32"
    using a(3) b(3) t(2) u(2) by (auto simp: signed_kinds_def)
  have p: "transcript_parts (kind_domain kind) auth DirectionWorkerToPlatform frame body =
           transcript_parts (kind_domain kind') auth' DirectionWorkerToPlatform frame' body'"
    using transcript_fits [OF a(1,2) d(1) _ k(1)] transcript_fits [OF b(1,2) d(2) _ k(2)]
    by (intro parts_bytes_inject [OF e transcript_shape]) (auto simp: validDirection_def)
  show "kind = kind'"
    using p a(3) b(3) t(2) u(2) by (auto simp: transcript_parts_def signed_kinds_def)
  show "ac_TenantID auth = ac_TenantID auth'" "ac_OwnerUserID auth = ac_OwnerUserID auth'"
    "ac_WorkerID auth = ac_WorkerID auth'" "ac_EnrollmentGeneration auth = ac_EnrollmentGeneration auth'"
    "ac_ConnectionGeneration auth = ac_ConnectionGeneration auth'" "ac_ChannelBinding auth = ac_ChannelBinding auth'"
    "fr_MessageID frame = fr_MessageID frame'" "fr_Sequence frame = fr_Sequence frame'" "fr_Ack frame = fr_Ack frame'"
    using p by (simp_all add: transcript_parts_def)
qed

lemma signed_payload_present:
  "hasExactlySignedPayload f MessageAttach \<Longrightarrow> fr_Attach f \<noteq> None"
  "hasExactlySignedPayload f MessageReconnect \<Longrightarrow> fr_Reconnect f \<noteq> None"
  "hasExactlySignedPayload f MessageManifest \<Longrightarrow> fr_Manifest f \<noteq> None"
  by (auto simp: hasExactlySignedPayload_def payload_kinds_def)

lemma verifyFrame_no_panic [simp]: "verifyFrame auth f tr p s \<noteq> Some NilDereference"
  by (auto simp: verifyFrame_def split: option.splits sum.splits)

lemma Verify_no_panic [simp]:
  "VerifyAttachV1 auth f \<noteq> Some NilDereference" "VerifyReconnectV1 auth f \<noteq> Some NilDereference"
  "VerifyManifestV1 auth f \<noteq> Some NilDereference"
  by (simp_all add: VerifyAttachV1_def VerifyReconnectV1_def VerifyManifestV1_def)

lemma VerifyManifestV1_digest:
  assumes "VerifyManifestV1 auth f = None" "fr_Manifest f = Some x"
  shows "ManifestDigestV1 (mf_Manifest x) = Inr (mf_Digest x)"
  using assms by (auto simp: VerifyManifestV1_def verifyFrame_def ManifestTranscriptV1_def split: if_splits sum.splits)

end
