(* ===== verification/Machine.thy ===== *)
theory Machine
  imports Signing "HOL-Library.AList"
begin

text \<open>
  The conformance machine of the attached-worker protocol
  (\<open>src/internal/attachedworkerprotocol/machine.go\<close>): one record for the connection and its
  single attempt, one definition per handler, and \<open>Accept\<close>, which checks the authenticated
  scope, the channel binding and the envelope sequence before it applies a frame. A handler
  returns the machine after the call and the error; a nil payload pointer is the fault
  \<open>NilDereference\<close>. Theory MachineProofs has the lemmas.
\<close>

subsection \<open>State\<close>

datatype ConnectionState =
    ConnectionUnattached | ConnectionHello | ConnectionChallenged | ConnectionAttachPending
  | ConnectionReconnectPending | ConnectionAttached | ConnectionReady | ConnectionDraining
  | ConnectionDrained | ConnectionRevoking | ConnectionRevoked | ConnectionStateOther string

record MachineConfig =
  cf_Auth :: AuthContextV1
  cf_WorkerOffer :: VersionOfferV1
  cf_PlatformOffer :: VersionOfferV1
  cf_ImplementedVersions :: "ProtocolVersion list"

record sequenceState =
  sq_sequence :: u64
  sq_ack :: u64
  sq_fingerprint :: string

record AcceptanceContextV1 =
  ax_ChannelBinding :: string
  ax_NowUnixMicro :: int

record attemptSequenceState =
  aq_sequence :: u64
  aq_fingerprints :: "(u64 \<times> string) list"

record terminalReplayCommitment =
  tc_kind :: MessageKind
  tc_sequence :: u64
  tc_fingerprint :: string
  tc_decision :: ReconnectTerminalDecision
  tc_terminal :: TerminalV1

record attemptRecord =
  ar_state :: AttemptState
  ar_binding :: AttemptBindingV1
  ar_platform :: attemptSequenceState
  ar_worker :: attemptSequenceState
  ar_progressSequence :: u64
  ar_cancelRevision :: u64
  ar_cancelCode :: CancelCode
  ar_terminalSequence :: u64
  ar_terminalStatus :: TerminalStatus
  ar_terminalResult :: TerminalResult
  ar_terminalEvidence :: string
  ar_pendingWorkerTerminal :: "terminalReplayCommitment option"

record ConformanceMachine =
  m_config :: MachineConfig
  m_connection :: ConnectionState
  m_platform :: sequenceState
  m_worker :: sequenceState
  m_hello :: HelloV1
  m_challenge :: ChallengeV1
  m_capabilityDigest :: string
  m_manifest :: CapabilityManifestV1
  m_attempt :: attemptRecord
  m_drainRevision :: u64
  m_revoke :: RevokeV1
  m_reconnecting :: bool
  m_drainReenvelopePending :: bool
  m_reconnectTarget :: ConnectionState
  m_previousConnectionGeneration :: u64
  m_reconnectWatermarks :: ConnectionWatermarksV1
  m_reconnectAttempt :: AttemptSummaryV1
  m_reconnectClaim :: ReconnectSnapshotV1

text \<open>
  Zero values. A fingerprint map is an association list with one entry per key; a missing key
  reads as the zero array.
\<close>

definition zero_fingerprint :: string where
  "zero_fingerprint = replicate 32 (CHR 0x00)"

definition zero_sequence :: sequenceState where
  "zero_sequence = \<lparr>sq_sequence = 0, sq_ack = 0, sq_fingerprint = zero_fingerprint\<rparr>"

definition zero_offer :: VersionOfferV1 where
  "zero_offer = \<lparr>vo_Window = \<lparr>vw_Minimum = 0, vw_Maximum = 0\<rparr>, vo_Supported = []\<rparr>"

definition zero_hello :: HelloV1 where
  "zero_hello = \<lparr>he_Offer = zero_offer, he_WorkerNonce = []\<rparr>"

definition zero_challenge :: ChallengeV1 where
  "zero_challenge = \<lparr>ch_WorkerOffer = zero_offer, ch_PlatformOffer = zero_offer, ch_SelectedVersion = 0,
     ch_WorkerNonce = [], ch_PlatformNonce = []\<rparr>"

definition zero_manifest :: CapabilityManifestV1 where
  "zero_manifest = \<lparr>cm_WorkerID = '''', cm_EnrollmentGeneration = 0, cm_Revision = 0, cm_ProtocolOffer = zero_offer,
     cm_OperatingSystem = '''', cm_Architecture = '''', cm_BuildID = '''', cm_HarnessName = '''',
     cm_HarnessVersion = '''', cm_HarnessSurface = '''', cm_HarnessExecutableDigest = [],
     cm_IsolationEvidence = [], cm_Features = [], cm_MaxConcurrentAttempts = 0\<rparr>"

definition zero_attempt_sequence :: attemptSequenceState where
  "zero_attempt_sequence = \<lparr>aq_sequence = 0, aq_fingerprints = []\<rparr>"

definition idle_attempt :: attemptRecord where
  "idle_attempt = \<lparr>ar_state = AttemptIdle, ar_binding = zero_binding, ar_platform = zero_attempt_sequence,
     ar_worker = zero_attempt_sequence, ar_progressSequence = 0, ar_cancelRevision = 0, ar_cancelCode = CancelUnset,
     ar_terminalSequence = 0, ar_terminalStatus = TerminalStatusUnset, ar_terminalResult = TerminalResultUnset,
     ar_terminalEvidence = [], ar_pendingWorkerTerminal = None\<rparr>"

definition zero_watermarks :: ConnectionWatermarksV1 where
  "zero_watermarks = \<lparr>wm_PlatformSequence = 0, wm_WorkerSequence = 0, wm_PlatformAck = 0, wm_WorkerAck = 0\<rparr>"

definition zero_summary :: AttemptSummaryV1 where
  "zero_summary = \<lparr>as_State = AttemptStateOther '''', as_Binding = zero_binding, as_PlatformSequence = 0,
     as_WorkerSequence = 0, as_ProgressSequence = 0, as_CancelRevision = 0, as_CancelCode = CancelUnset,
     as_TerminalSequence = 0, as_TerminalStatus = TerminalStatusUnset, as_TerminalResult = TerminalResultUnset,
     as_TerminalEvidenceDigest = [], as_Digest = []\<rparr>"

definition zero_snapshot :: ReconnectSnapshotV1 where
  "zero_snapshot = \<lparr>rs_PreviousConnectionGeneration = 0, rs_Watermarks = zero_watermarks,
     rs_Attempt = zero_summary, rs_PendingTerminalReplay = None, rs_Digest = []\<rparr>"

definition new_machine :: "MachineConfig \<Rightarrow> ConformanceMachine" where
  "new_machine config = \<lparr>m_config = config, m_connection = ConnectionUnattached, m_platform = zero_sequence,
     m_worker = zero_sequence, m_hello = zero_hello, m_challenge = zero_challenge, m_capabilityDigest = [],
     m_manifest = zero_manifest, m_attempt = idle_attempt, m_drainRevision = 0,
     m_revoke = \<lparr>rv_Revision = 0, rv_NextEnrollmentGeneration = 0, rv_NextConnectionGeneration = 0\<rparr>,
     m_reconnecting = False, m_drainReenvelopePending = False, m_reconnectTarget = ConnectionStateOther '''',
     m_previousConnectionGeneration = 0, m_reconnectWatermarks = zero_watermarks,
     m_reconnectAttempt = zero_summary, m_reconnectClaim = zero_snapshot\<rparr>"

subsection \<open>Construction, observers and reconnection\<close>

definition NewConformanceMachine :: "MachineConfig \<Rightarrow> fault + ConformanceMachine" where
  "NewConformanceMachine config =
     (if AuthContextV1_Validate (cf_Auth config) \<noteq> None \<or> VersionOfferV1_Validate (cf_WorkerOffer config) \<noteq> None \<or>
         VersionOfferV1_Validate (cf_PlatformOffer config) \<noteq> None
      then Inl (protocolError ErrorUnauthorized)
      else if NegotiateOffers (cf_WorkerOffer config) (cf_PlatformOffer config) (cf_ImplementedVersions config)
                \<noteq> Inr (ac_Version (cf_Auth config))
      then Inl (protocolError ErrorUnauthorized)
      else Inr (new_machine config))"

definition hasFeature :: "ConformanceMachine \<Rightarrow> ProtocolFeatureV1 \<Rightarrow> bool" where
  "hasFeature m feature = list_ex (\<lambda>candidate. candidate = feature) (cm_Features (m_manifest m))"

definition AttemptBinding :: "ConformanceMachine option \<Rightarrow> AttemptBindingV1 \<times> bool" where
  "AttemptBinding machine =
     (case machine of
        None \<Rightarrow> (zero_binding, False)
      | Some m \<Rightarrow> if ar_state (m_attempt m) = AttemptIdle then (zero_binding, False)
                  else (ar_binding (m_attempt m), True))"

definition currentWatermarks :: "ConformanceMachine \<Rightarrow> ConnectionWatermarksV1" where
  "currentWatermarks m = \<lparr>wm_PlatformSequence = sq_sequence (m_platform m), wm_WorkerSequence = sq_sequence (m_worker m),
     wm_PlatformAck = sq_ack (m_platform m), wm_WorkerAck = sq_ack (m_worker m)\<rparr>"

definition attempt_summary :: "attemptRecord \<Rightarrow> AttemptSummaryV1" where
  "attempt_summary a = sealAttemptSummary
     \<lparr>as_State = ar_state a, as_Binding = ar_binding a, as_PlatformSequence = aq_sequence (ar_platform a),
      as_WorkerSequence = aq_sequence (ar_worker a), as_ProgressSequence = ar_progressSequence a,
      as_CancelRevision = ar_cancelRevision a, as_CancelCode = ar_cancelCode a,
      as_TerminalSequence = ar_terminalSequence a, as_TerminalStatus = ar_terminalStatus a,
      as_TerminalResult = ar_terminalResult a, as_TerminalEvidenceDigest = ar_terminalEvidence a, as_Digest = []\<rparr>"

definition currentAttemptSummary :: "ConformanceMachine \<Rightarrow> AttemptSummaryV1" where
  "currentAttemptSummary m = attempt_summary (m_attempt m)"

definition pendingTerminalForSnapshot :: "ConformanceMachine \<Rightarrow> TerminalV1 option" where
  "pendingTerminalForSnapshot m = map_option tc_terminal (ar_pendingWorkerTerminal (m_attempt m))"

definition snapshot_machine :: "ConformanceMachine \<Rightarrow> fault + ReconnectSnapshotV1" where
  "snapshot_machine m =
     (if \<not> m_reconnecting m then Inl (protocolError ErrorProtocolViolation)
      else Inr (snapshot_of (m_previousConnectionGeneration m) (m_reconnectWatermarks m) (m_reconnectAttempt m)
                 (pendingTerminalForSnapshot m)))"

definition SnapshotForReconnect :: "ConformanceMachine option \<Rightarrow> fault + ReconnectSnapshotV1" where
  "SnapshotForReconnect machine =
     (case machine of None \<Rightarrow> Inl (protocolError ErrorProtocolViolation) | Some m \<Rightarrow> snapshot_machine m)"

definition reconnect_refused :: "ConformanceMachine \<Rightarrow> AuthContextV1 \<Rightarrow> bool" where
  "reconnect_refused m nxt =
     (let auth = cf_Auth (m_config m)
      in AuthContextV1_Validate nxt \<noteq> None \<or>
         m_connection m \<noteq> ConnectionReady \<and> m_connection m \<noteq> ConnectionDraining \<or>
         ac_TenantID nxt \<noteq> ac_TenantID auth \<or> ac_OwnerUserID nxt \<noteq> ac_OwnerUserID auth \<or>
         ac_WorkerID nxt \<noteq> ac_WorkerID auth \<or> ac_IdentityPublicKey nxt \<noteq> ac_IdentityPublicKey auth \<or>
         ac_EnrollmentGeneration nxt \<noteq> ac_EnrollmentGeneration auth \<or> ac_Version nxt \<noteq> ac_Version auth \<or>
         m_reconnecting m \<or> m_drainReenvelopePending m \<or> \<not> hasFeature m FeatureReconnect \<or>
         ac_ConnectionGeneration auth = MaxUint64 \<or>
         ac_ConnectionGeneration nxt \<noteq> ac_ConnectionGeneration auth + 1)"

definition reconnect_machine :: "ConformanceMachine \<Rightarrow> AuthContextV1 \<Rightarrow> ConformanceMachine" where
  "reconnect_machine m nxt =
     m\<lparr>m_previousConnectionGeneration := ac_ConnectionGeneration (cf_Auth (m_config m)),
       m_reconnectWatermarks := currentWatermarks m,
       m_reconnectAttempt := currentAttemptSummary m,
       m_reconnectTarget := m_connection m,
       m_config := (m_config m)\<lparr>cf_Auth := nxt\<rparr>,
       m_connection := ConnectionUnattached,
       m_platform := zero_sequence, m_worker := zero_sequence,
       m_hello := zero_hello, m_challenge := zero_challenge,
       m_reconnecting := True\<rparr>"

definition BeginReconnect ::
    "ConformanceMachine option \<Rightarrow> AuthContextV1 \<Rightarrow> ConformanceMachine option \<times> (fault + ReconnectSnapshotV1)" where
  "BeginReconnect machine nxt =
     (case machine of
        None \<Rightarrow> (None, Inl (protocolError ErrorUnauthorized))
      | Some m \<Rightarrow>
          if reconnect_refused m nxt then (Some m, Inl (protocolError ErrorUnauthorized))
          else (Some (reconnect_machine m nxt), snapshot_machine (reconnect_machine m nxt)))"

subsection \<open>Matching a challenge\<close>

definition negotiationMatchesChallenge ::
    "VersionOfferV1 \<Rightarrow> VersionOfferV1 \<Rightarrow> ProtocolVersion \<Rightarrow> string \<Rightarrow> string \<Rightarrow> ChallengeV1 \<Rightarrow> bool" where
  "negotiationMatchesChallenge workerOffer platformOffer selected workerNonce platformNonce challenge =
     (sameVersionOffer workerOffer (ch_WorkerOffer challenge) \<and> sameVersionOffer platformOffer (ch_PlatformOffer challenge) \<and>
      selected = ch_SelectedVersion challenge \<and> workerNonce = ch_WorkerNonce challenge \<and>
      platformNonce = ch_PlatformNonce challenge)"

definition acceptedMatchesChallenge :: "AttachAcceptedV1 \<Rightarrow> ChallengeV1 \<Rightarrow> string \<Rightarrow> bool" where
  "acceptedMatchesChallenge accepted challenge capabilityDigest =
     (negotiationMatchesChallenge (aa_WorkerOffer accepted) (aa_PlatformOffer accepted) (aa_SelectedVersion accepted)
        (aa_WorkerNonce accepted) (aa_PlatformNonce accepted) challenge \<and>
      aa_CapabilityDigest accepted = capabilityDigest)"

definition sameOptionalTerminal :: "TerminalV1 option \<Rightarrow> TerminalV1 option \<Rightarrow> bool" where
  "sameOptionalTerminal left right =
     (case (left, right) of (Some l, Some r) \<Rightarrow> sameTerminal l r | _ \<Rightarrow> left = None \<and> right = None)"

definition sameReconnectAccepted :: "ReconnectAcceptedV1 \<Rightarrow> ReconnectAcceptedV1 \<Rightarrow> bool" where
  "sameReconnectAccepted left right =
     (sameVersionOffer (ra_WorkerOffer left) (ra_WorkerOffer right) \<and>
      sameVersionOffer (ra_PlatformOffer left) (ra_PlatformOffer right) \<and>
      ra_SelectedVersion left = ra_SelectedVersion right \<and> ra_WorkerNonce left = ra_WorkerNonce right \<and>
      ra_PlatformNonce left = ra_PlatformNonce right \<and> ra_CapabilityDigest left = ra_CapabilityDigest right \<and>
      ra_AuthoritativeWatermarks left = ra_AuthoritativeWatermarks right \<and>
      sameAttemptSummary (ra_AuthoritativeAttempt left) (ra_AuthoritativeAttempt right) \<and>
      sameOptionalTerminal (ra_AuthoritativePendingTerminalReplay left) (ra_AuthoritativePendingTerminalReplay right) \<and>
      ra_ReplayPlan left = ra_ReplayPlan right)"

subsection \<open>The handshake\<close>

type_synonym handler = "ConformanceMachine \<Rightarrow> Direction \<Rightarrow> FrameV1 \<Rightarrow> ConformanceMachine \<times> fault option"

definition refuse_with :: "ConformanceMachine \<Rightarrow> ErrorCode \<Rightarrow> ConformanceMachine \<times> fault option" where
  "refuse_with m code = (m, Some (protocolError code))"

definition acceptHello :: handler where
  "acceptHello m direction frame =
     (if direction \<noteq> DirectionWorkerToPlatform \<or> m_connection m \<noteq> ConnectionUnattached
      then refuse_with m ErrorInvalidTransition
      else case fr_Hello frame of
        None \<Rightarrow> (m, Some NilDereference)
      | Some x \<Rightarrow>
          if \<not> sameVersionOffer (he_Offer x) (cf_WorkerOffer (m_config m)) then refuse_with m ErrorInvalidTransition
          else (m\<lparr>m_hello := x, m_connection := ConnectionHello\<rparr>, None))"

definition acceptChallenge :: handler where
  "acceptChallenge m direction frame =
     (if direction \<noteq> DirectionPlatformToWorker \<or> m_connection m \<noteq> ConnectionHello
      then refuse_with m ErrorInvalidTransition
      else case fr_Challenge frame of
        None \<Rightarrow> (m, Some NilDereference)
      | Some x \<Rightarrow>
          if \<not> sameVersionOffer (ch_WorkerOffer x) (he_Offer (m_hello m)) \<or>
             \<not> sameVersionOffer (ch_PlatformOffer x) (cf_PlatformOffer (m_config m)) \<or>
             ch_WorkerNonce x \<noteq> he_WorkerNonce (m_hello m)
          then refuse_with m ErrorInvalidTransition
          else case NegotiateOffers (ch_WorkerOffer x) (ch_PlatformOffer x) (cf_ImplementedVersions (m_config m)) of
            Inl _ \<Rightarrow> refuse_with m ErrorUnsupportedVersion
          | Inr selected \<Rightarrow>
              if selected \<noteq> ch_SelectedVersion x \<or> selected \<noteq> ac_Version (cf_Auth (m_config m))
              then refuse_with m ErrorUnsupportedVersion
              else (m\<lparr>m_challenge := x, m_connection := ConnectionChallenged\<rparr>, None))"

definition acceptAttach :: handler where
  "acceptAttach m direction frame =
     (if direction \<noteq> DirectionWorkerToPlatform \<or> m_connection m \<noteq> ConnectionChallenged \<or> m_reconnecting m
      then refuse_with m ErrorUnauthorized
      else case fr_Attach frame of
        None \<Rightarrow> (m, Some NilDereference)
      | Some x \<Rightarrow>
          if \<not> negotiationMatchesChallenge (at_WorkerOffer x) (at_PlatformOffer x) (at_SelectedVersion x)
                 (at_WorkerNonce x) (at_PlatformNonce x) (m_challenge m) \<or>
             VerifyAttachV1 (cf_Auth (m_config m)) frame \<noteq> None
          then refuse_with m ErrorUnauthorized
          else (m\<lparr>m_capabilityDigest := at_CapabilityDigest x, m_connection := ConnectionAttachPending\<rparr>, None))"

definition acceptAttachAccepted :: handler where
  "acceptAttachAccepted m direction frame =
     (if direction \<noteq> DirectionPlatformToWorker \<or> m_connection m \<noteq> ConnectionAttachPending
      then refuse_with m ErrorUnauthorized
      else case fr_AttachAccepted frame of
        None \<Rightarrow> (m, Some NilDereference)
      | Some x \<Rightarrow>
          if \<not> acceptedMatchesChallenge x (m_challenge m) (m_capabilityDigest m) then refuse_with m ErrorUnauthorized
          else (m\<lparr>m_connection := ConnectionAttached\<rparr>, None))"

definition acceptReconnect :: handler where
  "acceptReconnect m direction frame =
     (case fr_Reconnect frame of
        None \<Rightarrow> (m, Some NilDereference)
      | Some x \<Rightarrow>
          let workerClaim = snapshot_of (rc_PreviousConnectionGeneration x) (rc_PreviousWatermarks x)
                              (rc_AttemptSummary x) (rc_PendingTerminalReplay x)
          in if direction \<noteq> DirectionWorkerToPlatform \<or> m_connection m \<noteq> ConnectionChallenged \<or> \<not> m_reconnecting m \<or>
                rc_PreviousConnectionGeneration x \<noteq> m_previousConnectionGeneration m \<or>
                rc_PreviousConnectionGeneration x = MaxUint64 \<or>
                rc_PreviousConnectionGeneration x + 1 \<noteq> ac_ConnectionGeneration (cf_Auth (m_config m)) \<or>
                \<not> negotiationMatchesChallenge (rc_WorkerOffer x) (rc_PlatformOffer x) (rc_SelectedVersion x)
                    (rc_WorkerNonce x) (rc_PlatformNonce x) (m_challenge m) \<or>
                VerifyReconnectV1 (cf_Auth (m_config m)) frame \<noteq> None
             then refuse_with m ErrorUnauthorized
             else case snapshot_machine m of
               Inl _ \<Rightarrow> refuse_with m ErrorUnauthorized
             | Inr authoritative \<Rightarrow>
                 if \<not> reconnectClaimsCompatible workerClaim authoritative \<or>
                    length (m_capabilityDigest m) \<noteq> 0 \<and> rc_CapabilityDigest x \<noteq> m_capabilityDigest m
                 then refuse_with m ErrorUnauthorized
                 else (m\<lparr>m_capabilityDigest := rc_CapabilityDigest x, m_reconnectClaim := workerClaim,
                        m_connection := ConnectionReconnectPending\<rparr>, None))"

subsection \<open>Accepting a reconnect\<close>

definition terminal_fingerprint :: "TerminalV1 \<Rightarrow> string" where
  "terminal_fingerprint t = attemptFingerprint ((empty_frame MessageTerminal)\<lparr>fr_Terminal := Some t\<rparr>)"

definition replay_commitment :: "TerminalV1 \<Rightarrow> ReconnectTerminalDecision \<Rightarrow> terminalReplayCommitment" where
  "replay_commitment t decision =
     \<lparr>tc_kind = MessageTerminal, tc_sequence = tm_AttemptSequence t, tc_fingerprint = terminal_fingerprint t,
      tc_decision = decision, tc_terminal = t\<rparr>"

definition installReplayCommitment ::
    "attemptRecord \<Rightarrow> ReconnectSnapshotV1 \<Rightarrow> ReconnectSnapshotV1 \<Rightarrow> ReplayPlanV1 \<Rightarrow> fault + attemptRecord" where
  "installReplayCommitment a authoritative workerClaim plan =
     (if rp_TerminalDecision plan = ReconnectTerminalCommitted then Inr (a\<lparr>ar_pendingWorkerTerminal := None\<rparr>)
      else if rp_TerminalDecision plan = ReconnectTerminalNone then
        (case ar_pendingWorkerTerminal a of
           None \<Rightarrow> Inr a
         | Some c \<Rightarrow>
             if tc_sequence c \<le> as_WorkerSequence (rs_Attempt authoritative) \<or>
                0 < as_TerminalSequence (rs_Attempt authoritative)
             then Inr (a\<lparr>ar_pendingWorkerTerminal := None\<rparr>) else Inr a)
      else case reconnectPendingTerminal workerClaim of
        None \<Rightarrow> Inl (protocolError ErrorConflict)
      | Some terminal \<Rightarrow>
          let nxt = replay_commitment terminal (rp_TerminalDecision plan)
          in if (case ar_pendingWorkerTerminal a of
                   None \<Rightarrow> False
                 | Some c \<Rightarrow> tc_sequence c \<noteq> tc_sequence nxt \<or> tc_fingerprint c \<noteq> tc_fingerprint nxt)
             then Inl (protocolError ErrorConflict)
             else Inr (a\<lparr>ar_pendingWorkerTerminal := Some nxt\<rparr>))"

definition pruneAttemptFingerprints :: "attemptSequenceState \<Rightarrow> u64 \<Rightarrow> attemptSequenceState" where
  "pruneAttemptFingerprints state through =
     state\<lparr>aq_fingerprints := filter (\<lambda>(sequence, _). \<not> through < sequence) (aq_fingerprints state)\<rparr>"

definition applyAttemptSummary :: "attemptRecord \<Rightarrow> AttemptSummaryV1 \<Rightarrow> attemptRecord" where
  "applyAttemptSummary a s =
     a\<lparr>ar_state := as_State s, ar_binding := as_Binding s,
       ar_progressSequence := as_ProgressSequence s, ar_cancelRevision := as_CancelRevision s,
       ar_cancelCode := as_CancelCode s, ar_terminalSequence := as_TerminalSequence s,
       ar_terminalStatus := as_TerminalStatus s, ar_terminalResult := as_TerminalResult s,
       ar_terminalEvidence := as_TerminalEvidenceDigest s,
       ar_platform := pruneAttemptFingerprints ((ar_platform a)\<lparr>aq_sequence := as_PlatformSequence s\<rparr>) (as_PlatformSequence s),
       ar_worker := pruneAttemptFingerprints ((ar_worker a)\<lparr>aq_sequence := as_WorkerSequence s\<rparr>) (as_WorkerSequence s)\<rparr>"

definition applyDiscardTombstone :: "attemptRecord \<Rightarrow> attemptRecord" where
  "applyDiscardTombstone a =
     (case ar_pendingWorkerTerminal a of
        None \<Rightarrow> a
      | Some c \<Rightarrow>
          if tc_decision c \<noteq> ReconnectTerminalDiscard \<or> tc_sequence c \<le> aq_sequence (ar_worker a) then a
          else a\<lparr>ar_worker := (ar_worker a)\<lparr>aq_sequence := tc_sequence c\<rparr>\<rparr>)"

definition accepted_negotiation :: "ReconnectAcceptedV1 \<Rightarrow> ReconnectNegotiationV1" where
  "accepted_negotiation x =
     \<lparr>rn_WorkerOffer = ra_WorkerOffer x, rn_PlatformOffer = ra_PlatformOffer x,
      rn_SelectedVersion = ra_SelectedVersion x, rn_WorkerNonce = ra_WorkerNonce x,
      rn_PlatformNonce = ra_PlatformNonce x, rn_CapabilityDigest = ra_CapabilityDigest x\<rparr>"

definition accepted_attach :: "ReconnectAcceptedV1 \<Rightarrow> AttachAcceptedV1" where
  "accepted_attach x =
     \<lparr>aa_WorkerOffer = ra_WorkerOffer x, aa_PlatformOffer = ra_PlatformOffer x,
      aa_SelectedVersion = ra_SelectedVersion x, aa_WorkerNonce = ra_WorkerNonce x,
      aa_PlatformNonce = ra_PlatformNonce x, aa_CapabilityDigest = ra_CapabilityDigest x\<rparr>"

definition acceptReconnectAccepted :: handler where
  "acceptReconnectAccepted m direction frame =
     (case fr_ReconnectAccepted frame of
        None \<Rightarrow> (m, Some NilDereference)
      | Some x \<Rightarrow>
          let authoritative = snapshot_of (m_previousConnectionGeneration m) (ra_AuthoritativeWatermarks x)
                                (ra_AuthoritativeAttempt x) (ra_AuthoritativePendingTerminalReplay x)
          in if direction \<noteq> DirectionPlatformToWorker \<or> m_connection m \<noteq> ConnectionReconnectPending \<or>
                \<not> acceptedMatchesChallenge (accepted_attach x) (m_challenge m) (m_capabilityDigest m)
             then refuse_with m ErrorUnauthorized
             else case BuildReconnectAcceptedV1 authoritative (m_reconnectClaim m) (accepted_negotiation x) of
               Inl _ \<Rightarrow> refuse_with m ErrorUnauthorized
             | Inr expected \<Rightarrow>
                 if \<not> sameReconnectAccepted expected x then refuse_with m ErrorUnauthorized
                 else case installReplayCommitment (m_attempt m) authoritative (m_reconnectClaim m) (ra_ReplayPlan x) of
                   Inl e \<Rightarrow> (m, Some e)
                 | Inr a \<Rightarrow>
                     (m\<lparr>m_attempt := applyDiscardTombstone (applyAttemptSummary a (ra_AuthoritativeAttempt x)),
                        m_connection := ConnectionAttached\<rparr>, None))"

subsection \<open>Manifest, heartbeat, drain and revocation\<close>

definition acceptManifest :: handler where
  "acceptManifest m direction frame =
     (case fr_Manifest frame of
        None \<Rightarrow> (m, Some NilDereference)
      | Some x \<Rightarrow>
          let manifest = mf_Manifest x
          in if direction \<noteq> DirectionWorkerToPlatform \<or> m_connection m \<noteq> ConnectionAttached \<or>
                mf_Digest x \<noteq> m_capabilityDigest m \<or> cm_WorkerID manifest \<noteq> ac_WorkerID (cf_Auth (m_config m)) \<or>
                cm_EnrollmentGeneration manifest \<noteq> ac_EnrollmentGeneration (cf_Auth (m_config m)) \<or>
                \<not> sameVersionOffer (cm_ProtocolOffer manifest) (cf_WorkerOffer (m_config m)) \<or>
                VerifyManifestV1 (cf_Auth (m_config m)) frame \<noteq> None
             then refuse_with m ErrorUnauthorized
             else if m_reconnecting m
             then (m\<lparr>m_manifest := manifest, m_connection := m_reconnectTarget m,
                     m_drainReenvelopePending := (m_reconnectTarget m = ConnectionDraining), m_reconnecting := False\<rparr>, None)
             else (m\<lparr>m_manifest := manifest, m_connection := ConnectionReady\<rparr>, None))"

definition acceptHeartbeat :: handler where
  "acceptHeartbeat m direction frame =
     (if direction \<noteq> DirectionWorkerToPlatform \<or>
         m_connection m \<noteq> ConnectionReady \<and> m_connection m \<noteq> ConnectionDraining
      then refuse_with m ErrorInvalidTransition
      else case fr_Heartbeat frame of
        None \<Rightarrow> (m, Some NilDereference)
      | Some x \<Rightarrow>
          if hb_Available x \<and> m_connection m \<noteq> ConnectionReady then refuse_with m ErrorConflict else (m, None))"

definition acceptDrain :: handler where
  "acceptDrain m direction frame =
     (if direction \<noteq> DirectionPlatformToWorker then refuse_with m ErrorInvalidTransition
      else if m_connection m = ConnectionReady then
         (if m_drainRevision m \<noteq> 0 \<or> m_drainReenvelopePending m then refuse_with m ErrorInvalidTransition
          else (case fr_Drain frame of
                  None \<Rightarrow> (m, Some NilDereference)
                | Some x \<Rightarrow> (m\<lparr>m_drainRevision := dr_Revision x, m_connection := ConnectionDraining\<rparr>, None)))
      else if m_connection m = ConnectionDraining then
         (if \<not> m_drainReenvelopePending m \<or> m_reconnectTarget m \<noteq> ConnectionDraining \<or>
             m_previousConnectionGeneration m = MaxUint64 \<or>
             m_previousConnectionGeneration m + 1 \<noteq> ac_ConnectionGeneration (cf_Auth (m_config m))
          then refuse_with m ErrorInvalidTransition
          else (case fr_Drain frame of
                  None \<Rightarrow> (m, Some NilDereference)
                | Some x \<Rightarrow>
                    if dr_Revision x \<noteq> m_drainRevision m then refuse_with m ErrorInvalidTransition
                    else (m\<lparr>m_drainReenvelopePending := False, m_drainRevision := dr_Revision x,
                            m_connection := ConnectionDraining\<rparr>, None)))
      else refuse_with m ErrorInvalidTransition)"

definition acceptDrained :: handler where
  "acceptDrained m direction frame =
     (if direction \<noteq> DirectionWorkerToPlatform \<or> m_connection m \<noteq> ConnectionDraining
      then refuse_with m ErrorInvalidTransition
      else case fr_Drained frame of
        None \<Rightarrow> (m, Some NilDereference)
      | Some x \<Rightarrow>
          if dd_Revision x \<noteq> m_drainRevision m \<or> ar_state (m_attempt m) \<noteq> AttemptIdle
          then refuse_with m ErrorInvalidTransition
          else (m\<lparr>m_connection := ConnectionDrained\<rparr>, None))"

definition fence_attempt :: "attemptRecord \<Rightarrow> attemptRecord" where
  "fence_attempt a =
     (if ar_state a \<noteq> AttemptIdle \<and> ar_state a \<noteq> AttemptTerminalCommitted
      then a\<lparr>ar_state := AttemptFenced, ar_cancelCode := CancelFenced, ar_terminalSequence := 0,
             ar_terminalStatus := TerminalStatusUnset, ar_terminalResult := TerminalResultUnset,
             ar_terminalEvidence := [],
             ar_cancelRevision := (if ar_cancelRevision a = 0 then 1 else ar_cancelRevision a)\<rparr>
      else a)"

definition acceptRevoke :: handler where
  "acceptRevoke m direction frame =
     (let auth = cf_Auth (m_config m)
      in if direction \<noteq> DirectionPlatformToWorker \<or> m_connection m = ConnectionUnattached \<or>
            m_connection m = ConnectionRevoked \<or> ac_EnrollmentGeneration auth = MaxUint64 \<or>
            ac_ConnectionGeneration auth = MaxUint64
         then refuse_with m ErrorInvalidTransition
         else case fr_Revoke frame of
           None \<Rightarrow> (m, Some NilDereference)
         | Some x \<Rightarrow>
             if rv_NextEnrollmentGeneration x \<noteq> ac_EnrollmentGeneration auth + 1 \<or>
                rv_NextConnectionGeneration x \<noteq> ac_ConnectionGeneration auth + 1
             then refuse_with m ErrorInvalidTransition
             else (m\<lparr>m_revoke := x, m_attempt := fence_attempt (m_attempt m), m_connection := ConnectionRevoking\<rparr>, None))"

definition acceptRevoked :: handler where
  "acceptRevoked m direction frame =
     (if direction \<noteq> DirectionWorkerToPlatform \<or> m_connection m \<noteq> ConnectionRevoking \<or>
         ar_state (m_attempt m) \<noteq> AttemptIdle \<and> ar_state (m_attempt m) \<noteq> AttemptTerminalCommitted \<and>
         ar_state (m_attempt m) \<noteq> AttemptFenced
      then refuse_with m ErrorInvalidTransition
      else case fr_Revoked frame of
        None \<Rightarrow> (m, Some NilDereference)
      | Some x \<Rightarrow>
          if x \<noteq> \<lparr>rd_Revision = rv_Revision (m_revoke m),
                  rd_NextEnrollmentGeneration = rv_NextEnrollmentGeneration (m_revoke m),
                  rd_NextConnectionGeneration = rv_NextConnectionGeneration (m_revoke m)\<rparr>
          then refuse_with m ErrorInvalidTransition
          else (m\<lparr>m_connection := ConnectionRevoked\<rparr>, None))"

subsection \<open>The attempt\<close>

text \<open>The binding and sequence of an attempt payload; \<open>None\<close> is a nil payload pointer.\<close>

fun attempt_payload :: "MessageKind \<Rightarrow> FrameV1 \<Rightarrow> (AttemptBindingV1 \<times> u64) option" where
  "attempt_payload MessageLeaseOffer f = map_option (\<lambda>x. (lo_Binding x, lo_AttemptSequence x)) (fr_LeaseOffer f)"
| "attempt_payload MessageLeaseClaim f = map_option (\<lambda>x. (lc_Binding x, lc_AttemptSequence x)) (fr_LeaseClaim f)"
| "attempt_payload MessageLeaseAccepted f = map_option (\<lambda>x. (la_Binding x, la_AttemptSequence x)) (fr_LeaseAccepted f)"
| "attempt_payload MessageProgress f = map_option (\<lambda>x. (pg_Binding x, pg_AttemptSequence x)) (fr_Progress f)"
| "attempt_payload MessageCancel f = map_option (\<lambda>x. (cn_Binding x, cn_AttemptSequence x)) (fr_Cancel f)"
| "attempt_payload MessageCancelAck f = map_option (\<lambda>x. (ca_Binding x, ca_AttemptSequence x)) (fr_CancelAck f)"
| "attempt_payload MessageTerminal f = map_option (\<lambda>x. (tm_Binding x, tm_AttemptSequence x)) (fr_Terminal f)"
| "attempt_payload MessageTerminalAck f = map_option (\<lambda>x. (ta_Binding x, ta_AttemptSequence x)) (fr_TerminalAck f)"
| "attempt_payload _ f = Some (zero_binding, 0)"

definition attemptPayload :: "FrameV1 \<Rightarrow> (AttemptBindingV1 \<times> u64) option" where
  "attemptPayload frame = attempt_payload (fr_Kind frame) frame"

fun attemptRequiresValidLease :: "MessageKind \<Rightarrow> bool" where
  "attemptRequiresValidLease MessageLeaseOffer = True"
| "attemptRequiresValidLease MessageLeaseClaim = True"
| "attemptRequiresValidLease MessageLeaseAccepted = True"
| "attemptRequiresValidLease MessageProgress = True"
| "attemptRequiresValidLease MessageTerminal = True"
| "attemptRequiresValidLease MessageTerminalAck = True"
| "attemptRequiresValidLease _ = False"

text \<open>
  The arms of \<open>applyAttemptTransition\<close>. Each returns before its first write when it fails,
  so an arm is the error or the attempt after the call.
\<close>

definition clear_terminal :: "attemptRecord \<Rightarrow> attemptRecord" where
  "clear_terminal a = a\<lparr>ar_terminalSequence := 0, ar_terminalStatus := TerminalStatusUnset,
     ar_terminalResult := TerminalResultUnset, ar_terminalEvidence := []\<rparr>"

definition transition_offer :: "ConformanceMachine \<Rightarrow> Direction \<Rightarrow> LeaseOfferV1 \<Rightarrow> AttemptBindingV1 \<Rightarrow> fault + attemptRecord" where
  "transition_offer m direction x binding =
     (if direction \<noteq> DirectionPlatformToWorker \<or> m_connection m \<noteq> ConnectionReady \<or>
         ar_state (m_attempt m) \<noteq> AttemptIdle \<or> lo_AttemptSequence x \<noteq> 1
      then Inl (protocolError ErrorInvalidTransition)
      else Inr ((m_attempt m)\<lparr>ar_binding := binding, ar_state := AttemptOffered\<rparr>))"

definition transition_claim :: "ConformanceMachine \<Rightarrow> Direction \<Rightarrow> fault + attemptRecord" where
  "transition_claim m direction =
     (if direction \<noteq> DirectionWorkerToPlatform \<or> ar_state (m_attempt m) \<noteq> AttemptOffered
      then Inl (protocolError ErrorInvalidTransition)
      else Inr ((m_attempt m)\<lparr>ar_state := AttemptClaimPending\<rparr>))"

definition transition_accepted :: "ConformanceMachine \<Rightarrow> Direction \<Rightarrow> fault + attemptRecord" where
  "transition_accepted m direction =
     (if direction \<noteq> DirectionPlatformToWorker \<or> ar_state (m_attempt m) \<noteq> AttemptClaimPending
      then Inl (protocolError ErrorInvalidTransition)
      else Inr ((m_attempt m)\<lparr>ar_state := AttemptClaimed\<rparr>))"

definition transition_progress :: "ConformanceMachine \<Rightarrow> Direction \<Rightarrow> ProgressV1 \<Rightarrow> fault + attemptRecord" where
  "transition_progress m direction x =
     (let a = m_attempt m
      in if direction \<noteq> DirectionWorkerToPlatform \<or> \<not> hasFeature m FeatureProgress \<or>
            ar_state a \<noteq> AttemptClaimed \<and> ar_state a \<noteq> AttemptCancelRequested \<and> ar_state a \<noteq> AttemptCancelAcked \<or>
            ar_progressSequence a = MaxUint64 \<or> pg_ProgressSequence x \<noteq> ar_progressSequence a + 1
         then Inl (protocolError ErrorInvalidTransition)
         else Inr (a\<lparr>ar_progressSequence := pg_ProgressSequence x\<rparr>))"

definition transition_cancel :: "ConformanceMachine \<Rightarrow> Direction \<Rightarrow> CancelV1 \<Rightarrow> fault + attemptRecord" where
  "transition_cancel m direction x =
     (let a = m_attempt m
      in if direction \<noteq> DirectionPlatformToWorker \<or> \<not> hasFeature m FeatureCancellation \<or>
            ar_state a \<noteq> AttemptOffered \<and> ar_state a \<noteq> AttemptClaimPending \<and> ar_state a \<noteq> AttemptClaimed \<and>
            ar_state a \<noteq> AttemptTerminalPending \<or>
            cn_CancelRevision x \<noteq> 1
         then Inl (protocolError ErrorInvalidTransition)
         else Inr ((clear_terminal a)\<lparr>ar_cancelRevision := cn_CancelRevision x, ar_cancelCode := cn_Code x,
                ar_state := (if cn_Code x = CancelFenced then AttemptFenced else AttemptCancelRequested)\<rparr>))"

definition transition_cancel_ack :: "ConformanceMachine \<Rightarrow> Direction \<Rightarrow> CancelAckV1 \<Rightarrow> fault + attemptRecord" where
  "transition_cancel_ack m direction x =
     (let a = m_attempt m
      in if direction \<noteq> DirectionWorkerToPlatform \<or> \<not> hasFeature m FeatureCancellation \<or>
            ar_state a \<noteq> AttemptCancelRequested \<and> ar_state a \<noteq> AttemptFenced \<or>
            ca_CancelRevision x \<noteq> ar_cancelRevision a
         then Inl (protocolError ErrorInvalidTransition)
         else if ar_state a \<noteq> AttemptFenced then Inr (a\<lparr>ar_state := AttemptCancelAcked\<rparr>) else Inr a)"

definition revoked_connection :: "ConformanceMachine \<Rightarrow> bool" where
  "revoked_connection m = (m_connection m = ConnectionRevoking \<or> m_connection m = ConnectionRevoked)"

definition transition_terminal :: "ConformanceMachine \<Rightarrow> Direction \<Rightarrow> TerminalV1 \<Rightarrow> fault + attemptRecord" where
  "transition_terminal m direction x =
     (let a = m_attempt m;
          stored = a\<lparr>ar_terminalSequence := tm_TerminalSequence x, ar_terminalStatus := tm_Status x,
                     ar_terminalResult := tm_Result x, ar_terminalEvidence := tm_EvidenceDigest x\<rparr>
      in if direction \<noteq> DirectionWorkerToPlatform \<or>
            ar_state a \<noteq> AttemptClaimed \<and> ar_state a \<noteq> AttemptCancelRequested \<and> ar_state a \<noteq> AttemptCancelAcked \<and>
            ar_state a \<noteq> AttemptFenced \<or>
            tm_TerminalSequence x \<noteq> 1 \<or> tm_Status x = TerminalCancelled \<and> ar_cancelRevision a = 0
         then Inl (protocolError ErrorInvalidTransition)
         else if ar_cancelRevision a \<noteq> 0 \<and> tm_Status x \<noteq> TerminalCancelled then
           (if ar_cancelCode a = CancelFenced \<or> revoked_connection m then Inl (protocolError ErrorInvalidTransition)
            else Inr a)
         else if ar_cancelCode a \<noteq> CancelFenced \<and> \<not> revoked_connection m
           then Inr (stored\<lparr>ar_state := AttemptTerminalPending\<rparr>)
         else Inr stored)"

definition transition_terminal_ack :: "ConformanceMachine \<Rightarrow> Direction \<Rightarrow> TerminalAckV1 \<Rightarrow> fault + attemptRecord" where
  "transition_terminal_ack m direction x =
     (let a = m_attempt m
      in if direction \<noteq> DirectionPlatformToWorker \<or> ar_state a \<noteq> AttemptTerminalPending \<or> revoked_connection m \<or>
            ta_TerminalSequence x \<noteq> ar_terminalSequence a \<or> ta_Status x \<noteq> ar_terminalStatus a \<or>
            ta_Result x \<noteq> ar_terminalResult a \<or> ta_EvidenceDigest x \<noteq> ar_terminalEvidence a
         then Inl (protocolError ErrorConflict)
         else Inr (a\<lparr>ar_state := AttemptTerminalCommitted\<rparr>))"

definition with_payload :: "'a option \<Rightarrow> ('a \<Rightarrow> fault + attemptRecord) \<Rightarrow> fault + attemptRecord" where
  "with_payload p f = (case p of None \<Rightarrow> Inl NilDereference | Some x \<Rightarrow> f x)"

definition applyAttemptTransition ::
    "ConformanceMachine \<Rightarrow> Direction \<Rightarrow> FrameV1 \<Rightarrow> AttemptBindingV1 \<Rightarrow> fault + attemptRecord" where
  "applyAttemptTransition m direction frame binding =
     (case fr_Kind frame of
        MessageLeaseOffer \<Rightarrow> with_payload (fr_LeaseOffer frame) (\<lambda>x. transition_offer m direction x binding)
      | MessageLeaseClaim \<Rightarrow> transition_claim m direction
      | MessageLeaseAccepted \<Rightarrow> transition_accepted m direction
      | MessageProgress \<Rightarrow> with_payload (fr_Progress frame) (transition_progress m direction)
      | MessageCancel \<Rightarrow> with_payload (fr_Cancel frame) (transition_cancel m direction)
      | MessageCancelAck \<Rightarrow> with_payload (fr_CancelAck frame) (transition_cancel_ack m direction)
      | MessageTerminal \<Rightarrow> with_payload (fr_Terminal frame) (transition_terminal m direction)
      | MessageTerminalAck \<Rightarrow> with_payload (fr_TerminalAck frame) (transition_terminal_ack m direction)
      | _ \<Rightarrow> Inl (protocolError ErrorInvalidTransition))"

definition attempt_sender :: "Direction \<Rightarrow> attemptRecord \<Rightarrow> attemptSequenceState" where
  "attempt_sender direction a = (if direction = DirectionPlatformToWorker then ar_platform a else ar_worker a)"

definition stored_fingerprint :: "attemptSequenceState \<Rightarrow> u64 \<Rightarrow> string" where
  "stored_fingerprint s sequence = (case map_of (aq_fingerprints s) sequence of None \<Rightarrow> zero_fingerprint | Some fp \<Rightarrow> fp)"

definition record_attempt_message :: "Direction \<Rightarrow> u64 \<Rightarrow> string \<Rightarrow> attemptRecord \<Rightarrow> attemptRecord" where
  "record_attempt_message direction sequence fp a =
     (let s = (attempt_sender direction a)\<lparr>aq_sequence := sequence,
                aq_fingerprints := AList.update sequence fp (aq_fingerprints (attempt_sender direction a))\<rparr>
      in if direction = DirectionPlatformToWorker then a\<lparr>ar_platform := s\<rparr> else a\<lparr>ar_worker := s\<rparr>)"

definition settle_pending :: "Direction \<Rightarrow> u64 \<Rightarrow> attemptRecord \<Rightarrow> attemptRecord" where
  "settle_pending direction sequence a =
     (case ar_pendingWorkerTerminal a of
        Some c \<Rightarrow>
          if direction = DirectionWorkerToPlatform \<and> tc_sequence c = sequence
          then a\<lparr>ar_pendingWorkerTerminal := None\<rparr> else a
      | None \<Rightarrow> a)"

text \<open>The check of a worker message against a replay commitment at the same sequence.\<close>

definition pending_refusal :: "attemptRecord \<Rightarrow> Direction \<Rightarrow> MessageKind \<Rightarrow> u64 \<Rightarrow> string \<Rightarrow> ErrorCode option" where
  "pending_refusal a direction kind sequence fp =
     (case ar_pendingWorkerTerminal a of
        None \<Rightarrow> None
      | Some c \<Rightarrow>
          if direction = DirectionWorkerToPlatform \<and> sequence = tc_sequence c then
            (if tc_kind c \<noteq> kind \<or> tc_fingerprint c \<noteq> fp then Some ErrorConflict
             else if tc_decision c = ReconnectTerminalDiscard then Some ErrorProtocolViolation
             else None)
          else None)"

definition acceptAttempt :: "ConformanceMachine \<Rightarrow> Direction \<Rightarrow> FrameV1 \<Rightarrow> int \<Rightarrow> ConformanceMachine \<times> fault option" where
  "acceptAttempt m direction frame nowUnixMicro =
     (case attemptPayload frame of
        None \<Rightarrow> (m, Some NilDereference)
      | Some (binding, sequence) \<Rightarrow>
          let a = m_attempt m; fp = attemptFingerprint frame; sender = attempt_sender direction a
          in case pending_refusal a direction (fr_Kind frame) sequence fp of
            Some code \<Rightarrow> refuse_with m code
          | None \<Rightarrow>
              if sequence \<le> aq_sequence sender then
                (if sequence \<noteq> 0 \<and> stored_fingerprint sender sequence = fp then (m, None)
                 else refuse_with m ErrorConflict)
              else if aq_sequence sender = MaxUint64 \<or> sequence \<noteq> aq_sequence sender + 1
                then refuse_with m ErrorSequenceMismatch
              else if ar_state a \<noteq> AttemptIdle \<and> \<not> sameAttemptBinding binding (ar_binding a)
                then refuse_with m ErrorBindingMismatch
              else if ab_CapabilityDigest binding \<noteq> m_capabilityDigest m then refuse_with m ErrorBindingMismatch
              else if attemptRequiresValidLease (fr_Kind frame) \<and> ab_ExpiresAtUnixMicro binding \<le> nowUnixMicro
                then refuse_with m ErrorConflict
              else case applyAttemptTransition m direction frame binding of
                Inl e \<Rightarrow> (m, Some e)
              | Inr a' \<Rightarrow>
                  (m\<lparr>m_attempt := settle_pending direction sequence
                        (record_attempt_message direction sequence fp a')\<rparr>, None))"

definition erase_committed :: "ConformanceMachine \<Rightarrow> ConformanceMachine \<times> fault option" where
  "erase_committed m =
     (if ar_state (m_attempt m) \<noteq> AttemptTerminalCommitted then refuse_with m ErrorInvalidTransition
      else (m\<lparr>m_attempt := idle_attempt\<rparr>, None))"

definition EraseCommittedAttempt :: "ConformanceMachine option \<Rightarrow> ConformanceMachine option \<times> fault option" where
  "EraseCommittedAttempt machine =
     (case machine of
        None \<Rightarrow> (None, Some (protocolError ErrorInvalidTransition))
      | Some m \<Rightarrow> map_prod Some id (erase_committed m))"

subsection \<open>Accept\<close>

definition MessageIDV1 :: "Direction \<Rightarrow> u64 \<Rightarrow> string" where
  "MessageIDV1 direction sequence =
     (if direction = DirectionPlatformToWorker then ''p'' else ''w'') @ ''-'' @ pad20 (FormatNat (unat sequence))"

definition apply_frame :: "ConformanceMachine \<Rightarrow> Direction \<Rightarrow> FrameV1 \<Rightarrow> int \<Rightarrow> ConformanceMachine \<times> fault option" where
  "apply_frame m direction frame nowUnixMicro =
     (case fr_Kind frame of
        MessageHello \<Rightarrow> acceptHello m direction frame
      | MessageChallenge \<Rightarrow> acceptChallenge m direction frame
      | MessageAttach \<Rightarrow> acceptAttach m direction frame
      | MessageAttachAccepted \<Rightarrow> acceptAttachAccepted m direction frame
      | MessageReconnect \<Rightarrow> acceptReconnect m direction frame
      | MessageReconnectAccepted \<Rightarrow> acceptReconnectAccepted m direction frame
      | MessageManifest \<Rightarrow> acceptManifest m direction frame
      | MessageHeartbeat \<Rightarrow> acceptHeartbeat m direction frame
      | MessageDrain \<Rightarrow> acceptDrain m direction frame
      | MessageDrained \<Rightarrow> acceptDrained m direction frame
      | MessageRevoke \<Rightarrow> acceptRevoke m direction frame
      | MessageRevoked \<Rightarrow> acceptRevoked m direction frame
      | MessageError \<Rightarrow> (m, None)
      | MessageKindOther _ \<Rightarrow> refuse_with m ErrorInvalidTransition
      | _ \<Rightarrow> acceptAttempt m direction frame nowUnixMicro)"

definition envelope_unauthorized :: "ConformanceMachine \<Rightarrow> Direction \<Rightarrow> FrameV1 \<Rightarrow> AcceptanceContextV1 \<Rightarrow> bool" where
  "envelope_unauthorized m direction frame acceptance =
     (let auth = cf_Auth (m_config m)
      in \<not> validDirection direction \<or> AuthContextV1_Validate auth \<noteq> None \<or>
         ax_ChannelBinding acceptance \<noteq> ac_ChannelBinding auth \<or> ax_NowUnixMicro acceptance \<le> 0 \<or>
         FrameV1_Validate frame \<noteq> None \<or> fr_Version frame \<noteq> ac_Version auth \<or>
         fr_WorkerID frame \<noteq> ac_WorkerID auth \<or>
         fr_EnrollmentGeneration frame \<noteq> ac_EnrollmentGeneration auth \<or>
         fr_ConnectionGeneration frame \<noteq> ac_ConnectionGeneration auth)"

definition envelope_sender :: "Direction \<Rightarrow> ConformanceMachine \<Rightarrow> sequenceState" where
  "envelope_sender direction m = (if direction = DirectionPlatformToWorker then m_platform m else m_worker m)"

definition envelope_peer :: "Direction \<Rightarrow> ConformanceMachine \<Rightarrow> sequenceState" where
  "envelope_peer direction m = (if direction = DirectionPlatformToWorker then m_worker m else m_platform m)"

definition record_envelope :: "Direction \<Rightarrow> FrameV1 \<Rightarrow> ConformanceMachine \<Rightarrow> ConformanceMachine" where
  "record_envelope direction frame m =
     (let s = \<lparr>sq_sequence = fr_Sequence frame, sq_ack = fr_Ack frame, sq_fingerprint = frameFingerprint frame\<rparr>
      in if direction = DirectionPlatformToWorker then m\<lparr>m_platform := s\<rparr> else m\<lparr>m_worker := s\<rparr>)"

definition accept_frame ::
    "ConformanceMachine \<Rightarrow> Direction \<Rightarrow> FrameV1 \<Rightarrow> AcceptanceContextV1 \<Rightarrow> ConformanceMachine \<times> fault option" where
  "accept_frame m direction frame acceptance =
     (let sender = envelope_sender direction m; peer = envelope_peer direction m
      in if envelope_unauthorized m direction frame acceptance then refuse_with m ErrorUnauthorized
         else if fr_MessageID frame \<noteq> MessageIDV1 direction (fr_Sequence frame) then refuse_with m ErrorProtocolViolation
         else if fr_Sequence frame = sq_sequence sender then
           (if sq_sequence sender \<noteq> 0 \<and> sq_fingerprint sender = frameFingerprint frame then (m, None)
            else refuse_with m ErrorConflict)
         else if sq_sequence sender = MaxUint64 \<or> fr_Sequence frame \<noteq> sq_sequence sender + 1 \<or>
                 fr_Ack frame < sq_ack sender \<or> sq_sequence peer < fr_Ack frame
           then refuse_with m ErrorSequenceMismatch
         else case apply_frame m direction frame (ax_NowUnixMicro acceptance) of
                (m', Some e) \<Rightarrow> (m', Some e)
              | (m', None) \<Rightarrow> (record_envelope direction frame m', None))"

definition Accept ::
    "ConformanceMachine option \<Rightarrow> Direction \<Rightarrow> FrameV1 \<Rightarrow> AcceptanceContextV1 \<Rightarrow>
     ConformanceMachine option \<times> fault option" where
  "Accept machine direction frame acceptance =
     (case machine of
        None \<Rightarrow> (None, Some (protocolError ErrorUnauthorized))
      | Some m \<Rightarrow> map_prod Some id (accept_frame m direction frame acceptance))"

end
