(* ===== verification/Durable.thy ===== *)
theory Durable
  imports Machine
begin

text \<open>
  The durable form of the conformance machine
  (\<open>src/internal/attachedworkerprotocol/durable.go\<close>): the snapshot records, their validation,
  canonical bytes and digests, \<open>Snapshot\<close> and \<open>RestoreConformanceMachine\<close>, and the reducers a
  store calls, each of which restores the machine, lets it accept one frame and takes the
  snapshot again. The JSON form of a snapshot is not modelled. Theory DurableProofs has the
  lemmas.
\<close>

subsection \<open>Authorities and snapshots\<close>

fun ConnectionState_text :: "ConnectionState \<Rightarrow> string" where
  "ConnectionState_text ConnectionUnattached = ''unattached''"
| "ConnectionState_text ConnectionHello = ''hello''"
| "ConnectionState_text ConnectionChallenged = ''challenged''"
| "ConnectionState_text ConnectionAttachPending = ''attach_pending''"
| "ConnectionState_text ConnectionReconnectPending = ''reconnect_pending''"
| "ConnectionState_text ConnectionAttached = ''attached''"
| "ConnectionState_text ConnectionReady = ''ready''"
| "ConnectionState_text ConnectionDraining = ''draining''"
| "ConnectionState_text ConnectionDrained = ''drained''"
| "ConnectionState_text ConnectionRevoking = ''revoking''"
| "ConnectionState_text ConnectionRevoked = ''revoked''"
| "ConnectionState_text (ConnectionStateOther s) = s"

definition MachineSnapshotVersionV1 :: u32 where "MachineSnapshotVersionV1 = 1"
definition machineSnapshotDomainV1 :: string where
  "machineSnapshotDomainV1 = ''sessionless.attached-worker.machine-snapshot.v1''"
definition machineConfigDomainV1 :: string where
  "machineConfigDomainV1 = ''sessionless.attached-worker.machine-config.v1''"
definition machineFenceDomainV1 :: string where
  "machineFenceDomainV1 = ''sessionless.attached-worker.fence.v1'' @ [CHR 0x00]"

record LeaseOfferAuthorityV1 =
  lw_RunID :: string
  lw_AttemptID :: string
  lw_LeaseID :: string
  lw_LeaseGeneration :: u64
  lw_NowUnixMicro :: int
  lw_ExpiresAtUnixMicro :: int
  lw_ContextDigest :: string
  lw_PolicyDigest :: string

record CancelAuthorityV1 =
  cw_Revision :: u64
  cw_Code :: CancelCode
  cw_NowUnixMicro :: int

record LeaseAcceptedAuthorityV1 =
  aw_NowUnixMicro :: int

record TerminalAckAuthorityV1 =
  tw_NowUnixMicro :: int

record DrainAuthorityV1 =
  dw_Revision :: u64
  dw_DeliveredConnectionGeneration :: u64
  dw_NowUnixMicro :: int

record MachineEnvelopeSnapshotV1 =
  me_Sequence :: u64
  me_Ack :: u64
  me_Fingerprint :: string

record MachineAttemptFingerprintV1 =
  mq_Sequence :: u64
  mq_Fingerprint :: string

record MachineAttemptDirectionSnapshotV1 =
  md_Sequence :: u64
  md_Fingerprints :: "MachineAttemptFingerprintV1 list"

record MachinePendingTerminalSnapshotV1 =
  mp_Kind :: MessageKind
  mp_Sequence :: u64
  mp_Fingerprint :: string
  mp_Decision :: ReconnectTerminalDecision
  mp_Terminal :: TerminalV1

record MachineAttemptSnapshotV1 =
  mt_Summary :: AttemptSummaryV1
  mt_Platform :: MachineAttemptDirectionSnapshotV1
  mt_Worker :: MachineAttemptDirectionSnapshotV1
  mt_PendingWorkerTerminal :: "MachinePendingTerminalSnapshotV1 option"

record MachineReconnectStateV1 =
  mr_Target :: ConnectionState
  mr_PreviousConnectionGeneration :: u64
  mr_Watermarks :: ConnectionWatermarksV1
  mr_Attempt :: AttemptSummaryV1
  mr_Claim :: "ReconnectSnapshotV1 option"

record MachineSnapshotV1 =
  ms_Version :: u32
  ms_ConfigurationDigest :: string
  ms_Connection :: ConnectionState
  ms_Platform :: MachineEnvelopeSnapshotV1
  ms_Worker :: MachineEnvelopeSnapshotV1
  ms_Hello :: "HelloV1 option"
  ms_Challenge :: "ChallengeV1 option"
  ms_CapabilityDigest :: string
  ms_Manifest :: "CapabilityManifestV1 option"
  ms_Attempt :: MachineAttemptSnapshotV1
  ms_DrainRevision :: u64
  ms_Revoke :: "RevokeV1 option"
  ms_Reconnect :: "MachineReconnectStateV1 option"
  ms_Digest :: string

subsection \<open>Validation of a snapshot\<close>

definition validMachineConnectionState :: "ConnectionState \<Rightarrow> bool" where
  "validMachineConnectionState state = (case state of ConnectionStateOther _ \<Rightarrow> False | _ \<Rightarrow> True)"

definition validateEnvelopeSnapshot :: "MachineEnvelopeSnapshotV1 \<Rightarrow> fault option" where
  "validateEnvelopeSnapshot s =
     (if me_Sequence s = 0 then reject (me_Ack s \<noteq> 0 \<or> length (me_Fingerprint s) \<noteq> 0) ErrorMalformedFrame
      else reject (\<not> validBytes (me_Fingerprint s) 32) ErrorMalformedFrame)"

fun fingerprints_ordered :: "u64 \<Rightarrow> u64 \<Rightarrow> MachineAttemptFingerprintV1 list \<Rightarrow> bool" where
  "fingerprints_ordered limit previous [] = True"
| "fingerprints_ordered limit previous (item # items) =
     (\<not> (mq_Sequence item = 0 \<or> mq_Sequence item \<le> previous \<or> limit < mq_Sequence item \<or>
         \<not> validBytes (mq_Fingerprint item) 32) \<and>
      fingerprints_ordered limit (mq_Sequence item) items)"

definition validateAttemptDirectionSnapshot :: "MachineAttemptDirectionSnapshotV1 \<Rightarrow> fault option" where
  "validateAttemptDirectionSnapshot s =
     (if MaxAttemptMessages < md_Sequence s \<or> unat MaxAttemptMessages < length (md_Fingerprints s)
      then Some (protocolError ErrorMalformedFrame)
      else reject (\<not> fingerprints_ordered (md_Sequence s) 0 (md_Fingerprints s)) ErrorMalformedFrame)"

definition validatePendingTerminalSnapshot ::
    "MachinePendingTerminalSnapshotV1 option \<Rightarrow> MachineAttemptSnapshotV1 \<Rightarrow> fault option" where
  "validatePendingTerminalSnapshot pending attempt =
     (case pending of
        None \<Rightarrow> None
      | Some p \<Rightarrow>
          if mp_Kind p \<noteq> MessageTerminal \<or> TerminalV1_Validate (mp_Terminal p) \<noteq> None \<or> mp_Sequence p = 0 \<or>
             mp_Sequence p \<noteq> tm_AttemptSequence (mp_Terminal p) \<or>
             mp_Decision p \<noteq> ReconnectTerminalReplay \<and> mp_Decision p \<noteq> ReconnectTerminalDiscard \<or>
             \<not> sameAttemptBinding (tm_Binding (mp_Terminal p)) (as_Binding (mt_Summary attempt)) \<or>
             \<not> validBytes (mp_Fingerprint p) 32
          then Some (protocolError ErrorMalformedFrame)
          else if terminal_fingerprint (mp_Terminal p) \<noteq> mp_Fingerprint p then Some (protocolError ErrorConflict)
          else reject (mp_Decision p = ReconnectTerminalReplay \<and> mp_Sequence p \<le> md_Sequence (mt_Worker attempt) \<or>
                       mp_Decision p = ReconnectTerminalDiscard \<and> md_Sequence (mt_Worker attempt) < mp_Sequence p)
                 ErrorMalformedFrame)"

definition validateMachineReconnectState ::
    "MachineReconnectStateV1 \<Rightarrow> MachinePendingTerminalSnapshotV1 option \<Rightarrow> fault option" where
  "validateMachineReconnectState r pending =
     (if mr_Target r \<noteq> ConnectionReady \<and> mr_Target r \<noteq> ConnectionDraining \<or>
         mr_PreviousConnectionGeneration r = 0 \<or> ConnectionWatermarksV1_Validate (mr_Watermarks r) \<noteq> None \<or>
         AttemptSummaryV1_Validate (mr_Attempt r) \<noteq> None
      then Some (protocolError ErrorMalformedFrame)
      else case mr_Claim r of
        None \<Rightarrow> None
      | Some claim \<Rightarrow>
          if ReconnectSnapshotV1_Validate claim \<noteq> None \<or>
             rs_PreviousConnectionGeneration claim \<noteq> mr_PreviousConnectionGeneration r
          then Some (protocolError ErrorMalformedFrame)
          else let authoritative = snapshot_of (mr_PreviousConnectionGeneration r) (mr_Watermarks r) (mr_Attempt r)
                                     (map_option mp_Terminal pending)
               in reject (\<not> reconnectClaimsCompatible claim authoritative) ErrorConflict)"

text \<open>The fields each connection state requires: the closing switch of the content check.\<close>

definition malformed_for_state :: "MachineSnapshotV1 \<Rightarrow> bool" where
  "malformed_for_state s =
     (case ms_Connection s of
        ConnectionHello \<Rightarrow> ms_Hello s = None \<or> ms_Challenge s \<noteq> None
      | ConnectionChallenged \<Rightarrow> ms_Hello s = None \<or> ms_Challenge s = None
      | ConnectionAttachPending \<Rightarrow>
          ms_Reconnect s \<noteq> None \<or> ms_Hello s = None \<or> ms_Challenge s = None \<or>
          \<not> validBytes (ms_CapabilityDigest s) 32 \<or> ms_Manifest s \<noteq> None
      | ConnectionReconnectPending \<Rightarrow>
          (case ms_Reconnect s of None \<Rightarrow> True | Some r \<Rightarrow> mr_Claim r = None) \<or> ms_Hello s = None \<or>
          ms_Challenge s = None \<or> ms_Manifest s = None \<or> \<not> validBytes (ms_CapabilityDigest s) 32
      | ConnectionAttached \<Rightarrow>
          ms_Hello s = None \<or> ms_Challenge s = None \<or> \<not> validBytes (ms_CapabilityDigest s) 32 \<or>
          (ms_Reconnect s = None) \<noteq> (ms_Manifest s = None)
      | ConnectionDraining \<Rightarrow>
          ms_Hello s = None \<or> ms_Challenge s = None \<or> ms_Manifest s = None \<or>
          \<not> validBytes (ms_CapabilityDigest s) 32 \<or>
          (case ms_Reconnect s of
             None \<Rightarrow> False
           | Some r \<Rightarrow> mr_Target r \<noteq> ConnectionDraining \<or> mr_Claim r = None)
      | ConnectionReady \<Rightarrow>
          ms_Reconnect s \<noteq> None \<or> ms_Hello s = None \<or> ms_Challenge s = None \<or> ms_Manifest s = None \<or>
          \<not> validBytes (ms_CapabilityDigest s) 32
      | ConnectionDrained \<Rightarrow>
          ms_Reconnect s \<noteq> None \<or> ms_Hello s = None \<or> ms_Challenge s = None \<or> ms_Manifest s = None \<or>
          \<not> validBytes (ms_CapabilityDigest s) 32
      | _ \<Rightarrow> False)"

definition malformed_header :: "MachineSnapshotV1 \<Rightarrow> bool" where
  "malformed_header s =
     (ms_Version s \<noteq> MachineSnapshotVersionV1 \<or> \<not> validBytes (ms_ConfigurationDigest s) 32 \<or>
      \<not> validMachineConnectionState (ms_Connection s) \<or> validateEnvelopeSnapshot (ms_Platform s) \<noteq> None \<or>
      validateEnvelopeSnapshot (ms_Worker s) \<noteq> None \<or> me_Sequence (ms_Worker s) < me_Ack (ms_Platform s) \<or>
      me_Sequence (ms_Platform s) < me_Ack (ms_Worker s) \<or>
      AttemptSummaryV1_Validate (mt_Summary (ms_Attempt s)) \<noteq> None \<or>
      validateAttemptDirectionSnapshot (mt_Platform (ms_Attempt s)) \<noteq> None \<or>
      validateAttemptDirectionSnapshot (mt_Worker (ms_Attempt s)) \<noteq> None \<or>
      as_PlatformSequence (mt_Summary (ms_Attempt s)) \<noteq> md_Sequence (mt_Platform (ms_Attempt s)) \<or>
      as_WorkerSequence (mt_Summary (ms_Attempt s)) \<noteq> md_Sequence (mt_Worker (ms_Attempt s)))"

definition invalid_payload :: "('a \<Rightarrow> fault option) \<Rightarrow> 'a option \<Rightarrow> bool" where
  "invalid_payload validate p = (case p of None \<Rightarrow> False | Some v \<Rightarrow> validate v \<noteq> None)"

definition malformed_handshake :: "MachineSnapshotV1 \<Rightarrow> bool" where
  "malformed_handshake s =
     (invalid_payload HelloV1_Validate (ms_Hello s) \<or> invalid_payload ChallengeV1_Validate (ms_Challenge s) \<or>
      invalid_payload CapabilityManifestV1_Validate (ms_Manifest s) \<or> invalid_payload RevokeV1_Validate (ms_Revoke s) \<or>
      (case ms_Challenge s of
         None \<Rightarrow> False
       | Some challenge \<Rightarrow>
           (case ms_Hello s of
              None \<Rightarrow> True
            | Some hello \<Rightarrow> \<not> sameVersionOffer (ch_WorkerOffer challenge) (he_Offer hello) \<or>
                            ch_WorkerNonce challenge \<noteq> he_WorkerNonce hello)) \<or>
      (case ms_Manifest s of None \<Rightarrow> False | Some m \<Rightarrow> ManifestDigestV1 m \<noteq> Inr (ms_CapabilityDigest s)) \<or>
      length (ms_CapabilityDigest s) \<noteq> 0 \<and> \<not> validBytes (ms_CapabilityDigest s) 32 \<or>
      as_State (mt_Summary (ms_Attempt s)) \<noteq> AttemptIdle \<and>
        (ms_Manifest s = None \<or> ab_CapabilityDigest (as_Binding (mt_Summary (ms_Attempt s))) \<noteq> ms_CapabilityDigest s))"

definition validateMachineSnapshotContent :: "MachineSnapshotV1 \<Rightarrow> fault option" where
  "validateMachineSnapshotContent s =
     reject
       (malformed_header s \<or> malformed_handshake s \<or>
        validatePendingTerminalSnapshot (mt_PendingWorkerTerminal (ms_Attempt s)) (ms_Attempt s) \<noteq> None \<or>
        (case ms_Reconnect s of
           None \<Rightarrow> False
         | Some r \<Rightarrow> validateMachineReconnectState r (mt_PendingWorkerTerminal (ms_Attempt s)) \<noteq> None) \<or>
        (ms_Revoke s \<noteq> None) \<noteq> (ms_Connection s = ConnectionRevoking \<or> ms_Connection s = ConnectionRevoked) \<or>
        (ms_Connection s = ConnectionDraining \<or> ms_Connection s = ConnectionDrained) \<and> ms_DrainRevision s = 0 \<or>
        ms_Connection s = ConnectionUnattached \<and> ms_Reconnect s = None \<and>
          (me_Sequence (ms_Platform s) \<noteq> 0 \<or> me_Sequence (ms_Worker s) \<noteq> 0 \<or> ms_Hello s \<noteq> None \<or>
           ms_Challenge s \<noteq> None \<or> length (ms_CapabilityDigest s) \<noteq> 0 \<or> ms_Manifest s \<noteq> None \<or>
           as_State (mt_Summary (ms_Attempt s)) \<noteq> AttemptIdle \<or> ms_DrainRevision s \<noteq> 0 \<or> ms_Revoke s \<noteq> None) \<or>
        malformed_for_state s) ErrorMalformedFrame"

definition validateMachineSnapshotAgainstConfig :: "MachineSnapshotV1 \<Rightarrow> MachineConfig \<Rightarrow> fault option" where
  "validateMachineSnapshotAgainstConfig s config =
     (let auth = cf_Auth config
      in reject
       ((case ms_Hello s of None \<Rightarrow> False | Some hello \<Rightarrow> \<not> sameVersionOffer (he_Offer hello) (cf_WorkerOffer config)) \<or>
        (case ms_Challenge s of
           None \<Rightarrow> False
         | Some challenge \<Rightarrow>
             \<not> sameVersionOffer (ch_WorkerOffer challenge) (cf_WorkerOffer config) \<or>
             \<not> sameVersionOffer (ch_PlatformOffer challenge) (cf_PlatformOffer config) \<or>
             ch_SelectedVersion challenge \<noteq> ac_Version auth \<or>
             (case ms_Hello s of None \<Rightarrow> True | Some hello \<Rightarrow> ch_WorkerNonce challenge \<noteq> he_WorkerNonce hello)) \<or>
        (case ms_Manifest s of
           None \<Rightarrow> False
         | Some m \<Rightarrow>
             cm_WorkerID m \<noteq> ac_WorkerID auth \<or> cm_EnrollmentGeneration m \<noteq> ac_EnrollmentGeneration auth \<or>
             \<not> sameVersionOffer (cm_ProtocolOffer m) (cf_WorkerOffer config) \<or>
             ManifestDigestV1 m \<noteq> Inr (ms_CapabilityDigest s)) \<or>
        (case ms_Revoke s of
           None \<Rightarrow> False
         | Some v \<Rightarrow>
             ac_EnrollmentGeneration auth = MaxUint64 \<or> ac_ConnectionGeneration auth = MaxUint64 \<or>
             rv_NextEnrollmentGeneration v \<noteq> ac_EnrollmentGeneration auth + 1 \<or>
             rv_NextConnectionGeneration v \<noteq> ac_ConnectionGeneration auth + 1) \<or>
        (case ms_Reconnect s of
           None \<Rightarrow> False
         | Some r \<Rightarrow>
             ac_ConnectionGeneration auth = 0 \<or> mr_PreviousConnectionGeneration r = MaxUint64 \<or>
             mr_PreviousConnectionGeneration r + 1 \<noteq> ac_ConnectionGeneration auth)) ErrorUnauthorized)"

subsection \<open>Canonical bytes and digests\<close>

definition machineConfigDigestV1 :: "MachineConfig \<Rightarrow> fault + string" where
  "machineConfigDigestV1 config =
     (let auth = cf_Auth config
      in if AuthContextV1_Validate auth \<noteq> None \<or> VersionOfferV1_Validate (cf_WorkerOffer config) \<noteq> None \<or>
            VersionOfferV1_Validate (cf_PlatformOffer config) \<noteq> None
         then Inl (protocolError ErrorUnauthorized)
         else if NegotiateOffers (cf_WorkerOffer config) (cf_PlatformOffer config) (cf_ImplementedVersions config)
                   \<noteq> Inr (ac_Version auth)
         then Inl (protocolError ErrorUnauthorized)
         else let r = appendCanonicalField [] machineConfigDomainV1;
                  r = appendCanonicalField r (ac_TenantID auth);
                  r = appendCanonicalField r (ac_OwnerUserID auth);
                  r = appendCanonicalField r (ac_WorkerID auth);
                  r = appendCanonicalField r (ac_IdentityPublicKey auth);
                  r = appendCanonicalUint64 r (ac_EnrollmentGeneration auth);
                  r = appendCanonicalUint64 r (ac_ConnectionGeneration auth);
                  r = appendCanonicalUint32 r (ac_Version auth);
                  r = appendCanonicalField r (ac_ChannelBinding auth);
                  r = appendVersionOffer r (cf_WorkerOffer config);
                  r = appendVersionOffer r (cf_PlatformOffer config);
                  r = appendCanonicalUint32 r (of_nat (length (cf_ImplementedVersions config)));
                  r = foldl appendCanonicalUint32 r (cf_ImplementedVersions config)
              in Inr (sha256 r))"

definition appendEnvelopeSnapshot :: "string \<Rightarrow> MachineEnvelopeSnapshotV1 \<Rightarrow> string" where
  "appendEnvelopeSnapshot r s =
     appendCanonicalField (appendCanonicalUint64 (appendCanonicalUint64 r (me_Sequence s)) (me_Ack s)) (me_Fingerprint s)"

definition appendAttemptDirectionSnapshot :: "string \<Rightarrow> MachineAttemptDirectionSnapshotV1 \<Rightarrow> string" where
  "appendAttemptDirectionSnapshot r s =
     (let r = appendCanonicalUint64 r (md_Sequence s);
          r = appendCanonicalUint32 r (of_nat (length (md_Fingerprints s)))
      in foldl (\<lambda>r item. appendCanonicalField (appendCanonicalUint64 r (mq_Sequence item)) (mq_Fingerprint item))
           r (md_Fingerprints s))"

definition appendOptionalHello :: "string \<Rightarrow> HelloV1 option \<Rightarrow> string" where
  "appendOptionalHello r hello =
     (case hello of
        None \<Rightarrow> appendCanonicalUint32 r 0
      | Some h \<Rightarrow> appendCanonicalField (appendVersionOffer (appendCanonicalUint32 r 1) (he_Offer h)) (he_WorkerNonce h))"

definition appendOptionalChallenge :: "string \<Rightarrow> ChallengeV1 option \<Rightarrow> string" where
  "appendOptionalChallenge r challenge =
     (case challenge of
        None \<Rightarrow> appendCanonicalUint32 r 0
      | Some c \<Rightarrow>
          let r = appendCanonicalUint32 r 1;
              r = appendVersionOffer r (ch_WorkerOffer c);
              r = appendVersionOffer r (ch_PlatformOffer c);
              r = appendCanonicalUint32 r (ch_SelectedVersion c);
              r = appendCanonicalField r (ch_WorkerNonce c)
          in appendCanonicalField r (ch_PlatformNonce c))"

definition appendMachineSnapshotWatermarks :: "string \<Rightarrow> ConnectionWatermarksV1 \<Rightarrow> string" where
  "appendMachineSnapshotWatermarks r w =
     appendCanonicalUint64 (appendCanonicalUint64 (appendCanonicalUint64 (appendCanonicalUint64 r
       (wm_PlatformSequence w)) (wm_WorkerSequence w)) (wm_PlatformAck w)) (wm_WorkerAck w)"

definition canonicalMachineSnapshotBytesUnchecked :: "MachineSnapshotV1 \<Rightarrow> string" where
  "canonicalMachineSnapshotBytesUnchecked s =
     (let r = appendCanonicalField [] machineSnapshotDomainV1;
          r = appendCanonicalUint32 r (ms_Version s);
          r = appendCanonicalField r (ms_ConfigurationDigest s);
          r = appendCanonicalField r (ConnectionState_text (ms_Connection s));
          r = appendEnvelopeSnapshot r (ms_Platform s);
          r = appendEnvelopeSnapshot r (ms_Worker s);
          r = appendOptionalHello r (ms_Hello s);
          r = appendOptionalChallenge r (ms_Challenge s);
          r = appendCanonicalField r (ms_CapabilityDigest s);
          r = (case ms_Manifest s of
                 None \<Rightarrow> appendCanonicalUint32 r 0
               | Some m \<Rightarrow> appendCanonicalField (appendCanonicalUint32 r 1)
                             (case CanonicalManifestBytesV1 m of Inl _ \<Rightarrow> [] | Inr b \<Rightarrow> b));
          r = appendCanonicalField r (as_Digest (mt_Summary (ms_Attempt s)));
          r = appendAttemptDirectionSnapshot r (mt_Platform (ms_Attempt s));
          r = appendAttemptDirectionSnapshot r (mt_Worker (ms_Attempt s));
          r = (case mt_PendingWorkerTerminal (ms_Attempt s) of
                 None \<Rightarrow> appendCanonicalUint32 r 0
               | Some p \<Rightarrow>
                   let r = appendCanonicalUint32 r 1;
                       r = appendCanonicalField r (MessageKind_text (mp_Kind p));
                       r = appendCanonicalUint64 r (mp_Sequence p);
                       r = appendCanonicalField r (mp_Fingerprint p)
                   in appendCanonicalField r (ReconnectTerminalDecision_text (mp_Decision p)));
          r = appendCanonicalUint64 r (ms_DrainRevision s);
          r = (case ms_Revoke s of
                 None \<Rightarrow> appendCanonicalUint32 r 0
               | Some v \<Rightarrow> appendCanonicalUint64 (appendCanonicalUint64 (appendCanonicalUint64 (appendCanonicalUint32 r 1)
                             (rv_Revision v)) (rv_NextEnrollmentGeneration v)) (rv_NextConnectionGeneration v))
      in case ms_Reconnect s of
           None \<Rightarrow> appendCanonicalUint32 r 0
         | Some c \<Rightarrow>
             let r = appendCanonicalUint32 r 1;
                 r = appendCanonicalField r (ConnectionState_text (mr_Target c));
                 r = appendCanonicalUint64 r (mr_PreviousConnectionGeneration c);
                 r = appendMachineSnapshotWatermarks r (mr_Watermarks c);
                 r = appendCanonicalField r (as_Digest (mr_Attempt c))
             in (case mr_Claim c of
                   None \<Rightarrow> appendCanonicalUint32 r 0
                 | Some claim \<Rightarrow> appendCanonicalField (appendCanonicalUint32 r 1) (rs_Digest claim)))"

definition machineSnapshotDigestUnchecked :: "MachineSnapshotV1 \<Rightarrow> string" where
  "machineSnapshotDigestUnchecked s = sha256 (canonicalMachineSnapshotBytesUnchecked s)"

definition CanonicalMachineSnapshotBytesV1 :: "MachineSnapshotV1 \<Rightarrow> fault + string" where
  "CanonicalMachineSnapshotBytesV1 s =
     (if validateMachineSnapshotContent s \<noteq> None then Inl (protocolError ErrorMalformedFrame)
      else Inr (canonicalMachineSnapshotBytesUnchecked s))"

definition MachineSnapshotDigestV1 :: "MachineSnapshotV1 \<Rightarrow> fault + string" where
  "MachineSnapshotDigestV1 s =
     (if validateMachineSnapshotContent s \<noteq> None then Inl (protocolError ErrorMalformedFrame)
      else Inr (machineSnapshotDigestUnchecked s))"

definition MachineSnapshotV1_Validate :: "MachineSnapshotV1 \<Rightarrow> fault option" where
  "MachineSnapshotV1_Validate s =
     (if validateMachineSnapshotContent s \<noteq> None \<or> \<not> validBytes (ms_Digest s) 32
      then Some (protocolError ErrorMalformedFrame)
      else reject (machineSnapshotDigestUnchecked s \<noteq> ms_Digest s) ErrorConflict)"

fun isAttemptMessage :: "MessageKind \<Rightarrow> bool" where
  "isAttemptMessage MessageLeaseOffer = True"
| "isAttemptMessage MessageLeaseClaim = True"
| "isAttemptMessage MessageLeaseAccepted = True"
| "isAttemptMessage MessageProgress = True"
| "isAttemptMessage MessageCancel = True"
| "isAttemptMessage MessageCancelAck = True"
| "isAttemptMessage MessageTerminal = True"
| "isAttemptMessage MessageTerminalAck = True"
| "isAttemptMessage _ = False"

definition AttemptFrameFingerprintV1 :: "FrameV1 \<Rightarrow> fault + string" where
  "AttemptFrameFingerprintV1 frame =
     (if FrameV1_Validate frame \<noteq> None \<or> \<not> isAttemptMessage (fr_Kind frame) then Inl (protocolError ErrorInvalidFrame)
      else Inr (attemptFingerprint frame))"

definition FrameFingerprintV1 :: "FrameV1 \<Rightarrow> fault + string" where
  "FrameFingerprintV1 frame =
     (if FrameV1_Validate frame \<noteq> None then Inl (protocolError ErrorInvalidFrame) else Inr (frameFingerprint frame))"

subsection \<open>Snapshot and restore\<close>

definition snapshotEnvelope :: "sequenceState \<Rightarrow> MachineEnvelopeSnapshotV1" where
  "snapshotEnvelope state =
     \<lparr>me_Sequence = sq_sequence state, me_Ack = sq_ack state,
      me_Fingerprint = (if sq_sequence state \<noteq> 0 then sq_fingerprint state else [])\<rparr>"

definition snapshotAttemptDirection :: "attemptSequenceState \<Rightarrow> MachineAttemptDirectionSnapshotV1" where
  "snapshotAttemptDirection state =
     \<lparr>md_Sequence = aq_sequence state,
      md_Fingerprints = map (\<lambda>sequence. \<lparr>mq_Sequence = sequence, mq_Fingerprint = stored_fingerprint state sequence\<rparr>)
                          (sort (map fst (aq_fingerprints state)))\<rparr>"

text \<open>\<open>copy\<close> into a zeroed array of 32 bytes.\<close>

definition copy_array :: "string \<Rightarrow> string" where
  "copy_array s = take 32 s @ replicate (32 - length s) (CHR 0x00)"

definition restoreEnvelope :: "MachineEnvelopeSnapshotV1 \<Rightarrow> sequenceState" where
  "restoreEnvelope s =
     \<lparr>sq_sequence = me_Sequence s, sq_ack = me_Ack s, sq_fingerprint = copy_array (me_Fingerprint s)\<rparr>"

definition restoreAttemptDirection :: "MachineAttemptDirectionSnapshotV1 \<Rightarrow> attemptSequenceState" where
  "restoreAttemptDirection s =
     \<lparr>aq_sequence = md_Sequence s,
      aq_fingerprints = foldl (\<lambda>fps item. AList.update (mq_Sequence item) (copy_array (mq_Fingerprint item)) fps)
                          [] (md_Fingerprints s)\<rparr>"

definition when_valid :: "('a \<Rightarrow> fault option) \<Rightarrow> 'a \<Rightarrow> 'a option" where
  "when_valid validate v = (if validate v = None then Some v else None)"

definition snapshot_pending :: "terminalReplayCommitment \<Rightarrow> MachinePendingTerminalSnapshotV1" where
  "snapshot_pending c =
     \<lparr>mp_Kind = tc_kind c, mp_Sequence = tc_sequence c, mp_Fingerprint = tc_fingerprint c,
      mp_Decision = tc_decision c, mp_Terminal = tc_terminal c\<rparr>"

definition snapshot_reconnect :: "ConformanceMachine \<Rightarrow> MachineReconnectStateV1" where
  "snapshot_reconnect m =
     \<lparr>mr_Target = m_reconnectTarget m, mr_PreviousConnectionGeneration = m_previousConnectionGeneration m,
      mr_Watermarks = m_reconnectWatermarks m, mr_Attempt = m_reconnectAttempt m,
      mr_Claim = when_valid ReconnectSnapshotV1_Validate (m_reconnectClaim m)\<rparr>"

definition snapshot_content :: "ConformanceMachine \<Rightarrow> string \<Rightarrow> MachineSnapshotV1" where
  "snapshot_content m configurationDigest =
     \<lparr>ms_Version = MachineSnapshotVersionV1, ms_ConfigurationDigest = configurationDigest,
      ms_Connection = m_connection m, ms_Platform = snapshotEnvelope (m_platform m),
      ms_Worker = snapshotEnvelope (m_worker m), ms_Hello = when_valid HelloV1_Validate (m_hello m),
      ms_Challenge = when_valid ChallengeV1_Validate (m_challenge m), ms_CapabilityDigest = m_capabilityDigest m,
      ms_Manifest = when_valid CapabilityManifestV1_Validate (m_manifest m),
      ms_Attempt = \<lparr>mt_Summary = currentAttemptSummary m, mt_Platform = snapshotAttemptDirection (ar_platform (m_attempt m)),
        mt_Worker = snapshotAttemptDirection (ar_worker (m_attempt m)),
        mt_PendingWorkerTerminal = map_option snapshot_pending (ar_pendingWorkerTerminal (m_attempt m))\<rparr>,
      ms_DrainRevision = m_drainRevision m, ms_Revoke = when_valid RevokeV1_Validate (m_revoke m),
      ms_Reconnect = (if m_reconnecting m \<or> m_drainReenvelopePending m then Some (snapshot_reconnect m) else None),
      ms_Digest = []\<rparr>"

definition durable_snapshot :: "ConformanceMachine \<Rightarrow> fault + MachineSnapshotV1" where
  "durable_snapshot m =
     (case machineConfigDigestV1 (m_config m) of
        Inl e \<Rightarrow> Inl e
      | Inr configurationDigest \<Rightarrow>
          let s = snapshot_content m configurationDigest
          in case MachineSnapshotDigestV1 s of Inl e \<Rightarrow> Inl e | Inr digest \<Rightarrow> Inr (s\<lparr>ms_Digest := digest\<rparr>))"

definition Machine_Snapshot :: "ConformanceMachine option \<Rightarrow> fault + MachineSnapshotV1" where
  "Machine_Snapshot machine =
     (case machine of None \<Rightarrow> Inl (protocolError ErrorProtocolViolation) | Some m \<Rightarrow> durable_snapshot m)"

definition restore_pending :: "MachinePendingTerminalSnapshotV1 \<Rightarrow> terminalReplayCommitment" where
  "restore_pending p =
     \<lparr>tc_kind = mp_Kind p, tc_sequence = mp_Sequence p, tc_fingerprint = copy_array (mp_Fingerprint p),
      tc_decision = mp_Decision p, tc_terminal = mp_Terminal p\<rparr>"

definition restore_attempt :: "attemptRecord \<Rightarrow> MachineAttemptSnapshotV1 \<Rightarrow> attemptRecord" where
  "restore_attempt a t =
     (let a = applyAttemptSummary a (mt_Summary t);
          a = a\<lparr>ar_platform := restoreAttemptDirection (mt_Platform t), ar_worker := restoreAttemptDirection (mt_Worker t)\<rparr>
      in case mt_PendingWorkerTerminal t of
           None \<Rightarrow> a | Some p \<Rightarrow> a\<lparr>ar_pendingWorkerTerminal := Some (restore_pending p)\<rparr>)"

definition restore_reconnect :: "ConformanceMachine \<Rightarrow> ConnectionState \<Rightarrow> MachineReconnectStateV1 \<Rightarrow> ConformanceMachine" where
  "restore_reconnect m connection r =
     m\<lparr>m_reconnecting := (connection \<noteq> ConnectionDraining), m_drainReenvelopePending := (connection = ConnectionDraining),
       m_reconnectTarget := mr_Target r, m_previousConnectionGeneration := mr_PreviousConnectionGeneration r,
       m_reconnectWatermarks := mr_Watermarks r, m_reconnectAttempt := mr_Attempt r,
       m_reconnectClaim := (case mr_Claim r of None \<Rightarrow> m_reconnectClaim m | Some claim \<Rightarrow> claim)\<rparr>"

definition restored_machine :: "ConformanceMachine \<Rightarrow> MachineSnapshotV1 \<Rightarrow> ConformanceMachine" where
  "restored_machine m s =
     (let m = m\<lparr>m_connection := ms_Connection s, m_platform := restoreEnvelope (ms_Platform s),
            m_worker := restoreEnvelope (ms_Worker s),
            m_hello := (case ms_Hello s of None \<Rightarrow> m_hello m | Some hello \<Rightarrow> hello),
            m_challenge := (case ms_Challenge s of None \<Rightarrow> m_challenge m | Some challenge \<Rightarrow> challenge),
            m_capabilityDigest := ms_CapabilityDigest s,
            m_manifest := (case ms_Manifest s of None \<Rightarrow> m_manifest m | Some manifest \<Rightarrow> manifest),
            m_attempt := restore_attempt (m_attempt m) (ms_Attempt s),
            m_drainRevision := ms_DrainRevision s,
            m_revoke := (case ms_Revoke s of None \<Rightarrow> m_revoke m | Some v \<Rightarrow> v)\<rparr>
      in case ms_Reconnect s of None \<Rightarrow> m | Some r \<Rightarrow> restore_reconnect m (ms_Connection s) r)"

definition RestoreConformanceMachine :: "MachineConfig \<Rightarrow> MachineSnapshotV1 \<Rightarrow> fault + ConformanceMachine" where
  "RestoreConformanceMachine config s =
     (if MachineSnapshotV1_Validate s \<noteq> None then Inl (protocolError ErrorConflict)
      else if machineConfigDigestV1 config \<noteq> Inr (ms_ConfigurationDigest s) then Inl (protocolError ErrorUnauthorized)
      else case NewConformanceMachine config of
        Inl _ \<Rightarrow> Inl (protocolError ErrorUnauthorized)
      | Inr m \<Rightarrow>
          if validateMachineSnapshotAgainstConfig s (m_config m) \<noteq> None then Inl (protocolError ErrorUnauthorized)
          else let m = restored_machine m s
               in case durable_snapshot m of
                    Inl _ \<Rightarrow> Inl (protocolError ErrorConflict)
                  | Inr restored \<Rightarrow>
                      if ms_Digest restored \<noteq> ms_Digest s then Inl (protocolError ErrorConflict) else Inr m)"

subsection \<open>Replaying a handshake\<close>

text \<open>The envelope fields of a frame literal, and one call of \<open>Accept\<close> that must not fail.\<close>

definition frame_head :: "AuthContextV1 \<Rightarrow> Direction \<Rightarrow> u64 \<Rightarrow> u64 \<Rightarrow> MessageKind \<Rightarrow> FrameV1" where
  "frame_head auth direction sequence ack kind =
     (empty_frame kind)\<lparr>fr_Version := ac_Version auth, fr_MessageID := MessageIDV1 direction sequence,
       fr_WorkerID := ac_WorkerID auth, fr_EnrollmentGeneration := ac_EnrollmentGeneration auth,
       fr_ConnectionGeneration := ac_ConnectionGeneration auth, fr_Sequence := sequence, fr_Ack := ack\<rparr>"

definition own_channel :: "AuthContextV1 \<Rightarrow> int \<Rightarrow> AcceptanceContextV1" where
  "own_channel auth nowUnixMicro = \<lparr>ax_ChannelBinding = ac_ChannelBinding auth, ax_NowUnixMicro = nowUnixMicro\<rparr>"

definition hello_frame :: "AuthContextV1 \<Rightarrow> VersionOfferV1 \<Rightarrow> string \<Rightarrow> FrameV1" where
  "hello_frame auth workerOffer workerNonce =
     (frame_head auth DirectionWorkerToPlatform 1 0 MessageHello)
       \<lparr>fr_Hello := Some \<lparr>he_Offer = workerOffer, he_WorkerNonce = workerNonce\<rparr>\<rparr>"

definition challenge_frame ::
    "AuthContextV1 \<Rightarrow> VersionOfferV1 \<Rightarrow> VersionOfferV1 \<Rightarrow> ProtocolVersion \<Rightarrow> string \<Rightarrow> string \<Rightarrow> FrameV1" where
  "challenge_frame auth workerOffer platformOffer selected workerNonce platformNonce =
     (frame_head auth DirectionPlatformToWorker 1 1 MessageChallenge)
       \<lparr>fr_Challenge := Some \<lparr>ch_WorkerOffer = workerOffer, ch_PlatformOffer = platformOffer,
          ch_SelectedVersion = selected, ch_WorkerNonce = workerNonce, ch_PlatformNonce = platformNonce\<rparr>\<rparr>"

fun accept_each :: "ConformanceMachine \<Rightarrow> AcceptanceContextV1 \<Rightarrow> (Direction \<times> FrameV1) list \<Rightarrow> fault + ConformanceMachine" where
  "accept_each m acceptance [] = Inr m"
| "accept_each m acceptance ((direction, frame) # transitions) =
     (case accept_frame m direction frame acceptance of
        (_, Some _) \<Rightarrow> Inl (protocolError ErrorUnauthorized)
      | (m', None) \<Rightarrow> accept_each m' acceptance transitions)"

definition BuildInitialAttachSnapshotV1 :: "MachineConfig \<Rightarrow> FrameV1 \<Rightarrow> FrameV1 \<Rightarrow> fault + MachineSnapshotV1" where
  "BuildInitialAttachSnapshotV1 config signedAttach accepted =
     (case fr_Attach signedAttach of
        None \<Rightarrow> Inl (protocolError ErrorUnauthorized)
      | Some attach \<Rightarrow>
          if fr_Kind signedAttach \<noteq> MessageAttach \<or> fr_Kind accepted \<noteq> MessageAttachAccepted \<or>
             fr_AttachAccepted accepted = None
          then Inl (protocolError ErrorUnauthorized)
          else case NewConformanceMachine config of
            Inl _ \<Rightarrow> Inl (protocolError ErrorUnauthorized)
          | Inr machine \<Rightarrow>
              let auth = cf_Auth config;
                  hello = hello_frame auth (at_WorkerOffer attach) (at_WorkerNonce attach);
                  challenge = challenge_frame auth (at_WorkerOffer attach) (at_PlatformOffer attach)
                    (at_SelectedVersion attach) (at_WorkerNonce attach) (at_PlatformNonce attach)
              in case accept_each machine (own_channel auth 1)
                        [(DirectionWorkerToPlatform, hello), (DirectionPlatformToWorker, challenge),
                         (DirectionWorkerToPlatform, signedAttach), (DirectionPlatformToWorker, accepted)] of
                   Inl e \<Rightarrow> Inl e
                 | Inr m \<Rightarrow>
                     if m_connection m \<noteq> ConnectionAttached then Inl (protocolError ErrorConflict)
                     else durable_snapshot m)"

definition reconnect_claim :: "ReconnectV1 \<Rightarrow> ReconnectSnapshotV1" where
  "reconnect_claim x = snapshot_of (rc_PreviousConnectionGeneration x) (rc_PreviousWatermarks x)
     (rc_AttemptSummary x) (rc_PendingTerminalReplay x)"

definition reconnect_negotiation :: "ReconnectV1 \<Rightarrow> ReconnectNegotiationV1" where
  "reconnect_negotiation x =
     \<lparr>rn_WorkerOffer = rc_WorkerOffer x, rn_PlatformOffer = rc_PlatformOffer x,
      rn_SelectedVersion = rc_SelectedVersion x, rn_WorkerNonce = rc_WorkerNonce x,
      rn_PlatformNonce = rc_PlatformNonce x, rn_CapabilityDigest = rc_CapabilityDigest x\<rparr>"

definition accepted_frame :: "AuthContextV1 \<Rightarrow> ReconnectAcceptedV1 \<Rightarrow> FrameV1" where
  "accepted_frame auth payload =
     (frame_head auth DirectionPlatformToWorker 2 2 MessageReconnectAccepted)\<lparr>fr_ReconnectAccepted := Some payload\<rparr>"

definition reconnect_handshake :: "AuthContextV1 \<Rightarrow> ReconnectV1 \<Rightarrow> FrameV1 \<Rightarrow> (Direction \<times> FrameV1) list" where
  "reconnect_handshake auth x signedReconnect =
     [(DirectionWorkerToPlatform, hello_frame auth (rc_WorkerOffer x) (rc_WorkerNonce x)),
      (DirectionPlatformToWorker, challenge_frame auth (rc_WorkerOffer x) (rc_PlatformOffer x) (rc_SelectedVersion x)
         (rc_WorkerNonce x) (rc_PlatformNonce x)),
      (DirectionWorkerToPlatform, signedReconnect)]"

definition BuildReconnectAcceptedSnapshotV1 ::
    "MachineConfig \<Rightarrow> MachineSnapshotV1 \<Rightarrow> AuthContextV1 \<Rightarrow> FrameV1 \<Rightarrow> fault + (FrameV1 \<times> MachineSnapshotV1)" where
  "BuildReconnectAcceptedSnapshotV1 previousConfig previousSnapshot nextAuth signedReconnect =
     (let unauthorized = Inl (protocolError ErrorUnauthorized)
      in case fr_Reconnect signedReconnect of
        None \<Rightarrow> unauthorized
      | Some x \<Rightarrow>
          if fr_Kind signedReconnect \<noteq> MessageReconnect then unauthorized
          else case RestoreConformanceMachine previousConfig previousSnapshot of
            Inl _ \<Rightarrow> unauthorized
          | Inr machine \<Rightarrow>
              (case BeginReconnect (Some machine) nextAuth of
                 (Some m, Inr authoritative) \<Rightarrow>
                   (case accept_each m (own_channel nextAuth 1) (reconnect_handshake nextAuth x signedReconnect) of
                      Inl e \<Rightarrow> Inl e
                    | Inr m \<Rightarrow>
                        (case BuildReconnectAcceptedV1 authoritative (reconnect_claim x) (reconnect_negotiation x) of
                           Inl _ \<Rightarrow> unauthorized
                         | Inr payload \<Rightarrow>
                             let accepted = accepted_frame nextAuth payload
                             in (case accept_frame m DirectionPlatformToWorker accepted (own_channel nextAuth 1) of
                                   (_, Some _) \<Rightarrow> unauthorized
                                 | (m, None) \<Rightarrow>
                                     (case durable_snapshot m of
                                        Inl _ \<Rightarrow> Inl (protocolError ErrorConflict)
                                      | Inr post \<Rightarrow>
                                          if ms_Connection post \<noteq> ConnectionAttached then Inl (protocolError ErrorConflict)
                                          else Inr (accepted, post)))))
               | _ \<Rightarrow> unauthorized))"

definition replay_refused :: "MachineSnapshotV1 \<Rightarrow> ReconnectV1 \<Rightarrow> MachineReconnectStateV1 \<Rightarrow> bool" where
  "replay_refused post x r =
     (ReconnectSnapshotV1_Validate (reconnect_claim x) \<noteq> None \<or>
      (case mr_Claim r of None \<Rightarrow> True | Some claim \<Rightarrow> rs_Digest (reconnect_claim x) \<noteq> rs_Digest claim) \<or>
      ms_Hello post = None \<or>
      (case ms_Challenge post of
         None \<Rightarrow> True
       | Some challenge \<Rightarrow>
           \<not> negotiationMatchesChallenge (rc_WorkerOffer x) (rc_PlatformOffer x) (rc_SelectedVersion x)
               (rc_WorkerNonce x) (rc_PlatformNonce x) challenge) \<or>
      rc_CapabilityDigest x \<noteq> ms_CapabilityDigest post)"

definition ReplayReconnectAcceptedV1 :: "MachineConfig \<Rightarrow> MachineSnapshotV1 \<Rightarrow> FrameV1 \<Rightarrow> fault + FrameV1" where
  "ReplayReconnectAcceptedV1 config post signedReconnect =
     (let unauthorized = Inl (protocolError ErrorUnauthorized)
      in case RestoreConformanceMachine config post of
        Inl _ \<Rightarrow> unauthorized
      | Inr machine \<Rightarrow>
          (case (ms_Reconnect post, fr_Reconnect signedReconnect) of
             (Some r, Some x) \<Rightarrow>
               if ms_Connection post \<noteq> ConnectionAttached \<or> mr_Claim r = None \<or>
                  fr_Kind signedReconnect \<noteq> MessageReconnect \<or>
                  VerifyReconnectV1 (cf_Auth config) signedReconnect \<noteq> None \<or> replay_refused post x r
               then unauthorized
               else (case BuildReconnectAcceptedV1
                            (snapshot_of (mr_PreviousConnectionGeneration r) (mr_Watermarks r) (mr_Attempt r) None)
                            (reconnect_claim x) (reconnect_negotiation x) of
                       Inl _ \<Rightarrow> unauthorized
                     | Inr payload \<Rightarrow>
                         let accepted = accepted_frame (cf_Auth config) payload
                         in (case accept_frame machine DirectionPlatformToWorker accepted (own_channel (cf_Auth config) 1) of
                               (_, Some _) \<Rightarrow> unauthorized
                             | (m, None) \<Rightarrow>
                                 (case durable_snapshot m of
                                    Inl _ \<Rightarrow> Inl (protocolError ErrorConflict)
                                  | Inr replayed \<Rightarrow>
                                      if ms_Digest replayed \<noteq> ms_Digest post then Inl (protocolError ErrorConflict)
                                      else Inr accepted)))
           | _ \<Rightarrow> unauthorized))"

subsection \<open>The reducers of a store\<close>

definition ApplyMachineFrameV1 ::
    "MachineConfig \<Rightarrow> MachineSnapshotV1 \<Rightarrow> Direction \<Rightarrow> FrameV1 \<Rightarrow> int \<Rightarrow> fault + MachineSnapshotV1" where
  "ApplyMachineFrameV1 config snapshot direction frame nowUnixMicro =
     (case RestoreConformanceMachine config snapshot of
        Inl e \<Rightarrow> Inl e
      | Inr machine \<Rightarrow>
          (case accept_frame machine direction frame (own_channel (cf_Auth config) nowUnixMicro) of
             (_, Some e) \<Rightarrow> Inl e
           | (m, None) \<Rightarrow> durable_snapshot m))"

text \<open>The common tail of the builders: apply the new platform frame and take the snapshot.\<close>

definition commit_frame :: "ConformanceMachine \<Rightarrow> FrameV1 \<Rightarrow> AcceptanceContextV1 \<Rightarrow> fault + (FrameV1 \<times> MachineSnapshotV1)" where
  "commit_frame machine frame acceptance =
     (if FrameV1_Validate frame \<noteq> None then Inl (protocolError ErrorConflict)
      else case accept_frame machine DirectionPlatformToWorker frame acceptance of
        (_, Some _) \<Rightarrow> Inl (protocolError ErrorConflict)
      | (m, None) \<Rightarrow>
          (case durable_snapshot m of
             Inl _ \<Rightarrow> Inl (protocolError ErrorConflict)
           | Inr post \<Rightarrow> Inr (frame, post)))"

definition next_platform_frame :: "MachineConfig \<Rightarrow> ConformanceMachine \<Rightarrow> MessageKind \<Rightarrow> FrameV1" where
  "next_platform_frame config m kind =
     frame_head (cf_Auth config) DirectionPlatformToWorker (sq_sequence (m_platform m) + 1) (sq_sequence (m_worker m)) kind"

definition last_platform_frame :: "MachineConfig \<Rightarrow> ConformanceMachine \<Rightarrow> MessageKind \<Rightarrow> FrameV1" where
  "last_platform_frame config m kind =
     frame_head (cf_Auth config) DirectionPlatformToWorker (sq_sequence (m_platform m)) (sq_ack (m_platform m)) kind"

definition opaqueLeaseFenceTokenV1 :: "AuthContextV1 \<Rightarrow> LeaseOfferAuthorityV1 \<Rightarrow> string" where
  "opaqueLeaseFenceTokenV1 auth authority =
     hex_encode (sha256 (machineFenceDomainV1 @
       concat (map (\<lambda>value. be_bytes 8 (of_nat (length value) :: u64) @ value)
         [ac_TenantID auth, ac_OwnerUserID auth, ac_WorkerID auth,
          lw_RunID authority, lw_AttemptID authority, lw_LeaseID authority]) @
       be_bytes 8 (lw_LeaseGeneration authority)))"

definition BuildLeaseOfferTransitionV1 ::
    "MachineConfig \<Rightarrow> MachineSnapshotV1 \<Rightarrow> LeaseOfferAuthorityV1 \<Rightarrow> fault + (FrameV1 \<times> MachineSnapshotV1)" where
  "BuildLeaseOfferTransitionV1 config snapshot authority =
     (case RestoreConformanceMachine config snapshot of
        Inl _ \<Rightarrow> Inl (protocolError ErrorConflict)
      | Inr machine \<Rightarrow>
          if m_connection machine \<noteq> ConnectionReady \<or> ar_state (m_attempt machine) \<noteq> AttemptIdle \<or>
             lw_NowUnixMicro authority \<le> 0 \<or> lw_ExpiresAtUnixMicro authority \<le> lw_NowUnixMicro authority \<or>
             sq_sequence (m_platform machine) = MaxUint64 \<or> aq_sequence (ar_platform (m_attempt machine)) = MaxUint64
          then Inl (protocolError ErrorConflict)
          else let binding = \<lparr>ab_RunID = lw_RunID authority, ab_AttemptID = lw_AttemptID authority,
                     ab_LeaseID = lw_LeaseID authority, ab_LeaseGeneration = lw_LeaseGeneration authority,
                     ab_FenceToken = opaqueLeaseFenceTokenV1 (cf_Auth config) authority,
                     ab_ExpiresAtUnixMicro = lw_ExpiresAtUnixMicro authority,
                     ab_ContextDigest = lw_ContextDigest authority,
                     ab_CapabilityDigest = m_capabilityDigest machine, ab_PolicyDigest = lw_PolicyDigest authority\<rparr>
               in commit_frame machine
                    ((next_platform_frame config machine MessageLeaseOffer)
                       \<lparr>fr_LeaseOffer := Some \<lparr>lo_Binding = binding,
                          lo_AttemptSequence = aq_sequence (ar_platform (m_attempt machine)) + 1\<rparr>\<rparr>)
                    (own_channel (cf_Auth config) (lw_NowUnixMicro authority)))"

definition attemptSequence :: "FrameV1 \<Rightarrow> u64" where
  "attemptSequence frame = (case attemptPayload frame of None \<Rightarrow> 0 | Some (_, sequence) \<Rightarrow> sequence)"

definition exactPersistedPlatformAttemptFrame :: "ConformanceMachine \<Rightarrow> FrameV1 \<Rightarrow> FrameV1 option" where
  "exactPersistedPlatformAttemptFrame m frame =
     (if FrameV1_Validate frame \<noteq> None \<or> fr_Sequence frame = 0 \<or>
         sq_fingerprint (m_platform m) \<noteq> frameFingerprint frame
      then None
      else case map_of (aq_fingerprints (ar_platform (m_attempt m))) (attemptSequence frame) of
        None \<Rightarrow> None
      | Some fingerprint \<Rightarrow> if fingerprint \<noteq> attemptFingerprint frame then None else Some frame)"

text \<open>The answer to a retry: the persisted frame with the snapshot unchanged.\<close>

definition exact_retry :: "FrameV1 option \<Rightarrow> MachineSnapshotV1 \<Rightarrow> fault + (FrameV1 \<times> MachineSnapshotV1)" where
  "exact_retry persisted snapshot =
     (case persisted of None \<Rightarrow> Inl (protocolError ErrorConflict) | Some frame \<Rightarrow> Inr (frame, snapshot))"

definition cancel_payload :: "attemptRecord \<Rightarrow> u64 \<Rightarrow> u64 \<Rightarrow> CancelCode \<Rightarrow> CancelV1" where
  "cancel_payload a sequence revision code =
     \<lparr>cn_Binding = ar_binding a, cn_AttemptSequence = sequence, cn_CancelRevision = revision, cn_Code = code\<rparr>"

definition exactPersistedCancelFrame :: "MachineConfig \<Rightarrow> ConformanceMachine \<Rightarrow> FrameV1 option" where
  "exactPersistedCancelFrame config m =
     (let a = m_attempt m
      in exactPersistedPlatformAttemptFrame m ((last_platform_frame config m MessageCancel)
           \<lparr>fr_Cancel := Some (cancel_payload a (aq_sequence (ar_platform a)) (ar_cancelRevision a) (ar_cancelCode a))\<rparr>))"

definition BuildCancelTransitionV1 ::
    "MachineConfig \<Rightarrow> MachineSnapshotV1 \<Rightarrow> CancelAuthorityV1 \<Rightarrow> fault + (FrameV1 \<times> MachineSnapshotV1)" where
  "BuildCancelTransitionV1 config snapshot authority =
     (case RestoreConformanceMachine config snapshot of
        Inl _ \<Rightarrow> Inl (protocolError ErrorConflict)
      | Inr machine \<Rightarrow>
          let a = m_attempt machine
          in if cw_Revision authority \<noteq> 1 \<or>
                cw_Code authority \<noteq> CancelRequested \<and> cw_Code authority \<noteq> CancelFenced \<or>
                cw_NowUnixMicro authority \<le> 0 \<or> sq_sequence (m_platform machine) = MaxUint64 \<or>
                aq_sequence (ar_platform a) = MaxUint64
             then Inl (protocolError ErrorConflict)
             else if ar_cancelRevision a \<noteq> 0 then
               (if ar_cancelRevision a \<noteq> cw_Revision authority \<or> ar_cancelCode a \<noteq> cw_Code authority
                then Inl (protocolError ErrorConflict)
                else exact_retry (exactPersistedCancelFrame config machine) snapshot)
             else commit_frame machine
                    ((next_platform_frame config machine MessageCancel)
                       \<lparr>fr_Cancel := Some (cancel_payload a (aq_sequence (ar_platform a) + 1)
                          (cw_Revision authority) (cw_Code authority))\<rparr>)
                    (own_channel (cf_Auth config) (cw_NowUnixMicro authority)))"

definition exactPersistedLeaseAcceptedFrame :: "MachineConfig \<Rightarrow> ConformanceMachine \<Rightarrow> FrameV1 option" where
  "exactPersistedLeaseAcceptedFrame config m =
     (let a = m_attempt m
      in exactPersistedPlatformAttemptFrame m ((last_platform_frame config m MessageLeaseAccepted)
           \<lparr>fr_LeaseAccepted := Some \<lparr>la_Binding = ar_binding a, la_AttemptSequence = aq_sequence (ar_platform a)\<rparr>\<rparr>))"

definition BuildLeaseAcceptedTransitionV1 ::
    "MachineConfig \<Rightarrow> MachineSnapshotV1 \<Rightarrow> LeaseAcceptedAuthorityV1 \<Rightarrow> fault + (FrameV1 \<times> MachineSnapshotV1)" where
  "BuildLeaseAcceptedTransitionV1 config snapshot authority =
     (case RestoreConformanceMachine config snapshot of
        Inl _ \<Rightarrow> Inl (protocolError ErrorConflict)
      | Inr machine \<Rightarrow>
          let a = m_attempt machine
          in if aw_NowUnixMicro authority \<le> 0 \<or> sq_sequence (m_platform machine) = MaxUint64 \<or>
                aq_sequence (ar_platform a) = MaxUint64
             then Inl (protocolError ErrorConflict)
             else if ar_state a = AttemptClaimed
             then exact_retry (exactPersistedLeaseAcceptedFrame config machine) snapshot
             else commit_frame machine
                    ((next_platform_frame config machine MessageLeaseAccepted)
                       \<lparr>fr_LeaseAccepted := Some \<lparr>la_Binding = ar_binding a,
                          la_AttemptSequence = aq_sequence (ar_platform a) + 1\<rparr>\<rparr>)
                    (own_channel (cf_Auth config) (aw_NowUnixMicro authority)))"

definition terminal_ack_payload :: "attemptRecord \<Rightarrow> u64 \<Rightarrow> TerminalAckV1" where
  "terminal_ack_payload a sequence =
     \<lparr>ta_Binding = ar_binding a, ta_AttemptSequence = sequence, ta_TerminalSequence = ar_terminalSequence a,
      ta_Status = ar_terminalStatus a, ta_Result = ar_terminalResult a, ta_EvidenceDigest = ar_terminalEvidence a\<rparr>"

definition exactPersistedTerminalAckFrame :: "MachineConfig \<Rightarrow> ConformanceMachine \<Rightarrow> FrameV1 option" where
  "exactPersistedTerminalAckFrame config m =
     (let a = m_attempt m
      in exactPersistedPlatformAttemptFrame m ((last_platform_frame config m MessageTerminalAck)
           \<lparr>fr_TerminalAck := Some (terminal_ack_payload a (aq_sequence (ar_platform a)))\<rparr>))"

definition BuildTerminalAckTransitionV1 ::
    "MachineConfig \<Rightarrow> MachineSnapshotV1 \<Rightarrow> TerminalAckAuthorityV1 \<Rightarrow> fault + (FrameV1 \<times> MachineSnapshotV1)" where
  "BuildTerminalAckTransitionV1 config snapshot authority =
     (case RestoreConformanceMachine config snapshot of
        Inl _ \<Rightarrow> Inl (protocolError ErrorConflict)
      | Inr machine \<Rightarrow>
          let a = m_attempt machine
          in if tw_NowUnixMicro authority \<le> 0 \<or> sq_sequence (m_platform machine) = MaxUint64 \<or>
                aq_sequence (ar_platform a) = MaxUint64
             then Inl (protocolError ErrorConflict)
             else if ar_state a = AttemptTerminalCommitted
             then exact_retry (exactPersistedTerminalAckFrame config machine) snapshot
             else commit_frame machine
                    ((next_platform_frame config machine MessageTerminalAck)
                       \<lparr>fr_TerminalAck := Some (terminal_ack_payload a (aq_sequence (ar_platform a) + 1))\<rparr>)
                    (own_channel (cf_Auth config) (tw_NowUnixMicro authority)))"

definition exactPersistedDrainFrame :: "MachineConfig \<Rightarrow> ConformanceMachine \<Rightarrow> FrameV1 option" where
  "exactPersistedDrainFrame config m =
     (let frame = (last_platform_frame config m MessageDrain)\<lparr>fr_Drain := Some \<lparr>dr_Revision = m_drainRevision m\<rparr>\<rparr>
      in if FrameV1_Validate frame \<noteq> None \<or> fr_Sequence frame = 0 \<or>
            sq_fingerprint (m_platform m) \<noteq> frameFingerprint frame
         then None else Some frame)"

definition BuildDrainTransitionV1 ::
    "MachineConfig \<Rightarrow> MachineSnapshotV1 \<Rightarrow> DrainAuthorityV1 \<Rightarrow> fault + (FrameV1 \<times> MachineSnapshotV1)" where
  "BuildDrainTransitionV1 config snapshot authority =
     (case RestoreConformanceMachine config snapshot of
        Inl _ \<Rightarrow> Inl (protocolError ErrorConflict)
      | Inr machine \<Rightarrow>
          let generation = ac_ConnectionGeneration (cf_Auth config);
              delivered = dw_DeliveredConnectionGeneration authority;
              initial = (m_connection machine = ConnectionReady \<and> delivered = 0);
              reenvelope = (m_connection machine = ConnectionDraining \<and> m_drainRevision machine = dw_Revision authority \<and>
                            0 < delivered \<and> delivered < generation)
          in if dw_Revision authority = 0 \<or> dw_NowUnixMicro authority \<le> 0 \<or> sq_sequence (m_platform machine) = MaxUint64
             then Inl (protocolError ErrorConflict)
             else if m_connection machine = ConnectionDraining \<and> delivered = generation then
               (if m_drainRevision machine \<noteq> dw_Revision authority then Inl (protocolError ErrorConflict)
                else exact_retry (exactPersistedDrainFrame config machine) snapshot)
             else if \<not> initial \<and> \<not> reenvelope then Inl (protocolError ErrorConflict)
             else commit_frame machine
                    ((next_platform_frame config machine MessageDrain)
                       \<lparr>fr_Drain := Some \<lparr>dr_Revision = dw_Revision authority\<rparr>\<rparr>)
                    (own_channel (cf_Auth config) (dw_NowUnixMicro authority)))"

definition snapshot_or_conflict :: "ConformanceMachine \<Rightarrow> fault + MachineSnapshotV1" where
  "snapshot_or_conflict m =
     (case durable_snapshot m of Inl _ \<Rightarrow> Inl (protocolError ErrorConflict) | Inr post \<Rightarrow> Inr post)"

definition RetireCommittedAttemptV1 :: "MachineConfig \<Rightarrow> MachineSnapshotV1 \<Rightarrow> fault + MachineSnapshotV1" where
  "RetireCommittedAttemptV1 config snapshot =
     (case RestoreConformanceMachine config snapshot of
        Inl _ \<Rightarrow> Inl (protocolError ErrorConflict)
      | Inr machine \<Rightarrow>
          if ar_state (m_attempt machine) \<noteq> AttemptTerminalCommitted \<or>
             sq_ack (m_worker machine) < sq_sequence (m_platform machine)
          then Inl (protocolError ErrorConflict)
          else (case erase_committed machine of
                  (_, Some _) \<Rightarrow> Inl (protocolError ErrorConflict)
                | (m, None) \<Rightarrow> snapshot_or_conflict m))"

definition RetirePreClaimCancelledAttemptV1 :: "MachineConfig \<Rightarrow> MachineSnapshotV1 \<Rightarrow> fault + MachineSnapshotV1" where
  "RetirePreClaimCancelledAttemptV1 config snapshot =
     (case RestoreConformanceMachine config snapshot of
        Inl _ \<Rightarrow> Inl (protocolError ErrorConflict)
      | Inr machine \<Rightarrow>
          if ar_state (m_attempt machine) \<noteq> AttemptCancelAcked then Inl (protocolError ErrorConflict)
          else snapshot_or_conflict (machine\<lparr>m_attempt := idle_attempt\<rparr>))"

end
