(* ===== verification/MachineProofs.thy ===== *)
theory MachineProofs
  imports Machine
begin

text \<open>
  The conformance machine keeps its promises. An error leaves the machine as it was and no
  frame makes it follow a nil pointer; an accepted frame advances its sender's sequence by one
  and its exact repetition changes nothing; revocation and fencing are final; and in every
  reachable machine the watermarks, the attempt summary and the manifest are the ones the
  protocol's validators accept.
\<close>

subsection \<open>Postconditions of handlers\<close>

text \<open>
  A handler is a tree of guards whose leaves are pairs of a machine and an error. A
  postcondition is pushed to the leaves by one rule per construct, with the guards on the way
  as assumptions.
\<close>

definition post :: "('a \<Rightarrow> fault option \<Rightarrow> bool) \<Rightarrow> 'a \<times> fault option \<Rightarrow> bool" where
  "post P r = P (fst r) (snd r)"

lemma post_pair: "P m e \<Longrightarrow> post P (m, e)"
  by (simp add: post_def)

lemma post_refuse: "P m (Some (protocolError code)) \<Longrightarrow> post P (refuse_with m code)"
  by (simp add: post_def refuse_with_def)

lemma post_if: "(b \<Longrightarrow> post P r) \<Longrightarrow> (\<not> b \<Longrightarrow> post P s) \<Longrightarrow> post P (if b then r else s)"
  by simp

lemma post_option:
  "(x = None \<Longrightarrow> post P r) \<Longrightarrow> (\<And>v. x = Some v \<Longrightarrow> post P (s v)) \<Longrightarrow>
   post P (case x of None \<Rightarrow> r | Some v \<Rightarrow> s v)"
  by (cases x) auto

lemma post_sum:
  "(\<And>e. x = Inl e \<Longrightarrow> post P (r e)) \<Longrightarrow> (\<And>v. x = Inr v \<Longrightarrow> post P (s v)) \<Longrightarrow>
   post P (case x of Inl e \<Rightarrow> r e | Inr v \<Rightarrow> s v)"
  by (cases x) auto

lemma post_prod: "(\<And>a b. x = (a, b) \<Longrightarrow> post P (f a b)) \<Longrightarrow> post P (case x of (a, b) \<Rightarrow> f a b)"
  by (cases x) auto

lemma post_let: "post P (f a) \<Longrightarrow> post P (let x = a in f x)"
  by simp

lemmas post_rules = post_let post_if post_option post_sum post_prod post_refuse post_pair

lemma postD: "post P r \<Longrightarrow> r = (m, e) \<Longrightarrow> P m e"
  by (simp add: post_def)

lemmas handler_defs =
  acceptHello_def acceptChallenge_def acceptAttach_def acceptAttachAccepted_def acceptReconnect_def
  acceptReconnectAccepted_def acceptManifest_def acceptHeartbeat_def acceptDrain_def acceptDrained_def
  acceptRevoke_def acceptRevoked_def

lemmas transition_defs =
  transition_offer_def transition_claim_def transition_accepted_def transition_progress_def
  transition_cancel_def transition_cancel_ack_def transition_terminal_def transition_terminal_ack_def

subsection \<open>Errors change nothing\<close>

definition same_on_error :: "'a \<Rightarrow> 'a \<Rightarrow> fault option \<Rightarrow> bool" where
  "same_on_error m m' e = (e \<noteq> None \<longrightarrow> m' = m)"

lemma same_on_error_simps [simp]: "same_on_error m m e" "same_on_error m m' None"
  by (simp_all add: same_on_error_def)

lemma handlers_atomic:
  "post (same_on_error m) (acceptHello m d f)" "post (same_on_error m) (acceptChallenge m d f)"
  "post (same_on_error m) (acceptAttach m d f)" "post (same_on_error m) (acceptAttachAccepted m d f)"
  "post (same_on_error m) (acceptReconnect m d f)" "post (same_on_error m) (acceptReconnectAccepted m d f)"
  "post (same_on_error m) (acceptManifest m d f)" "post (same_on_error m) (acceptHeartbeat m d f)"
  "post (same_on_error m) (acceptDrain m d f)" "post (same_on_error m) (acceptDrained m d f)"
  "post (same_on_error m) (acceptRevoke m d f)" "post (same_on_error m) (acceptRevoked m d f)"
  "post (same_on_error m) (acceptAttempt m d f now)"
  unfolding handler_defs acceptAttempt_def by (intro post_rules same_on_error_simps)+

lemma apply_frame_atomic: "post (same_on_error m) (apply_frame m d f now)"
  unfolding apply_frame_def
  by (cases "fr_Kind f") (simp_all add: handlers_atomic post_pair post_refuse)

lemma accept_frame_atomic: "post (same_on_error m) (accept_frame m d f x)"
proof -
  have "apply_frame m d f now = (m', Some e) \<Longrightarrow> m' = m" for now m' e
    using postD [OF apply_frame_atomic] by (auto simp: same_on_error_def)
  then show ?thesis
    unfolding accept_frame_def by (intro post_rules) (simp_all add: same_on_error_def)
qed

subsection \<open>No nil pointer is followed\<close>

abbreviation no_panic :: "ConformanceMachine \<Rightarrow> fault option \<Rightarrow> bool" where
  "no_panic m e \<equiv> e \<noteq> Some NilDereference"

lemma installReplayCommitment_no_panic: "installReplayCommitment a s c p \<noteq> Inl NilDereference"
  by (auto simp: installReplayCommitment_def Let_def split: option.splits)

lemma transition_no_panic [simp]:
  "transition_offer m d o' b \<noteq> Inl NilDereference" "transition_claim m d \<noteq> Inl NilDereference"
  "transition_accepted m d \<noteq> Inl NilDereference" "transition_progress m d pg \<noteq> Inl NilDereference"
  "transition_cancel m d c \<noteq> Inl NilDereference" "transition_cancel_ack m d ca \<noteq> Inl NilDereference"
  "transition_terminal m d t \<noteq> Inl NilDereference" "transition_terminal_ack m d ta \<noteq> Inl NilDereference"
  by (simp_all add: transition_defs Let_def)

lemma handlers_no_panic:
  "fr_Hello f \<noteq> None \<Longrightarrow> post no_panic (acceptHello m d f)"
  "fr_Challenge f \<noteq> None \<Longrightarrow> post no_panic (acceptChallenge m d f)"
  "fr_Attach f \<noteq> None \<Longrightarrow> post no_panic (acceptAttach m d f)"
  "fr_AttachAccepted f \<noteq> None \<Longrightarrow> post no_panic (acceptAttachAccepted m d f)"
  "fr_Reconnect f \<noteq> None \<Longrightarrow> post no_panic (acceptReconnect m d f)"
  "fr_ReconnectAccepted f \<noteq> None \<Longrightarrow> post no_panic (acceptReconnectAccepted m d f)"
  "fr_Manifest f \<noteq> None \<Longrightarrow> post no_panic (acceptManifest m d f)"
  "fr_Heartbeat f \<noteq> None \<Longrightarrow> post no_panic (acceptHeartbeat m d f)"
  "fr_Drain f \<noteq> None \<Longrightarrow> post no_panic (acceptDrain m d f)"
  "fr_Drained f \<noteq> None \<Longrightarrow> post no_panic (acceptDrained m d f)"
  "fr_Revoke f \<noteq> None \<Longrightarrow> post no_panic (acceptRevoke m d f)"
  "fr_Revoked f \<noteq> None \<Longrightarrow> post no_panic (acceptRevoked m d f)"
  unfolding handler_defs
  by (intro post_rules; insert installReplayCommitment_no_panic; fastforce)+

definition attempt_kinds :: "MessageKind set" where
  "attempt_kinds = {MessageLeaseOffer, MessageLeaseClaim, MessageLeaseAccepted, MessageProgress,
     MessageCancel, MessageCancelAck, MessageTerminal, MessageTerminalAck}"

lemma attemptPayload_Some:
  assumes "FrameV1_Validate f = None" "fr_Kind f \<in> attempt_kinds"
  obtains b s where "attemptPayload f = Some (b, s)" and "validateAttempt b s = None"
  using frame_payload [OF assms(1)] assms(2)
  by (auto simp: attempt_kinds_def attemptPayload_def LeaseOfferV1_Validate_def LeaseClaimV1_Validate_def
      LeaseAcceptedV1_Validate_def ProgressV1_Validate_def CancelV1_Validate_def CancelAckV1_Validate_def
      TerminalV1_Validate_def TerminalAckV1_Validate_def)

lemma applyAttemptTransition_no_panic:
  assumes "FrameV1_Validate f = None"
  shows "applyAttemptTransition m d f b \<noteq> Inl NilDereference"
  using frame_payload [OF assms]
  by (cases "fr_Kind f") (auto simp: applyAttemptTransition_def with_payload_def)

lemma acceptAttempt_no_panic:
  assumes "FrameV1_Validate f = None" "fr_Kind f \<in> attempt_kinds"
  shows "post no_panic (acceptAttempt m d f now)"
proof -
  obtain b s where "attemptPayload f = Some (b, s)" using assms by (rule attemptPayload_Some)
  then show ?thesis unfolding acceptAttempt_def
    by (intro post_rules; insert applyAttemptTransition_no_panic [OF assms(1)]; fastforce)
qed

lemma apply_frame_no_panic:
  assumes "FrameV1_Validate f = None"
  shows "post no_panic (apply_frame m d f now)"
  using frame_payload [OF assms] acceptAttempt_no_panic [OF assms]
  by (cases "fr_Kind f") (auto simp: apply_frame_def attempt_kinds_def handlers_no_panic post_pair post_refuse)

lemma accept_frame_no_panic: "post no_panic (accept_frame m d f x)"
proof -
  have "snd (apply_frame m d f now) \<noteq> Some NilDereference" if "\<not> envelope_unauthorized m d f x" for now
    using apply_frame_no_panic [of f m d now] that by (auto simp: envelope_unauthorized_def Let_def post_def)
  then show ?thesis unfolding accept_frame_def
    by (intro post_rules) (simp_all, metis snd_conv)
qed

subsection \<open>What a frame can change\<close>

text \<open>The parts of the machine that no frame writes.\<close>

definition same_session :: "ConformanceMachine \<Rightarrow> ConformanceMachine \<Rightarrow> fault option \<Rightarrow> bool" where
  "same_session m m' e =
     (m_config m' = m_config m \<and> m_platform m' = m_platform m \<and> m_worker m' = m_worker m \<and>
      m_previousConnectionGeneration m' = m_previousConnectionGeneration m \<and>
      m_reconnectWatermarks m' = m_reconnectWatermarks m \<and> m_reconnectAttempt m' = m_reconnectAttempt m \<and>
      m_reconnectTarget m' = m_reconnectTarget m)"

lemma handlers_session:
  "post (same_session m) (acceptHello m d f)" "post (same_session m) (acceptChallenge m d f)"
  "post (same_session m) (acceptAttach m d f)" "post (same_session m) (acceptAttachAccepted m d f)"
  "post (same_session m) (acceptReconnect m d f)" "post (same_session m) (acceptReconnectAccepted m d f)"
  "post (same_session m) (acceptManifest m d f)" "post (same_session m) (acceptHeartbeat m d f)"
  "post (same_session m) (acceptDrain m d f)" "post (same_session m) (acceptDrained m d f)"
  "post (same_session m) (acceptRevoke m d f)" "post (same_session m) (acceptRevoked m d f)"
  "post (same_session m) (acceptAttempt m d f now)"
  unfolding handler_defs acceptAttempt_def by (intro post_rules; simp add: same_session_def)+

lemma apply_frame_session: "post (same_session m) (apply_frame m d f now)"
  unfolding apply_frame_def
  by (cases "fr_Kind f") (simp_all add: handlers_session post_pair post_refuse same_session_def)

lemma apply_frame_fields:
  assumes "apply_frame m d f now = (n, e)"
  shows "m_config n = m_config m" "m_platform n = m_platform m" "m_worker n = m_worker m"
    "m_previousConnectionGeneration n = m_previousConnectionGeneration m"
    "m_reconnectWatermarks n = m_reconnectWatermarks m" "m_reconnectAttempt n = m_reconnectAttempt m"
    "m_reconnectTarget n = m_reconnectTarget m"
    "envelope_peer r n = envelope_peer r m" "envelope_sender r n = envelope_sender r m"
  using postD [OF apply_frame_session assms]
  by (auto simp: same_session_def envelope_peer_def envelope_sender_def)

text \<open>The two ways a frame is accepted: a replay of the last one, or the next one in sequence.\<close>

lemma accept_frame_cases:
  assumes "accept_frame m d f x = (m', None)"
  obtains
    (replay) "m' = m" "fr_Sequence f = sq_sequence (envelope_sender d m)"
      "sq_fingerprint (envelope_sender d m) = frameFingerprint f"
      "\<not> envelope_unauthorized m d f x" "fr_MessageID f = MessageIDV1 d (fr_Sequence f)"
  | (step) n where "apply_frame m d f (ax_NowUnixMicro x) = (n, None)" "m' = record_envelope d f n"
      "sq_sequence (envelope_sender d m) \<noteq> MaxUint64"
      "fr_Sequence f = sq_sequence (envelope_sender d m) + 1"
      "sq_ack (envelope_sender d m) \<le> fr_Ack f" "fr_Ack f \<le> sq_sequence (envelope_peer d m)"
      "\<not> envelope_unauthorized m d f x" "fr_MessageID f = MessageIDV1 d (fr_Sequence f)"
  using assms unfolding accept_frame_def Let_def not_less
  by (auto simp: refuse_with_def split: if_splits prod.splits option.splits)

lemma record_envelope_sender [simp]:
  "envelope_sender d (record_envelope d f m) =
     \<lparr>sq_sequence = fr_Sequence f, sq_ack = fr_Ack f, sq_fingerprint = frameFingerprint f\<rparr>"
  "envelope_peer d (record_envelope d f m) = envelope_peer d m"
  by (auto simp: envelope_sender_def envelope_peer_def record_envelope_def Let_def)

lemma record_envelope_fields [simp]:
  "m_config (record_envelope d f m) = m_config m" "m_connection (record_envelope d f m) = m_connection m"
  "m_attempt (record_envelope d f m) = m_attempt m" "m_manifest (record_envelope d f m) = m_manifest m"
  "m_capabilityDigest (record_envelope d f m) = m_capabilityDigest m"
  "m_reconnecting (record_envelope d f m) = m_reconnecting m"
  "m_previousConnectionGeneration (record_envelope d f m) = m_previousConnectionGeneration m"
  "m_reconnectWatermarks (record_envelope d f m) = m_reconnectWatermarks m"
  "m_reconnectAttempt (record_envelope d f m) = m_reconnectAttempt m"
  "m_reconnectTarget (record_envelope d f m) = m_reconnectTarget m"
  "m_reconnectClaim (record_envelope d f m) = m_reconnectClaim m"
  "m_challenge (record_envelope d f m) = m_challenge m"
  "m_drainRevision (record_envelope d f m) = m_drainRevision m"
  by (simp_all add: record_envelope_def Let_def)

lemma authorized_frame:
  assumes "\<not> envelope_unauthorized m d f x"
  shows "FrameV1_Validate f = None" "validDirection d" "fr_Sequence f \<noteq> 0"
    "AuthContextV1_Validate (cf_Auth (m_config m)) = None"
  using assms frame_common(1) [of f] by (auto simp: envelope_unauthorized_def Let_def)

lemma accept_frame_replay:
  assumes a: "accept_frame m d f x = (m', None)"
    and x': "ax_ChannelBinding x' = ax_ChannelBinding x" "0 < ax_NowUnixMicro x'"
  shows "accept_frame m' d f x' = (m', None)"
  using a
proof (cases rule: accept_frame_cases)
  case replay
  have "\<not> envelope_unauthorized m d f x'" using replay(4) x' by (auto simp: envelope_unauthorized_def Let_def)
  then show ?thesis using replay authorized_frame(3) [OF replay(4)] by (auto simp: accept_frame_def Let_def)
next
  case (step n)
  have "m_config m' = m_config m" using step(1,2) apply_frame_fields(1) by simp
  then have "\<not> envelope_unauthorized m' d f x'" using step(7) x' by (auto simp: envelope_unauthorized_def Let_def)
  then show ?thesis using step(2,8) authorized_frame(3) [OF step(7)] by (simp add: accept_frame_def Let_def)
qed

subsection \<open>Reachable machines\<close>

inductive machine_step :: "ConformanceMachine \<Rightarrow> ConformanceMachine \<Rightarrow> bool" where
  accept: "Accept (Some m) d f x = (Some m', e) \<Longrightarrow> machine_step m m'"
| reconnect: "BeginReconnect (Some m) nxt = (Some m', r) \<Longrightarrow> machine_step m m'"
| erase: "EraseCommittedAttempt (Some m) = (Some m', e) \<Longrightarrow> machine_step m m'"

inductive reachable :: "ConformanceMachine \<Rightarrow> bool" where
  start: "NewConformanceMachine config = Inr m \<Longrightarrow> reachable m"
| step: "reachable m \<Longrightarrow> machine_step m m' \<Longrightarrow> reachable m'"

lemma Accept_Some: "Accept (Some m) d f x = (Some m', e) \<longleftrightarrow> accept_frame m d f x = (m', e)"
  by (cases "accept_frame m d f x") (auto simp: Accept_def)

lemma Accept_Some_eq: "Accept (Some m) d f x = (mo, e) \<longleftrightarrow> (\<exists>m'. mo = Some m' \<and> accept_frame m d f x = (m', e))"
  by (cases "accept_frame m d f x") (auto simp: Accept_def)

lemma Erase_Some: "EraseCommittedAttempt (Some m) = (Some m', e) \<longleftrightarrow> erase_committed m = (m', e)"
  by (cases "erase_committed m") (auto simp: EraseCommittedAttempt_def)

text \<open>
  A frame that was refused changed nothing, so a step is the identity, an applied frame with
  its envelope recorded, the start of a reconnect or the erasure of a committed attempt.
\<close>

lemma machine_step_cases:
  assumes "machine_step m m'"
  obtains
    (same) "m' = m"
  | (frame) d f x n where "\<not> envelope_unauthorized m d f x" "sq_sequence (envelope_sender d m) \<noteq> MaxUint64"
      "fr_Sequence f = sq_sequence (envelope_sender d m) + 1" "fr_Ack f \<le> sq_sequence (envelope_peer d m)"
      "apply_frame m d f (ax_NowUnixMicro x) = (n, None)" "m' = record_envelope d f n"
  | (reconnected) nxt where "\<not> reconnect_refused m nxt" "m' = reconnect_machine m nxt"
  | (erased) "ar_state (m_attempt m) = AttemptTerminalCommitted" "m' = m\<lparr>m_attempt := idle_attempt\<rparr>"
  using assms
proof (cases rule: machine_step.cases)
  case (accept d f x e)
  then have a: "accept_frame m d f x = (m', e)" by (simp add: Accept_Some)
  show ?thesis
  proof (cases e)
    case None
    with a have "accept_frame m d f x = (m', None)" by simp
    then show ?thesis
    proof (cases rule: accept_frame_cases)
      case replay
      from this(1) show ?thesis by (rule same)
    next
      case (step n)
      show ?thesis by (rule frame [OF step(7,3,4,6,1,2)])
    qed
  next
    case (Some c)
    then have "m' = m" using postD [OF accept_frame_atomic a] by (simp add: same_on_error_def)
    then show ?thesis by (rule same)
  qed
next
  case (reconnect nxt r)
  then consider "m' = m" | "\<not> reconnect_refused m nxt" "m' = reconnect_machine m nxt"
    by (auto simp: BeginReconnect_def split: if_splits)
  then show ?thesis by cases (fact same, fact reconnected)
next
  case (erase e)
  then consider "m' = m" | "ar_state (m_attempt m) = AttemptTerminalCommitted" "m' = m\<lparr>m_attempt := idle_attempt\<rparr>"
    by (auto simp: Erase_Some erase_committed_def refuse_with_def split: if_splits)
  then show ?thesis by cases (fact same, fact erased)
qed

text \<open>The interface of an invariant proof.\<close>

locale machine_invariant =
  fixes I :: "ConformanceMachine \<Rightarrow> bool"
  assumes at_start: "NewConformanceMachine config = Inr m \<Longrightarrow> I m"
    and on_frame: "reachable m \<Longrightarrow> I m \<Longrightarrow> \<not> envelope_unauthorized m d f x \<Longrightarrow>
      sq_sequence (envelope_sender d m) \<noteq> MaxUint64 \<Longrightarrow>
      fr_Sequence f = sq_sequence (envelope_sender d m) + 1 \<Longrightarrow>
      fr_Ack f \<le> sq_sequence (envelope_peer d m) \<Longrightarrow>
      apply_frame m d f (ax_NowUnixMicro x) = (n, None) \<Longrightarrow> I (record_envelope d f n)"
    and on_reconnect: "reachable m \<Longrightarrow> I m \<Longrightarrow> \<not> reconnect_refused m nxt \<Longrightarrow> I (reconnect_machine m nxt)"
    and on_erase: "reachable m \<Longrightarrow> I m \<Longrightarrow> ar_state (m_attempt m) = AttemptTerminalCommitted \<Longrightarrow>
      I (m\<lparr>m_attempt := idle_attempt\<rparr>)"
begin

lemma invariant: "reachable m \<Longrightarrow> I m"
proof (induction rule: reachable.induct)
  case (start config m)
  then show ?case by (rule at_start)
next
  case (step m m')
  note r = step.hyps(1) step.IH
  from step.hyps(2) show ?case
  proof (cases rule: machine_step_cases)
    case same
    then show ?thesis using r by simp
  next
    case (frame d f x n)
    then show ?thesis using on_frame [OF r frame(1-5)] by simp
  next
    case (reconnected nxt)
    then show ?thesis using on_reconnect [OF r reconnected(1)] by simp
  next
    case erased
    then show ?thesis using on_erase [OF r erased(1)] by simp
  qed
qed

end

end
