(* ===== verification/MachineInvariants.thy ===== *)
theory MachineInvariants
  imports MachineProofs
begin

text \<open>
  The conformance machine as a step relation, and the invariants of its reachable states. The
  relation \<open>frame_step\<close> has one rule per way a frame can be applied; the handlers implement
  it, and each invariant is an interpretation of \<open>machine_invariant\<close> whose frame case is an
  inversion of the relation.
\<close>

subsection \<open>The step relation\<close>

definition claim_of :: "ReconnectV1 \<Rightarrow> ReconnectSnapshotV1" where
  "claim_of x = snapshot_of (rc_PreviousConnectionGeneration x) (rc_PreviousWatermarks x)
     (rc_AttemptSummary x) (rc_PendingTerminalReplay x)"

definition authoritative_of :: "ConformanceMachine \<Rightarrow> ReconnectAcceptedV1 \<Rightarrow> ReconnectSnapshotV1" where
  "authoritative_of m x = snapshot_of (m_previousConnectionGeneration m) (ra_AuthoritativeWatermarks x)
     (ra_AuthoritativeAttempt x) (ra_AuthoritativePendingTerminalReplay x)"

inductive frame_step :: "Direction \<Rightarrow> FrameV1 \<Rightarrow> int \<Rightarrow> ConformanceMachine \<Rightarrow> ConformanceMachine \<Rightarrow> bool"
  for d :: Direction and f :: FrameV1 and now :: int where
  hello:
    "fr_Kind f = MessageHello \<Longrightarrow> fr_Hello f = Some x \<Longrightarrow> m_connection m = ConnectionUnattached \<Longrightarrow>
     he_Offer x = cf_WorkerOffer (m_config m) \<Longrightarrow>
     frame_step d f now m (m\<lparr>m_hello := x, m_connection := ConnectionHello\<rparr>)"
| challenge:
    "fr_Kind f = MessageChallenge \<Longrightarrow> fr_Challenge f = Some x \<Longrightarrow> m_connection m = ConnectionHello \<Longrightarrow>
     ch_WorkerOffer x = he_Offer (m_hello m) \<Longrightarrow> ch_PlatformOffer x = cf_PlatformOffer (m_config m) \<Longrightarrow>
     ch_SelectedVersion x = ac_Version (cf_Auth (m_config m)) \<Longrightarrow>
     ch_WorkerNonce x = he_WorkerNonce (m_hello m) \<Longrightarrow>
     frame_step d f now m (m\<lparr>m_challenge := x, m_connection := ConnectionChallenged\<rparr>)"
| attach:
    "fr_Kind f = MessageAttach \<Longrightarrow> fr_Attach f = Some x \<Longrightarrow> m_connection m = ConnectionChallenged \<Longrightarrow>
     \<not> m_reconnecting m \<Longrightarrow> VerifyAttachV1 (cf_Auth (m_config m)) f = None \<Longrightarrow>
     frame_step d f now m
       (m\<lparr>m_capabilityDigest := at_CapabilityDigest x, m_connection := ConnectionAttachPending\<rparr>)"
| attach_accepted:
    "fr_Kind f = MessageAttachAccepted \<Longrightarrow> m_connection m = ConnectionAttachPending \<Longrightarrow>
     frame_step d f now m (m\<lparr>m_connection := ConnectionAttached\<rparr>)"
| reconnect:
    "fr_Kind f = MessageReconnect \<Longrightarrow> fr_Reconnect f = Some x \<Longrightarrow> m_connection m = ConnectionChallenged \<Longrightarrow>
     m_reconnecting m \<Longrightarrow> VerifyReconnectV1 (cf_Auth (m_config m)) f = None \<Longrightarrow>
     snapshot_machine m = Inr authoritative \<Longrightarrow> reconnectClaimsCompatible (claim_of x) authoritative \<Longrightarrow>
     (m_capabilityDigest m = [] \<or> rc_CapabilityDigest x = m_capabilityDigest m) \<Longrightarrow>
     rc_PreviousConnectionGeneration x = m_previousConnectionGeneration m \<Longrightarrow>
     frame_step d f now m (m\<lparr>m_capabilityDigest := rc_CapabilityDigest x, m_reconnectClaim := claim_of x,
       m_connection := ConnectionReconnectPending\<rparr>)"
| reconnect_accepted:
    "fr_Kind f = MessageReconnectAccepted \<Longrightarrow> fr_ReconnectAccepted f = Some x \<Longrightarrow>
     m_connection m = ConnectionReconnectPending \<Longrightarrow>
     BuildReconnectAcceptedV1 (authoritative_of m x) (m_reconnectClaim m) (accepted_negotiation x) = Inr expected \<Longrightarrow>
     sameReconnectAccepted expected x \<Longrightarrow>
     installReplayCommitment (m_attempt m) (authoritative_of m x) (m_reconnectClaim m) (ra_ReplayPlan x) = Inr a \<Longrightarrow>
     frame_step d f now m
       (m\<lparr>m_attempt := applyDiscardTombstone (applyAttemptSummary a (ra_AuthoritativeAttempt x)),
          m_connection := ConnectionAttached\<rparr>)"
| manifest:
    "fr_Kind f = MessageManifest \<Longrightarrow> fr_Manifest f = Some x \<Longrightarrow> m_connection m = ConnectionAttached \<Longrightarrow>
     mf_Digest x = m_capabilityDigest m \<Longrightarrow> cm_WorkerID (mf_Manifest x) = ac_WorkerID (cf_Auth (m_config m)) \<Longrightarrow>
     cm_EnrollmentGeneration (mf_Manifest x) = ac_EnrollmentGeneration (cf_Auth (m_config m)) \<Longrightarrow>
     VerifyManifestV1 (cf_Auth (m_config m)) f = None \<Longrightarrow>
     cm_ProtocolOffer (mf_Manifest x) = cf_WorkerOffer (m_config m) \<Longrightarrow>
     frame_step d f now m
       (if m_reconnecting m
        then m\<lparr>m_manifest := mf_Manifest x, m_connection := m_reconnectTarget m,
               m_drainReenvelopePending := (m_reconnectTarget m = ConnectionDraining), m_reconnecting := False\<rparr>
        else m\<lparr>m_manifest := mf_Manifest x, m_connection := ConnectionReady\<rparr>)"
| observe:
    "fr_Kind f \<in> {MessageHeartbeat, MessageError} \<Longrightarrow> frame_step d f now m m"
| drain:
    "fr_Kind f = MessageDrain \<Longrightarrow> fr_Drain f = Some x \<Longrightarrow>
     m_connection m = ConnectionReady \<or> m_connection m = ConnectionDraining \<and> dr_Revision x = m_drainRevision m \<Longrightarrow>
     frame_step d f now m
       (m\<lparr>m_drainReenvelopePending := False, m_drainRevision := dr_Revision x, m_connection := ConnectionDraining\<rparr>)"
| drained:
    "fr_Kind f = MessageDrained \<Longrightarrow> m_connection m = ConnectionDraining \<Longrightarrow>
     ar_state (m_attempt m) = AttemptIdle \<Longrightarrow> frame_step d f now m (m\<lparr>m_connection := ConnectionDrained\<rparr>)"
| revoke:
    "fr_Kind f = MessageRevoke \<Longrightarrow> fr_Revoke f = Some x \<Longrightarrow> m_connection m \<noteq> ConnectionUnattached \<Longrightarrow>
     m_connection m \<noteq> ConnectionRevoked \<Longrightarrow>
     ac_EnrollmentGeneration (cf_Auth (m_config m)) \<noteq> MaxUint64 \<Longrightarrow>
     ac_ConnectionGeneration (cf_Auth (m_config m)) \<noteq> MaxUint64 \<Longrightarrow>
     rv_NextEnrollmentGeneration x = ac_EnrollmentGeneration (cf_Auth (m_config m)) + 1 \<Longrightarrow>
     rv_NextConnectionGeneration x = ac_ConnectionGeneration (cf_Auth (m_config m)) + 1 \<Longrightarrow>
     frame_step d f now m
       (m\<lparr>m_revoke := x, m_attempt := fence_attempt (m_attempt m), m_connection := ConnectionRevoking\<rparr>)"
| revoked:
    "fr_Kind f = MessageRevoked \<Longrightarrow> m_connection m = ConnectionRevoking \<Longrightarrow>
     frame_step d f now m (m\<lparr>m_connection := ConnectionRevoked\<rparr>)"
| attempt_replay:
    "fr_Kind f \<in> attempt_kinds \<Longrightarrow> attemptPayload f = Some (b, s) \<Longrightarrow>
     s \<le> aq_sequence (attempt_sender d (m_attempt m)) \<Longrightarrow> frame_step d f now m m"
| attempt:
    "fr_Kind f \<in> attempt_kinds \<Longrightarrow> attemptPayload f = Some (b, s) \<Longrightarrow>
     aq_sequence (attempt_sender d (m_attempt m)) \<noteq> MaxUint64 \<Longrightarrow>
     s = aq_sequence (attempt_sender d (m_attempt m)) + 1 \<Longrightarrow>
     ar_state (m_attempt m) = AttemptIdle \<or> b = ar_binding (m_attempt m) \<Longrightarrow>
     ab_CapabilityDigest b = m_capabilityDigest m \<Longrightarrow>
     \<not> attemptRequiresValidLease (fr_Kind f) \<or> now < ab_ExpiresAtUnixMicro b \<Longrightarrow>
     applyAttemptTransition m d f b = Inr a' \<Longrightarrow>
     frame_step d f now m
       (m\<lparr>m_attempt := settle_pending d s (record_attempt_message d s (attemptFingerprint f) a')\<rparr>)"

inductive_cases frame_stepE: "frame_step d f now m n"

text \<open>The handlers implement the relation.\<close>

abbreviation steps :: "Direction \<Rightarrow> FrameV1 \<Rightarrow> int \<Rightarrow> ConformanceMachine \<Rightarrow> ConformanceMachine \<Rightarrow> fault option \<Rightarrow> bool" where
  "steps d f now m m' e \<equiv> e = None \<longrightarrow> frame_step d f now m m'"

lemma drain_fields:
  "\<not> m_drainReenvelopePending m \<Longrightarrow> m\<lparr>m_drainReenvelopePending := False\<rparr> = m"
  by (cases m) simp

lemma handshake_steps:
  "fr_Kind f = MessageHello \<Longrightarrow> post (steps d f now m) (acceptHello m d f)"
  "fr_Kind f = MessageChallenge \<Longrightarrow> post (steps d f now m) (acceptChallenge m d f)"
  "fr_Kind f = MessageAttach \<Longrightarrow> post (steps d f now m) (acceptAttach m d f)"
  "fr_Kind f = MessageAttachAccepted \<Longrightarrow> post (steps d f now m) (acceptAttachAccepted m d f)"
  unfolding handler_defs
  by (intro post_rules; simp add: hello challenge attach attach_accepted)+

lemma acceptReconnect_steps:
  "fr_Kind f = MessageReconnect \<Longrightarrow> post (steps d f now m) (acceptReconnect m d f)"
  unfolding acceptReconnect_def claim_of_def [symmetric]
  by (intro post_rules) (auto intro!: frame_step.reconnect)

lemma acceptReconnectAccepted_steps:
  "fr_Kind f = MessageReconnectAccepted \<Longrightarrow> post (steps d f now m) (acceptReconnectAccepted m d f)"
  unfolding acceptReconnectAccepted_def authoritative_of_def [symmetric]
  by (intro post_rules) (auto intro!: frame_step.reconnect_accepted)

lemma acceptManifest_steps:
  "fr_Kind f = MessageManifest \<Longrightarrow> post (steps d f now m) (acceptManifest m d f)"
  unfolding acceptManifest_def
  by (intro post_rules; use frame_step.manifest [of f _ m d now] in \<open>simp\<close>)

lemma acceptDrain_steps: "fr_Kind f = MessageDrain \<Longrightarrow> post (steps d f now m) (acceptDrain m d f)"
  unfolding acceptDrain_def
  by (intro post_rules; use frame_step.drain [of f _ m d now] drain_fields [of m] in simp)

lemma session_steps:
  "fr_Kind f = MessageHeartbeat \<Longrightarrow> post (steps d f now m) (acceptHeartbeat m d f)"
  "fr_Kind f = MessageDrained \<Longrightarrow> post (steps d f now m) (acceptDrained m d f)"
  "fr_Kind f = MessageRevoke \<Longrightarrow> post (steps d f now m) (acceptRevoke m d f)"
  "fr_Kind f = MessageRevoked \<Longrightarrow> post (steps d f now m) (acceptRevoked m d f)"
  unfolding handler_defs
  by (intro post_rules; simp add: observe drained revoke revoked)+

lemma acceptAttempt_steps:
  "fr_Kind f \<in> attempt_kinds \<Longrightarrow> post (steps d f now m) (acceptAttempt m d f now)"
  unfolding acceptAttempt_def
  by (intro post_rules; use frame_step.attempt_replay [of f _ _ d m now] in \<open>auto intro!: frame_step.attempt\<close>)

lemma apply_frame_steps: "post (steps d f now m) (apply_frame m d f now)"
  unfolding apply_frame_def
  by (cases "fr_Kind f")
    (simp_all add: handshake_steps acceptReconnect_steps acceptReconnectAccepted_steps acceptManifest_steps
      acceptDrain_steps session_steps acceptAttempt_steps attempt_kinds_def post_pair post_refuse observe)

lemma apply_frame_step: "apply_frame m d f now = (n, None) \<Longrightarrow> frame_step d f now m n"
  using postD [OF apply_frame_steps] by blast

subsection \<open>The authenticated scope\<close>

definition auth_ok :: "ConformanceMachine \<Rightarrow> bool" where
  "auth_ok m = (AuthContextV1_Validate (cf_Auth (m_config m)) = None)"

lemma AuthContextV1_generation: "AuthContextV1_Validate a = None \<Longrightarrow> ac_ConnectionGeneration a \<noteq> 0"
  by (simp add: AuthContextV1_Validate_def)

interpretation auth_inv: machine_invariant auth_ok
proof
  show "auth_ok m" if "NewConformanceMachine config = Inr m" for config m
    using that by (auto simp: NewConformanceMachine_def auth_ok_def new_machine_def split: if_splits)
qed (auto simp: auth_ok_def reconnect_refused_def reconnect_machine_def Let_def dest: apply_frame_fields(1))

subsection \<open>Watermarks\<close>

definition watermarks_ok :: "ConformanceMachine \<Rightarrow> bool" where
  "watermarks_ok m = (ConnectionWatermarksV1_Validate (currentWatermarks m) = None)"

lemma watermarks_ok_iff:
  "watermarks_ok m \<longleftrightarrow> sq_ack (m_platform m) \<le> sq_sequence (m_worker m) \<and> sq_ack (m_worker m) \<le> sq_sequence (m_platform m)"
  by (auto simp: watermarks_ok_def currentWatermarks_def ConnectionWatermarksV1_Validate_def not_less)

lemma word_le_next: "s \<noteq> MaxUint64 \<Longrightarrow> a \<le> s \<Longrightarrow> a \<le> s + (1 :: u64)"
  using unat_u64_less [of s] by (auto simp: word_le_nat_alt word_unat_eq_iff unat_word_ariths)

lemma watermarks_step:
  assumes w: "watermarks_ok m" and d: "validDirection d"
    and s: "sq_sequence (envelope_sender d m) \<noteq> MaxUint64" "fr_Sequence f = sq_sequence (envelope_sender d m) + 1"
    and a: "fr_Ack f \<le> sq_sequence (envelope_peer d m)" and n: "apply_frame m d f now = (n, None)"
  shows "watermarks_ok (record_envelope d f n)"
  using w s a apply_frame_fields(2,3) [OF n]
  by (auto simp: watermarks_ok_iff record_envelope_def envelope_sender_def envelope_peer_def Let_def
      intro: word_le_next split: if_splits)

interpretation watermark_inv: machine_invariant watermarks_ok
proof
  show "watermarks_ok m" if "NewConformanceMachine config = Inr m" for config m
    using that by (auto simp: NewConformanceMachine_def new_machine_def watermarks_ok_iff zero_sequence_def split: if_splits)
next
  show "watermarks_ok (record_envelope d f n)"
    if "watermarks_ok m" "\<not> envelope_unauthorized m d f x" "sq_sequence (envelope_sender d m) \<noteq> MaxUint64"
      "fr_Sequence f = sq_sequence (envelope_sender d m) + 1" "fr_Ack f \<le> sq_sequence (envelope_peer d m)"
      "apply_frame m d f (ax_NowUnixMicro x) = (n, None)" for m d f x n
    using that authorized_frame(2) watermarks_step by blast
qed (auto simp: watermarks_ok_iff reconnect_machine_def zero_sequence_def)

subsection \<open>Draining\<close>

definition drained_idle :: "ConformanceMachine \<Rightarrow> bool" where
  "drained_idle m =
     ((m_reconnecting m \<longrightarrow> m_reconnectTarget m \<in> {ConnectionReady, ConnectionDraining}) \<and>
      (m_connection m = ConnectionDrained \<longrightarrow> ar_state (m_attempt m) = AttemptIdle))"

lemma idle_transition:
  "applyAttemptTransition m d f b = Inr a \<Longrightarrow> ar_state (m_attempt m) = AttemptIdle \<Longrightarrow> m_connection m = ConnectionReady"
  by (auto simp: applyAttemptTransition_def with_payload_def transition_defs Let_def
      split: MessageKind.splits option.splits if_splits)

lemma drained_idle_step:
  assumes "frame_step d f now m n" "drained_idle m"
  shows "drained_idle n"
  using assms
  by (cases rule: frame_step.cases) (auto simp: drained_idle_def dest: idle_transition)

lemma drained_idle_record [simp]: "drained_idle (record_envelope d f n) = drained_idle n"
  by (simp add: drained_idle_def)

interpretation drained_inv: machine_invariant drained_idle
proof
  show "drained_idle m" if "NewConformanceMachine config = Inr m" for config m
    using that by (auto simp: NewConformanceMachine_def new_machine_def drained_idle_def split: if_splits)
next
  show "drained_idle (record_envelope d f n)"
    if "drained_idle m" "apply_frame m d f (ax_NowUnixMicro x) = (n, None)" for m d f x n
    using that drained_idle_step [OF apply_frame_step] by simp
qed (auto simp: drained_idle_def reconnect_machine_def reconnect_refused_def idle_attempt_def Let_def)

subsection \<open>The manifest in force\<close>

definition in_session :: "ConnectionState set" where
  "in_session = {ConnectionReady, ConnectionDraining, ConnectionDrained}"

text \<open>
  In a session the manifest is one the worker signed for this connection with its enrolled
  key, its digest is the capability digest that was signed when the worker attached, and it
  names the enrolled worker and generation.
\<close>

definition manifest_ok :: "ConformanceMachine \<Rightarrow> bool" where
  "manifest_ok m =
     (m_connection m \<in> in_session \<longrightarrow>
        ManifestDigestV1 (m_manifest m) = Inr (m_capabilityDigest m) \<and>
        cm_WorkerID (m_manifest m) = ac_WorkerID (cf_Auth (m_config m)) \<and>
        cm_EnrollmentGeneration (m_manifest m) = ac_EnrollmentGeneration (cf_Auth (m_config m)) \<and>
        (\<exists>f x. fr_Manifest f = Some x \<and> mf_Manifest x = m_manifest m \<and>
               VerifyManifestV1 (cf_Auth (m_config m)) f = None))"

lemma manifest_ok_step:
  assumes "frame_step d f now m n" "manifest_ok m"
  shows "manifest_ok n"
  using assms(1)
proof (cases rule: frame_step.cases)
  case (manifest x)
  moreover have "ManifestDigestV1 (mf_Manifest x) = Inr (mf_Digest x)"
    using manifest VerifyManifestV1_digest by blast
  ultimately show ?thesis unfolding manifest_ok_def by auto
qed (use assms(2) in \<open>auto simp: manifest_ok_def in_session_def\<close>)

lemma manifest_ok_record [simp]: "manifest_ok (record_envelope d f n) = manifest_ok n"
  by (simp add: manifest_ok_def)

interpretation manifest_inv: machine_invariant manifest_ok
proof
  show "manifest_ok m" if "NewConformanceMachine config = Inr m" for config m
    using that by (auto simp: NewConformanceMachine_def new_machine_def manifest_ok_def in_session_def split: if_splits)
next
  show "manifest_ok (record_envelope d f n)"
    if "manifest_ok m" "apply_frame m d f (ax_NowUnixMicro x) = (n, None)" for m d f x n
    using that manifest_ok_step [OF apply_frame_step] by simp
qed (auto simp: manifest_ok_def in_session_def reconnect_machine_def)

text \<open>Before that, the worker proved possession of its key for this connection.\<close>

definition proof_needed :: "ConnectionState set" where
  "proof_needed = {ConnectionAttachPending, ConnectionReconnectPending, ConnectionAttached,
     ConnectionReady, ConnectionDraining, ConnectionDrained}"

definition attach_proved :: "ConformanceMachine \<Rightarrow> bool" where
  "attach_proved m =
     (m_connection m \<in> proof_needed \<longrightarrow>
        (\<exists>f. VerifyAttachV1 (cf_Auth (m_config m)) f = None \<or> VerifyReconnectV1 (cf_Auth (m_config m)) f = None))"

lemma attach_proved_step:
  assumes "frame_step d f now m n" "attach_proved m"
  shows "attach_proved n"
  using assms(1) by (cases rule: frame_step.cases) (use assms(2) in \<open>auto simp: attach_proved_def proof_needed_def\<close>)

lemma attach_proved_record [simp]: "attach_proved (record_envelope d f n) = attach_proved n"
  by (simp add: attach_proved_def)

interpretation proof_inv: machine_invariant attach_proved
proof
  show "attach_proved m" if "NewConformanceMachine config = Inr m" for config m
    using that by (auto simp: NewConformanceMachine_def new_machine_def attach_proved_def proof_needed_def split: if_splits)
next
  show "attach_proved (record_envelope d f n)"
    if "attach_proved m" "apply_frame m d f (ax_NowUnixMicro x) = (n, None)" for m d f x n
    using that attach_proved_step [OF apply_frame_step] by simp
qed (auto simp: attach_proved_def proof_needed_def reconnect_machine_def)

subsection \<open>The attempt record\<close>

text \<open>
  The well-formed attempts: an idle attempt is the zero record, any other has a valid binding;
  sequences are within the message bounds; cancellation and terminal fields are set together;
  a fenced attempt only ever holds a cancelled terminal; and each state has seen the messages
  that lead to it.
\<close>

definition terminal_fields_ok :: "attemptRecord \<Rightarrow> bool" where
  "terminal_fields_ok a =
     (if ar_terminalSequence a = 0
      then ar_terminalStatus a = TerminalStatusUnset \<and> ar_terminalResult a = TerminalResultUnset \<and> ar_terminalEvidence a = []
      else validTerminalResult (ar_terminalStatus a) (ar_terminalResult a) \<and> length (ar_terminalEvidence a) = 32)"

definition cancel_fields_ok :: "attemptRecord \<Rightarrow> bool" where
  "cancel_fields_ok a =
     (if ar_cancelRevision a = 0 then ar_cancelCode a = CancelUnset
      else ar_cancelCode a = CancelRequested \<or> ar_cancelCode a = CancelFenced)"

definition state_fields_ok :: "attemptRecord \<Rightarrow> bool" where
  "state_fields_ok a =
     ((ar_state a = AttemptIdle \<longrightarrow>
         aq_sequence (ar_platform a) = 0 \<and> aq_sequence (ar_worker a) = 0 \<and> ar_progressSequence a = 0 \<and>
         ar_cancelRevision a = 0 \<and> ar_terminalSequence a = 0 \<and> ar_binding a = zero_binding) \<and>
      (ar_state a \<in> {AttemptOffered, AttemptClaimPending} \<longrightarrow> aq_sequence (ar_platform a) \<noteq> 0) \<and>
      (ar_state a \<in> {AttemptClaimPending, AttemptClaimed} \<longrightarrow> aq_sequence (ar_worker a) \<noteq> 0) \<and>
      (ar_state a = AttemptClaimed \<longrightarrow> 2 \<le> aq_sequence (ar_platform a)) \<and>
      (ar_state a \<in> {AttemptCancelRequested, AttemptCancelAcked, AttemptFenced} \<longrightarrow> ar_cancelRevision a = 1) \<and>
      (ar_state a \<in> {AttemptTerminalPending, AttemptTerminalCommitted} \<longrightarrow> ar_terminalSequence a = 1) \<and>
      (\<forall>x. ar_state a \<noteq> AttemptStateOther x))"

definition attempt_wf :: "attemptRecord \<Rightarrow> bool" where
  "attempt_wf a =
     (aq_sequence (ar_platform a) \<le> MaxAttemptMessages \<and> aq_sequence (ar_worker a) \<le> MaxAttemptMessages \<and>
      ar_progressSequence a \<le> MaxProgressUpdates \<and>
      (ar_state a \<noteq> AttemptIdle \<longrightarrow> AttemptBindingV1_Validate (ar_binding a) = None) \<and>
      cancel_fields_ok a \<and> terminal_fields_ok a \<and> state_fields_ok a \<and>
      (ar_cancelCode a = CancelFenced \<and> ar_terminalSequence a \<noteq> 0 \<longrightarrow> ar_terminalStatus a = TerminalCancelled))"

lemma attempt_summary_sealed:
  assumes "attempt_wf a"
  shows "as_State (attempt_summary a) = ar_state a" "as_Binding (attempt_summary a) = ar_binding a"
    "as_PlatformSequence (attempt_summary a) = aq_sequence (ar_platform a)"
    "as_WorkerSequence (attempt_summary a) = aq_sequence (ar_worker a)"
    "as_ProgressSequence (attempt_summary a) = ar_progressSequence a"
    "as_CancelRevision (attempt_summary a) = ar_cancelRevision a"
    "as_CancelCode (attempt_summary a) = ar_cancelCode a"
    "as_TerminalSequence (attempt_summary a) = ar_terminalSequence a"
    "as_TerminalStatus (attempt_summary a) = ar_terminalStatus a"
    "as_TerminalResult (attempt_summary a) = ar_terminalResult a"
    "as_TerminalEvidenceDigest (attempt_summary a) = ar_terminalEvidence a"
    "as_Digest (attempt_summary a) = attemptSummaryDigestV1 (attempt_summary a)"
  using assms
  by (auto simp: attempt_summary_def sealAttemptSummary_def Let_def attempt_wf_def terminal_fields_ok_def
      state_fields_ok_def zero_binding_def split: if_splits)

lemma attempt_wf_summary:
  assumes "attempt_wf a"
  shows "AttemptSummaryV1_Validate (attempt_summary a) = None"
proof -
  note s = attempt_summary_sealed [OF assms]
  have "summary_fields_ok (attempt_summary a)"
    using assms unfolding summary_fields_ok_iff s(1-11)
    by (simp add: s(12) attempt_wf_def cancel_fields_ok_def terminal_fields_ok_def state_fields_ok_def split: if_splits)
  moreover have "summary_state_ok (attempt_summary a)"
    using assms unfolding summary_state_ok_iff s(1-11) by (simp add: attempt_wf_def state_fields_ok_def)
  ultimately show ?thesis using s(12) by (simp add: AttemptSummaryV1_Validate_None)
qed

lemma idle_attempt_wf: "attempt_wf idle_attempt"
  by (simp add: attempt_wf_def idle_attempt_def cancel_fields_ok_def terminal_fields_ok_def state_fields_ok_def
      zero_attempt_sequence_def)

lemma applyAttemptSummary_wf:
  assumes "AttemptSummaryV1_Validate s = None"
  shows "attempt_wf (applyAttemptSummary a s)"
  using assms
  by (simp add: AttemptSummaryV1_Validate_None summary_fields_ok_iff summary_state_ok_iff attempt_wf_def
      applyAttemptSummary_def pruneAttemptFingerprints_def cancel_fields_ok_def terminal_fields_ok_def
      state_fields_ok_def)

text \<open>Recording a message moves one sequence to its successor and nothing else of the summary.\<close>

lemma record_attempt_fields [simp]:
  "ar_state (record_attempt_message d s fp a) = ar_state a" "ar_binding (record_attempt_message d s fp a) = ar_binding a"
  "ar_progressSequence (record_attempt_message d s fp a) = ar_progressSequence a"
  "ar_cancelRevision (record_attempt_message d s fp a) = ar_cancelRevision a"
  "ar_cancelCode (record_attempt_message d s fp a) = ar_cancelCode a"
  "ar_terminalSequence (record_attempt_message d s fp a) = ar_terminalSequence a"
  "ar_terminalStatus (record_attempt_message d s fp a) = ar_terminalStatus a"
  "ar_terminalResult (record_attempt_message d s fp a) = ar_terminalResult a"
  "ar_terminalEvidence (record_attempt_message d s fp a) = ar_terminalEvidence a"
  "ar_pendingWorkerTerminal (record_attempt_message d s fp a) = ar_pendingWorkerTerminal a"
  "aq_sequence (ar_platform (record_attempt_message d s fp a)) =
     (if d = DirectionPlatformToWorker then s else aq_sequence (ar_platform a))"
  "aq_sequence (ar_worker (record_attempt_message d s fp a)) =
     (if d = DirectionPlatformToWorker then aq_sequence (ar_worker a) else s)"
  by (auto simp: record_attempt_message_def Let_def)

lemma settle_pending_fields [simp]:
  "ar_state (settle_pending d s a) = ar_state a" "ar_binding (settle_pending d s a) = ar_binding a"
  "ar_progressSequence (settle_pending d s a) = ar_progressSequence a"
  "ar_cancelRevision (settle_pending d s a) = ar_cancelRevision a" "ar_cancelCode (settle_pending d s a) = ar_cancelCode a"
  "ar_terminalSequence (settle_pending d s a) = ar_terminalSequence a"
  "ar_terminalStatus (settle_pending d s a) = ar_terminalStatus a"
  "ar_terminalResult (settle_pending d s a) = ar_terminalResult a"
  "ar_terminalEvidence (settle_pending d s a) = ar_terminalEvidence a"
  "ar_platform (settle_pending d s a) = ar_platform a" "ar_worker (settle_pending d s a) = ar_worker a"
  by (auto simp: settle_pending_def split: option.splits)

lemma settle_pending_pending:
  "ar_pendingWorkerTerminal (settle_pending d s a) \<in> {None, ar_pendingWorkerTerminal a}"
  by (auto simp: settle_pending_def split: option.splits)

lemma settle_pending_wf [simp]: "attempt_wf (settle_pending d s a) = attempt_wf a"
  by (simp add: attempt_wf_def cancel_fields_ok_def terminal_fields_ok_def state_fields_ok_def)

lemma u64_next:
  fixes s :: u64
  assumes "s \<noteq> MaxUint64"
  shows "s + 1 \<noteq> 0" and "s \<noteq> 0 \<Longrightarrow> 2 \<le> s + 1" and "k \<le> s \<Longrightarrow> k \<le> s + 1"
  using assms unat_u64_less [of s] by (auto simp: word_le_nat_alt word_unat_eq_iff unat_word_ariths)

lemmas wf_defs = attempt_wf_def cancel_fields_ok_def terminal_fields_ok_def state_fields_ok_def clear_terminal_def

text \<open>Each arm keeps the attempt well-formed once the message is recorded.\<close>

lemma offer_wf:
  assumes t: "transition_offer m d x b = Inr a" and w: "attempt_wf (m_attempt m)"
    and b: "AttemptBindingV1_Validate b = None" and s: "s \<le> MaxAttemptMessages" "s \<noteq> 0"
  shows "attempt_wf (record_attempt_message d s fp a)"
proof -
  have "a = (m_attempt m)\<lparr>ar_binding := b, ar_state := AttemptOffered\<rparr>" "ar_state (m_attempt m) = AttemptIdle"
    "d = DirectionPlatformToWorker"
    using t by (simp_all add: transition_offer_def split: if_splits)
  then show ?thesis using w b s by (simp add: wf_defs)
qed

lemma claim_wf:
  assumes t: "transition_claim m d = Inr a" and w: "attempt_wf (m_attempt m)"
    and s: "s \<le> MaxAttemptMessages" "s \<noteq> 0"
  shows "attempt_wf (record_attempt_message d s fp a)"
proof -
  have "a = (m_attempt m)\<lparr>ar_state := AttemptClaimPending\<rparr>" "ar_state (m_attempt m) = AttemptOffered"
    "d = DirectionWorkerToPlatform"
    using t by (simp_all add: transition_claim_def split: if_splits)
  then show ?thesis using w s by (simp add: wf_defs)
qed

lemma accepted_wf:
  assumes t: "transition_accepted m d = Inr a" and w: "attempt_wf (m_attempt m)" and s: "s \<le> MaxAttemptMessages"
    and two: "d = DirectionPlatformToWorker \<Longrightarrow> aq_sequence (ar_platform (m_attempt m)) \<noteq> 0 \<Longrightarrow> 2 \<le> s"
  shows "attempt_wf (record_attempt_message d s fp a)"
proof -
  have "a = (m_attempt m)\<lparr>ar_state := AttemptClaimed\<rparr>" "ar_state (m_attempt m) = AttemptClaimPending"
    "d = DirectionPlatformToWorker"
    using t by (simp_all add: transition_accepted_def split: if_splits)
  then show ?thesis using w s two by (simp add: wf_defs)
qed

text \<open>The other arms leave an attempt that is past its offer, with its binding.\<close>

lemma progress_wf:
  assumes t: "transition_progress m d x = Inr a" and w: "attempt_wf (m_attempt m)" and s: "s \<le> MaxAttemptMessages" "s \<noteq> 0"
    and x: "pg_ProgressSequence x \<le> MaxProgressUpdates"
  shows "attempt_wf (record_attempt_message d s fp a)"
proof -
  have "a = (m_attempt m)\<lparr>ar_progressSequence := pg_ProgressSequence x\<rparr>" "d = DirectionWorkerToPlatform"
    "ar_state (m_attempt m) \<noteq> AttemptIdle"
    using t by (auto simp: transition_progress_def Let_def split: if_splits)
  then show ?thesis using w s x by (simp add: wf_defs)
qed

lemma cancel_wf:
  assumes t: "transition_cancel m d x = Inr a" and w: "attempt_wf (m_attempt m)" and s: "s \<le> MaxAttemptMessages"
    and x: "cn_Code x = CancelRequested \<or> cn_Code x = CancelFenced"
  shows "attempt_wf (record_attempt_message d s fp a)"
proof -
  have "a = (clear_terminal (m_attempt m))\<lparr>ar_cancelRevision := 1, ar_cancelCode := cn_Code x,
          ar_state := (if cn_Code x = CancelFenced then AttemptFenced else AttemptCancelRequested)\<rparr>"
    and "d = DirectionPlatformToWorker" "ar_state (m_attempt m) \<noteq> AttemptIdle"
    using t by (auto simp: transition_cancel_def Let_def split: if_splits)
  then show ?thesis using w s x by (simp add: wf_defs)
qed

lemma cancel_ack_wf:
  assumes t: "transition_cancel_ack m d x = Inr a" and w: "attempt_wf (m_attempt m)" and s: "s \<le> MaxAttemptMessages"
  shows "attempt_wf (record_attempt_message d s fp a)"
proof -
  have d: "d = DirectionWorkerToPlatform"
    using t by (simp add: transition_cancel_ack_def Let_def split: if_splits)
  have "a = (m_attempt m)\<lparr>ar_state := AttemptCancelAcked\<rparr> \<and> ar_state (m_attempt m) = AttemptCancelRequested \<or>
        a = m_attempt m \<and> ar_state (m_attempt m) = AttemptFenced"
    using t by (auto simp: transition_cancel_ack_def Let_def split: if_splits)
  then show ?thesis
  proof (elim disjE conjE)
    assume "a = (m_attempt m)\<lparr>ar_state := AttemptCancelAcked\<rparr>" "ar_state (m_attempt m) = AttemptCancelRequested"
    then show ?thesis using w s d by (simp add: wf_defs)
  next
    assume "a = m_attempt m" "ar_state (m_attempt m) = AttemptFenced"
    then show ?thesis using w s d by (simp add: wf_defs)
  qed
qed

lemma terminal_ack_wf:
  assumes t: "transition_terminal_ack m d x = Inr a" and w: "attempt_wf (m_attempt m)" and s: "s \<le> MaxAttemptMessages"
  shows "attempt_wf (record_attempt_message d s fp a)"
proof -
  have "a = (m_attempt m)\<lparr>ar_state := AttemptTerminalCommitted\<rparr>" "ar_state (m_attempt m) = AttemptTerminalPending"
    "d = DirectionPlatformToWorker"
    using t by (simp_all add: transition_terminal_ack_def Let_def split: if_splits)
  then show ?thesis using w s by (simp add: wf_defs)
qed

definition store_terminal :: "attemptRecord \<Rightarrow> TerminalV1 \<Rightarrow> attemptRecord" where
  "store_terminal a x = a\<lparr>ar_terminalSequence := tm_TerminalSequence x, ar_terminalStatus := tm_Status x,
     ar_terminalResult := tm_Result x, ar_terminalEvidence := tm_EvidenceDigest x\<rparr>"

lemma transition_terminal_Inr:
  assumes "transition_terminal m d x = Inr a"
  shows "d = DirectionWorkerToPlatform" and "ar_state (m_attempt m) \<noteq> AttemptIdle" and "tm_TerminalSequence x = 1"
    and "ar_state (m_attempt m) \<notin> {AttemptTerminalPending, AttemptTerminalCommitted}"
    and "a = m_attempt m \<or>
         (ar_cancelRevision (m_attempt m) = 0 \<or> tm_Status x = TerminalCancelled) \<and>
           (a = store_terminal (m_attempt m) x \<or>
            ar_cancelCode (m_attempt m) \<noteq> CancelFenced \<and>
              a = (store_terminal (m_attempt m) x)\<lparr>ar_state := AttemptTerminalPending\<rparr>)"
  using assms by (auto simp: transition_terminal_def store_terminal_def Let_def split: if_splits)

lemma terminal_wf:
  assumes t: "transition_terminal m d x = Inr a" and w: "attempt_wf (m_attempt m)"
    and s: "s \<le> MaxAttemptMessages" "s \<noteq> 0"
    and x: "validTerminalResult (tm_Status x) (tm_Result x)" "length (tm_EvidenceDigest x) = 32"
  shows "attempt_wf (record_attempt_message d s fp a)"
proof -
  note f = transition_terminal_Inr [OF t]
  have c: "ar_cancelCode (m_attempt m) = CancelFenced \<Longrightarrow> ar_cancelRevision (m_attempt m) \<noteq> 0"
    using w by (auto simp: attempt_wf_def cancel_fields_ok_def split: if_splits)
  from f(5) show ?thesis
  proof (elim disjE conjE)
    assume "a = m_attempt m"
    then show ?thesis using w s f(1,2) by (simp add: wf_defs)
  qed (use w s f(1-4) x c in \<open>simp_all add: wf_defs store_terminal_def, (simp split: if_splits)?\<close>)
qed

lemma transition_arms:
  assumes "applyAttemptTransition m d f b = Inr a"
  shows "fr_Kind f = MessageLeaseOffer \<Longrightarrow> \<exists>x. fr_LeaseOffer f = Some x \<and> transition_offer m d x b = Inr a"
    and "fr_Kind f = MessageLeaseClaim \<Longrightarrow> transition_claim m d = Inr a"
    and "fr_Kind f = MessageLeaseAccepted \<Longrightarrow> transition_accepted m d = Inr a"
    and "fr_Kind f = MessageProgress \<Longrightarrow> \<exists>x. fr_Progress f = Some x \<and> transition_progress m d x = Inr a"
    and "fr_Kind f = MessageCancel \<Longrightarrow> \<exists>x. fr_Cancel f = Some x \<and> transition_cancel m d x = Inr a"
    and "fr_Kind f = MessageCancelAck \<Longrightarrow> \<exists>x. fr_CancelAck f = Some x \<and> transition_cancel_ack m d x = Inr a"
    and "fr_Kind f = MessageTerminal \<Longrightarrow> \<exists>x. fr_Terminal f = Some x \<and> transition_terminal m d x = Inr a"
    and "fr_Kind f = MessageTerminalAck \<Longrightarrow> \<exists>x. fr_TerminalAck f = Some x \<and> transition_terminal_ack m d x = Inr a"
  using assms by (simp_all add: applyAttemptTransition_def with_payload_def split: option.splits)

lemma payload_bounds:
  assumes "FrameV1_Validate f = None"
  shows "fr_Kind f = MessageProgress \<Longrightarrow> fr_Progress f = Some x \<Longrightarrow> pg_ProgressSequence x \<le> MaxProgressUpdates"
    and "fr_Kind f = MessageCancel \<Longrightarrow> fr_Cancel f = Some y \<Longrightarrow> cn_Code y = CancelRequested \<or> cn_Code y = CancelFenced"
    and "fr_Kind f = MessageTerminal \<Longrightarrow> fr_Terminal f = Some z \<Longrightarrow>
           validTerminalResult (tm_Status z) (tm_Result z) \<and> length (tm_EvidenceDigest z) = 32"
  using frame_payload(12,13,15) [OF assms]
  by (auto simp: ProgressV1_Validate_def CancelV1_Validate_def TerminalV1_Validate_def)

lemma transition_wf:
  assumes w: "attempt_wf (m_attempt m)" and v: "FrameV1_Validate f = None"
    and p: "attemptPayload f = Some (b, s)" and k: "fr_Kind f \<in> attempt_kinds"
    and s: "aq_sequence (attempt_sender d (m_attempt m)) \<noteq> MaxUint64"
      "s = aq_sequence (attempt_sender d (m_attempt m)) + 1"
    and t: "applyAttemptTransition m d f b = Inr a"
  shows "attempt_wf (record_attempt_message d s fp a)"
proof -
  have "validateAttempt b s = None" using attemptPayload_Some [OF v k] p by (metis option.inject prod.inject)
  then have b: "AttemptBindingV1_Validate b = None" "s \<le> MaxAttemptMessages"
    by (simp_all add: validateAttempt_def not_less)
  have n: "s \<noteq> 0" using u64_next(1) [OF s(1)] s(2) by simp
  have two: "2 \<le> s" if "d = DirectionPlatformToWorker" "aq_sequence (ar_platform (m_attempt m)) \<noteq> 0"
    using u64_next(2) [OF s(1)] s(2) that by (simp add: attempt_sender_def)
  note arm = transition_arms [OF t] and pb = payload_bounds [OF v]
  from k show ?thesis
    unfolding attempt_kinds_def
  proof (elim insertE emptyE)
    assume "fr_Kind f = MessageLeaseOffer"
    then show ?thesis using arm(1) offer_wf [OF _ w b n] by blast
  next
    assume "fr_Kind f = MessageLeaseClaim"
    then show ?thesis using arm(2) claim_wf [OF _ w b(2) n] by blast
  next
    assume "fr_Kind f = MessageLeaseAccepted"
    then show ?thesis using arm(3) accepted_wf [OF _ w b(2)] two by blast
  next
    assume "fr_Kind f = MessageProgress"
    then show ?thesis using arm(4) pb(1) progress_wf [OF _ w b(2) n] by blast
  next
    assume "fr_Kind f = MessageCancel"
    then show ?thesis using arm(5) pb(2) cancel_wf [OF _ w b(2)] by blast
  next
    assume "fr_Kind f = MessageCancelAck"
    then show ?thesis using arm(6) cancel_ack_wf [OF _ w b(2)] by blast
  next
    assume "fr_Kind f = MessageTerminal"
    then show ?thesis using arm(7) pb(3) terminal_wf [OF _ w b(2) n] by blast
  next
    assume "fr_Kind f = MessageTerminalAck"
    then show ?thesis using arm(8) terminal_ack_wf [OF _ w b(2)] by blast
  qed
qed

subsection \<open>Replay commitments\<close>

text \<open>
  A pending commitment belongs to the current attempt, and while a reconnect waits for the
  platform's answer it is the terminal the worker claimed.
\<close>

definition pending_ok :: "attemptRecord \<Rightarrow> bool" where
  "pending_ok a =
     (\<forall>c. ar_pendingWorkerTerminal a = Some c \<longrightarrow>
        ar_state a \<noteq> AttemptIdle \<and> tm_Binding (tc_terminal c) = ar_binding a \<and>
        tc_sequence c = tm_AttemptSequence (tc_terminal c) \<and> tc_sequence c \<le> MaxAttemptMessages \<and>
        (TerminalV1_Validate (tc_terminal c) = None \<longleftrightarrow> tm_AttemptSequence (tc_terminal c) \<noteq> 0))"

definition claim_ok :: "ConformanceMachine \<Rightarrow> bool" where
  "claim_ok m =
     (m_connection m = ConnectionReconnectPending \<longrightarrow>
        (\<forall>c. ar_pendingWorkerTerminal (m_attempt m) = Some c \<longrightarrow>
           reconnectPendingTerminal (m_reconnectClaim m) = Some (tc_terminal c)))"

lemma transition_frame:
  assumes "applyAttemptTransition m d f b = Inr a"
  shows "ar_pendingWorkerTerminal a = ar_pendingWorkerTerminal (m_attempt m)" and "ar_state a \<noteq> AttemptIdle"
    and "ar_state (m_attempt m) \<noteq> AttemptIdle \<Longrightarrow> ar_binding a = ar_binding (m_attempt m)"
  using assms
  by (auto simp: applyAttemptTransition_def with_payload_def transition_defs clear_terminal_def Let_def
      split: MessageKind.splits option.splits if_splits)

lemma pending_ok_transition:
  assumes "applyAttemptTransition m d f b = Inr a" "pending_ok (m_attempt m)"
  shows "pending_ok (settle_pending d s (record_attempt_message d s fp a))"
proof -
  have "pending_ok a" using transition_frame [OF assms(1)] assms(2) by (auto simp: pending_ok_def)
  then have "pending_ok (record_attempt_message d s fp a)" by (auto simp: pending_ok_def)
  then show ?thesis using settle_pending_pending [of d s "record_attempt_message d s fp a"] by (auto simp: pending_ok_def)
qed

lemma tombstone_wf:
  assumes "attempt_wf a" "pending_ok a"
  shows "attempt_wf (applyDiscardTombstone a)"
proof (cases "applyDiscardTombstone a = a")
  case True
  then show ?thesis using assms by simp
next
  case False
  then obtain c where c: "ar_pendingWorkerTerminal a = Some c" "aq_sequence (ar_worker a) < tc_sequence c"
    and e: "applyDiscardTombstone a = a\<lparr>ar_worker := (ar_worker a)\<lparr>aq_sequence := tc_sequence c\<rparr>\<rparr>"
    by (auto simp: applyDiscardTombstone_def not_le split: option.splits if_splits)
  have "tc_sequence c \<noteq> 0" using c(2) by auto
  moreover have "ar_state a \<noteq> AttemptIdle" "tc_sequence c \<le> MaxAttemptMessages" using c(1) assms(2) by (auto simp: pending_ok_def)
  ultimately show ?thesis using assms(1) unfolding e by (simp add: wf_defs)
qed

lemma tombstone_fields [simp]:
  "ar_pendingWorkerTerminal (applyDiscardTombstone a) = ar_pendingWorkerTerminal a"
  "ar_state (applyDiscardTombstone a) = ar_state a" "ar_binding (applyDiscardTombstone a) = ar_binding a"
  by (auto simp: applyDiscardTombstone_def split: option.splits)

lemma applySummary_fields [simp]:
  "ar_pendingWorkerTerminal (applyAttemptSummary a s) = ar_pendingWorkerTerminal a"
  "ar_state (applyAttemptSummary a s) = as_State s" "ar_binding (applyAttemptSummary a s) = as_Binding s"
  by (simp_all add: applyAttemptSummary_def)

lemma pending_ok_tombstone [simp]: "pending_ok (applyDiscardTombstone a) = pending_ok a"
  by (simp add: pending_ok_def)

text \<open>What the platform's answer leaves pending.\<close>

lemma installReplayCommitment_pending:
  assumes i: "installReplayCommitment a A C plan = Inr a'"
    and p: "rp_TerminalDecision plan = terminal_decision A C"
    and c: "\<And>c. ar_pendingWorkerTerminal a = Some c \<Longrightarrow> reconnectPendingTerminal C = Some (tc_terminal c)"
  shows "ar_pendingWorkerTerminal a' = None \<or>
    (\<exists>t. reconnectPendingTerminal C = Some t \<and>
         ar_pendingWorkerTerminal a' = Some (replay_commitment t (terminal_decision A C)))"
proof (cases "terminal_decision A C = ReconnectTerminalNone")
  case none: True
  show ?thesis
  proof (cases "ar_pendingWorkerTerminal a")
    case None
    then show ?thesis using i none p by (simp add: installReplayCommitment_def)
  next
    case (Some k)
    then have t: "reconnectPendingTerminal C = Some (tc_terminal k)" by (rule c)
    then have "rs_PendingTerminalReplay C = None"
      "\<not> as_TerminalSequence (rs_Attempt A) < as_TerminalSequence (rs_Attempt C)"
      using none by (auto simp: terminal_decision_def split: if_splits)
    moreover have "as_TerminalSequence (rs_Attempt C) \<noteq> 0"
      using t calculation(1) by (auto simp: reconnectPendingTerminal_def split: if_splits)
    ultimately have "0 < as_TerminalSequence (rs_Attempt A)"
      by (metis word_gt_0 not_less word_coorder.extremum_uniqueI)
    then show ?thesis using i none p Some by (auto simp: installReplayCommitment_def)
  qed
next
  case False
  then show ?thesis
    using i p by (auto simp: installReplayCommitment_def Let_def split: if_splits option.splits)
qed

lemma reconnect_accepted_attempt:
  assumes B: "BuildReconnectAcceptedV1 (authoritative_of m x) (m_reconnectClaim m) n = Inr expected"
    and same: "sameReconnectAccepted expected x"
    and i: "installReplayCommitment (m_attempt m) (authoritative_of m x) (m_reconnectClaim m) (ra_ReplayPlan x) = Inr a"
    and c: "m_connection m = ConnectionReconnectPending" "claim_ok m"
  shows "attempt_wf (applyDiscardTombstone (applyAttemptSummary a (ra_AuthoritativeAttempt x)))"
    and "pending_ok (applyDiscardTombstone (applyAttemptSummary a (ra_AuthoritativeAttempt x)))"
proof -
  let ?A = "authoritative_of m x" and ?C = "m_reconnectClaim m" and ?a = "applyAttemptSummary a (ra_AuthoritativeAttempt x)"
  note f = BuildReconnectAcceptedV1_Inr [OF B]
  have plan: "rp_TerminalDecision (ra_ReplayPlan x) = terminal_decision ?A ?C"
    using same f(5) by (simp add: sameReconnectAccepted_def)
  have A: "rs_Attempt ?A = ra_AuthoritativeAttempt x" by (simp add: authoritative_of_def)
  have valid: "AttemptSummaryV1_Validate (ra_AuthoritativeAttempt x) = None"
    using f(1) A by (simp add: ReconnectSnapshotV1_Validate_def)
  have "ar_pendingWorkerTerminal a = None \<or>
      (\<exists>t. reconnectPendingTerminal ?C = Some t \<and>
           ar_pendingWorkerTerminal a = Some (replay_commitment t (terminal_decision ?A ?C)))"
    using c by (intro installReplayCommitment_pending [OF i plan]) (auto simp: claim_ok_def)
  then have pend: "pending_ok ?a"
  proof (elim disjE exE conjE)
    fix t assume t: "reconnectPendingTerminal ?C = Some t"
      and p: "ar_pendingWorkerTerminal a = Some (replay_commitment t (terminal_decision ?A ?C))"
    note v = pending_terminal_valid [OF f(2) t] pending_terminal_Validate [OF f(2) t]
    have "as_Binding (rs_Attempt ?C) = as_Binding (ra_AuthoritativeAttempt x)" "as_State (ra_AuthoritativeAttempt x) \<noteq> AttemptIdle"
      using compatible_bindings [OF f(3) v(3)] A by simp_all
    then show ?thesis using v p by (simp add: pending_ok_def replay_commitment_def)
  qed (simp add: pending_ok_def)
  then show "pending_ok (applyDiscardTombstone ?a)" by simp
  show "attempt_wf (applyDiscardTombstone ?a)"
    using tombstone_wf [OF applyAttemptSummary_wf [OF valid] pend] .
qed

definition attempt_inv :: "ConformanceMachine \<Rightarrow> bool" where
  "attempt_inv m = (revoked_connection m \<or> attempt_wf (m_attempt m) \<and> pending_ok (m_attempt m) \<and> claim_ok m)"

lemma attempt_inv_step:
  assumes st: "frame_step d f now m n" and inv: "attempt_inv m" and v: "FrameV1_Validate f = None" and dr: "drained_idle m"
  shows "attempt_inv n"
proof (cases "revoked_connection m")
  case True
  from st show ?thesis
    by (cases rule: frame_step.cases) (use True in \<open>auto simp: attempt_inv_def revoked_connection_def\<close>)
next
  case False
  then have w: "attempt_wf (m_attempt m)" and p: "pending_ok (m_attempt m)" and c: "claim_ok m"
    using inv by (auto simp: attempt_inv_def)
  note init = attempt_inv_def claim_ok_def
  from st show ?thesis
  proof (cases rule: frame_step.cases)
    case (reconnect x A)
    have "rs_PendingTerminalReplay A = pendingTerminalForSnapshot m"
      using reconnect(7) by (auto simp: snapshot_machine_def split: if_splits)
    then have "reconnectPendingTerminal (claim_of x) = Some (tc_terminal k)"
      if "ar_pendingWorkerTerminal (m_attempt m) = Some k" for k
      using compatible_pending [OF reconnect(8)] that by (simp add: pendingTerminalForSnapshot_def)
    then show ?thesis using reconnect(1) w p by (simp add: init)
  next
    case (reconnect_accepted x e a)
    then show ?thesis using reconnect_accepted_attempt [OF reconnect_accepted(5-7) reconnect_accepted(4) c] by (simp add: init)
  next
    case (manifest x)
    then show ?thesis using w p dr by (auto simp: init drained_idle_def)
  next
    case (attempt b s a)
    have "attempt_wf (record_attempt_message d s (attemptFingerprint f) a)"
      using transition_wf [OF w v attempt(3,2,4,5,9)] .
    moreover have "claim_ok (m\<lparr>m_attempt := settle_pending d s (record_attempt_message d s (attemptFingerprint f) a)\<rparr>)"
      using c transition_frame(1) [OF attempt(9)] settle_pending_pending [of d s "record_attempt_message d s (attemptFingerprint f) a"]
      by (auto simp: claim_ok_def)
    ultimately show ?thesis using attempt(1) pending_ok_transition [OF attempt(9) p] by (simp add: attempt_inv_def)
  qed (use w p c in \<open>simp_all add: init revoked_connection_def\<close>)
qed

lemma attempt_inv_record [simp]: "attempt_inv (record_envelope d f n) = attempt_inv n"
  by (simp add: attempt_inv_def claim_ok_def revoked_connection_def)

interpretation attempt_invariant: machine_invariant attempt_inv
proof
  show "attempt_inv m" if "NewConformanceMachine config = Inr m" for config m
    using that idle_attempt_wf
    by (auto simp: NewConformanceMachine_def new_machine_def attempt_inv_def claim_ok_def pending_ok_def idle_attempt_def
        split: if_splits)
next
  show "attempt_inv (record_envelope d f n)"
    if "reachable m" "attempt_inv m" "\<not> envelope_unauthorized m d f x" "apply_frame m d f (ax_NowUnixMicro x) = (n, None)"
    for m d f x n
    using attempt_inv_step [OF apply_frame_step [OF that(4)] that(2) authorized_frame(1) [OF that(3)]
        drained_inv.invariant [OF that(1)]] by simp
next
  show "attempt_inv (m\<lparr>m_attempt := idle_attempt\<rparr>)" for m
    using idle_attempt_wf by (simp add: attempt_inv_def claim_ok_def pending_ok_def) (simp add: idle_attempt_def)
qed (auto simp: attempt_inv_def claim_ok_def reconnect_machine_def reconnect_refused_def revoked_connection_def Let_def)

text \<open>The snapshot a reachable machine takes when it starts to reconnect.\<close>

lemma snapshot_validates:
  assumes r: "reachable m" and ok: "\<not> reconnect_refused m nxt"
    and s: "snapshot_machine (reconnect_machine m nxt) = Inr snap"
  shows "ReconnectSnapshotV1_Validate snap = None \<longleftrightarrow>
    (\<forall>t. rs_PendingTerminalReplay snap = Some t \<longrightarrow> tm_AttemptSequence t \<noteq> 0)"
proof -
  have "\<not> revoked_connection m" using ok by (auto simp: reconnect_refused_def revoked_connection_def Let_def)
  then have w: "attempt_wf (m_attempt m)" and p: "pending_ok (m_attempt m)"
    using attempt_invariant.invariant [OF r] by (auto simp: attempt_inv_def)
  have snap: "snap = snapshot_of (ac_ConnectionGeneration (cf_Auth (m_config m))) (currentWatermarks m)
      (attempt_summary (m_attempt m)) (map_option tc_terminal (ar_pendingWorkerTerminal (m_attempt m)))"
    using s by (simp add: snapshot_machine_def reconnect_machine_def pendingTerminalForSnapshot_def currentAttemptSummary_def)
  have "ac_ConnectionGeneration (cf_Auth (m_config m)) \<noteq> 0"
    using auth_inv.invariant [OF r] AuthContextV1_generation by (simp add: auth_ok_def)
  moreover have "ConnectionWatermarksV1_Validate (currentWatermarks m) = None"
    using watermark_inv.invariant [OF r] by (simp add: watermarks_ok_def)
  ultimately show ?thesis
    unfolding snap snapshot_of_Validate snapshot_of_sel
    using attempt_wf_summary [OF w] p attempt_summary_sealed(2) [OF w]
    by (auto simp: validatePendingTerminal_None pending_ok_def)
qed

subsection \<open>Revocation and fencing are final\<close>

lemma transition_committed:
  assumes "applyAttemptTransition m d f b = Inr a" "ar_state a = AttemptTerminalCommitted"
    "ar_state (m_attempt m) \<noteq> AttemptTerminalCommitted"
  shows "fr_Kind f = MessageTerminalAck" and "ar_state (m_attempt m) = AttemptTerminalPending"
    and "\<not> revoked_connection m" and "d = DirectionPlatformToWorker"
    and "\<exists>t. fr_TerminalAck f = Some t \<and> ta_TerminalSequence t = ar_terminalSequence (m_attempt m) \<and>
             ta_Status t = ar_terminalStatus (m_attempt m) \<and> ta_Result t = ar_terminalResult (m_attempt m) \<and>
             ta_EvidenceDigest t = ar_terminalEvidence (m_attempt m)"
  using assms
  by (auto simp: applyAttemptTransition_def with_payload_def transition_defs Let_def
      split: MessageKind.splits option.splits if_splits)

definition revocation_kept :: "ConformanceMachine \<Rightarrow> ConformanceMachine \<Rightarrow> bool" where
  "revocation_kept m m' =
     (revoked_connection m' \<and> (m_connection m = ConnectionRevoked \<longrightarrow> m_connection m' = ConnectionRevoked) \<and>
      (ar_state (m_attempt m') = AttemptTerminalCommitted \<longrightarrow> ar_state (m_attempt m) = AttemptTerminalCommitted))"

lemma revocation_frame:
  assumes "frame_step d f now m n" "revoked_connection m"
  shows "revocation_kept m n"
  using assms(1)
proof (cases rule: frame_step.cases)
  case (attempt b s a)
  have "ar_state a = AttemptTerminalCommitted \<Longrightarrow> ar_state (m_attempt m) = AttemptTerminalCommitted"
    using transition_committed(3) [OF attempt(9)] assms(2) by blast
  then show ?thesis using attempt(1) assms(2) by (simp add: revocation_kept_def revoked_connection_def)
qed (use assms(2) in \<open>auto simp: revocation_kept_def revoked_connection_def fence_attempt_def\<close>)

lemma revocation_step:
  assumes "machine_step m m'" "revoked_connection m"
  shows "revocation_kept m m'"
  using assms(1)
proof (cases rule: machine_step_cases)
  case (frame d f x n)
  have "revocation_kept m n" using revocation_frame [OF apply_frame_step [OF frame(5)] assms(2)] .
  then show ?thesis using frame(6) by (simp add: revocation_kept_def revoked_connection_def)
next
  case (reconnected nxt)
  then show ?thesis using assms(2) by (auto simp: reconnect_refused_def revoked_connection_def Let_def)
qed (use assms(2) in \<open>auto simp: revocation_kept_def revoked_connection_def idle_attempt_def\<close>)

lemma revocation_run:
  assumes "machine_step\<^sup>*\<^sup>* m m'" "revoked_connection m"
  shows "revocation_kept m m'"
  using assms
proof (induction rule: rtranclp_induct)
  case base
  then show ?case by (simp add: revocation_kept_def revoked_connection_def)
next
  case (step m1 m2)
  then have "revocation_kept m m1" by blast
  then have "revocation_kept m1 m2" using revocation_step [OF step.hyps(2)] by (simp add: revocation_kept_def)
  then show ?case using \<open>revocation_kept m m1\<close> by (auto simp: revocation_kept_def)
qed

definition fenced :: "attemptRecord \<Rightarrow> bool" where
  "fenced a = (ar_state a = AttemptFenced \<and> ar_cancelCode a = CancelFenced)"

lemma fenced_transition:
  "applyAttemptTransition m d f b = Inr a \<Longrightarrow> fenced (m_attempt m) \<Longrightarrow> fenced a"
  by (auto simp: fenced_def applyAttemptTransition_def with_payload_def transition_defs Let_def
      split: MessageKind.splits option.splits if_splits)

lemma fenced_step:
  assumes "frame_step d f now m n" "fenced (m_attempt m)" "fr_Kind f \<noteq> MessageReconnectAccepted"
  shows "fenced (m_attempt n)"
  using assms(1)
proof (cases rule: frame_step.cases)
  case (attempt b s a)
  then show ?thesis using fenced_transition [OF attempt(9) assms(2)] by (simp add: fenced_def)
qed (use assms(2,3) in \<open>auto simp: fenced_def fence_attempt_def\<close>)

text \<open>An outcome is committed only by a matching acknowledgement within the lease.\<close>

lemma commit_step:
  assumes st: "frame_step d f now m n" and k: "fr_Kind f \<noteq> MessageReconnectAccepted"
    and s: "ar_state (m_attempt m) \<noteq> AttemptTerminalCommitted" "ar_state (m_attempt n) = AttemptTerminalCommitted"
  shows "ar_state (m_attempt m) = AttemptTerminalPending \<and> \<not> revoked_connection m \<and> d = DirectionPlatformToWorker \<and>
    now < ab_ExpiresAtUnixMicro (ar_binding (m_attempt m)) \<and>
    (\<exists>t. fr_TerminalAck f = Some t \<and> ta_TerminalSequence t = ar_terminalSequence (m_attempt m) \<and>
         ta_Status t = ar_terminalStatus (m_attempt m) \<and> ta_Result t = ar_terminalResult (m_attempt m) \<and>
         ta_EvidenceDigest t = ar_terminalEvidence (m_attempt m))"
  using st
proof (cases rule: frame_step.cases)
  case (attempt b q a)
  then have c: "ar_state a = AttemptTerminalCommitted" using s(2) by simp
  note t = transition_committed [OF attempt(9) c s(1)]
  have "now < ab_ExpiresAtUnixMicro b" using attempt(8) t(1) by simp
  moreover have "b = ar_binding (m_attempt m)" using attempt(6) t(2) by simp
  ultimately show ?thesis using t by simp
qed (use s k in \<open>auto simp: fence_attempt_def split: if_splits\<close>)

text \<open>A recorded cancellation wins against a crossed outcome: the message is consumed, nothing is stored.\<close>

lemma cancelled_attempt_keeps_terminal:
  assumes "applyAttemptTransition m d f b = Inr a" "fr_Kind f = MessageTerminal" "fr_Terminal f = Some t"
    "ar_cancelRevision (m_attempt m) \<noteq> 0" "tm_Status t \<noteq> TerminalCancelled"
  shows "a = m_attempt m"
  using assms by (auto simp: applyAttemptTransition_def with_payload_def transition_terminal_def Let_def split: if_splits)

lemma crossed_terminal_step:
  assumes st: "frame_step d f now m n" and k: "fr_Kind f = MessageTerminal" and t: "fr_Terminal f = Some t"
    and c: "ar_cancelRevision (m_attempt m) \<noteq> 0" "tm_Status t \<noteq> TerminalCancelled"
  shows "ar_state (m_attempt n) = ar_state (m_attempt m)" and
    "ar_terminalSequence (m_attempt n) = ar_terminalSequence (m_attempt m)" and
    "ar_terminalStatus (m_attempt n) = ar_terminalStatus (m_attempt m)" and
    "m_connection n = m_connection m"
proof -
  have "ar_state (m_attempt n) = ar_state (m_attempt m) \<and> ar_terminalSequence (m_attempt n) = ar_terminalSequence (m_attempt m) \<and>
    ar_terminalStatus (m_attempt n) = ar_terminalStatus (m_attempt m) \<and> m_connection n = m_connection m"
    using st
  proof (cases rule: frame_step.cases)
    case (attempt b s a)
    then show ?thesis using cancelled_attempt_keeps_terminal [OF attempt(9) k t c] by simp
  qed (use k in \<open>auto simp: attempt_kinds_def\<close>)
  then show "ar_state (m_attempt n) = ar_state (m_attempt m)"
    "ar_terminalSequence (m_attempt n) = ar_terminalSequence (m_attempt m)"
    "ar_terminalStatus (m_attempt n) = ar_terminalStatus (m_attempt m)" "m_connection n = m_connection m" by auto
qed

lemma transition_counts:
  assumes "applyAttemptTransition m d f b = Inr a"
  shows "ar_platform a = ar_platform (m_attempt m)" and "ar_worker a = ar_worker (m_attempt m)"
  using assms by (auto simp: applyAttemptTransition_def with_payload_def transition_defs clear_terminal_def Let_def
      split: MessageKind.splits option.splits if_splits)

lemma drained_step:
  assumes "frame_step d f now m n" "m_connection m = ConnectionDrained" "ar_state (m_attempt m) = AttemptIdle"
  shows "ar_state (m_attempt n) = AttemptIdle"
  using assms(1)
proof (cases rule: frame_step.cases)
  case (attempt b s a)
  then show ?thesis using idle_transition [OF attempt(9) assms(3)] assms(2) by simp
qed (use assms(2,3) in \<open>auto simp: fence_attempt_def\<close>)

end
