(* ===== verification/Lease.thy ===== *)
theory Lease
  imports MachineInvariants
begin

text \<open>
  The contract of a lease, as a small step relation over seven states, and the proof that the attempt of the
  conformance machine (\<open>src/internal/attachedworkerprotocol/machine.go\<close>) implements it: every call moves the abstract
  lease by at most one step. Only the acceptance of a reconnect, which replaces the attempt by the one the platform
  reports, is outside the relation.
\<close>

subsection \<open>The lease an attempt implements\<close>

type_synonym lease_outcome = "TerminalStatus \<times> TerminalResult \<times> string"

datatype lease =
    Free
  | Proposed AttemptBindingV1
  | Running AttemptBindingV1
  | Stopping AttemptBindingV1
  | Reported AttemptBindingV1 lease_outcome
  | Settled AttemptBindingV1 lease_outcome
  | Dead AttemptBindingV1

text \<open>
  What the platform and a worker promise each other: one binding from the proposal to the end, an outcome that is
  settled exactly as it was reported, a stopped lease that can only report its cancellation, and a dead lease that
  stays dead.
\<close>

inductive lease_step :: "lease \<Rightarrow> lease \<Rightarrow> bool" where
  propose: "lease_step Free (Proposed b)"
| start: "lease_step (Proposed b) (Running b)"
| stop: "l \<in> {Proposed b, Running b, Reported b out} \<Longrightarrow> lease_step l (Stopping b)"
| report: "lease_step (Running b) (Reported b out)"
| report_cancelled: "lease_step (Stopping b) (Reported b (TerminalCancelled, result, evidence))"
| kill: "l \<in> {Proposed b, Running b, Stopping b, Reported b out} \<Longrightarrow> lease_step l (Dead b)"
| settle: "lease_step (Reported b out) (Settled b out)"
| release: "lease_step (Settled b out) Free"

inductive_cases lease_step_FreeE: "lease_step Free l"
inductive_cases lease_step_DeadE: "lease_step (Dead b) l"
inductive_cases lease_step_SettledE: "lease_step l (Settled b out)"
inductive_cases lease_step_StoppingE: "lease_step (Stopping b) l"

definition outcome_of :: "attemptRecord \<Rightarrow> lease_outcome" where
  "outcome_of a = (ar_terminalStatus a, ar_terminalResult a, ar_terminalEvidence a)"

definition lease_of :: "attemptRecord \<Rightarrow> lease" where
  "lease_of a =
     (case ar_state a of
        AttemptIdle \<Rightarrow> Free
      | AttemptOffered \<Rightarrow> Proposed (ar_binding a)
      | AttemptClaimPending \<Rightarrow> Proposed (ar_binding a)
      | AttemptClaimed \<Rightarrow> Running (ar_binding a)
      | AttemptCancelRequested \<Rightarrow> Stopping (ar_binding a)
      | AttemptCancelAcked \<Rightarrow> Stopping (ar_binding a)
      | AttemptFenced \<Rightarrow> if ar_cancelCode a = CancelFenced then Dead (ar_binding a) else Stopping (ar_binding a)
      | AttemptTerminalPending \<Rightarrow> Reported (ar_binding a) (outcome_of a)
      | AttemptTerminalCommitted \<Rightarrow> Settled (ar_binding a) (outcome_of a)
      | AttemptStateOther _ \<Rightarrow> Dead (ar_binding a))"

abbreviation lease_moves :: "lease \<Rightarrow> lease \<Rightarrow> bool" where
  "lease_moves \<equiv> lease_step\<^sup>=\<^sup>="

lemma lease_of_record [simp]:
  "lease_of (settle_pending d s (record_attempt_message d s fp a)) = lease_of a"
  by (simp add: lease_of_def outcome_of_def split: AttemptState.split)

lemma lease_arms:
  "transition_offer m d x b = Inr a \<Longrightarrow> lease_moves (lease_of (m_attempt m)) (lease_of a)"
  "transition_claim m d = Inr a \<Longrightarrow> lease_moves (lease_of (m_attempt m)) (lease_of a)"
  "transition_accepted m d = Inr a \<Longrightarrow> lease_moves (lease_of (m_attempt m)) (lease_of a)"
  "transition_progress m d pg = Inr a \<Longrightarrow> lease_moves (lease_of (m_attempt m)) (lease_of a)"
  "transition_cancel m d c = Inr a \<Longrightarrow> lease_moves (lease_of (m_attempt m)) (lease_of a)"
  "transition_cancel_ack m d ca = Inr a \<Longrightarrow> lease_moves (lease_of (m_attempt m)) (lease_of a)"
  "transition_terminal_ack m d ta = Inr a \<Longrightarrow> lease_moves (lease_of (m_attempt m)) (lease_of a)"
  by (auto simp: transition_defs Let_def lease_of_def outcome_of_def clear_terminal_def split: if_splits
      intro: lease_step.intros)

lemma lease_terminal:
  assumes t: "transition_terminal m d x = Inr a" and i: "attempt_inv m"
  shows "lease_moves (lease_of (m_attempt m)) (lease_of a)"
proof (cases "revoked_connection m")
  case True
  then show ?thesis using t
    by (auto simp: transition_terminal_def Let_def lease_of_def split: if_splits)
next
  case False
  then have w: "attempt_wf (m_attempt m)" using i by (simp add: attempt_inv_def)
  then have c: "ar_state (m_attempt m) \<in> {AttemptCancelRequested, AttemptCancelAcked, AttemptFenced} \<Longrightarrow>
      ar_cancelRevision (m_attempt m) = 1"
    by (simp add: attempt_wf_def state_fields_ok_def)
  show ?thesis using t c
    by (auto simp: transition_terminal_def Let_def lease_of_def outcome_of_def split: if_splits
        intro: lease_step.intros)
qed

lemma lease_transition:
  assumes t: "applyAttemptTransition m d f b = Inr a" and i: "attempt_inv m" and k: "fr_Kind f \<in> attempt_kinds"
  shows "lease_moves (lease_of (m_attempt m)) (lease_of a)"
  using k transition_arms [OF t] lease_terminal [OF _ i] by (auto simp: attempt_kinds_def dest: lease_arms)

lemma lease_fence: "lease_moves (lease_of a) (lease_of (fence_attempt a))"
  by (cases "ar_state a") (auto simp: lease_of_def fence_attempt_def outcome_of_def intro: lease_step.intros)

lemma lease_frame:
  assumes "frame_step d f now m n" "attempt_inv m" "m_connection m \<noteq> ConnectionReconnectPending"
  shows "lease_moves (lease_of (m_attempt m)) (lease_of (m_attempt n))"
  using assms(1)
proof (cases rule: frame_step.cases)
  case (attempt b s a)
  then show ?thesis using lease_transition [OF attempt(9) assms(2) attempt(2)] by simp
next
  case (revoke x)
  then show ?thesis using lease_fence [of "m_attempt m"] by simp
qed (use assms(3) in auto)

text \<open>The calls of a connection whose state is not being replaced by the one the platform reports on a reconnect.\<close>

definition connected_step :: "ConformanceMachine \<Rightarrow> ConformanceMachine \<Rightarrow> bool" where
  "connected_step m m' = (machine_step m m' \<and> m_connection m \<noteq> ConnectionReconnectPending)"

lemma lease_machine_step:
  assumes r: "reachable m" and s: "connected_step m m'"
  shows "lease_moves (lease_of (m_attempt m)) (lease_of (m_attempt m'))"
proof -
  from s have st: "machine_step m m'" and c: "m_connection m \<noteq> ConnectionReconnectPending"
    by (auto simp: connected_step_def)
  from st show ?thesis
  proof (cases rule: machine_step_cases)
    case (frame d f x n)
    have "lease_moves (lease_of (m_attempt m)) (lease_of (m_attempt n))"
      using lease_frame [OF apply_frame_step [OF frame(5)] attempt_invariant.invariant [OF r] c] .
    then show ?thesis using frame(6) by (simp add: record_envelope_def Let_def)
  next
    case erased
    then show ?thesis by (auto simp: lease_of_def idle_attempt_def intro: lease_step.intros)
  qed (auto simp: reconnect_machine_def)
qed

subsection \<open>Simulation\<close>

locale lease_simulation =
  fixes step :: "'s \<Rightarrow> 's \<Rightarrow> bool" and good :: "'s \<Rightarrow> bool" and view :: "'s \<Rightarrow> lease"
  assumes good_step: "good s \<Longrightarrow> step s s' \<Longrightarrow> good s'"
    and sim: "good s \<Longrightarrow> step s s' \<Longrightarrow> lease_moves (view s) (view s')"
begin

lemma run_good: "step\<^sup>*\<^sup>* s s' \<Longrightarrow> good s \<Longrightarrow> good s'"
  by (induction rule: rtranclp_induct) (auto dest: good_step)

lemma run_refines: "step\<^sup>*\<^sup>* s s' \<Longrightarrow> good s \<Longrightarrow> lease_step\<^sup>*\<^sup>* (view s) (view s')"
proof (induction rule: rtranclp_induct)
  case (step y z)
  then have "lease_moves (view y) (view z)" using sim run_good by blast
  then show ?case using step by auto
qed simp

lemma dead_stays: "step\<^sup>*\<^sup>* s s' \<Longrightarrow> good s \<Longrightarrow> view s = Dead b \<Longrightarrow> view s' = Dead b"
  using run_refines [of s s'] by (auto elim: converse_rtranclpE lease_step_DeadE)

text \<open>A settled lease was running under the same binding, and reported exactly this outcome.\<close>

lemma settled_reported:
  assumes "step\<^sup>*\<^sup>* s s'" "good s" "view s = Free" "view s' = Settled b out"
  shows "\<exists>t. step\<^sup>*\<^sup>* s t \<and> step\<^sup>*\<^sup>* t s' \<and> view t = Reported b out"
  using assms
proof (induction rule: rtranclp_induct)
  case (step y z)
  then have "lease_moves (view y) (view z)" using sim run_good by blast
  then consider "view y = view z" | "view y = Reported b out"
    using step.prems(3) by (auto elim: lease_step_SettledE)
  then show ?case
  proof cases
    case 1
    then obtain t where "step\<^sup>*\<^sup>* s t" "step\<^sup>*\<^sup>* t y" "view t = Reported b out" using step by auto
    then show ?thesis using step.hyps(2) by (meson rtranclp.rtrancl_into_rtrancl)
  next
    case 2
    then show ?thesis using step.hyps by (meson r_into_rtranclp)
  qed
qed simp

end

interpretation connection: lease_simulation connected_step reachable "\<lambda>m. lease_of (m_attempt m)"
proof
  show "reachable m'" if "reachable m" "connected_step m m'" for m m'
    using that by (auto simp: connected_step_def intro: reachable.step)
qed (rule lease_machine_step)

end
