(* ===== verification/Scenario.thy ===== *)
theory Scenario
  imports Lease
begin

text \<open>
  Runs of the conformance machine. The next frame a side may send is always accepted when its handler accepts it;
  from this a lease can be taken from its offer to its commitment on every ready connection. A concrete connection is
  brought from its start to readiness, with the signatures of the handshake verified, as the input of the witnesses.
\<close>

subsection \<open>A key whose signatures are easy to compute\<close>

text \<open>
  A run of the machine needs signatures that verify, and evaluating the curve inside the logic is out of reach.
  The neutral element of the curve is a public key that the verification accepts like any other; under it the
  signature with \<open>R\<close> the neutral element and \<open>S = 0\<close> verifies for every message.
\<close>

definition ex_key :: string where "ex_key = CHR 0x01 # replicate 31 (CHR 0x00)"
definition ex_signature :: string where "ex_signature = ex_key @ replicate 32 (CHR 0x00)"

lemma fe_p_large: "2 ^ 254 < fe_p" "1 < fe_p"
  by (simp_all add: fe_p_def)

lemma pow_mod_one: "1 < m \<Longrightarrow> pow_mod m 1 e = 1"
proof (induction "nat e" arbitrary: e rule: less_induct)
  case less
  show ?case
  proof (cases "e \<le> 0")
    case False
    then have "pow_mod m 1 (e div 2) = 1" using less by simp
    then show ?thesis using less(2) by (simp add: pow_mod.simps [of m 1 e] Let_def)
  qed (simp add: pow_mod.simps [of m 1 e])
qed

lemma fe_inv_one: "fe_inv 1 = 1"
  using fe_p_large by (simp add: fe_inv_def pow_mod_one)

lemma identity_add: "pt_add pt_identity pt_identity = pt_identity"
  using fe_p_large by (simp add: pt_add_def pt_identity_def Let_def fe_inv_one)

lemma identity_mult: "pt_mult k pt_identity = pt_identity"
proof (induction "nat k" arbitrary: k rule: less_induct)
  case less
  then have "0 < k \<Longrightarrow> pt_mult (k div 2) pt_identity = pt_identity" by simp
  then show ?case by (simp add: pt_mult.simps [of k] Let_def identity_add)
qed

lemma ex_bytes: "byte (CHR 0x00) = 0" "byte (CHR 0x01) = 1" "char_of (0 :: int) = CHR 0x00" "char_of (1 :: int) = CHR 0x01"
  by (simp_all add: byte_def char_of_def)

lemma length_ex_key: "length ex_key = 32"
  by (simp add: ex_key_def)

lemma length_ex_signature [simp]: "length ex_signature = 64"
  by (simp add: ex_signature_def ex_key_def)

lemma SqrtRatio_zero: "fe_SqrtRatio 0 v = Some 0"
  by (simp add: fe_SqrtRatio_def Let_def)

lemma ex_key_point: "pt_SetBytes ex_key = Some pt_identity"
proof -
  have n: "le_int ex_key = 1" by (simp add: ex_key_def le_int_def numeral_eq_Suc ex_bytes)
  have p: "(1 :: int) mod fe_p = 1" using fe_p_large by simp
  show ?thesis by (simp add: pt_SetBytes_def n p SqrtRatio_zero length_ex_key pt_identity_def)
qed

lemma ex_key_bytes: "pt_Bytes pt_identity = ex_key"
proof -
  have digit: "(1 :: int) div 256 ^ i = 0" if "0 < i" for i
    using one_less_power [of "256 :: int" i] that by (intro div_pos_pos_trivial) auto
  have "map (\<lambda>i. char_of ((1 :: int) div 256 ^ i mod 256)) [1..<32] = map (\<lambda>_. CHR 0x00) [1..<32]"
    by (intro map_cong) (auto simp: digit ex_bytes)
  then have "map (\<lambda>i. char_of ((1 :: int) div 256 ^ i mod 256)) [0..<32] = CHR 0x01 # replicate 31 (CHR 0x00)"
    by (simp add: upt_conv_Cons [of 0] ex_bytes map_replicate_const del: upt_rec)
  then show ?thesis by (simp add: pt_Bytes_def pt_identity_def le_bytes_def ex_key_def)
qed

lemma ex_signature_verifies: "ed25519_Verify ex_key message ex_signature"
proof -
  have "pt_negate pt_identity = pt_identity" by (simp add: pt_negate_def pt_identity_def)
  moreover have "pt_mult 0 basepoint = pt_identity" by (simp add: pt_mult.simps [of 0])
  moreover have "le_int (drop 32 ex_signature) = 0"
    by (simp add: ex_signature_def ex_key_def le_int_def numeral_eq_Suc ex_bytes)
  moreover have "take 32 ex_signature = ex_key" by (simp add: ex_signature_def ex_key_def)
  moreover have "length ex_signature = SignatureSize" by (simp add: SignatureSize_def)
  moreover have "0 < group_order" by (simp add: group_order_def)
  ultimately show ?thesis
    by (simp add: ed25519_Verify_def ex_key_point ex_key_bytes identity_add identity_mult Let_def)
qed

subsection \<open>The next frame of a side\<close>

definition next_frame :: "ConformanceMachine \<Rightarrow> Direction \<Rightarrow> MessageKind \<Rightarrow> FrameV1" where
  "next_frame m d kind =
     (let auth = cf_Auth (m_config m); s = sq_sequence (envelope_sender d m) + 1
      in (empty_frame kind)\<lparr>fr_Version := ac_Version auth, fr_MessageID := MessageIDV1 d s, fr_WorkerID := ac_WorkerID auth,
           fr_EnrollmentGeneration := ac_EnrollmentGeneration auth, fr_ConnectionGeneration := ac_ConnectionGeneration auth,
           fr_Sequence := s, fr_Ack := sq_sequence (envelope_peer d m)\<rparr>)"

definition headed :: "ConformanceMachine \<Rightarrow> Direction \<Rightarrow> FrameV1 \<Rightarrow> bool" where
  "headed m d f =
     (let g = next_frame m d (fr_Kind f)
      in fr_Version f = fr_Version g \<and> fr_MessageID f = fr_MessageID g \<and> fr_WorkerID f = fr_WorkerID g \<and>
         fr_EnrollmentGeneration f = fr_EnrollmentGeneration g \<and> fr_ConnectionGeneration f = fr_ConnectionGeneration g \<and>
         fr_Sequence f = fr_Sequence g \<and> fr_Ack f = fr_Ack g)"

lemma opaque_digit: "n < (10 :: nat) \<Longrightarrow> opaque_char (char_of (48 + n))"
  by (auto simp: opaque_char_def byte_def)

lemma FormatNat_opaque: "list_all opaque_char (FormatNat n)"
proof (induction n rule: FormatNat.induct)
  case (1 n)
  then show ?case by (subst FormatNat.simps) (auto simp: opaque_digit)
qed

lemma MessageIDV1_opaque [simp]: "validOpaque (MessageIDV1 d s)"
proof -
  have "unat s < 10 ^ 20" using unat_u64_less [of s] by simp
  then have "length (FormatNat (unat s)) \<le> 20" by (intro FormatNat_length) auto
  then have "length (MessageIDV1 d s) = 22" by (simp add: MessageIDV1_def pad20_def)
  moreover have "opaque_char (CHR ''0'')" "opaque_char (CHR ''p'')" "opaque_char (CHR ''w'')" "opaque_char (CHR ''-'')"
    by (simp_all add: opaque_char_def byte_def)
  then have "list_all opaque_char (MessageIDV1 d s)"
    using FormatNat_opaque [of "unat s"] by (auto simp: MessageIDV1_def pad20_def list_all_iff)
  ultimately show ?thesis by (auto simp: validOpaque_iff maxOpaqueBytes_def)
qed

lemma accept_next:
  assumes ok: "auth_ok m" "watermarks_ok m" "validDirection d" "sq_sequence (envelope_sender d m) \<noteq> MaxUint64"
    and x: "ax_ChannelBinding x = ac_ChannelBinding (cf_Auth (m_config m))" "0 < ax_NowUnixMicro x"
    and f: "FrameV1_Validate f = None" "headed m d f" and n: "apply_frame m d f (ax_NowUnixMicro x) = (n, None)"
  shows "accept_frame m d f x = (record_envelope d f n, None)" and "auth_ok (record_envelope d f n)"
    and "watermarks_ok (record_envelope d f n)"
proof -
  note head = f(2) [unfolded headed_def next_frame_def Let_def]
  have u: "\<not> envelope_unauthorized m d f x"
    using ok(1,3) x f(1) head by (simp add: envelope_unauthorized_def auth_ok_def Let_def)
  have s: "fr_Sequence f = sq_sequence (envelope_sender d m) + 1" "fr_Sequence f \<noteq> sq_sequence (envelope_sender d m)"
    using head by simp_all
  have a: "sq_ack (envelope_sender d m) \<le> fr_Ack f" "fr_Ack f = sq_sequence (envelope_peer d m)"
    using head ok(2) by (auto simp: watermarks_ok_iff envelope_sender_def envelope_peer_def)
  have i: "fr_MessageID f = MessageIDV1 d (fr_Sequence f)" using head by simp
  show "accept_frame m d f x = (record_envelope d f n, None)"
    using u s a i ok(4) n by (simp add: accept_frame_def Let_def leD)
  show "watermarks_ok (record_envelope d f n)"
    using watermarks_step [OF ok(2,3,4) s(1) _ n] a(2) by simp
  show "auth_ok (record_envelope d f n)"
    using ok(1) apply_frame_fields(1) [OF n] by (simp add: auth_ok_def record_envelope_def Let_def)
qed

subsection \<open>The life of a lease\<close>

text \<open>
  A connection that is ready and works on the lease \<open>b\<close>: the attempt is in the given state after \<open>p\<close> messages of
  the platform and \<open>w\<close> of the worker, nobody has cancelled it, and both sides can still number \<open>r\<close> frames.
\<close>

definition lease_at ::
    "ConformanceMachine \<Rightarrow> AcceptanceContextV1 \<Rightarrow> AttemptBindingV1 \<Rightarrow> AttemptState \<Rightarrow> u64 \<Rightarrow> u64 \<Rightarrow> nat \<Rightarrow> bool" where
  "lease_at m x b st p w r =
     (auth_ok m \<and> watermarks_ok m \<and> m_connection m = ConnectionReady \<and>
      ax_ChannelBinding x = ac_ChannelBinding (cf_Auth (m_config m)) \<and> 0 < ax_NowUnixMicro x \<and>
      ax_NowUnixMicro x < ab_ExpiresAtUnixMicro b \<and> AttemptBindingV1_Validate b = None \<and>
      ab_CapabilityDigest b = m_capabilityDigest m \<and> ar_pendingWorkerTerminal (m_attempt m) = None \<and>
      ar_state (m_attempt m) = st \<and> (st = AttemptIdle \<or> ar_binding (m_attempt m) = b) \<and>
      aq_sequence (ar_platform (m_attempt m)) = p \<and> aq_sequence (ar_worker (m_attempt m)) = w \<and>
      ar_cancelRevision (m_attempt m) = 0 \<and> ar_cancelCode (m_attempt m) = CancelUnset \<and>
      unat (sq_sequence (m_platform m)) + r < 2 ^ 64 \<and> unat (sq_sequence (m_worker m)) + r < 2 ^ 64)"

lemma sequence_room:
  assumes "unat s + Suc r < 2 ^ 64"
  shows "s \<noteq> (MaxUint64 :: u64)" and "unat (s + 1) + r < 2 ^ 64"
  using assms by (auto simp: unat_word_ariths)

lemma attempt_advance:
  assumes l: "lease_at m x b st p w (Suc r)" and d: "validDirection d"
    and f: "FrameV1_Validate f = None" "headed m d f" "fr_Kind f \<in> attempt_kinds" "attemptPayload f = Some (b, s)"
    and s: "s = (if d = DirectionPlatformToWorker then p else w) + 1"
      "(if d = DirectionPlatformToWorker then p else w) < MaxAttemptMessages"
    and t: "applyAttemptTransition m d f b = Inr a" "ar_cancelRevision a = 0" "ar_cancelCode a = CancelUnset"
      "ar_binding a = b"
  obtains m' where "accept_frame m d f x = (m', None)" "outcome_of (m_attempt m') = outcome_of a"
    "ar_terminalSequence (m_attempt m') = ar_terminalSequence a"
    "lease_at m' x b (ar_state a) (if d = DirectionPlatformToWorker then s else p)
       (if d = DirectionPlatformToWorker then w else s) r"
proof -
  note L = l [unfolded lease_at_def]
  let ?n = "m\<lparr>m_attempt := settle_pending d s (record_attempt_message d s (attemptFingerprint f) a)\<rparr>"
  have sender: "aq_sequence (attempt_sender d (m_attempt m)) = (if d = DirectionPlatformToWorker then p else w)"
    using L by (simp add: attempt_sender_def)
  have seq: "\<not> s \<le> aq_sequence (attempt_sender d (m_attempt m))"
    "aq_sequence (attempt_sender d (m_attempt m)) \<noteq> MaxUint64"
    "s = aq_sequence (attempt_sender d (m_attempt m)) + 1"
    using s unfolding sender
    by (auto simp: MaxAttemptMessages_def MaxUint64_def word_le_nat_alt word_less_nat_alt unat_word_ariths split: if_splits)
  have "acceptAttempt m d f (ax_NowUnixMicro x) = (?n, None)"
    using L seq t(1) f(4) by (auto simp: acceptAttempt_def Let_def pending_refusal_def sameAttemptBinding_def)
  then have n: "apply_frame m d f (ax_NowUnixMicro x) = (?n, None)"
    using f(3) by (auto simp: apply_frame_def attempt_kinds_def)
  have room: "sq_sequence (envelope_sender d m) \<noteq> MaxUint64"
    using L sequence_room(1) by (auto simp: envelope_sender_def)
  let ?m = "record_envelope d f ?n"
  have a: "accept_frame m d f x = (?m, None)" "auth_ok ?m" "watermarks_ok ?m"
    using accept_next [OF _ _ d room _ _ f(1,2) n] L by blast+
  have pend: "ar_pendingWorkerTerminal a = None" "ar_state a \<noteq> AttemptIdle"
    using transition_frame(1,2) [OF t(1)] L by simp_all
  have q: "fr_Sequence f = sq_sequence (envelope_sender d m) + 1" using f(2) by (simp add: headed_def next_frame_def Let_def)
  have room': "unat (sq_sequence (m_platform ?m)) + r < 2 ^ 64" "unat (sq_sequence (m_worker ?m)) + r < 2 ^ 64"
    using L q sequence_room(2) [of _ r] by (auto simp: record_envelope_def Let_def envelope_sender_def)
  have at': "m_attempt ?m = settle_pending d s (record_attempt_message d s (attemptFingerprint f) a)"
    "m_connection ?m = m_connection m" "m_capabilityDigest ?m = m_capabilityDigest m" "m_config ?m = m_config m"
    by (simp_all add: record_envelope_def Let_def)
  have "ar_pendingWorkerTerminal (m_attempt ?m) = None"
    using settle_pending_pending [of d s "record_attempt_message d s (attemptFingerprint f) a"] pend(1) at'(1) by simp
  moreover have "aq_sequence (ar_platform a) = p" "aq_sequence (ar_worker a) = w"
    using transition_counts [OF t(1)] L by simp_all
  ultimately have "lease_at ?m x b (ar_state a) (if d = DirectionPlatformToWorker then s else p)
       (if d = DirectionPlatformToWorker then w else s) r"
    using a(2,3) at' L t(2,3,4) room' unfolding lease_at_def by simp
  then show thesis using that [OF a(1)] at'(1) by (simp add: outcome_of_def)
qed

lemma headed_common:
  assumes "headed m d f" "auth_ok m" "sq_sequence (envelope_sender d m) \<noteq> MaxUint64"
  shows "validateFrameCommon f = None"
  using assms u64_next(1) [OF assms(3)]
  by (simp add: headed_def next_frame_def Let_def validateFrameCommon_def auth_ok_def AuthContextV1_Validate_def)

lemma frame_valid_iff:
  "FrameV1_Validate f = None \<longleftrightarrow>
     validateFrameCommon f = None \<and> (\<forall>c \<in> set (payload_checks f). c = None) \<and> length (payload_kinds f) = 1"
  using first_fault_None [of "payload_checks f"]
  by (auto simp: FrameV1_Validate_def simp del: first_fault_None split: option.splits)

lemmas frame_eval = frame_valid_iff payload_checks_def payload_kinds_def check_payload_def present_def

fun accept_all :: "ConformanceMachine \<Rightarrow> AcceptanceContextV1 \<Rightarrow> (Direction \<times> FrameV1) list \<Rightarrow> ConformanceMachine option" where
  "accept_all m x [] = Some m"
| "accept_all m x ((d, f) # fs) =
     (case accept_frame m d f x of (m', None) \<Rightarrow> accept_all m' x fs | (m', Some _) \<Rightarrow> None)"

lemma lease_at_room:
  "lease_at m x b st p w (Suc r) \<Longrightarrow> auth_ok m \<and> sq_sequence (envelope_sender d m) \<noteq> MaxUint64 \<and> m_connection m = ConnectionReady \<and>
     ar_state (m_attempt m) = st \<and> AttemptBindingV1_Validate b = None \<and> (st = AttemptIdle \<or> ar_binding (m_attempt m) = b) \<and>
     ar_cancelRevision (m_attempt m) = 0 \<and> ar_cancelCode (m_attempt m) = CancelUnset"
  using sequence_room(1) by (auto simp: lease_at_def envelope_sender_def)

lemmas lease_frame_eval = next_frame_def empty_frame_def Let_def attempt_kinds_def attemptPayload_def validDirection_def
  applyAttemptTransition_def with_payload_def MaxAttemptMessages_def

lemma headed_next [simp]:
  "headed m d ((next_frame m d k)\<lparr>fr_LeaseOffer := o'\<rparr>)" "headed m d ((next_frame m d k)\<lparr>fr_LeaseClaim := c\<rparr>)"
  "headed m d ((next_frame m d k)\<lparr>fr_LeaseAccepted := a\<rparr>)" "headed m d ((next_frame m d k)\<lparr>fr_Terminal := t\<rparr>)"
  "headed m d ((next_frame m d k)\<lparr>fr_TerminalAck := ta\<rparr>)"
  by (simp_all add: headed_def next_frame_def empty_frame_def Let_def)

lemma lease_offered:
  assumes l: "lease_at m x b AttemptIdle 0 0 (Suc r)"
  obtains f m' where "fr_Kind f = MessageLeaseOffer" "accept_frame m DirectionPlatformToWorker f x = (m', None)"
    "lease_at m' x b AttemptOffered 1 0 r"
proof -
  note L = lease_at_room [OF l, of DirectionPlatformToWorker]
  let ?f = "(next_frame m DirectionPlatformToWorker MessageLeaseOffer)\<lparr>fr_LeaseOffer := Some \<lparr>lo_Binding = b, lo_AttemptSequence = 1\<rparr>\<rparr>"
  have v: "FrameV1_Validate ?f = None"
    using headed_common [OF headed_next(1)] L
    by (simp add: frame_eval next_frame_def empty_frame_def Let_def LeaseOfferV1_Validate_def validateAttempt_def MaxAttemptMessages_def)
  show thesis
    by (rule attempt_advance [where s = 1 and a = "(m_attempt m)\<lparr>ar_binding := b, ar_state := AttemptOffered\<rparr>", OF l _ v headed_next(1)])
      (use that [of ?f] L in \<open>auto simp: lease_frame_eval transition_offer_def outcome_of_def validBytes_def revoked_connection_def\<close>)
qed

lemma lease_claimed:
  assumes l: "lease_at m x b AttemptOffered 1 0 (Suc r)"
  obtains f m' where "fr_Kind f = MessageLeaseClaim" "accept_frame m DirectionWorkerToPlatform f x = (m', None)"
    "lease_at m' x b AttemptClaimPending 1 1 r"
proof -
  note L = lease_at_room [OF l, of DirectionWorkerToPlatform]
  let ?f = "(next_frame m DirectionWorkerToPlatform MessageLeaseClaim)\<lparr>fr_LeaseClaim := Some \<lparr>lc_Binding = b, lc_AttemptSequence = 1\<rparr>\<rparr>"
  have v: "FrameV1_Validate ?f = None"
    using headed_common [OF headed_next(2)] L
    by (simp add: frame_eval next_frame_def empty_frame_def Let_def LeaseClaimV1_Validate_def validateAttempt_def MaxAttemptMessages_def)
  show thesis
    by (rule attempt_advance [where s = 1 and a = "(m_attempt m)\<lparr>ar_state := AttemptClaimPending\<rparr>", OF l _ v headed_next(2)])
      (use that [of ?f] L in \<open>auto simp: lease_frame_eval transition_claim_def outcome_of_def validBytes_def revoked_connection_def\<close>)
qed

lemma lease_accepted:
  assumes l: "lease_at m x b AttemptClaimPending 1 1 (Suc r)"
  obtains f m' where "fr_Kind f = MessageLeaseAccepted" "accept_frame m DirectionPlatformToWorker f x = (m', None)"
    "lease_at m' x b AttemptClaimed 2 1 r"
proof -
  note L = lease_at_room [OF l, of DirectionPlatformToWorker]
  let ?f = "(next_frame m DirectionPlatformToWorker MessageLeaseAccepted)\<lparr>fr_LeaseAccepted := Some \<lparr>la_Binding = b, la_AttemptSequence = 2\<rparr>\<rparr>"
  have v: "FrameV1_Validate ?f = None"
    using headed_common [OF headed_next(3)] L
    by (simp add: frame_eval next_frame_def empty_frame_def Let_def LeaseAcceptedV1_Validate_def validateAttempt_def MaxAttemptMessages_def)
  show thesis
    by (rule attempt_advance [where s = 2 and a = "(m_attempt m)\<lparr>ar_state := AttemptClaimed\<rparr>", OF l _ v headed_next(3)])
      (use that [of ?f] L in \<open>auto simp: lease_frame_eval transition_accepted_def outcome_of_def validBytes_def revoked_connection_def\<close>)
qed

lemma lease_reported:
  assumes l: "lease_at m x b AttemptClaimed 2 1 (Suc r)" and o: "validTerminalResult st res" "st \<noteq> TerminalCancelled" "length ev = 32"
  obtains f m' where "fr_Kind f = MessageTerminal" "accept_frame m DirectionWorkerToPlatform f x = (m', None)"
    "lease_at m' x b AttemptTerminalPending 2 2 r"
    "outcome_of (m_attempt m') = (st, res, ev)" "ar_terminalSequence (m_attempt m') = 1"
proof -
  note L = lease_at_room [OF l, of DirectionWorkerToPlatform]
  let ?f = "(next_frame m DirectionWorkerToPlatform MessageTerminal)\<lparr>fr_Terminal := Some \<lparr>tm_Binding = b, tm_AttemptSequence = 2, tm_TerminalSequence = 1, tm_Status = st, tm_Result = res, tm_EvidenceDigest = ev\<rparr>\<rparr>"
  have v: "FrameV1_Validate ?f = None"
    using headed_common [OF headed_next(4)] L o
    by (simp add: frame_eval next_frame_def empty_frame_def Let_def TerminalV1_Validate_def validateAttempt_def MaxAttemptMessages_def)
  show thesis
    by (rule attempt_advance [where s = 2 and a = "(m_attempt m)\<lparr>ar_terminalSequence := 1, ar_terminalStatus := st, ar_terminalResult := res, ar_terminalEvidence := ev, ar_state := AttemptTerminalPending\<rparr>", OF l _ v headed_next(4)])
      (use that [of ?f] L o in \<open>auto simp: lease_frame_eval transition_terminal_def outcome_of_def validBytes_def revoked_connection_def\<close>)
qed

lemma lease_committed:
  assumes l: "lease_at m x b AttemptTerminalPending 2 2 (Suc r)" and o: "outcome_of (m_attempt m) = (st, res, ev)" "ar_terminalSequence (m_attempt m) = 1" "validTerminalResult st res" "length ev = 32"
  obtains f m' where "fr_Kind f = MessageTerminalAck" "accept_frame m DirectionPlatformToWorker f x = (m', None)"
    "lease_at m' x b AttemptTerminalCommitted 3 2 r"
    "outcome_of (m_attempt m') = (st, res, ev)"
proof -
  note L = lease_at_room [OF l, of DirectionPlatformToWorker]
  let ?f = "(next_frame m DirectionPlatformToWorker MessageTerminalAck)\<lparr>fr_TerminalAck := Some \<lparr>ta_Binding = b, ta_AttemptSequence = 3, ta_TerminalSequence = 1, ta_Status = st, ta_Result = res, ta_EvidenceDigest = ev\<rparr>\<rparr>"
  have v: "FrameV1_Validate ?f = None"
    using headed_common [OF headed_next(5)] L o
    by (simp add: frame_eval next_frame_def empty_frame_def Let_def TerminalAckV1_Validate_def validateAttempt_def MaxAttemptMessages_def)
  show thesis
    by (rule attempt_advance [where s = 3 and a = "(m_attempt m)\<lparr>ar_state := AttemptTerminalCommitted\<rparr>", OF l _ v headed_next(5)])
      (use that [of ?f] L o in \<open>auto simp: lease_frame_eval transition_terminal_ack_def outcome_of_def validBytes_def revoked_connection_def\<close>)
qed

lemma ready_lease_at:
  assumes r: "reachable m" and c: "m_connection m = ConnectionReady" "ar_state (m_attempt m) = AttemptIdle"
    and x: "ax_ChannelBinding x = ac_ChannelBinding (cf_Auth (m_config m))" "0 < ax_NowUnixMicro x"
      "ax_NowUnixMicro x < ab_ExpiresAtUnixMicro b"
    and b: "AttemptBindingV1_Validate b = None" "ab_CapabilityDigest b = m_capabilityDigest m"
    and room: "unat (sq_sequence (m_platform m)) + k < 2 ^ 64" "unat (sq_sequence (m_worker m)) + k < 2 ^ 64"
  shows "lease_at m x b AttemptIdle 0 0 k"
proof -
  have "attempt_wf (m_attempt m)" "pending_ok (m_attempt m)"
    using attempt_invariant.invariant [OF r] c(1) by (auto simp: attempt_inv_def revoked_connection_def)
  then have "ar_pendingWorkerTerminal (m_attempt m) = None" "aq_sequence (ar_platform (m_attempt m)) = 0"
    "aq_sequence (ar_worker (m_attempt m)) = 0" "ar_cancelRevision (m_attempt m) = 0"
    "ar_cancelCode (m_attempt m) = CancelUnset"
    using c(2) by (auto simp: pending_ok_def attempt_wf_def state_fields_ok_def cancel_fields_ok_def)
  then show ?thesis
    using c x b room auth_inv.invariant [OF r] watermark_inv.invariant [OF r] by (simp add: lease_at_def)
qed

lemma lease_life:
  assumes l: "lease_at m x b AttemptIdle 0 0 5"
    and o: "validTerminalResult st res" "st \<noteq> TerminalCancelled" "length ev = 32"
  obtains fs m' where "accept_all m x fs = Some m'"
    "map (fr_Kind \<circ> snd) fs =
       [MessageLeaseOffer, MessageLeaseClaim, MessageLeaseAccepted, MessageTerminal, MessageTerminalAck]"
    "m_connection m' = ConnectionReady" "lease_of (m_attempt m') = Settled b (st, res, ev)"
proof -
  have l5: "lease_at m x b AttemptIdle 0 0 (Suc 4)" using l by simp
  obtain f1 m1 where 1: "fr_Kind f1 = MessageLeaseOffer" "accept_frame m DirectionPlatformToWorker f1 x = (m1, None)"
    "lease_at m1 x b AttemptOffered 1 0 (Suc 3)" by (rule lease_offered [OF l5]) (auto simp: numeral_eq_Suc)
  obtain f2 m2 where 2: "fr_Kind f2 = MessageLeaseClaim" "accept_frame m1 DirectionWorkerToPlatform f2 x = (m2, None)"
    "lease_at m2 x b AttemptClaimPending 1 1 (Suc 2)" by (rule lease_claimed [OF 1(3)]) (auto simp: numeral_eq_Suc)
  obtain f3 m3 where 3: "fr_Kind f3 = MessageLeaseAccepted" "accept_frame m2 DirectionPlatformToWorker f3 x = (m3, None)"
    "lease_at m3 x b AttemptClaimed 2 1 (Suc 1)" by (rule lease_accepted [OF 2(3)]) (auto simp: numeral_eq_Suc)
  obtain f4 m4 where 4: "fr_Kind f4 = MessageTerminal" "accept_frame m3 DirectionWorkerToPlatform f4 x = (m4, None)"
    "lease_at m4 x b AttemptTerminalPending 2 2 (Suc 0)" "outcome_of (m_attempt m4) = (st, res, ev)"
    "ar_terminalSequence (m_attempt m4) = 1" by (rule lease_reported [OF 3(3) o]) (auto simp: numeral_eq_Suc)
  obtain f5 m5 where 5: "fr_Kind f5 = MessageTerminalAck" "accept_frame m4 DirectionPlatformToWorker f5 x = (m5, None)"
    "lease_at m5 x b AttemptTerminalCommitted 3 2 0" "outcome_of (m_attempt m5) = (st, res, ev)"
    by (rule lease_committed [OF 4(3-5) o(1,3)])
  have "lease_of (m_attempt m5) = Settled b (st, res, ev)" "m_connection m5 = ConnectionReady"
    using 5(3,4) by (auto simp: lease_at_def lease_of_def)
  then show thesis
    using 1 2 3 4 5
    by (intro that [of "[(DirectionPlatformToWorker, f1), (DirectionWorkerToPlatform, f2), (DirectionPlatformToWorker, f3),
      (DirectionWorkerToPlatform, f4), (DirectionPlatformToWorker, f5)]" m5]) simp_all
qed

subsection \<open>A connection from its start to readiness\<close>

definition ex_nonce :: string where "ex_nonce = replicate 32 (CHR ''n'')"
definition ex_versions :: VersionOfferV1 where
  "ex_versions = \<lparr>vo_Window = \<lparr>vw_Minimum = 1, vw_Maximum = 1\<rparr>, vo_Supported = [1]\<rparr>"

definition ex_auth :: AuthContextV1 where
  "ex_auth = \<lparr>ac_TenantID = ''t1'', ac_OwnerUserID = ''u1'', ac_WorkerID = ''w1'', ac_IdentityPublicKey = ex_key,
     ac_EnrollmentGeneration = 1, ac_ConnectionGeneration = 1, ac_Version = 1, ac_ChannelBinding = ex_nonce\<rparr>"

definition ex_config :: MachineConfig where
  "ex_config = \<lparr>cf_Auth = ex_auth, cf_WorkerOffer = ex_versions, cf_PlatformOffer = ex_versions, cf_ImplementedVersions = [1]\<rparr>"

definition ex_manifest :: CapabilityManifestV1 where
  "ex_manifest = \<lparr>cm_WorkerID = ''w1'', cm_EnrollmentGeneration = 1, cm_Revision = 1, cm_ProtocolOffer = ex_versions,
     cm_OperatingSystem = ''linux'', cm_Architecture = ''amd64'', cm_BuildID = ''b1'', cm_HarnessName = ''h1'',
     cm_HarnessVersion = ''v1'', cm_HarnessSurface = HarnessSurfaceSessionTurn, cm_HarnessExecutableDigest = ex_nonce,
     cm_IsolationEvidence = [IsolationProcessBoundary],
     cm_Features = [FeatureCancellation, FeatureProgress, FeatureReconnect], cm_MaxConcurrentAttempts = 1\<rparr>"

definition ex_capability :: string where
  "ex_capability = (case ManifestDigestV1 ex_manifest of Inr d \<Rightarrow> d | Inl _ \<Rightarrow> [])"

definition ex_moment :: AcceptanceContextV1 where
  "ex_moment = \<lparr>ax_ChannelBinding = ex_nonce, ax_NowUnixMicro = 1000\<rparr>"

lemma ex_opaque [simp]: "validOpaque ''t1''" "validOpaque ''u1''" "validOpaque ''w1''" "validOpaque ''b1''"
  "validOpaque ''h1''" "validOpaque ''v1''" "validOpaque ''linux''" "validOpaque ''amd64''"
  by (simp_all add: validOpaque_iff opaque_char_def byte_def maxOpaqueBytes_def)

lemma ex_nonce_length [simp]: "length ex_nonce = 32"
  by (simp add: ex_nonce_def)

lemma ex_versions_valid [simp]: "VersionOfferV1_Validate ex_versions = None"
  by (simp add: ex_versions_def VersionOfferV1_Validate_def VersionWindow_Validate_def
      maxVersionWidth_def)

lemma ex_new: "NewConformanceMachine ex_config = Inr (new_machine ex_config)"
  by (simp add: NewConformanceMachine_def ex_config_def ex_auth_def AuthContextV1_Validate_def length_ex_key
      ProtocolVersionV1_def) (simp add: NegotiateOffers_def ex_versions_def VersionOfferV1_Validate_def VersionWindow_Validate_def
      maxVersionWidth_def)

lemma ex_auth_valid [simp]: "AuthContextV1_Validate ex_auth = None"
  by (simp add: ex_auth_def AuthContextV1_Validate_def length_ex_key ProtocolVersionV1_def)

lemma ex_manifest_valid [simp]: "CapabilityManifestV1_Validate ex_manifest = None"
proof -
  have "FeatureCancellation < FeatureProgress" "FeatureProgress < FeatureReconnect"
    by (simp_all add: FeatureCancellation_def FeatureProgress_def FeatureReconnect_def less_char_def)
  then show ?thesis
    by (simp add: CapabilityManifestV1_Validate_def ex_manifest_def validBytes_def not_le)
qed

lemma ex_manifest_digest: "ManifestDigestV1 ex_manifest = Inr ex_capability" and ex_capability_length [simp]: "length ex_capability = 32"
  by (simp_all add: ex_capability_def ManifestDigestV1_def CanonicalManifestBytesV1_def Let_def)

lemma reach_next:
  fixes x :: AcceptanceContextV1
  assumes r: "reachable m" and d: "validDirection d" "sq_sequence (envelope_sender d m) \<noteq> MaxUint64"
    and x: "ax_ChannelBinding x = ac_ChannelBinding (cf_Auth (m_config m))" "0 < ax_NowUnixMicro x"
    and f: "FrameV1_Validate f = None" "headed m d f" "apply_frame m d f (ax_NowUnixMicro x) = (n, None)"
  shows "reachable (record_envelope d f n)" and "machine_step m (record_envelope d f n)"
proof -
  have "accept_frame m d f x = (record_envelope d f n, None)"
    using accept_next(1) [OF auth_inv.invariant [OF r] watermark_inv.invariant [OF r] d x f] .
  then show s: "machine_step m (record_envelope d f n)" using machine_step.accept [of m d f x] by (simp add: Accept_Some)
  then show "reachable (record_envelope d f n)" using r reachable.step by blast
qed

lemma record_envelope_sel [simp]:
  "m_hello (record_envelope d f n) = m_hello n" "m_revoke (record_envelope d f n) = m_revoke n"
  "m_drainReenvelopePending (record_envelope d f n) = m_drainReenvelopePending n"
  "m_platform (record_envelope DirectionWorkerToPlatform f n) = m_platform n"
  "m_worker (record_envelope DirectionPlatformToWorker f n) = m_worker n"
  "sq_sequence (m_platform (record_envelope DirectionPlatformToWorker f n)) = fr_Sequence f"
  "sq_sequence (m_worker (record_envelope DirectionWorkerToPlatform f n)) = fr_Sequence f"
  by (simp_all add: record_envelope_def Let_def)

text \<open>The five machines of the handshake.\<close>

definition ex_accept :: "ConformanceMachine \<Rightarrow> Direction \<Rightarrow> FrameV1 \<Rightarrow> ConformanceMachine" where
  "ex_accept m d f = record_envelope d f (fst (apply_frame m d f 1000))"

definition ex_m0 :: ConformanceMachine where "ex_m0 = new_machine ex_config"

definition ex_hello :: FrameV1 where
  "ex_hello = (next_frame ex_m0 DirectionWorkerToPlatform MessageHello)
     \<lparr>fr_Hello := Some \<lparr>he_Offer = ex_versions, he_WorkerNonce = ex_nonce\<rparr>\<rparr>"

definition ex_m1 :: ConformanceMachine where "ex_m1 = ex_accept ex_m0 DirectionWorkerToPlatform ex_hello"

definition ex_challenge :: FrameV1 where
  "ex_challenge = (next_frame ex_m1 DirectionPlatformToWorker MessageChallenge)
     \<lparr>fr_Challenge := Some \<lparr>ch_WorkerOffer = ex_versions, ch_PlatformOffer = ex_versions, ch_SelectedVersion = 1,
        ch_WorkerNonce = ex_nonce, ch_PlatformNonce = ex_nonce\<rparr>\<rparr>"

definition ex_m2 :: ConformanceMachine where "ex_m2 = ex_accept ex_m1 DirectionPlatformToWorker ex_challenge"

definition ex_attach :: FrameV1 where
  "ex_attach = (next_frame ex_m2 DirectionWorkerToPlatform MessageAttach)
     \<lparr>fr_Attach := Some \<lparr>at_WorkerOffer = ex_versions, at_PlatformOffer = ex_versions, at_SelectedVersion = 1,
        at_WorkerNonce = ex_nonce, at_PlatformNonce = ex_nonce, at_CapabilityDigest = ex_capability, at_Signature = ex_signature\<rparr>\<rparr>"

definition ex_m3 :: ConformanceMachine where "ex_m3 = ex_accept ex_m2 DirectionWorkerToPlatform ex_attach"

definition ex_attached :: FrameV1 where
  "ex_attached = (next_frame ex_m3 DirectionPlatformToWorker MessageAttachAccepted)
     \<lparr>fr_AttachAccepted := Some \<lparr>aa_WorkerOffer = ex_versions, aa_PlatformOffer = ex_versions, aa_SelectedVersion = 1,
        aa_WorkerNonce = ex_nonce, aa_PlatformNonce = ex_nonce, aa_CapabilityDigest = ex_capability\<rparr>\<rparr>"

definition ex_m4 :: ConformanceMachine where "ex_m4 = ex_accept ex_m3 DirectionPlatformToWorker ex_attached"

definition ex_manifest_frame :: FrameV1 where
  "ex_manifest_frame = (next_frame ex_m4 DirectionWorkerToPlatform MessageManifest)
     \<lparr>fr_Manifest := Some \<lparr>mf_Manifest = ex_manifest, mf_Digest = ex_capability, mf_Signature = ex_signature\<rparr>\<rparr>"

definition ex_ready :: ConformanceMachine where "ex_ready = ex_accept ex_m4 DirectionWorkerToPlatform ex_manifest_frame"

definition ex_at :: "int \<Rightarrow> AcceptanceContextV1" where
  "ex_at now = \<lparr>ax_ChannelBinding = ex_nonce, ax_NowUnixMicro = now\<rparr>"

lemma apply_frame_time: "fr_Kind f \<notin> attempt_kinds \<Longrightarrow> apply_frame m d f now = apply_frame m d f now'"
  by (simp add: apply_frame_def attempt_kinds_def split: MessageKind.split)

lemma ex_reach:
  assumes "reachable m" "m_config m = ex_config" "validDirection d" "sq_sequence (envelope_sender d m) < 5"
    and "FrameV1_Validate f = None" "headed m d f" "apply_frame m d f 1000 = (n, None)"
  shows "reachable (ex_accept m d f)" and "ex_accept m d f = record_envelope d f n" and "machine_step m (ex_accept m d f)"
    and "0 < now \<Longrightarrow> fr_Kind f \<notin> attempt_kinds \<Longrightarrow> accept_frame m d f (ex_at now) = (ex_accept m d f, None)"
proof -
  have s: "sq_sequence (envelope_sender d m) \<noteq> MaxUint64" using assms(4) by (auto simp: MaxUint64_def)
  show "accept_frame m d f (ex_at now) = (ex_accept m d f, None)" if "0 < now" "fr_Kind f \<notin> attempt_kinds"
    using accept_next(1) [OF auth_inv.invariant [OF assms(1)] watermark_inv.invariant [OF assms(1)] assms(3) s, of "ex_at now" f n]
      assms(2,5-7) that apply_frame_time [OF that(2), of m d now 1000]
    by (simp add: ex_at_def ex_accept_def ex_auth_def ex_config_def)
  show "reachable (ex_accept m d f)" "ex_accept m d f = record_envelope d f n" "machine_step m (ex_accept m d f)"
    using reach_next [OF assms(1,3), of ex_moment f n] s assms(2,5-7)
    by (simp_all add: ex_accept_def ex_moment_def ex_auth_def ex_config_def)
qed

lemmas ex_frame_eval = frame_eval next_frame_def empty_frame_def Let_def validateFrameCommon_def validBytes_def
  ex_auth_def ex_config_def ProtocolVersionV1_def validDirection_def headed_def apply_frame_def

lemma ex_sides [simp]:
  "envelope_sender DirectionPlatformToWorker m = m_platform m" "envelope_sender DirectionWorkerToPlatform m = m_worker m"
  "envelope_peer DirectionPlatformToWorker m = m_worker m" "envelope_peer DirectionWorkerToPlatform m = m_platform m"
  by (simp_all add: envelope_sender_def envelope_peer_def)

lemma ex_m0: "reachable ex_m0" "m_config ex_m0 = ex_config" "m_connection ex_m0 = ConnectionUnattached" "\<not> m_reconnecting ex_m0 \<and> m_drainRevision ex_m0 = 0 \<and> \<not> m_drainReenvelopePending ex_m0"
  "m_attempt ex_m0 = idle_attempt" "sq_sequence (m_worker ex_m0) = 0" "sq_sequence (m_platform ex_m0) = 0"
  using reachable.start [OF ex_new] by (simp_all add: ex_m0_def new_machine_def zero_sequence_def)

lemma ex_negotiate: "NegotiateOffers ex_versions ex_versions [1] = Inr 1"
  by (simp add: NegotiateOffers_def ex_versions_def VersionOfferV1_Validate_def VersionWindow_Validate_def maxVersionWidth_def)

lemma ex_supports: "1 \<in> set (vo_Supported ex_versions)"
  by (simp add: ex_versions_def)

lemma ex_m1: "reachable ex_m1" "m_config ex_m1 = ex_config" "m_connection ex_m1 = ConnectionHello" "\<not> m_reconnecting ex_m1 \<and> m_drainRevision ex_m1 = 0 \<and> \<not> m_drainReenvelopePending ex_m1" "m_attempt ex_m1 = idle_attempt"
  "sq_sequence (m_worker ex_m1) = 1" "sq_sequence (m_platform ex_m1) = 0"
  "m_hello ex_m1 = \<lparr>he_Offer = ex_versions, he_WorkerNonce = ex_nonce\<rparr>"
  "0 < now \<Longrightarrow> accept_frame ex_m0 DirectionWorkerToPlatform ex_hello (ex_at now) = (ex_m1, None)"
proof -
  note m = ex_m0
  let ?n = "ex_m0\<lparr>m_hello := \<lparr>he_Offer = ex_versions, he_WorkerNonce = ex_nonce\<rparr>, m_connection := ConnectionHello\<rparr>"
  have a: "apply_frame ex_m0 DirectionWorkerToPlatform ex_hello 1000 = (?n, None)"
    by (simp add: ex_hello_def ex_frame_eval acceptHello_def m )
  have v: "FrameV1_Validate ex_hello = None"
    by (simp add: ex_hello_def ex_frame_eval m HelloV1_Validate_def)
  have h: "headed ex_m0 DirectionWorkerToPlatform ex_hello" by (simp add: ex_hello_def ex_frame_eval)
  have r: "reachable ex_m1" "ex_m1 = record_envelope DirectionWorkerToPlatform ex_hello ?n"
    using ex_reach(1,2) [OF m(1,2) _ _ v h a] m by (simp_all add: ex_m1_def validDirection_def)
  show "reachable ex_m1" by (rule r)
  show "m_config ex_m1 = ex_config" "m_connection ex_m1 = ConnectionHello" "\<not> m_reconnecting ex_m1 \<and> m_drainRevision ex_m1 = 0 \<and> \<not> m_drainReenvelopePending ex_m1" "m_attempt ex_m1 = idle_attempt"
  "sq_sequence (m_worker ex_m1) = 1" "sq_sequence (m_platform ex_m1) = 0"
  "m_hello ex_m1 = \<lparr>he_Offer = ex_versions, he_WorkerNonce = ex_nonce\<rparr>"
    by (simp_all add: r(2) m ex_hello_def next_frame_def empty_frame_def Let_def)
  show "accept_frame ex_m0 DirectionWorkerToPlatform ex_hello (ex_at now) = (ex_m1, None)" if "0 < now"
    using ex_reach(4) [OF m(1,2) _ _ v h a that] m
    by (simp add: ex_m1_def ex_hello_def validDirection_def next_frame_def empty_frame_def Let_def attempt_kinds_def)
qed

lemma ex_m2: "reachable ex_m2" "m_config ex_m2 = ex_config" "m_connection ex_m2 = ConnectionChallenged" "\<not> m_reconnecting ex_m2 \<and> m_drainRevision ex_m2 = 0 \<and> \<not> m_drainReenvelopePending ex_m2" "m_attempt ex_m2 = idle_attempt"
  "sq_sequence (m_worker ex_m2) = 1" "sq_sequence (m_platform ex_m2) = 1"
  "m_challenge ex_m2 = \<lparr>ch_WorkerOffer = ex_versions, ch_PlatformOffer = ex_versions, ch_SelectedVersion = 1,
     ch_WorkerNonce = ex_nonce, ch_PlatformNonce = ex_nonce\<rparr>"
  "0 < now \<Longrightarrow> accept_frame ex_m1 DirectionPlatformToWorker ex_challenge (ex_at now) = (ex_m2, None)"
proof -
  note m = ex_m1
  let ?n = "ex_m1\<lparr>m_challenge := \<lparr>ch_WorkerOffer = ex_versions, ch_PlatformOffer = ex_versions, ch_SelectedVersion = 1,
     ch_WorkerNonce = ex_nonce, ch_PlatformNonce = ex_nonce\<rparr>, m_connection := ConnectionChallenged\<rparr>"
  have a: "apply_frame ex_m1 DirectionPlatformToWorker ex_challenge 1000 = (?n, None)"
    by (simp add: ex_challenge_def ex_frame_eval acceptChallenge_def m ex_negotiate)
  have v: "FrameV1_Validate ex_challenge = None"
    by (simp add: ex_challenge_def ex_frame_eval m ChallengeV1_Validate_def)
  have h: "headed ex_m1 DirectionPlatformToWorker ex_challenge" by (simp add: ex_challenge_def ex_frame_eval)
  have r: "reachable ex_m2" "ex_m2 = record_envelope DirectionPlatformToWorker ex_challenge ?n"
    using ex_reach(1,2) [OF m(1,2) _ _ v h a] m by (simp_all add: ex_m2_def validDirection_def)
  show "reachable ex_m2" by (rule r)
  show "m_config ex_m2 = ex_config" "m_connection ex_m2 = ConnectionChallenged" "\<not> m_reconnecting ex_m2 \<and> m_drainRevision ex_m2 = 0 \<and> \<not> m_drainReenvelopePending ex_m2" "m_attempt ex_m2 = idle_attempt"
  "sq_sequence (m_worker ex_m2) = 1" "sq_sequence (m_platform ex_m2) = 1"
  "m_challenge ex_m2 = \<lparr>ch_WorkerOffer = ex_versions, ch_PlatformOffer = ex_versions, ch_SelectedVersion = 1,
     ch_WorkerNonce = ex_nonce, ch_PlatformNonce = ex_nonce\<rparr>"
    by (simp_all add: r(2) m ex_challenge_def next_frame_def empty_frame_def Let_def)
  show "accept_frame ex_m1 DirectionPlatformToWorker ex_challenge (ex_at now) = (ex_m2, None)" if "0 < now"
    using ex_reach(4) [OF m(1,2) _ _ v h a that] m
    by (simp add: ex_m2_def ex_challenge_def validDirection_def next_frame_def empty_frame_def Let_def attempt_kinds_def)
qed

lemma ex_m3: "reachable ex_m3" "m_config ex_m3 = ex_config" "m_connection ex_m3 = ConnectionAttachPending" "\<not> m_reconnecting ex_m3 \<and> m_drainRevision ex_m3 = 0 \<and> \<not> m_drainReenvelopePending ex_m3" "m_attempt ex_m3 = idle_attempt"
  "sq_sequence (m_worker ex_m3) = 2" "sq_sequence (m_platform ex_m3) = 1"
  "m_challenge ex_m3 = \<lparr>ch_WorkerOffer = ex_versions, ch_PlatformOffer = ex_versions, ch_SelectedVersion = 1,
     ch_WorkerNonce = ex_nonce, ch_PlatformNonce = ex_nonce\<rparr>" "m_capabilityDigest ex_m3 = ex_capability"
  "0 < now \<Longrightarrow> accept_frame ex_m2 DirectionWorkerToPlatform ex_attach (ex_at now) = (ex_m3, None)"
proof -
  note m = ex_m2
  let ?n = "ex_m2\<lparr>m_capabilityDigest := ex_capability, m_connection := ConnectionAttachPending\<rparr>"
  have v: "FrameV1_Validate ex_attach = None"
    by (simp add: ex_attach_def ex_frame_eval m AttachV1_Validate_def validateNegotiationProof_def ex_supports)
  have s: "VerifyAttachV1 ex_auth ex_attach = None"
    using v by (simp add: VerifyAttachV1_def verifyFrame_def AttachTranscriptV1_def validateSignedFrame_def hasExactlySignedPayload_def
        validateAttachForTranscript_def ex_attach_def ex_frame_eval m ex_signature_verifies ex_manifest_digest validateNegotiationProof_def
        ex_supports AuthContextV1_Validate_def length_ex_key)
  have a: "apply_frame ex_m2 DirectionWorkerToPlatform ex_attach 1000 = (?n, None)"
    using s by (simp add: apply_frame_def acceptAttach_def m ex_attach_def next_frame_def empty_frame_def Let_def
        negotiationMatchesChallenge_def ex_config_def)
  have h: "headed ex_m2 DirectionWorkerToPlatform ex_attach" by (simp add: ex_attach_def ex_frame_eval)
  have r: "reachable ex_m3" "ex_m3 = record_envelope DirectionWorkerToPlatform ex_attach ?n"
    using ex_reach(1,2) [OF m(1,2) _ _ v h a] m by (simp_all add: ex_m3_def validDirection_def)
  show "reachable ex_m3" by (rule r)
  show "m_config ex_m3 = ex_config" "m_connection ex_m3 = ConnectionAttachPending" "\<not> m_reconnecting ex_m3 \<and> m_drainRevision ex_m3 = 0 \<and> \<not> m_drainReenvelopePending ex_m3" "m_attempt ex_m3 = idle_attempt"
  "sq_sequence (m_worker ex_m3) = 2" "sq_sequence (m_platform ex_m3) = 1"
  "m_challenge ex_m3 = \<lparr>ch_WorkerOffer = ex_versions, ch_PlatformOffer = ex_versions, ch_SelectedVersion = 1,
     ch_WorkerNonce = ex_nonce, ch_PlatformNonce = ex_nonce\<rparr>" "m_capabilityDigest ex_m3 = ex_capability"
    by (simp_all add: r(2) m ex_attach_def next_frame_def empty_frame_def Let_def)
  show "accept_frame ex_m2 DirectionWorkerToPlatform ex_attach (ex_at now) = (ex_m3, None)" if "0 < now"
    using ex_reach(4) [OF m(1,2) _ _ v h a that] m
    by (simp add: ex_m3_def ex_attach_def validDirection_def next_frame_def empty_frame_def Let_def attempt_kinds_def)
qed

lemma ex_m4: "reachable ex_m4" "m_config ex_m4 = ex_config" "m_connection ex_m4 = ConnectionAttached" "\<not> m_reconnecting ex_m4 \<and> m_drainRevision ex_m4 = 0 \<and> \<not> m_drainReenvelopePending ex_m4" "m_attempt ex_m4 = idle_attempt"
  "sq_sequence (m_worker ex_m4) = 2" "sq_sequence (m_platform ex_m4) = 2"
  "m_capabilityDigest ex_m4 = ex_capability"
  "0 < now \<Longrightarrow> accept_frame ex_m3 DirectionPlatformToWorker ex_attached (ex_at now) = (ex_m4, None)"
proof -
  note m = ex_m3
  let ?n = "ex_m3\<lparr>m_connection := ConnectionAttached\<rparr>"
  have a: "apply_frame ex_m3 DirectionPlatformToWorker ex_attached 1000 = (?n, None)"
    by (simp add: ex_attached_def ex_frame_eval acceptAttachAccepted_def m negotiationMatchesChallenge_def acceptedMatchesChallenge_def)
  have v: "FrameV1_Validate ex_attached = None"
    by (simp add: ex_attached_def ex_frame_eval m AttachAcceptedV1_Validate_def validateNegotiationProof_def ex_supports)
  have h: "headed ex_m3 DirectionPlatformToWorker ex_attached" by (simp add: ex_attached_def ex_frame_eval)
  have r: "reachable ex_m4" "ex_m4 = record_envelope DirectionPlatformToWorker ex_attached ?n"
    using ex_reach(1,2) [OF m(1,2) _ _ v h a] m by (simp_all add: ex_m4_def validDirection_def)
  show "reachable ex_m4" by (rule r)
  show "m_config ex_m4 = ex_config" "m_connection ex_m4 = ConnectionAttached" "\<not> m_reconnecting ex_m4 \<and> m_drainRevision ex_m4 = 0 \<and> \<not> m_drainReenvelopePending ex_m4" "m_attempt ex_m4 = idle_attempt"
  "sq_sequence (m_worker ex_m4) = 2" "sq_sequence (m_platform ex_m4) = 2"
  "m_capabilityDigest ex_m4 = ex_capability"
    by (simp_all add: r(2) m ex_attached_def next_frame_def empty_frame_def Let_def)
  show "accept_frame ex_m3 DirectionPlatformToWorker ex_attached (ex_at now) = (ex_m4, None)" if "0 < now"
    using ex_reach(4) [OF m(1,2) _ _ v h a that] m
    by (simp add: ex_m4_def ex_attached_def validDirection_def next_frame_def empty_frame_def Let_def attempt_kinds_def)
qed

lemma ex_ready: "reachable ex_ready" "m_config ex_ready = ex_config" "m_connection ex_ready = ConnectionReady" "\<not> m_reconnecting ex_ready \<and> m_drainRevision ex_ready = 0 \<and> \<not> m_drainReenvelopePending ex_ready" "m_attempt ex_ready = idle_attempt"
  "sq_sequence (m_worker ex_ready) = 3" "sq_sequence (m_platform ex_ready) = 2"
  "m_capabilityDigest ex_ready = ex_capability" "m_manifest ex_ready = ex_manifest"
  "0 < now \<Longrightarrow> accept_frame ex_m4 DirectionWorkerToPlatform ex_manifest_frame (ex_at now) = (ex_ready, None)"
proof -
  note m = ex_m4
  let ?n = "ex_m4\<lparr>m_manifest := ex_manifest, m_connection := ConnectionReady\<rparr>"
  have v: "FrameV1_Validate ex_manifest_frame = None"
    by (simp add: ex_manifest_frame_def ex_frame_eval m ManifestV1_Validate_def)
  have s: "VerifyManifestV1 ex_auth ex_manifest_frame = None"
    using v by (simp add: VerifyManifestV1_def verifyFrame_def ManifestTranscriptV1_def validateSignedFrame_def hasExactlySignedPayload_def
        validateManifestForTranscript_def ex_manifest_frame_def ex_frame_eval m ex_signature_verifies ex_manifest_digest validateNegotiationProof_def
        ex_supports AuthContextV1_Validate_def length_ex_key)
  have a: "apply_frame ex_m4 DirectionWorkerToPlatform ex_manifest_frame 1000 = (?n, None)"
    using s by (simp add: apply_frame_def acceptManifest_def m ex_manifest_frame_def next_frame_def empty_frame_def Let_def
        negotiationMatchesChallenge_def ex_config_def) (simp add: ex_manifest_def ex_auth_def)
  have h: "headed ex_m4 DirectionWorkerToPlatform ex_manifest_frame" by (simp add: ex_manifest_frame_def ex_frame_eval)
  have r: "reachable ex_ready" "ex_ready = record_envelope DirectionWorkerToPlatform ex_manifest_frame ?n"
    using ex_reach(1,2) [OF m(1,2) _ _ v h a] m by (simp_all add: ex_ready_def validDirection_def)
  show "reachable ex_ready" by (rule r)
  show "m_config ex_ready = ex_config" "m_connection ex_ready = ConnectionReady" "\<not> m_reconnecting ex_ready \<and> m_drainRevision ex_ready = 0 \<and> \<not> m_drainReenvelopePending ex_ready" "m_attempt ex_ready = idle_attempt"
  "sq_sequence (m_worker ex_ready) = 3" "sq_sequence (m_platform ex_ready) = 2"
  "m_capabilityDigest ex_ready = ex_capability" "m_manifest ex_ready = ex_manifest"
    by (simp_all add: r(2) m ex_manifest_frame_def next_frame_def empty_frame_def Let_def)
  show "accept_frame ex_m4 DirectionWorkerToPlatform ex_manifest_frame (ex_at now) = (ex_ready, None)" if "0 < now"
    using ex_reach(4) [OF m(1,2) _ _ v h a that] m
    by (simp add: ex_ready_def ex_manifest_frame_def validDirection_def next_frame_def empty_frame_def Let_def attempt_kinds_def)
qed

definition ex_lease :: AttemptBindingV1 where
  "ex_lease = \<lparr>ab_RunID = ''r1'', ab_AttemptID = ''a1'', ab_LeaseID = ''l1'', ab_LeaseGeneration = 1, ab_FenceToken = ''f1'',
     ab_ExpiresAtUnixMicro = 2000, ab_ContextDigest = ex_nonce, ab_CapabilityDigest = ex_capability, ab_PolicyDigest = ex_nonce\<rparr>"

lemma ex_lease_valid [simp]: "AttemptBindingV1_Validate ex_lease = None"
  by (simp add: ex_lease_def AttemptBindingV1_Validate_def validBytes_def)
     (simp add: validOpaque_iff opaque_char_def byte_def maxOpaqueBytes_def)

lemma ex_ready_room: "unat (sq_sequence (m_platform ex_ready)) + 5 < 2 ^ 64" "unat (sq_sequence (m_worker ex_ready)) + 5 < 2 ^ 64"
  unfolding ex_ready(6,7) by simp_all

lemma ex_ready_idle: "ar_state (m_attempt ex_ready) = AttemptIdle" "\<not> revoked_connection ex_ready"
  by (simp_all add: ex_ready idle_attempt_def revoked_connection_def)

lemma ex_ready_context: "ax_ChannelBinding ex_moment = ac_ChannelBinding (cf_Auth (m_config ex_ready))" "0 < ax_NowUnixMicro ex_moment"
  "ax_NowUnixMicro ex_moment < ab_ExpiresAtUnixMicro ex_lease" "ab_CapabilityDigest ex_lease = m_capabilityDigest ex_ready"
  by (simp_all add: ex_ready ex_moment_def ex_config_def ex_auth_def ex_lease_def)

lemma ex_ready_lease: "lease_at ex_ready ex_moment ex_lease AttemptIdle 0 0 5"
  by (rule ready_lease_at [OF ex_ready(1,3) ex_ready_idle(1) ex_ready_context(1-3) ex_lease_valid ex_ready_context(4) ex_ready_room])

text \<open>Machines in the middle of a lease, one of them cancelled.\<close>

definition ex_attempt :: "AttemptState \<Rightarrow> attemptRecord" where
  "ex_attempt st = idle_attempt\<lparr>ar_state := st, ar_binding := ex_lease,
     ar_platform := zero_attempt_sequence\<lparr>aq_sequence := 2\<rparr>, ar_worker := zero_attempt_sequence\<lparr>aq_sequence := 1\<rparr>\<rparr>"

definition ex_running :: ConformanceMachine where
  "ex_running = ex_ready\<lparr>m_attempt := ex_attempt AttemptClaimed\<rparr>"

definition ex_reported :: ConformanceMachine where
  "ex_reported = ex_ready\<lparr>m_attempt := (ex_attempt AttemptTerminalPending)\<lparr>ar_terminalSequence := 1,
     ar_terminalStatus := TerminalSucceeded, ar_terminalResult := TerminalResultCompleted, ar_terminalEvidence := ex_nonce\<rparr>\<rparr>"

definition ex_cancelled :: ConformanceMachine where
  "ex_cancelled = ex_ready\<lparr>m_attempt := (ex_attempt AttemptCancelRequested)\<lparr>ar_cancelRevision := 1, ar_cancelCode := CancelRequested\<rparr>\<rparr>"

lemma ex_with_attempt:
  assumes "validDirection d" "FrameV1_Validate f = None" "headed (ex_ready\<lparr>m_attempt := a\<rparr>) d f"
    "apply_frame (ex_ready\<lparr>m_attempt := a\<rparr>) d f (ax_NowUnixMicro ex_moment) = (n, None)"
  shows "Accept (Some (ex_ready\<lparr>m_attempt := a\<rparr>)) d f ex_moment = (Some (record_envelope d f n), None)"
proof -
  have "auth_ok (ex_ready\<lparr>m_attempt := a\<rparr>)" "watermarks_ok (ex_ready\<lparr>m_attempt := a\<rparr>)"
    using auth_inv.invariant [OF ex_ready(1)] watermark_inv.invariant [OF ex_ready(1)]
    by (simp_all add: auth_ok_def watermarks_ok_iff)
  moreover have "sq_sequence (envelope_sender d (ex_ready\<lparr>m_attempt := a\<rparr>)) \<noteq> MaxUint64"
    using ex_ready(6,7) by (simp add: envelope_sender_def MaxUint64_def)
  ultimately show ?thesis
    using accept_next(1) [OF _ _ assms(1) _ _ ex_ready_context(2) assms(2,3,4)] ex_ready_context(1) by (simp add: Accept_Some)
qed

lemma ex_hello_accepted: "Accept (Some ex_m0) DirectionWorkerToPlatform ex_hello ex_moment = (Some ex_m1, None)"
proof -
  let ?n = "ex_m0\<lparr>m_hello := \<lparr>he_Offer = ex_versions, he_WorkerNonce = ex_nonce\<rparr>, m_connection := ConnectionHello\<rparr>"
  have a: "apply_frame ex_m0 DirectionWorkerToPlatform ex_hello (ax_NowUnixMicro ex_moment) = (?n, None)"
    by (simp add: ex_hello_def ex_frame_eval acceptHello_def ex_m0 ex_moment_def)
  moreover have "FrameV1_Validate ex_hello = None" by (simp add: ex_hello_def ex_frame_eval ex_m0 HelloV1_Validate_def)
  moreover have "headed ex_m0 DirectionWorkerToPlatform ex_hello" by (simp add: ex_hello_def ex_frame_eval)
  ultimately have "accept_frame ex_m0 DirectionWorkerToPlatform ex_hello ex_moment =
      (record_envelope DirectionWorkerToPlatform ex_hello ?n, None)"
    by (intro accept_next(1)) (simp_all add: auth_inv.invariant watermark_inv.invariant ex_m0 validDirection_def MaxUint64_def
        ex_moment_def ex_config_def ex_auth_def)
  moreover have "ex_m1 = record_envelope DirectionWorkerToPlatform ex_hello ?n"
    using a by (simp add: ex_m1_def ex_accept_def ex_moment_def)
  ultimately show ?thesis by (simp add: Accept_Some)
qed

text \<open>The same connection drained, and revoked.\<close>

definition ex_drain :: FrameV1 where
  "ex_drain = (next_frame ex_ready DirectionPlatformToWorker MessageDrain)\<lparr>fr_Drain := Some \<lparr>dr_Revision = 1\<rparr>\<rparr>"

definition ex_draining :: ConformanceMachine where "ex_draining = ex_accept ex_ready DirectionPlatformToWorker ex_drain"

lemma ex_draining: "reachable ex_draining" "m_config ex_draining = ex_config" "m_connection ex_draining = ConnectionDraining" "\<not> m_reconnecting ex_draining" "m_attempt ex_draining = idle_attempt"
  "sq_sequence (m_worker ex_draining) = 3" "sq_sequence (m_platform ex_draining) = 3" "m_drainRevision ex_draining = 1"
  "machine_step ex_ready ex_draining"
  "0 < now \<Longrightarrow> accept_frame ex_ready DirectionPlatformToWorker ex_drain (ex_at now) = (ex_draining, None)"
proof -
  note m = ex_ready
  let ?n = "ex_ready\<lparr>m_drainRevision := 1, m_connection := ConnectionDraining\<rparr>"
  have a: "apply_frame ex_ready DirectionPlatformToWorker ex_drain 1000 = (?n, None)"
    by (simp add: ex_drain_def ex_frame_eval acceptDrain_def m )
  have v: "FrameV1_Validate ex_drain = None" by (simp add: ex_drain_def ex_frame_eval m DrainV1_Validate_def)
  have h: "headed ex_ready DirectionPlatformToWorker ex_drain" by (simp add: ex_drain_def ex_frame_eval)
  note r = ex_reach [OF m(1,2) _ _ v h a]
  have s: "sq_sequence (envelope_sender DirectionPlatformToWorker ex_ready) < 5" "validDirection DirectionPlatformToWorker" by (simp_all add: m validDirection_def)
  then have e: "ex_draining = record_envelope DirectionPlatformToWorker ex_drain ?n" using r(2) by (simp add: ex_draining_def)
  show "reachable ex_draining" "machine_step ex_ready ex_draining" using r(1,3) s by (simp_all add: ex_draining_def)
  show "m_config ex_draining = ex_config" "m_connection ex_draining = ConnectionDraining" "\<not> m_reconnecting ex_draining" "m_attempt ex_draining = idle_attempt"
  "sq_sequence (m_worker ex_draining) = 3" "sq_sequence (m_platform ex_draining) = 3" "m_drainRevision ex_draining = 1"
    by (simp_all add: e m ex_drain_def next_frame_def empty_frame_def Let_def)
  show "accept_frame ex_ready DirectionPlatformToWorker ex_drain (ex_at now) = (ex_draining, None)" if "0 < now"
    using ex_reach(4) [OF m(1,2) _ _ v h a that] m
    by (simp add: ex_draining_def ex_drain_def validDirection_def next_frame_def empty_frame_def Let_def attempt_kinds_def)
qed

definition ex_drained_frame :: FrameV1 where
  "ex_drained_frame = (next_frame ex_draining DirectionWorkerToPlatform MessageDrained)\<lparr>fr_Drained := Some \<lparr>dd_Revision = 1\<rparr>\<rparr>"

definition ex_drained :: ConformanceMachine where "ex_drained = ex_accept ex_draining DirectionWorkerToPlatform ex_drained_frame"

lemma ex_drained: "reachable ex_drained" "m_config ex_drained = ex_config" "m_connection ex_drained = ConnectionDrained" "\<not> m_reconnecting ex_drained" "m_attempt ex_drained = idle_attempt"
  "sq_sequence (m_worker ex_drained) = 4" "sq_sequence (m_platform ex_drained) = 3"
  "machine_step ex_draining ex_drained"
  "0 < now \<Longrightarrow> accept_frame ex_draining DirectionWorkerToPlatform ex_drained_frame (ex_at now) = (ex_drained, None)"
proof -
  note m = ex_draining
  let ?n = "ex_draining\<lparr>m_connection := ConnectionDrained\<rparr>"
  have a: "apply_frame ex_draining DirectionWorkerToPlatform ex_drained_frame 1000 = (?n, None)"
    by (simp add: ex_drained_frame_def ex_frame_eval acceptDrained_def m idle_attempt_def)
  have v: "FrameV1_Validate ex_drained_frame = None" by (simp add: ex_drained_frame_def ex_frame_eval m DrainedV1_Validate_def DrainV1_Validate_def)
  have h: "headed ex_draining DirectionWorkerToPlatform ex_drained_frame" by (simp add: ex_drained_frame_def ex_frame_eval)
  note r = ex_reach [OF m(1,2) _ _ v h a]
  have s: "sq_sequence (envelope_sender DirectionWorkerToPlatform ex_draining) < 5" "validDirection DirectionWorkerToPlatform" by (simp_all add: m validDirection_def)
  then have e: "ex_drained = record_envelope DirectionWorkerToPlatform ex_drained_frame ?n" using r(2) by (simp add: ex_drained_def)
  show "reachable ex_drained" "machine_step ex_draining ex_drained" using r(1,3) s by (simp_all add: ex_drained_def)
  show "m_config ex_drained = ex_config" "m_connection ex_drained = ConnectionDrained" "\<not> m_reconnecting ex_drained" "m_attempt ex_drained = idle_attempt"
  "sq_sequence (m_worker ex_drained) = 4" "sq_sequence (m_platform ex_drained) = 3"
    by (simp_all add: e m ex_drained_frame_def next_frame_def empty_frame_def Let_def)
  show "accept_frame ex_draining DirectionWorkerToPlatform ex_drained_frame (ex_at now) = (ex_drained, None)" if "0 < now"
    using ex_reach(4) [OF m(1,2) _ _ v h a that] m
    by (simp add: ex_drained_def ex_drained_frame_def validDirection_def next_frame_def empty_frame_def Let_def attempt_kinds_def)
qed

definition ex_revoke :: FrameV1 where
  "ex_revoke = (next_frame ex_ready DirectionPlatformToWorker MessageRevoke)\<lparr>fr_Revoke := Some \<lparr>rv_Revision = 1, rv_NextEnrollmentGeneration = 2, rv_NextConnectionGeneration = 2\<rparr>\<rparr>"

definition ex_revoking :: ConformanceMachine where "ex_revoking = ex_accept ex_ready DirectionPlatformToWorker ex_revoke"

lemma ex_revoking: "reachable ex_revoking" "m_config ex_revoking = ex_config" "m_connection ex_revoking = ConnectionRevoking" "\<not> m_reconnecting ex_revoking" "m_attempt ex_revoking = fence_attempt idle_attempt"
  "sq_sequence (m_worker ex_revoking) = 3" "sq_sequence (m_platform ex_revoking) = 3" "m_revoke ex_revoking = \<lparr>rv_Revision = 1, rv_NextEnrollmentGeneration = 2, rv_NextConnectionGeneration = 2\<rparr>"
  "machine_step ex_ready ex_revoking"
proof -
  note m = ex_ready
  let ?n = "ex_ready\<lparr>m_revoke := \<lparr>rv_Revision = 1, rv_NextEnrollmentGeneration = 2, rv_NextConnectionGeneration = 2\<rparr>, m_attempt := fence_attempt idle_attempt, m_connection := ConnectionRevoking\<rparr>"
  have a: "apply_frame ex_ready DirectionPlatformToWorker ex_revoke 1000 = (?n, None)"
    by (simp add: ex_revoke_def ex_frame_eval acceptRevoke_def m MaxUint64_def)
  have v: "FrameV1_Validate ex_revoke = None" by (simp add: ex_revoke_def ex_frame_eval m RevokeV1_Validate_def)
  have h: "headed ex_ready DirectionPlatformToWorker ex_revoke" by (simp add: ex_revoke_def ex_frame_eval)
  note r = ex_reach [OF m(1,2) _ _ v h a]
  have s: "sq_sequence (envelope_sender DirectionPlatformToWorker ex_ready) < 5" "validDirection DirectionPlatformToWorker" by (simp_all add: m validDirection_def)
  then have e: "ex_revoking = record_envelope DirectionPlatformToWorker ex_revoke ?n" using r(2) by (simp add: ex_revoking_def)
  show "reachable ex_revoking" "machine_step ex_ready ex_revoking" using r(1,3) s by (simp_all add: ex_revoking_def)
  show "m_config ex_revoking = ex_config" "m_connection ex_revoking = ConnectionRevoking" "\<not> m_reconnecting ex_revoking" "m_attempt ex_revoking = fence_attempt idle_attempt"
  "sq_sequence (m_worker ex_revoking) = 3" "sq_sequence (m_platform ex_revoking) = 3" "m_revoke ex_revoking = \<lparr>rv_Revision = 1, rv_NextEnrollmentGeneration = 2, rv_NextConnectionGeneration = 2\<rparr>"
    by (simp_all add: e m ex_revoke_def next_frame_def empty_frame_def Let_def)
qed

definition ex_revoked_frame :: FrameV1 where
  "ex_revoked_frame = (next_frame ex_revoking DirectionWorkerToPlatform MessageRevoked)\<lparr>fr_Revoked := Some \<lparr>rd_Revision = 1, rd_NextEnrollmentGeneration = 2, rd_NextConnectionGeneration = 2\<rparr>\<rparr>"

definition ex_revoked :: ConformanceMachine where "ex_revoked = ex_accept ex_revoking DirectionWorkerToPlatform ex_revoked_frame"

lemma ex_revoked: "reachable ex_revoked" "m_config ex_revoked = ex_config" "m_connection ex_revoked = ConnectionRevoked" "\<not> m_reconnecting ex_revoked" "m_attempt ex_revoked = fence_attempt idle_attempt"
  "sq_sequence (m_worker ex_revoked) = 4" "sq_sequence (m_platform ex_revoked) = 3"
  "machine_step ex_revoking ex_revoked"
proof -
  note m = ex_revoking
  let ?n = "ex_revoking\<lparr>m_connection := ConnectionRevoked\<rparr>"
  have a: "apply_frame ex_revoking DirectionWorkerToPlatform ex_revoked_frame 1000 = (?n, None)"
    by (simp add: ex_revoked_frame_def ex_frame_eval acceptRevoked_def m fence_attempt_def idle_attempt_def)
  have v: "FrameV1_Validate ex_revoked_frame = None" by (simp add: ex_revoked_frame_def ex_frame_eval m RevokedV1_Validate_def RevokeV1_Validate_def)
  have h: "headed ex_revoking DirectionWorkerToPlatform ex_revoked_frame" by (simp add: ex_revoked_frame_def ex_frame_eval)
  note r = ex_reach [OF m(1,2) _ _ v h a]
  have s: "sq_sequence (envelope_sender DirectionWorkerToPlatform ex_revoking) < 5" "validDirection DirectionWorkerToPlatform" by (simp_all add: m validDirection_def)
  then have e: "ex_revoked = record_envelope DirectionWorkerToPlatform ex_revoked_frame ?n" using r(2) by (simp add: ex_revoked_def)
  show "reachable ex_revoked" "machine_step ex_revoking ex_revoked" using r(1,3) s by (simp_all add: ex_revoked_def)
  show "m_config ex_revoked = ex_config" "m_connection ex_revoked = ConnectionRevoked" "\<not> m_reconnecting ex_revoked" "m_attempt ex_revoked = fence_attempt idle_attempt"
  "sq_sequence (m_worker ex_revoked) = 4" "sq_sequence (m_platform ex_revoked) = 3"
    by (simp_all add: e m ex_revoked_frame_def next_frame_def empty_frame_def Let_def)
qed

text \<open>The acknowledgement of a reported outcome, and an outcome that crosses a cancellation.\<close>

definition ex_terminal_ack :: FrameV1 where
  "ex_terminal_ack = (next_frame ex_reported DirectionPlatformToWorker MessageTerminalAck)
     \<lparr>fr_TerminalAck := Some \<lparr>ta_Binding = ex_lease, ta_AttemptSequence = 3, ta_TerminalSequence = 1,
        ta_Status = TerminalSucceeded, ta_Result = TerminalResultCompleted, ta_EvidenceDigest = ex_nonce\<rparr>\<rparr>"

definition ex_terminal :: FrameV1 where
  "ex_terminal = (next_frame ex_cancelled DirectionWorkerToPlatform MessageTerminal)
     \<lparr>fr_Terminal := Some \<lparr>tm_Binding = ex_lease, tm_AttemptSequence = 2, tm_TerminalSequence = 1,
        tm_Status = TerminalSucceeded, tm_Result = TerminalResultCompleted, tm_EvidenceDigest = ex_nonce\<rparr>\<rparr>"

lemmas ex_attempt_eval = ex_attempt_def idle_attempt_def zero_attempt_sequence_def ex_frame_eval acceptAttempt_def
  attemptPayload_def pending_refusal_def attempt_sender_def applyAttemptTransition_def with_payload_def revoked_connection_def
  sameAttemptBinding_def MaxUint64_def validateAttempt_def MaxAttemptMessages_def

lemma ex_lease_facts: "ab_CapabilityDigest ex_lease = ex_capability" "ab_ExpiresAtUnixMicro ex_lease = 2000"
  by (simp_all add: ex_lease_def)

lemma ex_commit:
  obtains m' where "Accept (Some ex_reported) DirectionPlatformToWorker ex_terminal_ack ex_moment = (Some m', None)"
    "ar_state (m_attempt m') = AttemptTerminalCommitted"
proof -
  have v: "FrameV1_Validate ex_terminal_ack = None"
    by (simp add: ex_terminal_ack_def ex_reported_def ex_ready ex_attempt_eval TerminalAckV1_Validate_def)
  have h: "headed ex_reported DirectionPlatformToWorker ex_terminal_ack" by (simp add: ex_terminal_ack_def ex_frame_eval)
  obtain n where a: "apply_frame ex_reported DirectionPlatformToWorker ex_terminal_ack (ax_NowUnixMicro ex_moment) = (n, None)"
    "ar_state (m_attempt n) = AttemptTerminalCommitted"
    by (simp add: ex_terminal_ack_def ex_reported_def ex_ready ex_attempt_eval transition_terminal_ack_def ex_lease_facts ex_moment_def)
  show thesis
    using that ex_with_attempt [OF _ v h [unfolded ex_reported_def] a(1) [unfolded ex_reported_def]] a(2)
    by (simp add: ex_reported_def validDirection_def)
qed

lemma ex_crossed:
  obtains m' where "Accept (Some ex_cancelled) DirectionWorkerToPlatform ex_terminal ex_moment = (Some m', None)"
proof -
  have v: "FrameV1_Validate ex_terminal = None"
    by (simp add: ex_terminal_def ex_cancelled_def ex_ready ex_attempt_eval TerminalV1_Validate_def)
  have h: "headed ex_cancelled DirectionWorkerToPlatform ex_terminal" by (simp add: ex_terminal_def ex_frame_eval)
  obtain n where a: "apply_frame ex_cancelled DirectionWorkerToPlatform ex_terminal (ax_NowUnixMicro ex_moment) = (n, None)"
    by (simp add: ex_terminal_def ex_cancelled_def ex_ready ex_attempt_eval transition_terminal_def ex_lease_facts ex_moment_def word_le_nat_alt)
  show thesis
    using that ex_with_attempt [OF _ v h [unfolded ex_cancelled_def] a [unfolded ex_cancelled_def]]
    by (simp add: ex_cancelled_def validDirection_def)
qed

lemma accept_all_connected:
  "accept_all m x fs = Some m' \<Longrightarrow> list_all (\<lambda>(d, f). fr_Kind f \<in> attempt_kinds) fs \<Longrightarrow>
   m_connection m \<noteq> ConnectionReconnectPending \<Longrightarrow> connected_step\<^sup>*\<^sup>* m m'"
proof (induction m x fs rule: accept_all.induct)
  case (2 m x d f fs)
  then obtain n where n: "accept_frame m d f x = (n, None)" "accept_all n x fs = Some m'"
    by (auto split: prod.splits option.splits)
  have "m_connection n = m_connection m"
    using n(1)
  proof (cases rule: accept_frame_cases)
    case (step k)
    have "fr_Kind f \<in> attempt_kinds" using "2.prems"(2) by simp
    with apply_frame_step [OF step(1)] have "m_connection k = m_connection m"
      by (cases rule: frame_step.cases) (auto simp: attempt_kinds_def)
    then show ?thesis using step(2) by simp
  qed simp
  then have "connected_step\<^sup>*\<^sup>* n m'" using 2 n by auto
  moreover have "connected_step m n"
    using n(1) "2.prems"(3) machine_step.accept [of m d f x] by (simp add: connected_step_def Accept_Some)
  ultimately show ?case by (rule converse_rtranclp_into_rtranclp [rotated])
qed simp

lemma ex_life:
  obtains fs m' where "accept_all ex_ready ex_moment fs = Some m'" "list_all (\<lambda>(d, f). fr_Kind f \<in> attempt_kinds) fs"
    "lease_of (m_attempt m') = Settled ex_lease (TerminalSucceeded, TerminalResultCompleted, ex_nonce)"
proof -
  obtain fs m' where l: "accept_all ex_ready ex_moment fs = Some m'"
    "map (fr_Kind \<circ> snd) fs = [MessageLeaseOffer, MessageLeaseClaim, MessageLeaseAccepted, MessageTerminal, MessageTerminalAck]"
    "lease_of (m_attempt m') = Settled ex_lease (TerminalSucceeded, TerminalResultCompleted, ex_nonce)"
    by (rule lease_life [OF ex_ready_lease, of TerminalSucceeded TerminalResultCompleted ex_nonce]) auto
  have "list_all (\<lambda>k. k \<in> attempt_kinds) (map (fr_Kind \<circ> snd) fs)" unfolding l(2) by (simp add: attempt_kinds_def)
  then have "list_all (\<lambda>(d, f). fr_Kind f \<in> attempt_kinds) fs" by (auto simp: list_all_iff)
  then show thesis using that l by blast
qed

lemma ex_attach_transcript:
  obtains t where "transcript_of MessageAttach ex_auth ex_attach = Inr t"
  by (simp add: transcript_of_def AttachTranscriptV1_def validateSignedFrame_def hasExactlySignedPayload_def
      validateAttachForTranscript_def ex_attach_def ex_frame_eval ex_m2 validateNegotiationProof_def
      ex_supports AuthContextV1_Validate_def length_ex_key)

text \<open>
  Snapshots of a lost connection: the platform's record of a running or a cancelled attempt, and the claims of a worker
  that has finished it.
\<close>

definition ex_summary :: "AttemptState \<Rightarrow> u64 \<Rightarrow> u64 \<Rightarrow> u64 \<Rightarrow> AttemptSummaryV1" where
  "ex_summary st worker cancel terminal = attempt_summary ((ex_attempt st)\<lparr>
     ar_worker := zero_attempt_sequence\<lparr>aq_sequence := worker\<rparr>, ar_cancelRevision := cancel,
     ar_cancelCode := (if cancel = 0 then CancelUnset else CancelRequested), ar_terminalSequence := terminal,
     ar_terminalStatus := (if terminal = 0 then TerminalStatusUnset else TerminalSucceeded),
     ar_terminalResult := (if terminal = 0 then TerminalResultUnset else TerminalResultCompleted),
     ar_terminalEvidence := (if terminal = 0 then [] else ex_nonce)\<rparr>)"

definition ex_snapshot :: "AttemptSummaryV1 \<Rightarrow> ReconnectSnapshotV1" where
  "ex_snapshot a = snapshot_of 1 zero_watermarks a None"

definition ex_negotiation :: ReconnectNegotiationV1 where
  "ex_negotiation = \<lparr>rn_WorkerOffer = ex_versions, rn_PlatformOffer = ex_versions, rn_SelectedVersion = 1,
     rn_WorkerNonce = ex_nonce, rn_PlatformNonce = ex_nonce, rn_CapabilityDigest = ex_capability\<rparr>"

lemmas ex_summary_eval = attempt_wf_def cancel_fields_ok_def terminal_fields_ok_def state_fields_ok_def ex_attempt_def
  idle_attempt_def zero_attempt_sequence_def MaxAttemptMessages_def MaxProgressUpdates_def

lemma ex_summaries [simp]:
  "AttemptSummaryV1_Validate (ex_summary AttemptClaimed 1 0 0) = None"
  "AttemptSummaryV1_Validate (ex_summary AttemptCancelRequested 1 1 0) = None"
  "AttemptSummaryV1_Validate (ex_summary AttemptTerminalPending 2 0 1) = None"
  "AttemptSummaryV1_Validate (ex_summary AttemptTerminalPending 0 0 1) = None"
  unfolding ex_summary_def by (rule attempt_wf_summary, simp add: ex_summary_eval word_le_nat_alt)+

lemma ex_summary_sel [simp]:
  assumes "st \<noteq> AttemptIdle"
  shows "as_State (ex_summary st w c t) = st" "as_Binding (ex_summary st w c t) = ex_lease" "as_PlatformSequence (ex_summary st w c t) = 2"
    "as_WorkerSequence (ex_summary st w c t) = w" "as_CancelRevision (ex_summary st w c t) = c"
    "as_CancelCode (ex_summary st w c t) = (if c = 0 then CancelUnset else CancelRequested)"
    "as_TerminalSequence (ex_summary st w c t) = t"
    "as_TerminalStatus (ex_summary st w c t) = (if t = 0 then TerminalStatusUnset else TerminalSucceeded)"
    "as_TerminalResult (ex_summary st w c t) = (if t = 0 then TerminalResultUnset else TerminalResultCompleted)"
    "as_TerminalEvidenceDigest (ex_summary st w c t) = (if t = 0 then [] else ex_nonce)"
  using assms by (simp_all add: ex_summary_def attempt_summary_def sealAttemptSummary_def ex_attempt_def zero_attempt_sequence_def Let_def)

lemma ex_snapshot_valid [simp]: "AttemptSummaryV1_Validate a = None \<Longrightarrow> ReconnectSnapshotV1_Validate (ex_snapshot a) = None"
  by (simp add: ex_snapshot_def snapshot_of_Validate zero_watermarks_def ConnectionWatermarksV1_Validate_def validatePendingTerminal_def)

lemma ex_negotiation_valid [simp]: "ReconnectNegotiationV1_validate ex_negotiation = None"
  by (simp add: ReconnectNegotiationV1_validate_def ex_negotiation_def validateNegotiationProof_def ex_supports validBytes_def)

lemma ex_pending_terminal:
  "reconnectPendingTerminal (ex_snapshot (ex_summary AttemptTerminalPending w 0 1)) =
     Some \<lparr>tm_Binding = ex_lease, tm_AttemptSequence = w, tm_TerminalSequence = 1, tm_Status = TerminalSucceeded,
           tm_Result = TerminalResultCompleted, tm_EvidenceDigest = ex_nonce\<rparr>"
  by (simp add: reconnectPendingTerminal_def ex_snapshot_def)

lemma ex_compatible:
  "reconnectClaimsCompatible (ex_snapshot (ex_summary AttemptTerminalPending 2 0 1)) (ex_snapshot (ex_summary AttemptClaimed 1 0 0))"
  "reconnectClaimsCompatible (ex_snapshot (ex_summary AttemptTerminalPending 0 0 1)) (ex_snapshot (ex_summary AttemptCancelRequested 1 1 0))"
  by (simp_all add: reconnectClaimsCompatible_def Let_def sameAttemptBinding_def) (simp_all add: ex_snapshot_def sameAttemptBinding_def)

lemma ex_plan:
  obtains r where "BuildReconnectAcceptedV1 (ex_snapshot (ex_summary AttemptClaimed 1 0 0))
      (ex_snapshot (ex_summary AttemptTerminalPending 2 0 1)) ex_negotiation = Inr r"
    "rp_TerminalDecision (ra_ReplayPlan r) = ReconnectTerminalReplay"
proof -
  let ?a = "ex_snapshot (ex_summary AttemptClaimed 1 0 0)" and ?c = "ex_snapshot (ex_summary AttemptTerminalPending 2 0 1)"
  have d: "terminal_decision ?a ?c = ReconnectTerminalReplay"
    by (simp add: terminal_decision_def ex_pending_terminal cancellationOverridesTerminal_def) (simp add: ex_snapshot_def)
  have "\<not> replays_behind ?a ?c"
    by (simp add: replays_behind_def d ex_pending_terminal) (simp add: ex_snapshot_def word_le_nat_alt)
  then show thesis
    using that d ex_compatible(1) by (simp add: BuildReconnectAcceptedV1_def) (simp add: ex_snapshot_def)
qed

text \<open>
  A summary may report a finished attempt of which no message of the worker exists. Its claim is compatible with a
  cancelled attempt and is answered with a decision to discard, for a terminal message that is itself invalid.
\<close>

lemma terminal_without_message:
  obtains r t where "BuildReconnectAcceptedV1 (ex_snapshot (ex_summary AttemptCancelRequested 1 1 0))
      (ex_snapshot (ex_summary AttemptTerminalPending 0 0 1)) ex_negotiation = Inr r"
    "rp_TerminalDecision (ra_ReplayPlan r) = ReconnectTerminalDiscard"
    "reconnectPendingTerminal (ex_snapshot (ex_summary AttemptTerminalPending 0 0 1)) = Some t" "TerminalV1_Validate t \<noteq> None"
proof -
  let ?a = "ex_snapshot (ex_summary AttemptCancelRequested 1 1 0)" and ?c = "ex_snapshot (ex_summary AttemptTerminalPending 0 0 1)"
  have d: "terminal_decision ?a ?c = ReconnectTerminalDiscard"
    by (simp add: terminal_decision_def ex_pending_terminal cancellationOverridesTerminal_def) (simp add: ex_snapshot_def)
  have "\<not> replays_behind ?a ?c" by (simp add: replays_behind_def d ex_pending_terminal)
  then show thesis
    using that d ex_compatible(2) by (simp add: BuildReconnectAcceptedV1_def ex_pending_terminal TerminalV1_Validate_def
      validateAttempt_def) (simp add: ex_snapshot_def)
qed

lemma ex_reconnect:
  obtains m' snap where "BeginReconnect (Some ex_ready) (ex_auth\<lparr>ac_ConnectionGeneration := 2\<rparr>) = (Some m', Inr snap)"
    "rs_PendingTerminalReplay snap = None"
proof -
  have "\<not> reconnect_refused ex_ready (ex_auth\<lparr>ac_ConnectionGeneration := 2\<rparr>)"
    by (simp add: reconnect_refused_def Let_def ex_ready ex_config_def hasFeature_def ex_manifest_def)
       (simp add: ex_auth_def AuthContextV1_Validate_def length_ex_key ProtocolVersionV1_def MaxUint64_def)
  then show thesis
    using that by (simp add: BeginReconnect_def snapshot_machine_def reconnect_machine_def pendingTerminalForSnapshot_def
        ex_ready idle_attempt_def)
qed

end
