(* ===== verification/DurableProofs.thy ===== *)
theory DurableProofs
  imports Durable Scenario
begin

text \<open>
  What a store may rely on: a machine restored from its snapshot is the machine up to fields no
  later step reads, so applying frames through snapshots is the same as applying them in memory.
\<close>

subsection \<open>Machines a store can hold\<close>

inductive stored :: "ConformanceMachine \<Rightarrow> bool" where
  created: "NewConformanceMachine config = Inr m \<Longrightarrow> stored m"
| restored: "RestoreConformanceMachine config s = Inr m \<Longrightarrow> stored m"
| stepped: "stored m \<Longrightarrow> machine_step m m' \<Longrightarrow> stored m'"
| retired: "stored m \<Longrightarrow> ar_state (m_attempt m) = AttemptCancelAcked \<Longrightarrow> stored (m\<lparr>m_attempt := idle_attempt\<rparr>)"

lemma reachable_stored: "reachable m \<Longrightarrow> stored m"
  by (induction rule: reachable.induct) (auto intro: stored.intros)

locale stored_invariant =
  fixes I :: "ConformanceMachine \<Rightarrow> bool"
  assumes fresh: "I (new_machine config)"
    and restore: "validateMachineSnapshotContent s = None \<Longrightarrow> validateMachineSnapshotAgainstConfig s config = None \<Longrightarrow>
      I (restored_machine (new_machine config) s)"
    and frame: "I m \<Longrightarrow> frame_step d f now m n \<Longrightarrow> FrameV1_Validate f = None \<Longrightarrow>
      I (record_envelope d f n)"
    and reconnect: "I m \<Longrightarrow> \<not> reconnect_refused m nxt \<Longrightarrow> I (reconnect_machine m nxt)"
    and idle: "I m \<Longrightarrow> I (m\<lparr>m_attempt := idle_attempt\<rparr>)"
begin

lemma stored_step: "I m \<Longrightarrow> machine_step m m' \<Longrightarrow> I m'"
  by (erule machine_step_cases) (auto intro: frame reconnect idle dest: apply_frame_step authorized_frame(1))

lemma holds: "stored m \<Longrightarrow> I m"
proof (induction rule: stored.induct)
  case (created config m)
  then show ?case using fresh by (auto simp: NewConformanceMachine_def split: if_splits)
next
  case (restored config s m)
  then show ?case
    by (auto simp: RestoreConformanceMachine_def NewConformanceMachine_def MachineSnapshotV1_Validate_def Let_def new_machine_def
        split: if_splits sum.splits intro!: restore [unfolded new_machine_def])
next
  case (stepped m m')
  then show ?case using stored_step by blast
next
  case (retired m)
  then show ?case using idle by blast
qed

end

subsection \<open>Sealed snapshots\<close>

lemma content_digest [simp]: "validateMachineSnapshotContent (s\<lparr>ms_Digest := d\<rparr>) = validateMachineSnapshotContent s"
  by (simp add: validateMachineSnapshotContent_def malformed_header_def malformed_handshake_def malformed_for_state_def
      cong: option.case_cong ConnectionState.case_cong)

lemma bytes_digest [simp]:
  "canonicalMachineSnapshotBytesUnchecked (s\<lparr>ms_Digest := d\<rparr>) = canonicalMachineSnapshotBytesUnchecked s"
  by (simp add: canonicalMachineSnapshotBytesUnchecked_def cong: option.case_cong)

lemma digest_digest [simp]: "machineSnapshotDigestUnchecked (s\<lparr>ms_Digest := d\<rparr>) = machineSnapshotDigestUnchecked s"
  by (simp add: machineSnapshotDigestUnchecked_def)

lemma against_digest [simp]:
  "validateMachineSnapshotAgainstConfig (s\<lparr>ms_Digest := d\<rparr>) config = validateMachineSnapshotAgainstConfig s config"
  by (simp add: validateMachineSnapshotAgainstConfig_def cong: option.case_cong)

lemma restored_digest [simp]: "restored_machine m (s\<lparr>ms_Digest := d\<rparr>) = restored_machine m s"
  by (simp add: restored_machine_def cong: option.case_cong)

lemma length_machineSnapshotDigest [simp]: "length (machineSnapshotDigestUnchecked s) = 32"
  by (simp add: machineSnapshotDigestUnchecked_def)

definition sealed :: "MachineSnapshotV1 \<Rightarrow> MachineSnapshotV1" where
  "sealed s = s\<lparr>ms_Digest := machineSnapshotDigestUnchecked s\<rparr>"

lemma sealed_Validate: "MachineSnapshotV1_Validate (sealed s) = None \<longleftrightarrow> validateMachineSnapshotContent s = None"
  by (simp add: sealed_def MachineSnapshotV1_Validate_def validBytes_def)

lemma durable_snapshot_Inr:
  "durable_snapshot m = Inr s \<longleftrightarrow>
     (\<exists>c. machineConfigDigestV1 (m_config m) = Inr c \<and> validateMachineSnapshotContent (snapshot_content m c) = None \<and>
          s = sealed (snapshot_content m c))"
  by (auto simp: durable_snapshot_def MachineSnapshotDigestV1_def sealed_def Let_def split: sum.splits if_splits)

lemma config_digest_New: "machineConfigDigestV1 config = Inr c \<Longrightarrow> NewConformanceMachine config = Inr (new_machine config)"
  by (auto simp: machineConfigDigestV1_def NewConformanceMachine_def Let_def split: if_splits)

lemma RestoreConformanceMachine_Inr:
  "RestoreConformanceMachine config s = Inr m \<longleftrightarrow>
     MachineSnapshotV1_Validate s = None \<and> machineConfigDigestV1 config = Inr (ms_ConfigurationDigest s) \<and>
     validateMachineSnapshotAgainstConfig s config = None \<and> m = restored_machine (new_machine config) s \<and>
     (\<exists>r. durable_snapshot m = Inr r \<and> ms_Digest r = ms_Digest s)"
proof (cases "machineConfigDigestV1 config = Inr (ms_ConfigurationDigest s)")
  case True
  moreover have "m_config (new_machine config) = config" by (simp add: new_machine_def)
  ultimately show ?thesis
    by (auto simp: RestoreConformanceMachine_def config_digest_New Let_def split: sum.splits if_splits)
next
  case False
  then show ?thesis by (auto simp: RestoreConformanceMachine_def)
qed

subsection \<open>What a restored machine holds\<close>

definition restored_base :: "ConformanceMachine \<Rightarrow> MachineSnapshotV1 \<Rightarrow> ConformanceMachine" where
  "restored_base m s = restored_machine m (s\<lparr>ms_Reconnect := None\<rparr>)"

lemma restored_base_fields [simp]:
  "m_config (restored_base m s) = m_config m" "m_connection (restored_base m s) = ms_Connection s"
  "m_platform (restored_base m s) = restoreEnvelope (ms_Platform s)"
  "m_worker (restored_base m s) = restoreEnvelope (ms_Worker s)"
  "m_hello (restored_base m s) = (case ms_Hello s of None \<Rightarrow> m_hello m | Some hello \<Rightarrow> hello)"
  "m_challenge (restored_base m s) = (case ms_Challenge s of None \<Rightarrow> m_challenge m | Some challenge \<Rightarrow> challenge)"
  "m_capabilityDigest (restored_base m s) = ms_CapabilityDigest s"
  "m_manifest (restored_base m s) = (case ms_Manifest s of None \<Rightarrow> m_manifest m | Some manifest \<Rightarrow> manifest)"
  "m_attempt (restored_base m s) = restore_attempt (m_attempt m) (ms_Attempt s)"
  "m_drainRevision (restored_base m s) = ms_DrainRevision s"
  "m_revoke (restored_base m s) = (case ms_Revoke s of None \<Rightarrow> m_revoke m | Some v \<Rightarrow> v)"
  "m_reconnecting (restored_base m s) = m_reconnecting m"
  "m_drainReenvelopePending (restored_base m s) = m_drainReenvelopePending m"
  "m_reconnectTarget (restored_base m s) = m_reconnectTarget m"
  "m_previousConnectionGeneration (restored_base m s) = m_previousConnectionGeneration m"
  "m_reconnectWatermarks (restored_base m s) = m_reconnectWatermarks m"
  "m_reconnectAttempt (restored_base m s) = m_reconnectAttempt m"
  "m_reconnectClaim (restored_base m s) = m_reconnectClaim m"
  by (simp_all add: restored_base_def restored_machine_def)

lemma restored_machine_cases:
  "restored_machine m s =
     (case ms_Reconnect s of
        None \<Rightarrow> restored_base m s | Some r \<Rightarrow> restore_reconnect (restored_base m s) (ms_Connection s) r)"
  by (simp add: restored_base_def restored_machine_def Let_def split: option.split)

lemma restored_fields [simp]:
  "m_config (restored_machine m s) = m_config m" "m_connection (restored_machine m s) = ms_Connection s"
  "m_platform (restored_machine m s) = restoreEnvelope (ms_Platform s)"
  "m_worker (restored_machine m s) = restoreEnvelope (ms_Worker s)"
  "m_hello (restored_machine m s) = (case ms_Hello s of None \<Rightarrow> m_hello m | Some hello \<Rightarrow> hello)"
  "m_challenge (restored_machine m s) = (case ms_Challenge s of None \<Rightarrow> m_challenge m | Some challenge \<Rightarrow> challenge)"
  "m_capabilityDigest (restored_machine m s) = ms_CapabilityDigest s"
  "m_manifest (restored_machine m s) = (case ms_Manifest s of None \<Rightarrow> m_manifest m | Some manifest \<Rightarrow> manifest)"
  "m_attempt (restored_machine m s) = restore_attempt (m_attempt m) (ms_Attempt s)"
  "m_drainRevision (restored_machine m s) = ms_DrainRevision s"
  "m_revoke (restored_machine m s) = (case ms_Revoke s of None \<Rightarrow> m_revoke m | Some v \<Rightarrow> v)"
  by (simp_all add: restored_machine_cases restore_reconnect_def split: option.split)

lemma restored_reconnect [simp]:
  "m_reconnecting (restored_machine m s) =
     (case ms_Reconnect s of None \<Rightarrow> m_reconnecting m | Some r \<Rightarrow> ms_Connection s \<noteq> ConnectionDraining)"
  "m_drainReenvelopePending (restored_machine m s) =
     (case ms_Reconnect s of None \<Rightarrow> m_drainReenvelopePending m | Some r \<Rightarrow> ms_Connection s = ConnectionDraining)"
  "m_reconnectTarget (restored_machine m s) =
     (case ms_Reconnect s of None \<Rightarrow> m_reconnectTarget m | Some r \<Rightarrow> mr_Target r)"
  "m_previousConnectionGeneration (restored_machine m s) =
     (case ms_Reconnect s of None \<Rightarrow> m_previousConnectionGeneration m | Some r \<Rightarrow> mr_PreviousConnectionGeneration r)"
  "m_reconnectWatermarks (restored_machine m s) =
     (case ms_Reconnect s of None \<Rightarrow> m_reconnectWatermarks m | Some r \<Rightarrow> mr_Watermarks r)"
  "m_reconnectAttempt (restored_machine m s) =
     (case ms_Reconnect s of None \<Rightarrow> m_reconnectAttempt m | Some r \<Rightarrow> mr_Attempt r)"
  "m_reconnectClaim (restored_machine m s) =
     (case ms_Reconnect s of
        None \<Rightarrow> m_reconnectClaim m
      | Some r \<Rightarrow> (case mr_Claim r of None \<Rightarrow> m_reconnectClaim m | Some claim \<Rightarrow> claim))"
  by (simp_all add: restored_machine_cases restore_reconnect_def split: option.split)

abbreviation zero_revoke :: RevokeV1 where
  "zero_revoke \<equiv> \<lparr>rv_Revision = 0, rv_NextEnrollmentGeneration = 0, rv_NextConnectionGeneration = 0\<rparr>"

lemma new_machine_fields [simp]:
  "m_config (new_machine config) = config" "m_connection (new_machine config) = ConnectionUnattached"
  "m_platform (new_machine config) = zero_sequence" "m_worker (new_machine config) = zero_sequence"
  "m_hello (new_machine config) = zero_hello" "m_challenge (new_machine config) = zero_challenge"
  "m_capabilityDigest (new_machine config) = []" "m_manifest (new_machine config) = zero_manifest"
  "m_attempt (new_machine config) = idle_attempt" "m_drainRevision (new_machine config) = 0"
  "m_revoke (new_machine config) = zero_revoke" "\<not> m_reconnecting (new_machine config)"
  "\<not> m_drainReenvelopePending (new_machine config)"
  "m_reconnectTarget (new_machine config) = ConnectionStateOther ''''"
  "m_previousConnectionGeneration (new_machine config) = 0"
  "m_reconnectWatermarks (new_machine config) = zero_watermarks"
  "m_reconnectAttempt (new_machine config) = zero_summary" "m_reconnectClaim (new_machine config) = zero_snapshot"
  by (simp_all add: new_machine_def)

lemma zero_invalid [simp]:
  "HelloV1_Validate zero_hello \<noteq> None" "ChallengeV1_Validate zero_challenge \<noteq> None"
  "CapabilityManifestV1_Validate zero_manifest \<noteq> None" "RevokeV1_Validate zero_revoke \<noteq> None"
  "ReconnectSnapshotV1_Validate zero_snapshot \<noteq> None"
  by (simp_all add: HelloV1_Validate_def ChallengeV1_Validate_def CapabilityManifestV1_Validate_def RevokeV1_Validate_def
      ReconnectSnapshotV1_Validate_def zero_hello_def zero_challenge_def zero_manifest_def zero_snapshot_def zero_offer_def
      VersionOfferV1_Validate_def VersionWindow_Validate_def validOpaque_def)

subsection \<open>The session part\<close>

text \<open>
  When the reconnect flags can be set; the generation they refer to; and that a claim is either
  absent or a valid one of an earlier connection.
\<close>

definition drain_phases :: "ConnectionState set" where
  "drain_phases = {ConnectionDraining, ConnectionDrained, ConnectionRevoking, ConnectionRevoked}"

lemma drain_phases_simps [simp]:
  "ConnectionDraining \<in> drain_phases" "ConnectionDrained \<in> drain_phases" "ConnectionRevoking \<in> drain_phases"
  "ConnectionRevoked \<in> drain_phases" "ConnectionUnattached \<notin> drain_phases" "ConnectionHello \<notin> drain_phases"
  "ConnectionChallenged \<notin> drain_phases" "ConnectionAttachPending \<notin> drain_phases"
  "ConnectionReconnectPending \<notin> drain_phases" "ConnectionAttached \<notin> drain_phases" "ConnectionReady \<notin> drain_phases"
  by (simp_all add: drain_phases_def)

definition reconnect_flags_ok :: "ConformanceMachine \<Rightarrow> bool" where
  "reconnect_flags_ok m =
     ((m_reconnecting m \<longrightarrow> m_connection m \<notin> {ConnectionAttachPending, ConnectionReady, ConnectionDraining, ConnectionDrained}) \<and>
      (m_drainReenvelopePending m \<longrightarrow> m_connection m \<in> drain_phases) \<and>
      (m_connection m = ConnectionReconnectPending \<longrightarrow> m_reconnecting m) \<and>
      (m_reconnecting m \<or> m_drainReenvelopePending m \<longrightarrow>
         m_reconnectTarget m \<in> {ConnectionReady, ConnectionDraining} \<and>
         m_previousConnectionGeneration m \<noteq> MaxUint64 \<and>
         m_previousConnectionGeneration m + 1 = ac_ConnectionGeneration (cf_Auth (m_config m))) \<and>
      (m_reconnectClaim m \<noteq> zero_snapshot \<longrightarrow>
         ReconnectSnapshotV1_Validate (m_reconnectClaim m) = None \<and>
         rs_PreviousConnectionGeneration (m_reconnectClaim m) < ac_ConnectionGeneration (cf_Auth (m_config m))))"

text \<open>The messages of the handshake are absent or valid and agree with the configuration.\<close>

definition handshake_kept :: "ConformanceMachine \<Rightarrow> bool" where
  "handshake_kept m =
     ((m_hello m = zero_hello \<and> m_connection m \<noteq> ConnectionHello \<or>
       HelloV1_Validate (m_hello m) = None \<and> he_Offer (m_hello m) = cf_WorkerOffer (m_config m)) \<and>
      (m_challenge m = zero_challenge \<or>
       ChallengeV1_Validate (m_challenge m) = None \<and> ch_WorkerOffer (m_challenge m) = cf_WorkerOffer (m_config m) \<and>
       ch_PlatformOffer (m_challenge m) = cf_PlatformOffer (m_config m) \<and>
       ch_SelectedVersion (m_challenge m) = ac_Version (cf_Auth (m_config m))) \<and>
      (m_manifest m = zero_manifest \<or>
       CapabilityManifestV1_Validate (m_manifest m) = None \<and>
       cm_WorkerID (m_manifest m) = ac_WorkerID (cf_Auth (m_config m)) \<and>
       cm_EnrollmentGeneration (m_manifest m) = ac_EnrollmentGeneration (cf_Auth (m_config m)) \<and>
       cm_ProtocolOffer (m_manifest m) = cf_WorkerOffer (m_config m)))"

definition revoke_kept :: "ConformanceMachine \<Rightarrow> bool" where
  "revoke_kept m =
     (if revoked_connection m
      then RevokeV1_Validate (m_revoke m) = None \<and>
        ac_EnrollmentGeneration (cf_Auth (m_config m)) \<noteq> MaxUint64 \<and>
        ac_ConnectionGeneration (cf_Auth (m_config m)) \<noteq> MaxUint64 \<and>
        rv_NextEnrollmentGeneration (m_revoke m) = ac_EnrollmentGeneration (cf_Auth (m_config m)) + 1 \<and>
        rv_NextConnectionGeneration (m_revoke m) = ac_ConnectionGeneration (cf_Auth (m_config m)) + 1
      else m_revoke m = zero_revoke)"

definition session_kept :: "ConformanceMachine \<Rightarrow> bool" where
  "session_kept m = (reconnect_flags_ok m \<and> handshake_kept m \<and> revoke_kept m)"

lemmas session_kept_defs = session_kept_def reconnect_flags_ok_def handshake_kept_def revoke_kept_def revoked_connection_def

lemma session_kept_record [simp]: "session_kept (record_envelope d f n) = session_kept n"
  by (simp add: session_kept_defs record_envelope_def Let_def)

lemma word_less_next: "s \<noteq> MaxUint64 \<Longrightarrow> s < s + (1 :: u64)"
  using unat_u64_less [of s] by (auto simp: word_less_nat_alt word_unat_eq_iff unat_word_ariths)

lemma session_kept_attempt [simp]: "session_kept (m\<lparr>m_attempt := a\<rparr>) = session_kept m"
  by (simp add: session_kept_defs)

lemma reconnect_kept:
  assumes "\<not> reconnect_refused m nxt"
  shows "reconnect_flags_ok m \<Longrightarrow> reconnect_flags_ok (reconnect_machine m nxt)"
    and "handshake_kept m \<Longrightarrow> handshake_kept (reconnect_machine m nxt)"
    and "revoke_kept m \<Longrightarrow> revoke_kept (reconnect_machine m nxt)"
proof -
  let ?old = "cf_Auth (m_config m)"
  have g: "ac_ConnectionGeneration ?old \<noteq> MaxUint64" "ac_ConnectionGeneration nxt = ac_ConnectionGeneration ?old + 1"
    and same: "ac_WorkerID nxt = ac_WorkerID ?old" "ac_EnrollmentGeneration nxt = ac_EnrollmentGeneration ?old"
      "ac_Version nxt = ac_Version ?old"
    and c: "m_connection m = ConnectionReady \<or> m_connection m = ConnectionDraining" "\<not> m_drainReenvelopePending m"
    using assms unfolding reconnect_refused_def Let_def by blast+
  have less: "k < ac_ConnectionGeneration ?old + 1" if "k < ac_ConnectionGeneration ?old" for k
    using that word_less_next [OF g(1)] by (rule less_trans)
  show "reconnect_flags_ok (reconnect_machine m nxt)" if "reconnect_flags_ok m"
    using that g c less unfolding reconnect_flags_ok_def by (simp add: reconnect_machine_def)
  show "handshake_kept (reconnect_machine m nxt)" if "handshake_kept m"
    using that same unfolding handshake_kept_def by (simp add: reconnect_machine_def)
  show "revoke_kept (reconnect_machine m nxt)" if "revoke_kept m"
    using that c(1) unfolding revoke_kept_def revoked_connection_def by (elim disjE) (simp_all add: reconnect_machine_def)
qed

lemma reconnect_flags_step:
  assumes st: "frame_step d f now m n" and i: "reconnect_flags_ok m"
  shows "reconnect_flags_ok n"
  using st
proof (cases rule: frame_step.cases)
  case (reconnect x A)
  have "ReconnectSnapshotV1_Validate (claim_of x) = None"
    using reconnect(8) by (simp add: reconnectClaimsCompatible_def Let_def split: if_splits)
  moreover have "m_previousConnectionGeneration m < ac_ConnectionGeneration (cf_Auth (m_config m))"
    using i reconnect(5) word_less_next [of "m_previousConnectionGeneration m"] by (simp add: reconnect_flags_ok_def)
  ultimately show ?thesis using reconnect(1,4,5,10) i by (simp add: reconnect_flags_ok_def claim_of_def)
next
  case (manifest x)
  show ?thesis
  proof (cases "m_reconnecting m")
    case True
    then have "m_reconnectTarget m = ConnectionReady \<or> m_reconnectTarget m = ConnectionDraining"
      using i by (simp add: reconnect_flags_ok_def)
    then show ?thesis using i True manifest(1) unfolding reconnect_flags_ok_def by (elim disjE) simp_all
  next
    case False
    then show ?thesis using i manifest(1,4) by (simp add: reconnect_flags_ok_def)
  qed
next
  case (drain x)
  then show ?thesis using i unfolding reconnect_flags_ok_def by (elim disjE) simp_all
qed (use i in \<open>simp_all add: reconnect_flags_ok_def\<close>)

lemma handshake_kept_step:
  assumes st: "frame_step d f now m n" and i: "handshake_kept m" "reconnect_flags_ok m" and v: "FrameV1_Validate f = None"
  shows "handshake_kept n"
  using st
proof (cases rule: frame_step.cases)
  case (hello x)
  then show ?thesis using i(1) frame_payload(1) [OF v] by (simp add: handshake_kept_def)
next
  case (challenge x)
  then show ?thesis using i(1) frame_payload(2) [OF v] by (simp add: handshake_kept_def)
next
  case (manifest x)
  have "CapabilityManifestV1_Validate (mf_Manifest x) = None"
    using manifest(2,3) frame_payload(7) [OF v] by (auto simp: ManifestV1_Validate_def)
  moreover have "m_reconnectTarget m \<noteq> ConnectionHello" if "m_reconnecting m"
    using that i(2) by (auto simp: reconnect_flags_ok_def)
  ultimately show ?thesis using manifest i(1) by (simp add: handshake_kept_def)
next
  case (drain x)
  then have "m_connection m \<noteq> ConnectionHello" by auto
  then show ?thesis using i(1) drain(1) by (simp add: handshake_kept_def)
next
  case (revoke x)
  then show ?thesis using i(1) unfolding handshake_kept_def by auto
qed (use i(1) in \<open>simp_all add: handshake_kept_def\<close>)

lemma revoke_kept_step:
  assumes st: "frame_step d f now m n" and i: "revoke_kept m" "reconnect_flags_ok m" and v: "FrameV1_Validate f = None"
  shows "revoke_kept n"
  using st
proof (cases rule: frame_step.cases)
  case (manifest x)
  then show ?thesis using i by (auto simp: revoke_kept_def revoked_connection_def reconnect_flags_ok_def)
next
  case (revoke x)
  then show ?thesis using frame_payload(19) [OF v] by (simp add: revoke_kept_def revoked_connection_def)
next
  case (drain x)
  then have "\<not> revoked_connection m" by (auto simp: revoked_connection_def)
  then show ?thesis using i(1) drain(1) by (simp add: revoke_kept_def revoked_connection_def)
qed (use i(1) in \<open>simp_all add: revoke_kept_def revoked_connection_def\<close>)

lemma content_None:
  assumes "validateMachineSnapshotContent s = None"
  shows "\<not> malformed_header s" "\<not> malformed_handshake s" "\<not> malformed_for_state s"
    and "validatePendingTerminalSnapshot (mt_PendingWorkerTerminal (ms_Attempt s)) (ms_Attempt s) = None"
    and "\<And>r. ms_Reconnect s = Some r \<Longrightarrow> validateMachineReconnectState r (mt_PendingWorkerTerminal (ms_Attempt s)) = None"
    and "ms_Revoke s \<noteq> None \<longleftrightarrow> ms_Connection s = ConnectionRevoking \<or> ms_Connection s = ConnectionRevoked"
  using assms by (auto simp: validateMachineSnapshotContent_def)

lemma content_payloads:
  assumes "validateMachineSnapshotContent s = None"
  shows "ms_Hello s = Some h \<Longrightarrow> HelloV1_Validate h = None" and "ms_Challenge s = Some c \<Longrightarrow> ChallengeV1_Validate c = None"
    and "ms_Manifest s = Some m \<Longrightarrow> CapabilityManifestV1_Validate m = None"
    and "ms_Revoke s = Some v \<Longrightarrow> RevokeV1_Validate v = None"
  using content_None(2) [OF assms] by (auto simp: malformed_handshake_def invalid_payload_def)

lemma reconnect_state_None:
  assumes "validateMachineReconnectState r pending = None"
  shows "mr_Target r = ConnectionReady \<or> mr_Target r = ConnectionDraining"
    and "\<And>claim. mr_Claim r = Some claim \<Longrightarrow> ReconnectSnapshotV1_Validate claim = None \<and>
           rs_PreviousConnectionGeneration claim = mr_PreviousConnectionGeneration r"
  using assms by (auto simp: validateMachineReconnectState_def split: if_splits)

lemma against_None:
  assumes "validateMachineSnapshotAgainstConfig s config = None"
  shows "ms_Hello s = Some h \<Longrightarrow> he_Offer h = cf_WorkerOffer config"
    and "ms_Challenge s = Some c \<Longrightarrow> ch_WorkerOffer c = cf_WorkerOffer config \<and> ch_PlatformOffer c = cf_PlatformOffer config \<and>
           ch_SelectedVersion c = ac_Version (cf_Auth config)"
    and "ms_Manifest s = Some m \<Longrightarrow> cm_WorkerID m = ac_WorkerID (cf_Auth config) \<and>
           cm_EnrollmentGeneration m = ac_EnrollmentGeneration (cf_Auth config) \<and> cm_ProtocolOffer m = cf_WorkerOffer config"
    and "ms_Revoke s = Some v \<Longrightarrow> ac_EnrollmentGeneration (cf_Auth config) \<noteq> MaxUint64 \<and>
           ac_ConnectionGeneration (cf_Auth config) \<noteq> MaxUint64 \<and>
           rv_NextEnrollmentGeneration v = ac_EnrollmentGeneration (cf_Auth config) + 1 \<and>
           rv_NextConnectionGeneration v = ac_ConnectionGeneration (cf_Auth config) + 1"
    and "ms_Reconnect s = Some r \<Longrightarrow> mr_PreviousConnectionGeneration r \<noteq> MaxUint64 \<and>
           mr_PreviousConnectionGeneration r + 1 = ac_ConnectionGeneration (cf_Auth config)"
  using assms by (simp_all add: validateMachineSnapshotAgainstConfig_def Let_def)

lemma connection_with_reconnect:
  assumes "\<not> malformed_for_state s"
  shows "ms_Reconnect s \<noteq> None \<Longrightarrow> ms_Connection s \<notin> {ConnectionAttachPending, ConnectionReady, ConnectionDrained}"
    and "ms_Connection s = ConnectionReconnectPending \<Longrightarrow> ms_Reconnect s \<noteq> None"
    and "ms_Connection s = ConnectionHello \<Longrightarrow> ms_Hello s \<noteq> None"
  using assms by (cases "ms_Reconnect s"; auto simp: malformed_for_state_def)+

lemma restored_flags:
  assumes c: "validateMachineSnapshotContent s = None" and a: "validateMachineSnapshotAgainstConfig s config = None"
  shows "reconnect_flags_ok (restored_machine (new_machine config) s)"
proof (cases "ms_Reconnect s")
  case None
  then show ?thesis using connection_with_reconnect(2) [OF content_None(3) [OF c]] by (auto simp: reconnect_flags_ok_def)
next
  case (Some r)
  note rs = reconnect_state_None [OF content_None(5) [OF c Some]]
  have p: "mr_PreviousConnectionGeneration r \<noteq> MaxUint64"
    "mr_PreviousConnectionGeneration r + 1 = ac_ConnectionGeneration (cf_Auth config)"
    using against_None(5) [OF a Some] by blast+
  let ?m = "restored_machine (new_machine config) s"
  have con: "ms_Connection s \<notin> {ConnectionAttachPending, ConnectionReady, ConnectionDrained}"
    using connection_with_reconnect(1) [OF content_None(3) [OF c]] Some by blast
  have "mr_PreviousConnectionGeneration r < ac_ConnectionGeneration (cf_Auth config)"
    using word_less_next [OF p(1)] unfolding p(2) .
  then have "m_reconnectClaim ?m \<noteq> zero_snapshot \<longrightarrow> ReconnectSnapshotV1_Validate (m_reconnectClaim ?m) = None \<and>
      rs_PreviousConnectionGeneration (m_reconnectClaim ?m) < ac_ConnectionGeneration (cf_Auth config)"
    using rs(2) Some by (cases "mr_Claim r") auto
  moreover have "m_reconnecting ?m = (ms_Connection s \<noteq> ConnectionDraining)"
    "m_drainReenvelopePending ?m = (ms_Connection s = ConnectionDraining)" "m_reconnectTarget ?m = mr_Target r"
    "m_previousConnectionGeneration ?m = mr_PreviousConnectionGeneration r" using Some by simp_all
  ultimately show ?thesis using con rs(1) p by (simp add: reconnect_flags_ok_def del: restored_reconnect)
qed

lemma restored_handshake:
  assumes c: "validateMachineSnapshotContent s = None" and a: "validateMachineSnapshotAgainstConfig s config = None"
  shows "handshake_kept (restored_machine (new_machine config) s)"
  unfolding handshake_kept_def
proof (intro conjI, goal_cases)
  case 1
  show ?case
  proof (cases "ms_Hello s")
    case None
    then have "ms_Connection s \<noteq> ConnectionHello" using connection_with_reconnect(3) [OF content_None(3) [OF c]] by blast
    then show ?thesis using None by simp
  next
    case (Some h)
    then show ?thesis using content_payloads(1) [OF c Some] against_None(1) [OF a Some] by simp
  qed
next
  case 2
  show ?case
  proof (cases "ms_Challenge s")
    case (Some h)
    then show ?thesis using content_payloads(2) [OF c Some] against_None(2) [OF a Some] by simp
  qed simp
next
  case 3
  show ?case
  proof (cases "ms_Manifest s")
    case (Some h)
    then show ?thesis using content_payloads(3) [OF c Some] against_None(3) [OF a Some] by simp
  qed simp
qed

lemma restored_revoke:
  assumes c: "validateMachineSnapshotContent s = None" and a: "validateMachineSnapshotAgainstConfig s config = None"
  shows "revoke_kept (restored_machine (new_machine config) s)"
  using content_payloads(4) [OF c] against_None(4) [OF a] content_None(6) [OF c]
  unfolding revoke_kept_def revoked_connection_def by (cases "ms_Revoke s") simp_all

interpretation session_durable: stored_invariant session_kept
proof
  show "session_kept (new_machine config)" for config
    by (simp add: session_kept_defs)
next
  show "session_kept (restored_machine (new_machine config) s)"
    if "validateMachineSnapshotContent s = None" "validateMachineSnapshotAgainstConfig s config = None" for s config
    using restored_flags restored_handshake restored_revoke that by (simp add: session_kept_def)
next
  show "session_kept (record_envelope d f n)"
    if "session_kept m" "frame_step d f now m n" "FrameV1_Validate f = None" for m d f now n
    unfolding session_kept_record using that reconnect_flags_step handshake_kept_step revoke_kept_step
    unfolding session_kept_def by blast
next
  show "session_kept (reconnect_machine m nxt)" if "session_kept m" "\<not> reconnect_refused m nxt" for m nxt
    using that reconnect_kept unfolding session_kept_def by blast
qed simp

subsection \<open>The attempt part\<close>

text \<open>
  The fingerprints of a direction are kept in ascending order of sequence, none beyond the
  current one; a terminal and its evidence come together; an idle attempt is bound to nothing.
\<close>

definition ledger_ok :: "attemptSequenceState \<Rightarrow> bool" where
  "ledger_ok q = (sorted_wrt (<) (map fst (aq_fingerprints q)) \<and> (\<forall>k \<in> fst ` set (aq_fingerprints q). k \<le> aq_sequence q))"

definition envelope_kept :: "sequenceState \<Rightarrow> bool" where
  "envelope_kept q = (sq_sequence q = 0 \<longrightarrow> sq_fingerprint q = zero_fingerprint)"

definition attempt_kept :: "attemptRecord \<Rightarrow> bool" where
  "attempt_kept a =
     (ledger_ok (ar_platform a) \<and> ledger_ok (ar_worker a) \<and>
      (ar_terminalSequence a = 0 \<longrightarrow> ar_terminalEvidence a = []) \<and>
      (ar_state a = AttemptIdle \<longrightarrow> ar_binding a = zero_binding))"

definition records_kept :: "ConformanceMachine \<Rightarrow> bool" where
  "records_kept m = (attempt_kept (m_attempt m) \<and> envelope_kept (m_platform m) \<and> envelope_kept (m_worker m))"

lemma update_at_end: "k \<notin> fst ` set xs \<Longrightarrow> AList.update k v xs = xs @ [(k, v)]"
  by (induction xs) auto

lemma ledger_append:
  assumes "ledger_ok q" "aq_sequence q \<noteq> MaxUint64"
  shows "ledger_ok \<lparr>aq_sequence = aq_sequence q + 1, aq_fingerprints = AList.update (aq_sequence q + 1) fp (aq_fingerprints q)\<rparr>"
proof -
  have l: "k < aq_sequence q + 1" if "k \<in> fst ` set (aq_fingerprints q)" for k
    using that assms word_less_next [of "aq_sequence q"] unfolding ledger_ok_def by (blast intro: le_less_trans)
  then have "aq_sequence q + 1 \<notin> fst ` set (aq_fingerprints q)" by blast
  then show ?thesis using assms(1) l unfolding ledger_ok_def
    by (auto simp: update_at_end sorted_wrt_append less_imp_le)
qed

lemma ledger_prune: "ledger_ok q \<Longrightarrow> ledger_ok (pruneAttemptFingerprints (q\<lparr>aq_sequence := s\<rparr>) s)"
  by (auto simp: ledger_ok_def pruneAttemptFingerprints_def sorted_wrt_map sorted_wrt_filter not_less)

lemma ledger_raise: "ledger_ok q \<Longrightarrow> aq_sequence q \<le> s \<Longrightarrow> ledger_ok (q\<lparr>aq_sequence := s\<rparr>)"
  by (auto simp: ledger_ok_def)

lemma ledger_empty [simp]: "ledger_ok zero_attempt_sequence"
  by (simp add: ledger_ok_def zero_attempt_sequence_def)

lemma summary_kept:
  assumes "AttemptSummaryV1_Validate s = None"
  shows "as_TerminalSequence s = 0 \<Longrightarrow> as_TerminalEvidenceDigest s = []"
    and "as_State s = AttemptIdle \<Longrightarrow> as_Binding s = zero_binding"
  using assms by (simp_all add: AttemptSummaryV1_Validate_None summary_fields_ok_iff)

lemma apply_summary_kept:
  assumes "attempt_kept a" "AttemptSummaryV1_Validate s = None"
  shows "attempt_kept (applyAttemptSummary a s)"
  using assms(1) summary_kept [OF assms(2)] ledger_prune unfolding attempt_kept_def applyAttemptSummary_def by simp

lemma tombstone_kept: "attempt_kept a \<Longrightarrow> attempt_kept (applyDiscardTombstone a)"
  by (auto simp: attempt_kept_def applyDiscardTombstone_def intro: ledger_raise split: option.split)

lemma transition_evidence:
  assumes "applyAttemptTransition m d f b = Inr a"
    and "ar_terminalSequence (m_attempt m) = 0 \<longrightarrow> ar_terminalEvidence (m_attempt m) = []"
  shows "ar_terminalSequence a = 0 \<longrightarrow> ar_terminalEvidence a = []"
  using assms
  by (auto simp: applyAttemptTransition_def with_payload_def transition_defs clear_terminal_def Let_def
      split: MessageKind.splits option.splits if_splits)

lemma record_kept:
  assumes a: "applyAttemptTransition m d f b = Inr a" and k: "attempt_kept (m_attempt m)"
    and s: "aq_sequence (attempt_sender d (m_attempt m)) \<noteq> MaxUint64"
      "s = aq_sequence (attempt_sender d (m_attempt m)) + 1"
  shows "attempt_kept (settle_pending d s (record_attempt_message d s fp a))"
proof -
  let ?a = "settle_pending d s (record_attempt_message d s fp a)"
  have snd: "attempt_sender d a = attempt_sender d (m_attempt m)"
    using transition_counts [OF a] by (simp add: attempt_sender_def)
  have "ledger_ok (attempt_sender d (m_attempt m))" using k by (simp add: attempt_kept_def attempt_sender_def)
  note app = ledger_append [OF this s(1), of fp, folded s(2)]
  have "ledger_ok (ar_platform ?a) \<and> ledger_ok (ar_worker ?a)"
    using app k transition_counts [OF a] snd unfolding attempt_kept_def settle_pending_fields
    by (cases "attempt_sender d (m_attempt m)") (auto simp: record_attempt_message_def Let_def)
  then show ?thesis using transition_evidence [OF a] transition_frame(2) [OF a] k by (simp add: attempt_kept_def)
qed

lemma fence_kept: "attempt_kept a \<Longrightarrow> attempt_kept (fence_attempt a)"
  by (simp add: attempt_kept_def fence_attempt_def)

lemma install_kept: "installReplayCommitment a A C p = Inr a' \<Longrightarrow> attempt_kept a \<Longrightarrow> attempt_kept a'"
  by (auto simp: installReplayCommitment_def attempt_kept_def Let_def split: if_splits option.splits)

lemma attempt_kept_step:
  assumes st: "frame_step d f now m n" and i: "attempt_kept (m_attempt m)" and v: "FrameV1_Validate f = None"
  shows "attempt_kept (m_attempt n)"
  using st
proof (cases rule: frame_step.cases)
  case (reconnect_accepted x e a)
  have "AttemptSummaryV1_Validate (ra_AuthoritativeAttempt x) = None"
    using frame_payload(6) [OF v reconnect_accepted(2)] reconnect_accepted(3) by (auto simp: ReconnectAcceptedV1_Validate_def)
  then show ?thesis
    using reconnect_accepted(1) tombstone_kept [OF apply_summary_kept [OF install_kept [OF reconnect_accepted(7) i]]] by simp
next
  case (attempt b s a)
  then show ?thesis using record_kept [OF attempt(9) i attempt(4,5)] by simp
qed (use i fence_kept in simp_all)

lemma idle_kept: "attempt_kept idle_attempt"
  by (simp add: attempt_kept_def idle_attempt_def)

subsection \<open>Fingerprints across a restore\<close>

lemma copy_array_id [simp]: "length s = 32 \<Longrightarrow> copy_array s = s"
  by (simp add: copy_array_def)

lemma copy_array_nil: "copy_array [] = zero_fingerprint"
  by (simp add: copy_array_def zero_fingerprint_def)

lemma fingerprints_ordered_sorted:
  "fingerprints_ordered limit p items \<Longrightarrow>
     sorted_wrt (<) (map mq_Sequence items) \<and>
     (\<forall>i \<in> set items. p < mq_Sequence i \<and> mq_Sequence i \<le> limit \<and> length (mq_Fingerprint i) = 32)"
  by (induction items arbitrary: p) (fastforce simp: not_le not_less)+

definition ledger_items :: "MachineAttemptFingerprintV1 list \<Rightarrow> (u64 \<times> string) list" where
  "ledger_items items = map (\<lambda>i. (mq_Sequence i, mq_Fingerprint i)) items"

lemma restore_fold:
  "distinct (map fst acc @ map mq_Sequence items) \<Longrightarrow> \<forall>i \<in> set items. length (mq_Fingerprint i) = 32 \<Longrightarrow>
   foldl (\<lambda>fps i. AList.update (mq_Sequence i) (copy_array (mq_Fingerprint i)) fps) acc items = acc @ ledger_items items"
proof (induction items arbitrary: acc)
  case (Cons i items)
  have "AList.update (mq_Sequence i) (copy_array (mq_Fingerprint i)) acc = acc @ [(mq_Sequence i, mq_Fingerprint i)]"
    using Cons.prems by (auto intro: update_at_end)
  then show ?case using Cons.IH [of "acc @ [(mq_Sequence i, mq_Fingerprint i)]"] Cons.prems
    by (auto simp: ledger_items_def)
qed (simp add: ledger_items_def)

lemma restoreAttemptDirection_ledger:
  assumes "validateAttemptDirectionSnapshot t = None"
  shows "restoreAttemptDirection t = \<lparr>aq_sequence = md_Sequence t, aq_fingerprints = ledger_items (md_Fingerprints t)\<rparr>"
    and "ledger_ok (restoreAttemptDirection t)"
proof -
  have "fingerprints_ordered (md_Sequence t) 0 (md_Fingerprints t)"
    using assms by (auto simp: validateAttemptDirectionSnapshot_def split: if_splits)
  note o = fingerprints_ordered_sorted [OF this]
  then have "distinct (map mq_Sequence (md_Fingerprints t))" by (simp add: strict_sorted_iff)
  then show r: "restoreAttemptDirection t = \<lparr>aq_sequence = md_Sequence t, aq_fingerprints = ledger_items (md_Fingerprints t)\<rparr>"
    using restore_fold [of "[]" "md_Fingerprints t"] o by (simp add: restoreAttemptDirection_def)
  show "ledger_ok (restoreAttemptDirection t)"
    unfolding r using o by (auto simp: ledger_ok_def ledger_items_def comp_def)
qed

lemma restore_snapshot_direction:
  assumes "ledger_ok q" "validateAttemptDirectionSnapshot (snapshotAttemptDirection q) = None"
  shows "restoreAttemptDirection (snapshotAttemptDirection q) = q"
proof -
  let ?fps = "aq_fingerprints q"
  have st: "sorted_wrt (<) (map fst ?fps)" using assms(1) by (simp add: ledger_ok_def)
  then have "sort (map fst ?fps) = map fst ?fps" and d: "distinct (map fst ?fps)"
    by (auto simp: sorted_sort_id strict_sorted_iff)
  then have "ledger_items (md_Fingerprints (snapshotAttemptDirection q)) = map (\<lambda>p. (fst p, stored_fingerprint q (fst p))) ?fps"
    by (simp add: snapshotAttemptDirection_def ledger_items_def)
  also have "\<dots> = ?fps" using d by (intro map_idI) (auto simp: stored_fingerprint_def)
  finally show ?thesis using restoreAttemptDirection_ledger(1) [OF assms(2)] by (simp add: snapshotAttemptDirection_def)
qed

lemma restore_snapshot_envelope:
  assumes "envelope_kept q" "validateEnvelopeSnapshot (snapshotEnvelope q) = None"
  shows "restoreEnvelope (snapshotEnvelope q) = q"
  using assms by (cases q) (auto simp: restoreEnvelope_def snapshotEnvelope_def envelope_kept_def validateEnvelopeSnapshot_def
      copy_array_nil split: if_splits)

lemma header_ok:
  assumes "validateMachineSnapshotContent s = None"
  shows "validateEnvelopeSnapshot (ms_Platform s) = None" "validateEnvelopeSnapshot (ms_Worker s) = None"
    and "AttemptSummaryV1_Validate (mt_Summary (ms_Attempt s)) = None"
    and "validateAttemptDirectionSnapshot (mt_Platform (ms_Attempt s)) = None"
    and "validateAttemptDirectionSnapshot (mt_Worker (ms_Attempt s)) = None"
  using content_None(1) [OF assms] unfolding malformed_header_def by blast+

lemma restore_attempt_fields [simp]:
  "ar_state (restore_attempt a t) = as_State (mt_Summary t)" "ar_binding (restore_attempt a t) = as_Binding (mt_Summary t)"
  "ar_platform (restore_attempt a t) = restoreAttemptDirection (mt_Platform t)"
  "ar_worker (restore_attempt a t) = restoreAttemptDirection (mt_Worker t)"
  "ar_progressSequence (restore_attempt a t) = as_ProgressSequence (mt_Summary t)"
  "ar_cancelRevision (restore_attempt a t) = as_CancelRevision (mt_Summary t)"
  "ar_cancelCode (restore_attempt a t) = as_CancelCode (mt_Summary t)"
  "ar_terminalSequence (restore_attempt a t) = as_TerminalSequence (mt_Summary t)"
  "ar_terminalStatus (restore_attempt a t) = as_TerminalStatus (mt_Summary t)"
  "ar_terminalResult (restore_attempt a t) = as_TerminalResult (mt_Summary t)"
  "ar_terminalEvidence (restore_attempt a t) = as_TerminalEvidenceDigest (mt_Summary t)"
  "ar_pendingWorkerTerminal (restore_attempt a t) =
     (case mt_PendingWorkerTerminal t of None \<Rightarrow> ar_pendingWorkerTerminal a | Some p \<Rightarrow> Some (restore_pending p))"
  by (simp_all add: restore_attempt_def applyAttemptSummary_def Let_def split: option.split)

lemma restored_envelope_kept: "validateEnvelopeSnapshot e = None \<Longrightarrow> envelope_kept (restoreEnvelope e)"
  by (auto simp: envelope_kept_def restoreEnvelope_def validateEnvelopeSnapshot_def copy_array_nil)

interpretation records_durable: stored_invariant records_kept
proof
  show "records_kept (new_machine config)" for config
    by (simp add: records_kept_def idle_kept envelope_kept_def zero_sequence_def)
next
  show "records_kept (restored_machine (new_machine config) s)" if "validateMachineSnapshotContent s = None" for s config
    using header_ok [OF that] summary_kept [OF header_ok(3) [OF that]] restoreAttemptDirection_ledger(2)
      restored_envelope_kept
    by (simp add: records_kept_def attempt_kept_def)
next
  show "records_kept (record_envelope d f n)"
    if "records_kept m" "frame_step d f now m n" "FrameV1_Validate f = None" for m d f now n
  proof -
    have "m_platform n = m_platform m" "m_worker n = m_worker m"
      using that(2) by (cases rule: frame_step.cases; simp)+
    then show ?thesis
      using that attempt_kept_step [OF that(2) _ that(3)] frame_common(1) [OF that(3)]
      by (simp add: records_kept_def record_envelope_def envelope_kept_def Let_def)
  qed
next
  show "records_kept (reconnect_machine m nxt)" if "records_kept m" for m nxt
    using that by (simp add: records_kept_def reconnect_machine_def envelope_kept_def zero_sequence_def)
next
  show "records_kept (m\<lparr>m_attempt := idle_attempt\<rparr>)" if "records_kept m" for m
    using that idle_kept by (simp add: records_kept_def)
qed

lemmas stored_kept = session_durable.holds records_durable.holds

subsection \<open>The machine a snapshot stands for\<close>

text \<open>
  A restored machine has lost what only a reconnect in progress needs. It also cannot tell which
  of the two reconnect flags was set when the connection was revoked.
\<close>

definition forget_reconnect :: "ConformanceMachine \<Rightarrow> ConformanceMachine" where
  "forget_reconnect m =
     m\<lparr>m_reconnectTarget := ConnectionStateOther '''', m_previousConnectionGeneration := 0,
       m_reconnectWatermarks := zero_watermarks, m_reconnectAttempt := zero_summary, m_reconnectClaim := zero_snapshot\<rparr>"

definition merge_flags :: "ConformanceMachine \<Rightarrow> ConformanceMachine" where
  "merge_flags m = m\<lparr>m_reconnecting := True, m_drainReenvelopePending := False\<rparr>"

definition persisted :: "ConformanceMachine \<Rightarrow> ConformanceMachine" where
  "persisted m =
     (if \<not> m_reconnecting m \<and> \<not> m_drainReenvelopePending m then forget_reconnect m
      else if revoked_connection m then merge_flags m else m)"

lemma persisted_fields [simp]:
  "m_config (persisted m) = m_config m" "m_connection (persisted m) = m_connection m"
  "m_platform (persisted m) = m_platform m" "m_worker (persisted m) = m_worker m" "m_hello (persisted m) = m_hello m"
  "m_challenge (persisted m) = m_challenge m" "m_capabilityDigest (persisted m) = m_capabilityDigest m"
  "m_manifest (persisted m) = m_manifest m" "m_attempt (persisted m) = m_attempt m"
  "m_drainRevision (persisted m) = m_drainRevision m" "m_revoke (persisted m) = m_revoke m"
  by (simp_all add: persisted_def forget_reconnect_def merge_flags_def)

lemma snapshot_content_persisted [simp]: "snapshot_content (persisted m) c = snapshot_content m c"
  by (simp add: snapshot_content_def currentAttemptSummary_def)
    (simp add: persisted_def forget_reconnect_def merge_flags_def snapshot_reconnect_def)

lemma durable_snapshot_persisted [simp]: "durable_snapshot (persisted m) = durable_snapshot m"
  by (simp add: durable_snapshot_def cong: sum.case_cong)

lemma attempt_summary_kept:
  assumes "attempt_kept a"
  shows "as_State (attempt_summary a) = ar_state a" "as_Binding (attempt_summary a) = ar_binding a"
    "as_ProgressSequence (attempt_summary a) = ar_progressSequence a"
    "as_CancelRevision (attempt_summary a) = ar_cancelRevision a"
    "as_CancelCode (attempt_summary a) = ar_cancelCode a"
    "as_TerminalSequence (attempt_summary a) = ar_terminalSequence a"
    "as_TerminalStatus (attempt_summary a) = ar_terminalStatus a"
    "as_TerminalResult (attempt_summary a) = ar_terminalResult a"
    "as_TerminalEvidenceDigest (attempt_summary a) = ar_terminalEvidence a"
  using assms
  by (simp_all add: attempt_summary_def sealAttemptSummary_def Let_def attempt_kept_def zero_binding_def)

lemma restore_pending_id: "length (tc_fingerprint c) = 32 \<Longrightarrow> restore_pending (snapshot_pending c) = c"
  by (cases c) (simp add: restore_pending_def snapshot_pending_def)

lemma restore_snapshot_attempt:
  assumes k: "attempt_kept (m_attempt m)" and v: "validateMachineSnapshotContent (snapshot_content m c) = None"
  shows "restore_attempt idle_attempt (ms_Attempt (snapshot_content m c)) = m_attempt m"
proof -
  let ?a = "m_attempt m" and ?t = "ms_Attempt (snapshot_content m c)"
  have dirs: "restoreAttemptDirection (snapshotAttemptDirection (ar_platform ?a)) = ar_platform ?a"
    "restoreAttemptDirection (snapshotAttemptDirection (ar_worker ?a)) = ar_worker ?a"
    using restore_snapshot_direction k header_ok(4,5) [OF v] by (simp_all add: attempt_kept_def snapshot_content_def)
  have "length (tc_fingerprint p) = 32" if "ar_pendingWorkerTerminal ?a = Some p" for p
    using content_None(4) [OF v] that
    by (simp add: snapshot_content_def validatePendingTerminalSnapshot_def snapshot_pending_def split: if_splits)
  then have "ar_pendingWorkerTerminal (restore_attempt idle_attempt ?t) = ar_pendingWorkerTerminal ?a"
    by (cases "ar_pendingWorkerTerminal ?a") (simp_all add: snapshot_content_def idle_attempt_def restore_pending_id)
  then show ?thesis
    using dirs attempt_summary_kept [OF k]
    by (intro attemptRecord.equality) (simp_all add: snapshot_content_def currentAttemptSummary_def)
qed

lemma restore_when_valid:
  "v = z \<or> validate v = None \<Longrightarrow> (case when_valid validate v of None \<Rightarrow> z | Some w \<Rightarrow> w) = v"
  by (auto simp: when_valid_def)

lemma drained_snapshot_refused:
  assumes "validateMachineSnapshotContent (snapshot_content m c) = None" "m_reconnecting m \<or> m_drainReenvelopePending m"
  shows "m_connection m \<noteq> ConnectionDrained"
  using connection_with_reconnect(1) [OF content_None(3) [OF assms(1)]] assms(2) by (auto simp: snapshot_content_def)

lemma restored_snapshot:
  assumes s: "session_kept m" and r: "records_kept m"
    and v: "validateMachineSnapshotContent (snapshot_content m c) = None"
  shows "restored_machine (new_machine (m_config m)) (snapshot_content m c) = persisted m"
proof -
  let ?s = "snapshot_content m c"
  let ?n = "restored_machine (new_machine (m_config m)) ?s"
  have f: "reconnect_flags_ok m" "handshake_kept m" "revoke_kept m" using s by (simp_all add: session_kept_def)
  have "m_hello m = zero_hello \<or> HelloV1_Validate (m_hello m) = None"
    "m_challenge m = zero_challenge \<or> ChallengeV1_Validate (m_challenge m) = None"
    "m_manifest m = zero_manifest \<or> CapabilityManifestV1_Validate (m_manifest m) = None"
    "m_revoke m = zero_revoke \<or> RevokeV1_Validate (m_revoke m) = None"
    "m_reconnectClaim m = zero_snapshot \<or> ReconnectSnapshotV1_Validate (m_reconnectClaim m) = None"
    using f unfolding handshake_kept_def revoke_kept_def reconnect_flags_ok_def by (blast | metis)+
  then have opt:
    "(case when_valid HelloV1_Validate (m_hello m) of None \<Rightarrow> zero_hello | Some w \<Rightarrow> w) = m_hello m"
    "(case when_valid ChallengeV1_Validate (m_challenge m) of None \<Rightarrow> zero_challenge | Some w \<Rightarrow> w) = m_challenge m"
    "(case when_valid CapabilityManifestV1_Validate (m_manifest m) of None \<Rightarrow> zero_manifest | Some w \<Rightarrow> w) = m_manifest m"
    "(case when_valid RevokeV1_Validate (m_revoke m) of None \<Rightarrow> zero_revoke | Some w \<Rightarrow> w) = m_revoke m"
    "(case when_valid ReconnectSnapshotV1_Validate (m_reconnectClaim m) of None \<Rightarrow> zero_snapshot | Some w \<Rightarrow> w) =
       m_reconnectClaim m"
    by - (rule restore_when_valid, assumption)+
  have "m_hello ?n = m_hello m" "m_challenge ?n = m_challenge m" "m_manifest ?n = m_manifest m" "m_revoke ?n = m_revoke m"
    using opt(1-4) unfolding restored_fields new_machine_fields by (simp_all add: snapshot_content_def)
  moreover have "m_attempt ?n = m_attempt m"
    using restore_snapshot_attempt [OF _ v] r by (simp add: records_kept_def)
  moreover have "m_platform ?n = m_platform m" "m_worker ?n = m_worker m"
    using restore_snapshot_envelope header_ok(1,2) [OF v] r by (simp_all add: records_kept_def snapshot_content_def)
  moreover have ph: "m_reconnecting m \<longrightarrow> m_connection m \<noteq> ConnectionDraining"
    "m_drainReenvelopePending m \<longrightarrow> m_connection m \<in> drain_phases" using f(1) by (auto simp: reconnect_flags_ok_def)
  moreover have "m_reconnecting ?n = m_reconnecting (persisted m)"
    "m_drainReenvelopePending ?n = m_drainReenvelopePending (persisted m)"
    using ph drained_snapshot_refused [OF v] unfolding restored_reconnect new_machine_fields
    by (auto simp: snapshot_content_def persisted_def forget_reconnect_def merge_flags_def drain_phases_def revoked_connection_def)
  moreover have "m_reconnectTarget ?n = m_reconnectTarget (persisted m)"
    "m_previousConnectionGeneration ?n = m_previousConnectionGeneration (persisted m)"
    "m_reconnectWatermarks ?n = m_reconnectWatermarks (persisted m)"
    "m_reconnectAttempt ?n = m_reconnectAttempt (persisted m)"
    "m_reconnectClaim ?n = m_reconnectClaim (persisted m)"
    using opt(5) unfolding restored_reconnect new_machine_fields
    by (simp_all add: snapshot_content_def snapshot_reconnect_def persisted_def forget_reconnect_def merge_flags_def)
  ultimately show ?thesis
    by (intro ConformanceMachine.equality) (simp_all add: snapshot_content_def)
qed

lemma when_valid_Some: "when_valid validate v = Some w \<longleftrightarrow> w = v \<and> validate v = None"
  by (auto simp: when_valid_def)

lemma snapshot_content_fields [simp]:
  "ms_Connection (snapshot_content m c) = m_connection m" "ms_CapabilityDigest (snapshot_content m c) = m_capabilityDigest m"
  "ms_ConfigurationDigest (snapshot_content m c) = c"
  "ms_Hello (snapshot_content m c) = when_valid HelloV1_Validate (m_hello m)"
  "ms_Challenge (snapshot_content m c) = when_valid ChallengeV1_Validate (m_challenge m)"
  "ms_Manifest (snapshot_content m c) = when_valid CapabilityManifestV1_Validate (m_manifest m)"
  "ms_Revoke (snapshot_content m c) = when_valid RevokeV1_Validate (m_revoke m)"
  "ms_Reconnect (snapshot_content m c) =
     (if m_reconnecting m \<or> m_drainReenvelopePending m then Some (snapshot_reconnect m) else None)"
  by (simp_all add: snapshot_content_def)

lemma sealed_fields [simp]:
  "ms_Connection (sealed s) = ms_Connection s" "ms_ConfigurationDigest (sealed s) = ms_ConfigurationDigest s"
  "ms_CapabilityDigest (sealed s) = ms_CapabilityDigest s" "ms_Hello (sealed s) = ms_Hello s"
  "ms_Challenge (sealed s) = ms_Challenge s" "ms_Reconnect (sealed s) = ms_Reconnect s"
  "validateMachineSnapshotAgainstConfig (sealed s) config = validateMachineSnapshotAgainstConfig s config"
  "restored_machine m (sealed s) = restored_machine m s"
  by (simp_all add: sealed_def)

lemma challenge_nonce:
  assumes "validateMachineSnapshotContent s = None" "ms_Challenge s = Some c"
  obtains h where "ms_Hello s = Some h" "ch_WorkerNonce c = he_WorkerNonce h"
  using content_None(2) [OF assms(1)] assms(2) by (auto simp: malformed_handshake_def split: option.splits)

lemma manifest_digest_kept:
  assumes "validateMachineSnapshotContent s = None" "ms_Manifest s = Some m"
  shows "ManifestDigestV1 m = Inr (ms_CapabilityDigest s)"
  using content_None(2) [OF assms(1)] assms(2) by (simp add: malformed_handshake_def)

lemma against_NoneI:
  assumes "\<And>h. ms_Hello s = Some h \<Longrightarrow> he_Offer h = cf_WorkerOffer config"
    and "\<And>c. ms_Challenge s = Some c \<Longrightarrow> ch_WorkerOffer c = cf_WorkerOffer config \<and> ch_PlatformOffer c = cf_PlatformOffer config \<and>
          ch_SelectedVersion c = ac_Version (cf_Auth config) \<and> (\<exists>h. ms_Hello s = Some h \<and> ch_WorkerNonce c = he_WorkerNonce h)"
    and "\<And>m. ms_Manifest s = Some m \<Longrightarrow> cm_WorkerID m = ac_WorkerID (cf_Auth config) \<and>
          cm_EnrollmentGeneration m = ac_EnrollmentGeneration (cf_Auth config) \<and> cm_ProtocolOffer m = cf_WorkerOffer config \<and>
          ManifestDigestV1 m = Inr (ms_CapabilityDigest s)"
    and "\<And>v. ms_Revoke s = Some v \<Longrightarrow> ac_EnrollmentGeneration (cf_Auth config) \<noteq> MaxUint64 \<and>
          ac_ConnectionGeneration (cf_Auth config) \<noteq> MaxUint64 \<and>
          rv_NextEnrollmentGeneration v = ac_EnrollmentGeneration (cf_Auth config) + 1 \<and>
          rv_NextConnectionGeneration v = ac_ConnectionGeneration (cf_Auth config) + 1"
    and "\<And>r. ms_Reconnect s = Some r \<Longrightarrow> ac_ConnectionGeneration (cf_Auth config) \<noteq> 0 \<and>
          mr_PreviousConnectionGeneration r \<noteq> MaxUint64 \<and>
          mr_PreviousConnectionGeneration r + 1 = ac_ConnectionGeneration (cf_Auth config)"
  shows "validateMachineSnapshotAgainstConfig s config = None"
  unfolding validateMachineSnapshotAgainstConfig_def Let_def reject_None de_Morgan_disj
proof (intro conjI, goal_cases)
  case 2
  show ?case
  proof (cases "ms_Challenge s")
    case (Some c)
    then obtain h where "ms_Hello s = Some h" "ch_WorkerNonce c = he_WorkerNonce h" using assms(2) by blast
    then show ?thesis using Some assms(2) [OF Some] by simp
  qed simp
qed (use assms in \<open>simp split: option.split\<close>)+

lemma handshake_keptD:
  assumes "handshake_kept m"
  shows "HelloV1_Validate (m_hello m) = None \<Longrightarrow> he_Offer (m_hello m) = cf_WorkerOffer (m_config m)"
    and "ChallengeV1_Validate (m_challenge m) = None \<Longrightarrow> ch_WorkerOffer (m_challenge m) = cf_WorkerOffer (m_config m)"
    and "ChallengeV1_Validate (m_challenge m) = None \<Longrightarrow> ch_PlatformOffer (m_challenge m) = cf_PlatformOffer (m_config m)"
    and "ChallengeV1_Validate (m_challenge m) = None \<Longrightarrow>
           ch_SelectedVersion (m_challenge m) = ac_Version (cf_Auth (m_config m))"
    and "CapabilityManifestV1_Validate (m_manifest m) = None \<Longrightarrow>
           cm_WorkerID (m_manifest m) = ac_WorkerID (cf_Auth (m_config m))"
    and "CapabilityManifestV1_Validate (m_manifest m) = None \<Longrightarrow>
           cm_EnrollmentGeneration (m_manifest m) = ac_EnrollmentGeneration (cf_Auth (m_config m))"
    and "CapabilityManifestV1_Validate (m_manifest m) = None \<Longrightarrow>
           cm_ProtocolOffer (m_manifest m) = cf_WorkerOffer (m_config m)"
  using assms unfolding handshake_kept_def by (elim conjE disjE; simp)+

lemma snapshot_against:
  assumes s: "session_kept m" and v: "validateMachineSnapshotContent (snapshot_content m c) = None"
    and g: "ac_ConnectionGeneration (cf_Auth (m_config m)) \<noteq> 0"
  shows "validateMachineSnapshotAgainstConfig (snapshot_content m c) (m_config m) = None"
proof -
  have f: "reconnect_flags_ok m" "handshake_kept m" "revoke_kept m" using s by (simp_all add: session_kept_def)
  have n: "HelloV1_Validate (m_hello m) = None \<and> ch_WorkerNonce (m_challenge m) = he_WorkerNonce (m_hello m)"
    if "ChallengeV1_Validate (m_challenge m) = None"
    using challenge_nonce [OF v, of "m_challenge m"] that by (auto simp: when_valid_Some)
  have d: "ManifestDigestV1 (m_manifest m) = Inr (m_capabilityDigest m)"
    if "CapabilityManifestV1_Validate (m_manifest m) = None"
    using manifest_digest_kept [OF v, of "m_manifest m"] that by (simp add: when_valid_Some)
  have rv: "revoked_connection m" if "RevokeV1_Validate (m_revoke m) = None"
    using f(3) that by (cases "revoked_connection m") (simp_all add: revoke_kept_def)
  have p: "m_previousConnectionGeneration m \<noteq> MaxUint64 \<and>
      m_previousConnectionGeneration m + 1 = ac_ConnectionGeneration (cf_Auth (m_config m))"
    if "m_reconnecting m \<or> m_drainReenvelopePending m"
    using f(1) that unfolding reconnect_flags_ok_def by blast
  have v: "rv_NextEnrollmentGeneration (m_revoke m) = ac_EnrollmentGeneration (cf_Auth (m_config m)) + 1 \<and>
      rv_NextConnectionGeneration (m_revoke m) = ac_ConnectionGeneration (cf_Auth (m_config m)) + 1 \<and>
      ac_EnrollmentGeneration (cf_Auth (m_config m)) \<noteq> MaxUint64 \<and> ac_ConnectionGeneration (cf_Auth (m_config m)) \<noteq> MaxUint64"
    if "RevokeV1_Validate (m_revoke m) = None"
    using f(3) rv [OF that] by (simp add: revoke_kept_def)
  show ?thesis
    unfolding snapshot_content_fields
    by (rule against_NoneI)
      (auto simp: when_valid_Some snapshot_reconnect_def handshake_keptD [OF f(2)] n d v p g split: if_splits)
qed

lemma config_digest_generation: "machineConfigDigestV1 config = Inr c \<Longrightarrow> ac_ConnectionGeneration (cf_Auth config) \<noteq> 0"
  by (auto simp: machineConfigDigestV1_def Let_def dest: AuthContextV1_generation split: if_splits)

lemma restore_snapshot:
  assumes "session_kept m" "records_kept m" "durable_snapshot m = Inr s"
  shows "RestoreConformanceMachine (m_config m) s = Inr (persisted m)"
proof -
  obtain c where c: "machineConfigDigestV1 (m_config m) = Inr c" and s: "s = sealed (snapshot_content m c)"
    and v: "validateMachineSnapshotContent (snapshot_content m c) = None"
    using assms(3) unfolding durable_snapshot_Inr by blast
  then show ?thesis
    unfolding RestoreConformanceMachine_Inr
    using assms sealed_Validate restored_snapshot [OF assms(1,2) v] snapshot_against [OF assms(1) v config_digest_generation [OF c]]
    by simp
qed

subsection \<open>Forgetting changes no behaviour\<close>

lemma forget_fields [simp]:
  "m_config (forget_reconnect m) = m_config m" "m_connection (forget_reconnect m) = m_connection m"
  "m_platform (forget_reconnect m) = m_platform m" "m_worker (forget_reconnect m) = m_worker m"
  "m_hello (forget_reconnect m) = m_hello m" "m_challenge (forget_reconnect m) = m_challenge m"
  "m_capabilityDigest (forget_reconnect m) = m_capabilityDigest m" "m_manifest (forget_reconnect m) = m_manifest m"
  "m_attempt (forget_reconnect m) = m_attempt m" "m_drainRevision (forget_reconnect m) = m_drainRevision m"
  "m_revoke (forget_reconnect m) = m_revoke m" "m_reconnecting (forget_reconnect m) = m_reconnecting m"
  "m_drainReenvelopePending (forget_reconnect m) = m_drainReenvelopePending m"
  by (simp_all add: forget_reconnect_def)

lemma merge_fields [simp]:
  "m_config (merge_flags m) = m_config m" "m_connection (merge_flags m) = m_connection m"
  "m_platform (merge_flags m) = m_platform m" "m_worker (merge_flags m) = m_worker m"
  "m_hello (merge_flags m) = m_hello m" "m_challenge (merge_flags m) = m_challenge m"
  "m_capabilityDigest (merge_flags m) = m_capabilityDigest m" "m_manifest (merge_flags m) = m_manifest m"
  "m_attempt (merge_flags m) = m_attempt m" "m_drainRevision (merge_flags m) = m_drainRevision m"
  "m_revoke (merge_flags m) = m_revoke m" "m_reconnecting (merge_flags m)" "\<not> m_drainReenvelopePending (merge_flags m)"
  by (simp_all add: merge_flags_def)

lemma forget_updates:
  "forget_reconnect (m\<lparr>m_hello := h\<rparr>) = (forget_reconnect m)\<lparr>m_hello := h\<rparr>"
  "forget_reconnect (m\<lparr>m_connection := c\<rparr>) = (forget_reconnect m)\<lparr>m_connection := c\<rparr>"
  "forget_reconnect (m\<lparr>m_challenge := ch\<rparr>) = (forget_reconnect m)\<lparr>m_challenge := ch\<rparr>"
  "forget_reconnect (m\<lparr>m_capabilityDigest := cd\<rparr>) = (forget_reconnect m)\<lparr>m_capabilityDigest := cd\<rparr>"
  "forget_reconnect (m\<lparr>m_manifest := mf\<rparr>) = (forget_reconnect m)\<lparr>m_manifest := mf\<rparr>"
  "forget_reconnect (m\<lparr>m_attempt := a\<rparr>) = (forget_reconnect m)\<lparr>m_attempt := a\<rparr>"
  "forget_reconnect (m\<lparr>m_drainReenvelopePending := p\<rparr>) = (forget_reconnect m)\<lparr>m_drainReenvelopePending := p\<rparr>"
  "forget_reconnect (m\<lparr>m_drainRevision := r\<rparr>) = (forget_reconnect m)\<lparr>m_drainRevision := r\<rparr>"
  "forget_reconnect (m\<lparr>m_revoke := v\<rparr>) = (forget_reconnect m)\<lparr>m_revoke := v\<rparr>"
  "forget_reconnect (m\<lparr>m_platform := q\<rparr>) = (forget_reconnect m)\<lparr>m_platform := q\<rparr>"
  "forget_reconnect (m\<lparr>m_worker := q\<rparr>) = (forget_reconnect m)\<lparr>m_worker := q\<rparr>"
  by (simp_all add: forget_reconnect_def)

lemma merge_updates:
  "merge_flags (m\<lparr>m_connection := c\<rparr>) = (merge_flags m)\<lparr>m_connection := c\<rparr>"
  "merge_flags (m\<lparr>m_attempt := a\<rparr>) = (merge_flags m)\<lparr>m_attempt := a\<rparr>"
  "merge_flags (m\<lparr>m_revoke := v\<rparr>) = (merge_flags m)\<lparr>m_revoke := v\<rparr>"
  "merge_flags (m\<lparr>m_platform := q\<rparr>) = (merge_flags m)\<lparr>m_platform := q\<rparr>"
  "merge_flags (m\<lparr>m_worker := q\<rparr>) = (merge_flags m)\<lparr>m_worker := q\<rparr>"
  by (simp_all add: merge_flags_def)

text \<open>An update that commutes with a handler.\<close>

definition transparent ::
    "(ConformanceMachine \<Rightarrow> ConformanceMachine) \<Rightarrow> (ConformanceMachine \<Rightarrow> ConformanceMachine \<times> fault option) \<Rightarrow>
     ConformanceMachine \<Rightarrow> bool" where
  "transparent g h m = (h (g m) = map_prod g id (h m))"

lemma transparent_push:
  fixes g :: "ConformanceMachine \<Rightarrow> ConformanceMachine"
  shows "map_prod g id (if b then r else s) = (if b then map_prod g id r else map_prod g id s)"
    "map_prod g id (case x of None \<Rightarrow> r | Some v \<Rightarrow> t v) = (case x of None \<Rightarrow> map_prod g id r | Some v \<Rightarrow> map_prod g id (t v))"
    "map_prod g id (case y of Inl e \<Rightarrow> p e | Inr w \<Rightarrow> q w) = (case y of Inl e \<Rightarrow> map_prod g id (p e) | Inr w \<Rightarrow> map_prod g id (q w))"
    "map_prod g id (case z of (a, c) \<Rightarrow> u a c) = (case z of (a, c) \<Rightarrow> map_prod g id (u a c))"
  by (simp_all split: option.split sum.split prod.split)

lemma transition_transparent:
  assumes "m_attempt n = m_attempt m" "m_connection n = m_connection m" "m_manifest n = m_manifest m"
  shows "applyAttemptTransition n d f b = applyAttemptTransition m d f b"
proof -
  have same: "revoked_connection n = revoked_connection m" "hasFeature n = hasFeature m"
    using assms by (auto simp: hasFeature_def revoked_connection_def)
  have arms: "transition_offer n d = transition_offer m d" "transition_claim n d = transition_claim m d"
    "transition_accepted n d = transition_accepted m d" "transition_progress n d = transition_progress m d"
    "transition_cancel n d = transition_cancel m d" "transition_cancel_ack n d = transition_cancel_ack m d"
    "transition_terminal n d = transition_terminal m d" "transition_terminal_ack n d = transition_terminal_ack m d"
    unfolding transition_defs assms same by (rule refl)+
  show ?thesis unfolding applyAttemptTransition_def arms by (rule refl)
qed

lemma acceptAttempt_transparent:
  assumes "m_attempt (g m) = m_attempt m" "m_connection (g m) = m_connection m" "m_manifest (g m) = m_manifest m"
    "m_capabilityDigest (g m) = m_capabilityDigest m" "\<And>a. g (m\<lparr>m_attempt := a\<rparr>) = (g m)\<lparr>m_attempt := a\<rparr>"
  shows "transparent g (\<lambda>m. acceptAttempt m d f now) m"
  using assms transition_transparent [OF assms(1-3)]
  by (simp add: transparent_def acceptAttempt_def refuse_with_def Let_def transparent_push
      cong: option.case_cong sum.case_cong prod.case_cong if_cong)

definition plain :: "ConformanceMachine \<Rightarrow> bool" where
  "plain m = (\<not> m_reconnecting m \<and> \<not> m_drainReenvelopePending m \<and> m_connection m \<noteq> ConnectionReconnectPending)"

lemmas transparent_defs = transparent_def handler_defs refuse_with_def Let_def

lemma handlers_forget:
  assumes "plain m"
  shows "transparent forget_reconnect (\<lambda>m. acceptHello m d f) m" "transparent forget_reconnect (\<lambda>m. acceptChallenge m d f) m"
    "transparent forget_reconnect (\<lambda>m. acceptAttach m d f) m" "transparent forget_reconnect (\<lambda>m. acceptAttachAccepted m d f) m"
    "transparent forget_reconnect (\<lambda>m. acceptReconnect m d f) m"
    "transparent forget_reconnect (\<lambda>m. acceptReconnectAccepted m d f) m"
    "transparent forget_reconnect (\<lambda>m. acceptManifest m d f) m" "transparent forget_reconnect (\<lambda>m. acceptHeartbeat m d f) m"
    "transparent forget_reconnect (\<lambda>m. acceptDrain m d f) m" "transparent forget_reconnect (\<lambda>m. acceptDrained m d f) m"
    "transparent forget_reconnect (\<lambda>m. acceptRevoke m d f) m" "transparent forget_reconnect (\<lambda>m. acceptRevoked m d f) m"
  using assms
  by (simp_all add: transparent_defs plain_def forget_updates transparent_push
      cong: option.case_cong sum.case_cong if_cong)

lemma handlers_merge:
  assumes "revoked_connection m"
  shows "transparent merge_flags (\<lambda>m. acceptHello m d f) m" "transparent merge_flags (\<lambda>m. acceptChallenge m d f) m"
    "transparent merge_flags (\<lambda>m. acceptAttach m d f) m" "transparent merge_flags (\<lambda>m. acceptAttachAccepted m d f) m"
    "transparent merge_flags (\<lambda>m. acceptReconnect m d f) m" "transparent merge_flags (\<lambda>m. acceptReconnectAccepted m d f) m"
    "transparent merge_flags (\<lambda>m. acceptManifest m d f) m" "transparent merge_flags (\<lambda>m. acceptHeartbeat m d f) m"
    "transparent merge_flags (\<lambda>m. acceptDrain m d f) m" "transparent merge_flags (\<lambda>m. acceptDrained m d f) m"
    "transparent merge_flags (\<lambda>m. acceptRevoke m d f) m" "transparent merge_flags (\<lambda>m. acceptRevoked m d f) m"
  using assms unfolding revoked_connection_def
  by (elim disjE; simp add: transparent_defs merge_updates transparent_push
      cong: option.case_cong sum.case_cong if_cong)+

lemma attempt_kind_handler:
  "fr_Kind f \<in> attempt_kinds \<Longrightarrow> apply_frame m d f now = acceptAttempt m d f now"
  by (auto simp: apply_frame_def attempt_kinds_def)

lemma apply_frame_transparent:
  assumes "\<And>h. h \<in> {acceptHello, acceptChallenge, acceptAttach, acceptAttachAccepted, acceptReconnect,
      acceptReconnectAccepted, acceptManifest, acceptHeartbeat, acceptDrain, acceptDrained, acceptRevoke, acceptRevoked} \<Longrightarrow>
      transparent g (\<lambda>m. h m d f) m"
    and "transparent g (\<lambda>m. acceptAttempt m d f now) m"
  shows "transparent g (\<lambda>m. apply_frame m d f now) m"
  using assms unfolding transparent_def apply_frame_def
  by (cases "fr_Kind f") (simp_all add: refuse_with_def)

lemma accept_frame_transparent:
  assumes g: "m_config (g m) = m_config m" "m_platform (g m) = m_platform m" "m_worker (g m) = m_worker m"
    and r: "\<And>n. g (record_envelope d f n) = record_envelope d f (g n)"
    and a: "transparent g (\<lambda>m. apply_frame m d f (ax_NowUnixMicro x)) m"
  shows "transparent g (\<lambda>m. accept_frame m d f x) m"
proof -
  have same: "envelope_unauthorized (g m) d f x = envelope_unauthorized m d f x"
    "envelope_sender d (g m) = envelope_sender d m" "envelope_peer d (g m) = envelope_peer d m"
    using g by (simp_all add: envelope_unauthorized_def envelope_sender_def envelope_peer_def)
  obtain n e where n: "apply_frame m d f (ax_NowUnixMicro x) = (n, e)" by fastforce
  then have "apply_frame (g m) d f (ax_NowUnixMicro x) = (g n, e)" using a by (simp add: transparent_def)
  then show ?thesis using n r unfolding transparent_def accept_frame_def same
    by (cases e) (simp_all add: refuse_with_def transparent_push Let_def)
qed

lemma accept_forget: "plain m \<Longrightarrow> transparent forget_reconnect (\<lambda>m. accept_frame m d f x) m"
  by (intro accept_frame_transparent apply_frame_transparent acceptAttempt_transparent)
    (auto simp: record_envelope_def Let_def forget_updates intro: handlers_forget)

lemma accept_merge: "revoked_connection m \<Longrightarrow> transparent merge_flags (\<lambda>m. accept_frame m d f x) m"
  by (intro accept_frame_transparent apply_frame_transparent acceptAttempt_transparent)
    (auto simp: record_envelope_def Let_def merge_updates intro: handlers_merge)

text \<open>What a frame does to the two flags.\<close>

lemma plain_step:
  assumes "frame_step d f now m n" "plain m"
  shows "\<not> m_reconnecting n" "\<not> m_drainReenvelopePending n"
  using assms by (cases rule: frame_step.cases; simp add: plain_def)+

lemma revoked_step:
  assumes "frame_step d f now m n" "revoked_connection m"
  shows "revoked_connection n" "m_reconnecting n = m_reconnecting m" "m_drainReenvelopePending n = m_drainReenvelopePending m"
  using assms by (cases rule: frame_step.cases; auto simp: revoked_connection_def)+

lemma accept_frame_kept:
  assumes "accept_frame m d f x = (n, e)"
  shows "plain m \<Longrightarrow> \<not> m_reconnecting n \<and> \<not> m_drainReenvelopePending n"
    and "revoked_connection m \<Longrightarrow> revoked_connection n \<and> m_reconnecting n = m_reconnecting m \<and>
           m_drainReenvelopePending n = m_drainReenvelopePending m"
proof -
  have s: "machine_step m n" using assms by (auto simp: Accept_Some intro: machine_step.accept)
  have "n = m \<or> (\<exists>k now. frame_step d f now m k \<and> n = record_envelope d f k)"
  proof (cases e)
    case None
    with assms have "accept_frame m d f x = (n, None)" by simp
    then show ?thesis by (cases rule: accept_frame_cases) (auto dest: apply_frame_step)
  next
    case (Some c)
    then show ?thesis using postD [OF accept_frame_atomic assms] by (simp add: same_on_error_def)
  qed
  moreover have "m_drainReenvelopePending (record_envelope d f k) = m_drainReenvelopePending k"
    "revoked_connection (record_envelope d f k) = revoked_connection k" for k
    by (simp_all add: record_envelope_def revoked_connection_def Let_def)
  ultimately show "plain m \<Longrightarrow> \<not> m_reconnecting n \<and> \<not> m_drainReenvelopePending n"
    "revoked_connection m \<Longrightarrow> revoked_connection n \<and> m_reconnecting n = m_reconnecting m \<and>
       m_drainReenvelopePending n = m_drainReenvelopePending m"
    using plain_step revoked_step by (auto simp: plain_def)
qed

lemma accept_persisted:
  assumes k: "session_kept m" and a: "accept_frame m d f x = (n, e)"
  obtains n' where "accept_frame (persisted m) d f x = (n', e)" "persisted n' = persisted n"
proof -
  consider (none) "\<not> m_reconnecting m" "\<not> m_drainReenvelopePending m"
    | (revoked) "m_reconnecting m \<or> m_drainReenvelopePending m" "revoked_connection m"
    | (same) "persisted m = m"
    by (metis persisted_def)
  then show thesis
  proof cases
    case none
    then have p: "plain m" using k by (auto simp: plain_def session_kept_def reconnect_flags_ok_def)
    have "accept_frame (persisted m) d f x = (forget_reconnect n, e)"
      using accept_forget [OF p, of d f x] a none by (simp add: transparent_def persisted_def)
    moreover have "persisted (forget_reconnect n) = persisted n"
      using accept_frame_kept(1) [OF a p] by (simp add: persisted_def forget_reconnect_def)
    ultimately show ?thesis by (rule that)
  next
    case revoked
    have "accept_frame (persisted m) d f x = (merge_flags n, e)"
      using accept_merge [OF revoked(2), of d f x] a revoked by (auto simp: transparent_def persisted_def)
    moreover have "persisted (merge_flags n) = persisted n"
      using accept_frame_kept(2) [OF a revoked(2)] revoked(1) by (auto simp: persisted_def merge_flags_def revoked_connection_def)
    ultimately show ?thesis by (rule that)
  next
    case same
    then show ?thesis using a that by simp
  qed
qed

lemma apply_machine_frame:
  assumes k: "session_kept m" "records_kept m" and s: "durable_snapshot m = Inr s"
  shows "ApplyMachineFrameV1 (m_config m) s d f now =
    (case accept_frame m d f (own_channel (cf_Auth (m_config m)) now) of
       (_, Some e) \<Rightarrow> Inl e | (m', None) \<Rightarrow> durable_snapshot m')"
proof -
  obtain n e where n: "accept_frame m d f (own_channel (cf_Auth (m_config m)) now) = (n, e)" by fastforce
  obtain n' where n': "accept_frame (persisted m) d f (own_channel (cf_Auth (m_config m)) now) = (n', e)"
    "persisted n' = persisted n"
    using accept_persisted [OF k(1) n] by blast
  have "durable_snapshot n' = durable_snapshot n" using durable_snapshot_persisted n'(2) by metis
  then show ?thesis using n n' restore_snapshot [OF k s] by (simp add: ApplyMachineFrameV1_def split: option.split)
qed

end
