(* ===== verification/DurableRuns.thy ===== *)
theory DurableRuns
  imports DurableProofs
begin

text \<open>
  Persistence along a run. On its first connection a machine can always be persisted, with one exception that is
  stated; so a store that applies frames through snapshots accepts what the machine in memory accepts.
\<close>

subsection \<open>The first connection\<close>

inductive first_connection :: "ConformanceMachine \<Rightarrow> bool" where
  start: "NewConformanceMachine config = Inr m \<Longrightarrow> first_connection m"
| accept: "first_connection m \<Longrightarrow> accept_frame m d f x = (m', e) \<Longrightarrow> first_connection m'"
| erase: "first_connection m \<Longrightarrow> erase_committed m = (m', e) \<Longrightarrow> first_connection m'"

lemma first_connection_reachable: "first_connection m \<Longrightarrow> reachable m"
proof (induction rule: first_connection.induct)
  case (start config m)
  then show ?case by (rule reachable.start)
next
  case (accept m d f x m' e)
  then have "machine_step m m'" by (auto intro: machine_step.accept simp: Accept_Some)
  then show ?case using accept.IH by (rule reachable.step [rotated])
next
  case (erase m m' e)
  then have "machine_step m m'" by (auto intro: machine_step.erase simp: Erase_Some)
  then show ?case using erase.IH by (rule reachable.step [rotated])
qed

locale connection_invariant =
  fixes I :: "ConformanceMachine \<Rightarrow> bool"
  assumes opened: "NewConformanceMachine config = Inr (new_machine config) \<Longrightarrow> I (new_machine config)"
    and kept: "first_connection m \<Longrightarrow> I m \<Longrightarrow> frame_step d f now m n \<Longrightarrow> FrameV1_Validate f = None \<Longrightarrow> I (record_envelope d f n)"
    and erased: "I m \<Longrightarrow> I (m\<lparr>m_attempt := idle_attempt\<rparr>)"
begin

lemma throughout: "first_connection m \<Longrightarrow> I m"
proof (induction rule: first_connection.induct)
  case (start config m)
  then have "m = new_machine config" by (auto simp: NewConformanceMachine_def split: if_splits)
  then show ?case using opened start by simp
next
  case (accept m d f x m' e)
  show ?case
  proof (cases e)
    case None
    with accept.hyps(2) have "accept_frame m d f x = (m', None)" by simp
    then show ?thesis
    proof (cases rule: accept_frame_cases)
      case replay
      then show ?thesis using accept.IH by simp
    next
      case (step n)
      then show ?thesis using kept [OF accept.hyps(1) accept.IH apply_frame_step [OF step(1)] authorized_frame(1) [OF step(7)]] by simp
    qed
  next
    case (Some c)
    then show ?thesis using postD [OF accept_frame_atomic accept.hyps(2)] accept.IH by (simp add: same_on_error_def)
  qed
next
  case (erase m m' e)
  then show ?case using erased by (auto simp: erase_committed_def refuse_with_def split: if_splits)
qed

end

definition quiet :: "ConformanceMachine \<Rightarrow> bool" where
  "quiet m = (\<not> m_reconnecting m \<and> \<not> m_drainReenvelopePending m \<and> m_connection m \<noteq> ConnectionReconnectPending \<and>
     ar_pendingWorkerTerminal (m_attempt m) = None)"

lemma quiet_record [simp]: "quiet (record_envelope d f n) = quiet n"
  by (simp add: quiet_def record_envelope_def Let_def)

lemma quiet_step:
  assumes st: "frame_step d f now m n" and q: "quiet m"
  shows "quiet n"
  using st
proof (cases rule: frame_step.cases)
  case (attempt b s a)
  then show ?thesis using q transition_frame(1) [OF attempt(9)]
      settle_pending_pending [of d s "record_attempt_message d s (attemptFingerprint f) a"]
    by (simp add: quiet_def)
qed (use q in \<open>auto simp: quiet_def fence_attempt_def\<close>)

interpretation quiet_connection: connection_invariant quiet
proof
  show "quiet (new_machine config)" for config by (simp add: quiet_def idle_attempt_def)
next
  show "quiet (record_envelope d f n)" if "quiet m" "frame_step d f now m n" for m d f now n
    using quiet_step [OF that(2,1)] by simp
qed (simp add: quiet_def idle_attempt_def)

subsection \<open>The attempt stays summarisable\<close>

definition attempt_sound :: "ConformanceMachine \<Rightarrow> bool" where
  "attempt_sound m = (attempt_wf (m_attempt m) \<and> ar_cancelRevision (m_attempt m) \<in> {0, 1})"

lemma transition_cancel_revision:
  "applyAttemptTransition m d f b = Inr a \<Longrightarrow> ar_cancelRevision a = ar_cancelRevision (m_attempt m) \<or> ar_cancelRevision a = 1"
  by (auto simp: applyAttemptTransition_def with_payload_def transition_defs clear_terminal_def Let_def
      split: MessageKind.splits option.splits if_splits)

lemma fence_wf:
  assumes "attempt_wf a" "ar_cancelRevision a \<in> {0, 1}"
  shows "attempt_wf (fence_attempt a)"
  using assms by (auto simp: fence_attempt_def attempt_wf_def cancel_fields_ok_def terminal_fields_ok_def state_fields_ok_def)

lemma attempt_sound_step:
  assumes st: "frame_step d f now m n" and q: "quiet m" and i: "attempt_sound m" and v: "FrameV1_Validate f = None"
  shows "attempt_sound n"
  using st
proof (cases rule: frame_step.cases)
  case (reconnect_accepted x e a)
  then show ?thesis using q by (simp add: quiet_def)
next
  case (revoke x)
  then show ?thesis using i fence_wf by (auto simp: attempt_sound_def fence_attempt_def)
next
  case (attempt b s a)
  then show ?thesis
    using i transition_wf [OF _ v attempt(3,2,4,5,9)] transition_cancel_revision [OF attempt(9)]
    by (auto simp: attempt_sound_def)
qed (use i in \<open>simp_all add: attempt_sound_def\<close>)

interpretation sound_connection: connection_invariant attempt_sound
proof
  show "attempt_sound (new_machine config)" for config
    using idle_attempt_wf by (simp add: attempt_sound_def idle_attempt_def)
next
  show "attempt_sound (record_envelope d f n)"
    if "first_connection m" "attempt_sound m" "frame_step d f now m n" "FrameV1_Validate f = None" for m d f now n
    using attempt_sound_step [OF that(3) quiet_connection.throughout [OF that(1)] that(2,4)] by (simp add: attempt_sound_def)
qed (use idle_attempt_wf in \<open>simp add: attempt_sound_def idle_attempt_def\<close>)

subsection \<open>The phases of the handshake\<close>

fun phase :: "ConnectionState \<Rightarrow> nat" where
  "phase ConnectionUnattached = 0"
| "phase ConnectionHello = 1"
| "phase ConnectionChallenged = 2"
| "phase ConnectionAttachPending = 3"
| "phase ConnectionAttached = 4"
| "phase ConnectionReady = 5"
| "phase ConnectionDraining = 6"
| "phase ConnectionDrained = 7"
| "phase _ = 8"

text \<open>Before a phase its message is absent; from it on, and while the connection is not revoked, it is valid.\<close>

definition answers :: "ChallengeV1 \<Rightarrow> HelloV1 \<Rightarrow> bool" where
  "answers c h = (c = zero_challenge \<or>
     HelloV1_Validate h = None \<and> ch_WorkerOffer c = he_Offer h \<and> ch_WorkerNonce c = he_WorkerNonce h)"

definition manifest_bound :: "CapabilityManifestV1 \<Rightarrow> string \<Rightarrow> bool" where
  "manifest_bound x c = (x = zero_manifest \<or> ManifestDigestV1 x = Inr c)"

lemma nothing_bound [simp]: "answers zero_challenge h" "manifest_bound zero_manifest c"
  by (simp_all add: answers_def manifest_bound_def)

definition handshake_phase :: "ConformanceMachine \<Rightarrow> bool" where
  "handshake_phase m =
     ((phase (m_connection m) = 0 \<longrightarrow> m_hello m = zero_hello) \<and>
      (phase (m_connection m) \<le> 1 \<longrightarrow> m_challenge m = zero_challenge) \<and>
      (phase (m_connection m) \<in> {1..7} \<longrightarrow> HelloV1_Validate (m_hello m) = None) \<and>
      (phase (m_connection m) \<in> {2..7} \<longrightarrow> ChallengeV1_Validate (m_challenge m) = None) \<and>
      answers (m_challenge m) (m_hello m))"

definition session_phase :: "ConformanceMachine \<Rightarrow> bool" where
  "session_phase m =
     ((phase (m_connection m) \<le> 2 \<longrightarrow> m_capabilityDigest m = []) \<and>
      (phase (m_connection m) \<le> 4 \<longrightarrow> m_manifest m = zero_manifest \<and> ar_state (m_attempt m) = AttemptIdle \<and> m_drainRevision m = 0) \<and>
      (phase (m_connection m) \<in> {3..7} \<longrightarrow> length (m_capabilityDigest m) = 32) \<and>
      (phase (m_connection m) \<in> {5..7} \<longrightarrow> CapabilityManifestV1_Validate (m_manifest m) = None) \<and>
      (phase (m_connection m) \<in> {6, 7} \<longrightarrow> m_drainRevision m \<noteq> 0) \<and>
      manifest_bound (m_manifest m) (m_capabilityDigest m) \<and>
      (m_capabilityDigest m \<noteq> [] \<longrightarrow> length (m_capabilityDigest m) = 32) \<and>
      (ar_state (m_attempt m) \<noteq> AttemptIdle \<longrightarrow>
         m_manifest m \<noteq> zero_manifest \<and> ab_CapabilityDigest (ar_binding (m_attempt m)) = m_capabilityDigest m) \<and>
      (\<forall>s. m_connection m \<noteq> ConnectionStateOther s))"

lemma phase_record [simp]:
  "handshake_phase (record_envelope d f n) = handshake_phase n" "session_phase (record_envelope d f n) = session_phase n"
  by (simp_all add: handshake_phase_def session_phase_def record_envelope_def Let_def)

lemma handshake_phase_step:
  assumes st: "frame_step d f now m n" and q: "quiet m" and i: "handshake_phase m" and v: "FrameV1_Validate f = None"
  shows "handshake_phase n"
  using st
proof (cases rule: frame_step.cases)
  case (hello x)
  then show ?thesis using i frame_payload(1) [OF v hello(2)] by (simp add: handshake_phase_def answers_def)
next
  case (challenge x)
  then show ?thesis using i frame_payload(2) [OF v challenge(2)] by (simp add: handshake_phase_def answers_def)
next
  case (manifest x)
  then show ?thesis using i q by (simp add: handshake_phase_def quiet_def)
next
  case (drain x)
  consider "m_connection m = ConnectionReady" | "m_connection m = ConnectionDraining" using drain(4) by blast
  then show ?thesis by cases (use drain(1) i in \<open>simp_all add: handshake_phase_def\<close>)
qed (use i q in \<open>simp_all add: handshake_phase_def quiet_def\<close>)

lemma idle_offer_digest:
  assumes "applyAttemptTransition m d f b = Inr a" "ar_state (m_attempt m) = AttemptIdle"
  shows "ar_binding a = b" and "m_connection m = ConnectionReady"
  using assms by (auto simp: applyAttemptTransition_def with_payload_def transition_defs clear_terminal_def Let_def
      split: MessageKind.splits option.splits if_splits)

lemma session_phase_attempt:
  assumes i: "session_phase m" and a: "applyAttemptTransition m d f b = Inr a"
    and b: "ar_state (m_attempt m) = AttemptIdle \<or> b = ar_binding (m_attempt m)" "ab_CapabilityDigest b = m_capabilityDigest m"
  shows "session_phase (m\<lparr>m_attempt := settle_pending d s (record_attempt_message d s fp a)\<rparr>)"
proof -
  have "m_manifest m \<noteq> zero_manifest \<and> ab_CapabilityDigest (ar_binding a) = m_capabilityDigest m \<and> \<not> phase (m_connection m) \<le> 4"
  proof (cases "ar_state (m_attempt m) = AttemptIdle")
    case True
    then have "m_connection m = ConnectionReady" "ar_binding a = b" using idle_offer_digest [OF a] by auto
    then show ?thesis using i b(2) zero_invalid(3) by (auto simp: session_phase_def)
  next
    case False
    then show ?thesis using i transition_frame(3) [OF a] by (auto simp: session_phase_def)
  qed
  then show ?thesis using i by (simp add: session_phase_def)
qed

lemma session_phase_step:
  assumes st: "frame_step d f now m n" and q: "quiet m" and i: "session_phase m" and v: "FrameV1_Validate f = None"
  shows "session_phase n"
  using st
proof (cases rule: frame_step.cases)
  case (attach x)
  have "length (at_CapabilityDigest x) = 32"
    using frame_payload(3) [OF v attach(2)] attach(3) by (auto simp: AttachV1_Validate_def validateNegotiationProof_def)
  then show ?thesis using attach(1,4) i by (simp add: session_phase_def manifest_bound_def)
next
  case (manifest x)
  have "CapabilityManifestV1_Validate (mf_Manifest x) = None"
    using frame_payload(7) [OF v manifest(2)] manifest(3) by (auto simp: ManifestV1_Validate_def)
  moreover have "ManifestDigestV1 (mf_Manifest x) = Inr (m_capabilityDigest m)"
    using VerifyManifestV1_digest [OF manifest(8,3)] manifest(5) by simp
  ultimately show ?thesis using manifest(1,4) i q by (simp add: session_phase_def quiet_def manifest_bound_def)
next
  case (drain x)
  then have "dr_Revision x \<noteq> 0" using frame_payload(17) [OF v drain(2)] by (auto simp: DrainV1_Validate_def)
  note r = this
  consider "m_connection m = ConnectionReady" | "m_connection m = ConnectionDraining" using drain(4) by blast
  then show ?thesis by cases (use drain(1) i r in \<open>simp_all add: session_phase_def\<close>)
next
  case (revoke x)
  then show ?thesis using i by (auto simp: session_phase_def fence_attempt_def)
next
  case (attempt b s a)
  then show ?thesis using session_phase_attempt [OF i attempt(9,6,7)] by simp
qed (use i q in \<open>simp_all add: session_phase_def quiet_def\<close>)

definition phased :: "ConformanceMachine \<Rightarrow> bool" where
  "phased m = (handshake_phase m \<and> session_phase m)"

interpretation phased_connection: connection_invariant phased
proof
  show "phased (new_machine config)" for config
    by (simp add: phased_def handshake_phase_def session_phase_def idle_attempt_def answers_def manifest_bound_def)
next
  show "phased (record_envelope d f n)"
    if "first_connection m" "phased m" "frame_step d f now m n" "FrameV1_Validate f = None" for m d f now n
    using handshake_phase_step session_phase_step quiet_connection.throughout that by (simp add: phased_def)
qed (simp add: phased_def handshake_phase_def session_phase_def idle_attempt_def)

subsection \<open>The ledgers and the configuration\<close>

definition envelope_full :: "sequenceState \<Rightarrow> bool" where
  "envelope_full q = (if sq_sequence q = 0 then sq_ack q = 0 else length (sq_fingerprint q) = 32)"

definition ledger_full :: "attemptSequenceState \<Rightarrow> bool" where
  "ledger_full q = (\<forall>(k, fp) \<in> set (aq_fingerprints q). k \<noteq> 0 \<and> length fp = 32)"

definition ledgers_full :: "ConformanceMachine \<Rightarrow> bool" where
  "ledgers_full m = (ledger_full (ar_platform (m_attempt m)) \<and> ledger_full (ar_worker (m_attempt m)))"

definition envelopes_full :: "ConformanceMachine \<Rightarrow> bool" where
  "envelopes_full m = (envelope_full (m_platform m) \<and> envelope_full (m_worker m))"

lemma ledger_full_update:
  assumes "ledger_full q" "s \<noteq> 0" "length fp = 32"
  shows "ledger_full (q\<lparr>aq_sequence := s, aq_fingerprints := AList.update s fp (aq_fingerprints q)\<rparr>)"
proof -
  have "set (AList.update k v xs) \<subseteq> insert (k, v) (set xs)" for k :: u64 and v :: string and xs
    by (induction xs) auto
  then show ?thesis using assms unfolding ledger_full_def by fastforce
qed

lemma ledgers_full_step:
  assumes st: "frame_step d f now m n" and q: "quiet m" and i: "ledgers_full m"
  shows "ledgers_full n"
  using st
proof (cases rule: frame_step.cases)
  case (attempt b s a)
  have "s \<noteq> 0" using word_less_next [OF attempt(4)] attempt(5) by auto
  then show ?thesis
    using attempt(1) i transition_counts [OF attempt(9)] ledger_full_update [OF _ _ length_fingerprint(2)]
    by (simp add: ledgers_full_def settle_pending_fields record_attempt_message_def attempt_sender_def Let_def)
next
  case (reconnect_accepted x e a)
  then show ?thesis using q by (simp add: quiet_def)
qed (use i in \<open>simp_all add: ledgers_full_def fence_attempt_def\<close>)

lemma envelopes_step: "frame_step d f now m n \<Longrightarrow> m_platform n = m_platform m \<and> m_worker n = m_worker m \<and> m_config n = m_config m"
  by (elim frame_stepE) simp_all

lemma valid_sequence: "FrameV1_Validate f = None \<Longrightarrow> fr_Sequence f \<noteq> 0"
  by (auto simp: FrameV1_Validate_def validateFrameCommon_def split: if_splits option.splits)

definition ledgered :: "ConformanceMachine \<Rightarrow> bool" where
  "ledgered m = (ledgers_full m \<and> envelopes_full m \<and> (\<exists>c. machineConfigDigestV1 (m_config m) = Inr c))"

interpretation ledgered_connection: connection_invariant ledgered
proof
  fix config
  assume "NewConformanceMachine config = Inr (new_machine config)"
  then have "\<exists>c. machineConfigDigestV1 config = Inr c"
    by (auto simp: machineConfigDigestV1_def NewConformanceMachine_def Let_def split: if_splits)
  then show "ledgered (new_machine config)"
    by (simp add: ledgered_def ledgers_full_def envelopes_full_def ledger_full_def envelope_full_def
        new_machine_def idle_attempt_def zero_attempt_sequence_def zero_sequence_def)
next
  fix m d f now n
  assume a: "first_connection m" "ledgered m" "frame_step d f now m n" "FrameV1_Validate f = None"
  have "ledgers_full n"
    using ledgers_full_step [OF a(3) quiet_connection.throughout [OF a(1)]] a(2) by (simp add: ledgered_def)
  then show "ledgered (record_envelope d f n)"
    using a(2) envelopes_step [OF a(3)] valid_sequence [OF a(4)]
    by (simp add: ledgered_def ledgers_full_def envelopes_full_def envelope_full_def record_envelope_def Let_def)
qed (simp add: ledgered_def ledgers_full_def envelopes_full_def ledger_full_def idle_attempt_def zero_attempt_sequence_def)

subsection \<open>A machine on its first connection can be persisted\<close>

lemma fingerprints_ordered_map:
  assumes "sorted_wrt (<) ks" "\<forall>k \<in> set ks. previous < k \<and> k \<le> limit \<and> length (g k) = 32"
  shows "fingerprints_ordered limit previous (map (\<lambda>k. \<lparr>mq_Sequence = k, mq_Fingerprint = g k\<rparr>) ks)"
  using assms
proof (induction ks arbitrary: previous)
  case (Cons k ks)
  have "k \<noteq> 0" using Cons.prems(2) by auto
  then show ?case using Cons by (auto simp: validBytes_def not_le not_less)
qed simp

lemma keys_bounded:
  fixes ks :: "u64 list"
  assumes "distinct ks" "\<forall>k \<in> set ks. k \<noteq> 0 \<and> k \<le> MaxAttemptMessages"
  shows "length ks \<le> unat MaxAttemptMessages"
proof -
  have "unat ` set ks \<subseteq> {1..unat MaxAttemptMessages}"
    using assms(2) unat_eq_0 by (fastforce simp: word_le_nat_alt Suc_le_eq)
  then have "card (unat ` set ks) \<le> unat MaxAttemptMessages"
    using card_mono [of "{1..unat MaxAttemptMessages}" "unat ` set ks"] by simp
  moreover have "inj_on unat (set ks)" by (auto intro: inj_onI simp: word_unat_eq_iff)
  ultimately show ?thesis using distinct_card [OF assms(1)] card_image [of unat "set ks"] by simp
qed

lemma direction_persists:
  assumes "ledger_ok q" "ledger_full q" "aq_sequence q \<le> MaxAttemptMessages"
  shows "validateAttemptDirectionSnapshot (snapshotAttemptDirection q) = None"
proof -
  let ?ks = "map fst (aq_fingerprints q)"
  have s: "sorted_wrt (<) ?ks" using assms(1) by (simp add: ledger_ok_def)
  then have d: "distinct ?ks" and k: "sort ?ks = ?ks" by (simp_all add: strict_sorted_iff sort_key_id_if_sorted)
  have b: "k \<noteq> 0 \<and> k \<le> aq_sequence q \<and> length (stored_fingerprint q k) = 32" if key: "k \<in> set ?ks" for k
  proof -
    obtain fp where fp: "(k, fp) \<in> set (aq_fingerprints q)" using key by auto
    then have "stored_fingerprint q k = fp" using d by (simp add: stored_fingerprint_def)
    then show ?thesis using fp assms(1,2) unfolding ledger_ok_def ledger_full_def by fastforce
  qed
  then have "length ?ks \<le> unat MaxAttemptMessages" using d assms(3) by (intro keys_bounded) (auto intro: order_trans)
  moreover have "fingerprints_ordered (aq_sequence q) 0 (md_Fingerprints (snapshotAttemptDirection q))"
    unfolding snapshotAttemptDirection_def using b s k
    by (simp del: list.map_comp map_map) (rule fingerprints_ordered_map; simp add: word_neq_0_conv [symmetric])
  ultimately show ?thesis using assms(3) k
    by (simp add: validateAttemptDirectionSnapshot_def snapshotAttemptDirection_def not_less)
qed

lemma envelope_persists: "envelope_full q \<Longrightarrow> validateEnvelopeSnapshot (snapshotEnvelope q) = None"
  by (simp add: envelope_full_def validateEnvelopeSnapshot_def snapshotEnvelope_def validBytes_def split: if_splits)

lemma first_connection_stored: "first_connection m \<Longrightarrow> stored m"
  by (rule reachable_stored [OF first_connection_reachable])

lemmas first_connection_facts =
  quiet_connection.throughout sound_connection.throughout phased_connection.throughout ledgered_connection.throughout
  session_durable.holds [OF first_connection_stored] records_durable.holds [OF first_connection_stored]

lemma config_digest_length: "machineConfigDigestV1 config = Inr c \<Longrightarrow> length c = 32"
  by (auto simp: machineConfigDigestV1_def Let_def split: if_splits)

lemma header_persists:
  assumes f: "first_connection m" and c: "machineConfigDigestV1 (m_config m) = Inr c"
  shows "\<not> malformed_header (snapshot_content m c)"
proof -
  have w: "attempt_wf (m_attempt m)" using first_connection_facts(2) [OF f] by (simp add: attempt_sound_def)
  have l: "ledger_ok (ar_platform (m_attempt m))" "ledger_ok (ar_worker (m_attempt m))"
    using first_connection_facts(6) [OF f] by (simp_all add: records_kept_def attempt_kept_def)
  have e: "ledgers_full m" "envelopes_full m" using first_connection_facts(4) [OF f] by (simp_all add: ledgered_def)
  have "watermarks_ok m" by (rule watermark_inv.invariant [OF first_connection_reachable [OF f]])
  moreover have "validMachineConnectionState (m_connection m)"
    using first_connection_facts(3) [OF f]
    by (auto simp: phased_def session_phase_def validMachineConnectionState_def split: ConnectionState.split)
  moreover have "validateAttemptDirectionSnapshot (snapshotAttemptDirection (ar_platform (m_attempt m))) = None"
    "validateAttemptDirectionSnapshot (snapshotAttemptDirection (ar_worker (m_attempt m))) = None"
    using direction_persists [OF l(1)] direction_persists [OF l(2)] e(1) w by (simp_all add: ledgers_full_def attempt_wf_def)
  moreover have "validateEnvelopeSnapshot (snapshotEnvelope (m_platform m)) = None"
    "validateEnvelopeSnapshot (snapshotEnvelope (m_worker m)) = None"
    using e(2) envelope_persists by (simp_all add: envelopes_full_def)
  ultimately show ?thesis
    using config_digest_length [OF c] attempt_wf_summary [OF w] attempt_summary_sealed(3,4) [OF w]
    by (simp add: malformed_header_def snapshot_content_def validBytes_def currentAttemptSummary_def watermarks_ok_iff
        snapshotEnvelope_def snapshotAttemptDirection_def not_less)
qed

lemma handshake_persists:
  assumes f: "first_connection m"
  shows "\<not> malformed_handshake (snapshot_content m c)"
proof -
  have w: "attempt_wf (m_attempt m)" using first_connection_facts(2) [OF f] by (simp add: attempt_sound_def)
  have h: "handshake_kept m" using first_connection_facts(5) [OF f] by (simp add: session_kept_def)
  have p: "handshake_phase m" "session_phase m" using first_connection_facts(3) [OF f] by (simp_all add: phased_def)
  have "ChallengeV1_Validate (m_challenge m) = None \<Longrightarrow> HelloV1_Validate (m_hello m) = None \<and>
      ch_WorkerOffer (m_challenge m) = he_Offer (m_hello m) \<and> ch_WorkerNonce (m_challenge m) = he_WorkerNonce (m_hello m)"
    using p(1) by (auto simp: handshake_phase_def answers_def)
  moreover have "CapabilityManifestV1_Validate (m_manifest m) = None \<Longrightarrow> ManifestDigestV1 (m_manifest m) = Inr (m_capabilityDigest m)"
    using p(2) by (auto simp: session_phase_def manifest_bound_def)
  moreover have "ar_state (m_attempt m) = AttemptIdle \<or>
      CapabilityManifestV1_Validate (m_manifest m) = None \<and> ab_CapabilityDigest (ar_binding (m_attempt m)) = m_capabilityDigest m"
    using p(2) h by (auto simp: session_phase_def handshake_kept_def)
  moreover have "m_capabilityDigest m \<noteq> [] \<Longrightarrow> length (m_capabilityDigest m) = 32"
    using p(2) by (simp add: session_phase_def)
  ultimately show ?thesis
    using attempt_summary_sealed(1,2) [OF w]
    by (auto simp: malformed_handshake_def snapshot_content_def invalid_payload_def when_valid_def validBytes_def
        currentAttemptSummary_def)
qed

lemma state_persists:
  assumes f: "first_connection m"
  shows "\<not> malformed_for_state (snapshot_content m c)"
proof -
  have q: "quiet m" by (rule first_connection_facts(1) [OF f])
  have p: "handshake_phase m" "session_phase m" using first_connection_facts(3) [OF f] by (simp_all add: phased_def)
  show ?thesis
    using q p unfolding malformed_for_state_def
    by (cases "m_connection m")
      (simp_all add: snapshot_content_def quiet_def handshake_phase_def session_phase_def when_valid_def validBytes_def)
qed

lemma revoke_persists:
  assumes f: "first_connection m"
  shows "RevokeV1_Validate (m_revoke m) = None \<longleftrightarrow> m_connection m = ConnectionRevoking \<or> m_connection m = ConnectionRevoked"
  using first_connection_facts(5) [OF f]
  by (auto simp: session_kept_def revoke_kept_def revoked_connection_def split: if_splits)

definition recorded_unattached :: "ConformanceMachine \<Rightarrow> bool" where
  "recorded_unattached m =
     (m_connection m = ConnectionUnattached \<and> (sq_sequence (m_platform m) \<noteq> 0 \<or> sq_sequence (m_worker m) \<noteq> 0))"

lemma content_persists:
  assumes f: "first_connection m" and c: "machineConfigDigestV1 (m_config m) = Inr c"
  shows "validateMachineSnapshotContent (snapshot_content m c) = None \<longleftrightarrow> \<not> recorded_unattached m"
proof -
  let ?s = "snapshot_content m c"
  have w: "attempt_wf (m_attempt m)" using first_connection_facts(2) [OF f] by (simp add: attempt_sound_def)
  have fresh: "m_hello m = zero_hello" "m_challenge m = zero_challenge" "m_capabilityDigest m = []"
      "m_manifest m = zero_manifest" "ar_state (m_attempt m) = AttemptIdle" "m_drainRevision m = 0"
    if "m_connection m = ConnectionUnattached"
    using that first_connection_facts(3) [OF f] by (simp_all add: phased_def handshake_phase_def session_phase_def)
  have drain: "m_drainRevision m \<noteq> 0" if "m_connection m = ConnectionDraining \<or> m_connection m = ConnectionDrained"
    using that first_connection_facts(3) [OF f] by (auto simp: phased_def session_phase_def)
  have q: "ms_Reconnect ?s = None" "mt_PendingWorkerTerminal (ms_Attempt ?s) = None"
    using first_connection_facts(1) [OF f] by (simp_all add: quiet_def snapshot_content_def)
  have r: "ms_Revoke ?s \<noteq> None \<longleftrightarrow> ms_Connection ?s = ConnectionRevoking \<or> ms_Connection ?s = ConnectionRevoked"
    using revoke_persists [OF f] by (simp add: snapshot_content_def when_valid_def)
  have "ms_Connection ?s = ConnectionUnattached \<and>
      (me_Sequence (ms_Platform ?s) \<noteq> 0 \<or> me_Sequence (ms_Worker ?s) \<noteq> 0 \<or> ms_Hello ?s \<noteq> None \<or>
       ms_Challenge ?s \<noteq> None \<or> length (ms_CapabilityDigest ?s) \<noteq> 0 \<or> ms_Manifest ?s \<noteq> None \<or>
       as_State (mt_Summary (ms_Attempt ?s)) \<noteq> AttemptIdle \<or> ms_DrainRevision ?s \<noteq> 0 \<or> ms_Revoke ?s \<noteq> None) \<longleftrightarrow>
      recorded_unattached m"
    using fresh revoke_persists [OF f] attempt_summary_sealed(1) [OF w]
    by (cases "m_connection m = ConnectionUnattached")
      (auto simp: recorded_unattached_def snapshot_content_def snapshotEnvelope_def when_valid_def currentAttemptSummary_def)
  moreover have "\<not> ((ms_Connection ?s = ConnectionDraining \<or> ms_Connection ?s = ConnectionDrained) \<and> ms_DrainRevision ?s = 0)"
    using drain by (auto simp: snapshot_content_def)
  ultimately show ?thesis
    unfolding validateMachineSnapshotContent_def reject_None
    using header_persists [OF f c] handshake_persists [OF f, of c] state_persists [OF f, of c] q r
    by (simp add: validatePendingTerminalSnapshot_def)
qed

lemma first_connection_snapshot:
  assumes f: "first_connection m"
  shows "(\<exists>s. durable_snapshot m = Inr s) \<longleftrightarrow> \<not> recorded_unattached m"
proof -
  obtain c where c: "machineConfigDigestV1 (m_config m) = Inr c"
    using first_connection_facts(4) [OF f] by (auto simp: ledgered_def)
  then show ?thesis using content_persists [OF f c] by (auto simp: durable_snapshot_Inr)
qed

subsection \<open>A run through the store\<close>

text \<open>
  The events a store applies to a connection: a frame at a time of the trusted clock, and the retirement of a
  committed attempt. A refused event leaves the state as it was.
\<close>

datatype store_event = ApplyFrame Direction FrameV1 int | RetireCommitted

fun in_memory :: "ConformanceMachine \<Rightarrow> store_event \<Rightarrow> ConformanceMachine \<times> fault option" where
  "in_memory m (ApplyFrame d f now) = accept_frame m d f (own_channel (cf_Auth (m_config m)) now)"
| "in_memory m RetireCommitted =
     (if ar_state (m_attempt m) = AttemptTerminalCommitted \<and> sq_sequence (m_platform m) \<le> sq_ack (m_worker m)
      then (m\<lparr>m_attempt := idle_attempt\<rparr>, None) else refuse_with m ErrorConflict)"

fun in_store :: "MachineConfig \<Rightarrow> MachineSnapshotV1 \<Rightarrow> store_event \<Rightarrow> fault + MachineSnapshotV1" where
  "in_store config s (ApplyFrame d f now) = ApplyMachineFrameV1 config s d f now"
| "in_store config s RetireCommitted = RetireCommittedAttemptV1 config s"

fun memory_run :: "ConformanceMachine \<Rightarrow> store_event list \<Rightarrow> ConformanceMachine \<times> fault option list" where
  "memory_run m [] = (m, [])"
| "memory_run m (ev # evs) = (let (m', e) = in_memory m ev; (m'', es) = memory_run m' evs in (m'', e # es))"

fun store_run :: "MachineConfig \<Rightarrow> MachineSnapshotV1 \<Rightarrow> store_event list \<Rightarrow> MachineSnapshotV1 \<times> fault option list" where
  "store_run config s [] = (s, [])"
| "store_run config s (ev # evs) =
     (case in_store config s ev of
        Inl e \<Rightarrow> (let (s', es) = store_run config s evs in (s', Some e # es))
      | Inr s' \<Rightarrow> (let (s'', es) = store_run config s' evs in (s'', None # es)))"

lemma attached_step: "frame_step d f now m n \<Longrightarrow> quiet m \<Longrightarrow> m_connection m \<noteq> ConnectionUnattached \<Longrightarrow> m_connection n \<noteq> ConnectionUnattached"
  by (elim frame_stepE) (auto simp: quiet_def)

lemma in_memory_step:
  assumes f: "first_connection m" and u: "m_connection m \<noteq> ConnectionUnattached" and n: "in_memory m ev = (n, e)"
  shows "first_connection n \<and> m_connection n \<noteq> ConnectionUnattached \<and> m_config n = m_config m \<and> (e \<noteq> None \<longrightarrow> n = m)"
proof (cases ev)
  case (ApplyFrame d fr now)
  with n have a: "accept_frame m d fr (own_channel (cf_Auth (m_config m)) now) = (n, e)" by simp
  have c: "first_connection n" by (rule first_connection.accept [OF f a])
  show ?thesis
  proof (cases e)
    case None
    with a have "accept_frame m d fr (own_channel (cf_Auth (m_config m)) now) = (n, None)" by simp
    then show ?thesis
    proof (cases rule: accept_frame_cases)
      case (step k)
      have st: "frame_step d fr (ax_NowUnixMicro (own_channel (cf_Auth (m_config m)) now)) m k"
        by (rule apply_frame_step [OF step(1)])
      then show ?thesis
        using attached_step [OF st quiet_connection.throughout [OF f] u] envelopes_step [OF st] step(2) c None
        by (simp add: record_envelope_def Let_def)
    qed (use f u None in simp)
  next
    case (Some x)
    then show ?thesis using postD [OF accept_frame_atomic a] f u by (simp add: same_on_error_def)
  qed
next
  case RetireCommitted
  then show ?thesis
    using n f u first_connection.erase [OF f, of "m\<lparr>m_attempt := idle_attempt\<rparr>" None]
    by (auto simp: refuse_with_def erase_committed_def split: if_splits)
qed

lemma retire_store:
  assumes k: "session_kept m" "records_kept m" and s: "durable_snapshot m = Inr s"
  shows "RetireCommittedAttemptV1 (m_config m) s =
    (if ar_state (m_attempt m) = AttemptTerminalCommitted \<and> sq_sequence (m_platform m) \<le> sq_ack (m_worker m)
     then snapshot_or_conflict (m\<lparr>m_attempt := idle_attempt\<rparr>) else Inl (protocolError ErrorConflict))"
proof -
  have "persisted (m\<lparr>m_attempt := idle_attempt\<rparr>) = (persisted m)\<lparr>m_attempt := idle_attempt\<rparr>"
    by (simp add: persisted_def forget_reconnect_def merge_flags_def revoked_connection_def)
  then have "durable_snapshot ((persisted m)\<lparr>m_attempt := idle_attempt\<rparr>) = durable_snapshot (m\<lparr>m_attempt := idle_attempt\<rparr>)"
    using durable_snapshot_persisted by metis
  then show ?thesis
    using restore_snapshot [OF k s]
    by (auto simp: RetireCommittedAttemptV1_def erase_committed_def snapshot_or_conflict_def not_less)
qed

lemma in_store_step:
  assumes f: "first_connection m" and u: "m_connection m \<noteq> ConnectionUnattached" and s: "durable_snapshot m = Inr s"
    and n: "in_memory m ev = (n, e)"
  shows "case e of Some x \<Rightarrow> in_store (m_config m) s ev = Inl x
    | None \<Rightarrow> \<exists>s'. in_store (m_config m) s ev = Inr s' \<and> durable_snapshot n = Inr s'"
proof -
  note k = first_connection_facts(5,6) [OF f]
  obtain s' where s': "durable_snapshot n = Inr s'"
    using in_memory_step [OF f u n] first_connection_snapshot [of n] by (auto simp: recorded_unattached_def)
  show ?thesis
  proof (cases ev)
    case (ApplyFrame d fr now)
    then show ?thesis using n s' apply_machine_frame [OF k s, of d fr now] by (auto split: option.split)
  next
    case RetireCommitted
    then show ?thesis
      using n s' retire_store [OF k s] by (auto simp: snapshot_or_conflict_def refuse_with_def split: if_splits)
  qed
qed

lemma store_run_memory:
  assumes "first_connection m" "m_connection m \<noteq> ConnectionUnattached" "durable_snapshot m = Inr s"
  shows "\<exists>s' m' es. store_run (m_config m) s evs = (s', es) \<and> memory_run m evs = (m', es) \<and> durable_snapshot m' = Inr s'"
  using assms
proof (induction evs arbitrary: m s)
  case Nil
  then show ?case by simp
next
  case (Cons ev evs)
  obtain n e where n: "in_memory m ev = (n, e)" by fastforce
  note st = in_memory_step [OF Cons.prems(1,2) n] and sn = in_store_step [OF Cons.prems n]
  show ?case
  proof (cases e)
    case None
    then obtain s' where s': "in_store (m_config m) s ev = Inr s'" "durable_snapshot n = Inr s'" using sn by auto
    then obtain t m' es where "store_run (m_config n) s' evs = (t, es)" "memory_run n evs = (m', es)" "durable_snapshot m' = Inr t"
      using Cons.IH [OF _ _ s'(2)] st by blast
    then show ?thesis using n s' st None by simp
  next
    case (Some x)
    then have "in_store (m_config m) s ev = Inl x" "n = m" using sn st by simp_all
    moreover obtain t m' es where "store_run (m_config m) s evs = (t, es)" "memory_run m evs = (m', es)" "durable_snapshot m' = Inr t"
      using Cons.IH [OF Cons.prems] by blast
    ultimately show ?thesis using n Some by simp
  qed
qed

end
