(* ===== verification/DurableStore.thy ===== *)
theory DurableStore
  imports DurableRuns
begin

text \<open>
  The orders of the platform. A store asks the builders of \<^verbatim>\<open>durable.go\<close> for the next platform frame and keeps the
  snapshot they return; asked again, they return the frame that was persisted. The other half is the
  reconnect handshake, whose accepted frame can be rebuilt from the snapshot it left.
\<close>

subsection \<open>What a committed frame leaves in the machine\<close>

lemma commit_frame_Inr:
  "commit_frame m f x = Inr (f', out) \<longleftrightarrow>
     f' = f \<and> FrameV1_Validate f = None \<and>
     (\<exists>n. accept_frame m DirectionPlatformToWorker f x = (n, None) \<and> durable_snapshot n = Inr out)"
  by (auto simp: commit_frame_def split: if_splits prod.splits option.splits sum.splits)

lemma restored_stored: "RestoreConformanceMachine config s = Inr m \<Longrightarrow> stored m \<and> m_config m = config"
  by (auto simp: RestoreConformanceMachine_Inr intro: stored.restored)

lemma stored_accept: "stored m \<Longrightarrow> accept_frame m d f x = (n, e) \<Longrightarrow> stored n"
  by (rule stored.stepped [of m]) (auto intro!: machine_step.accept simp: Accept_Some)

lemma accept_config: "accept_frame m d f x = (n, None) \<Longrightarrow> m_config n = m_config m"
  by (erule accept_frame_cases) (auto dest: apply_frame_fields(1) simp: record_envelope_def Let_def)

lemma stored_restore:
  assumes "stored m" "durable_snapshot m = Inr s"
  shows "RestoreConformanceMachine (m_config m) s = Inr (persisted m)"
  by (rule restore_snapshot [OF session_durable.holds [OF assms(1)] records_durable.holds [OF assms(1)] assms(2)])

lemma committed_restore:
  assumes r: "RestoreConformanceMachine config s = Inr m" and a: "accept_frame m d f x = (n, None)"
    and p: "durable_snapshot n = Inr out"
  shows "RestoreConformanceMachine config out = Inr (persisted n)"
  using stored_restore [OF stored_accept [OF _ a] p] accept_config [OF a] restored_stored [OF r] by simp

definition persisted_frame :: "ConformanceMachine \<Rightarrow> FrameV1 \<Rightarrow> bool" where
  "persisted_frame m f =
     (FrameV1_Validate f = None \<and> fr_Sequence f \<noteq> MaxUint64 \<and>
      m_platform m = \<lparr>sq_sequence = fr_Sequence f, sq_ack = fr_Ack f, sq_fingerprint = frameFingerprint f\<rparr>)"

definition persisted_attempt_frame :: "ConformanceMachine \<Rightarrow> FrameV1 \<Rightarrow> bool" where
  "persisted_attempt_frame m f =
     (persisted_frame m f \<and> attemptSequence f = aq_sequence (ar_platform (m_attempt m)) \<and>
      aq_sequence (ar_platform (m_attempt m)) \<noteq> MaxUint64 \<and>
      map_of (aq_fingerprints (ar_platform (m_attempt m))) (attemptSequence f) = Some (attemptFingerprint f))"

lemma persisted_frame_persisted [simp]:
  "persisted_frame (persisted m) f = persisted_frame m f" "persisted_attempt_frame (persisted m) f = persisted_attempt_frame m f"
  by (simp_all add: persisted_frame_def persisted_attempt_frame_def)

lemma exact_attempt_frame: "persisted_attempt_frame m f \<Longrightarrow> exactPersistedPlatformAttemptFrame m f = Some f"
  using valid_sequence [of f]
  by (auto simp: persisted_attempt_frame_def persisted_frame_def exactPersistedPlatformAttemptFrame_def)

lemma committed_step:
  assumes a: "accept_frame m DirectionPlatformToWorker f x = (n, None)"
    and s: "fr_Sequence f = sq_sequence (m_platform m) + 1"
  obtains k where "frame_step DirectionPlatformToWorker f (ax_NowUnixMicro x) m k"
    "n = record_envelope DirectionPlatformToWorker f k" "FrameV1_Validate f = None"
  using a
proof (cases rule: accept_frame_cases)
  case replay
  then show ?thesis using s by (simp add: envelope_sender_def)
next
  case (step k)
  then show ?thesis using that [OF apply_frame_step [OF step(1)]] authorized_frame(1) [OF step(7)] by simp
qed

lemma commit_attempt:
  assumes a: "accept_frame m DirectionPlatformToWorker f x = (n, None)"
    and s: "fr_Sequence f = sq_sequence (m_platform m) + 1" "fr_Sequence f \<noteq> MaxUint64"
    and k: "fr_Kind f \<in> attempt_kinds" "attemptPayload f = Some (b, q)"
    and q: "q = aq_sequence (ar_platform (m_attempt m)) + 1" "aq_sequence (ar_platform (m_attempt m)) \<noteq> MaxUint64"
  obtains t where "applyAttemptTransition m DirectionPlatformToWorker f b = Inr t" "persisted_attempt_frame n f"
    "m_attempt n = settle_pending DirectionPlatformToWorker q (record_attempt_message DirectionPlatformToWorker q (attemptFingerprint f) t)"
proof -
  obtain n0 where st: "frame_step DirectionPlatformToWorker f (ax_NowUnixMicro x) m n0"
    and n: "n = record_envelope DirectionPlatformToWorker f n0" and v: "FrameV1_Validate f = None"
    using committed_step [OF a s(1)] by blast
  have "q \<le> MaxAttemptMessages"
    using attemptPayload_Some [OF v k(1)] k(2) by (fastforce simp: validateAttempt_def not_less)
  then have nq: "q \<noteq> MaxUint64" by (auto simp: MaxAttemptMessages_def MaxUint64_def)
  show thesis
    using st
  proof (cases rule: frame_step.cases)
    case (attempt b' s' t)
    then have "persisted_attempt_frame n f"
      using n k s v q nq
      by (simp add: persisted_attempt_frame_def persisted_frame_def attemptSequence_def record_envelope_def
          record_attempt_message_def attempt_sender_def Let_def update_conv)
    then show thesis using that [of t] attempt n k by (simp add: record_envelope_def Let_def)
  next
    case (attempt_replay b' s')
    then show thesis using k q word_less_next [OF q(2)] by (simp add: attempt_sender_def)
  qed (use k in \<open>auto simp: attempt_kinds_def\<close>)
qed

subsection \<open>Asked again, a builder returns the persisted frame\<close>

locale exact_builder =
  fixes build :: "MachineConfig \<Rightarrow> MachineSnapshotV1 \<Rightarrow> 'a \<Rightarrow> fault + (FrameV1 \<times> MachineSnapshotV1)"
    and again :: "MachineConfig \<Rightarrow> 'a \<Rightarrow> 'a"
    and settled :: "MachineConfig \<Rightarrow> 'a \<Rightarrow> ConformanceMachine \<Rightarrow> FrameV1 \<Rightarrow> bool"
  assumes refused: "RestoreConformanceMachine config s = Inl e \<Longrightarrow> \<exists>e. build config s a = Inl e"
    and built: "RestoreConformanceMachine config s = Inr m \<Longrightarrow> build config s a = Inr (f, out) \<Longrightarrow> fr_Sequence f \<noteq> MaxUint64 \<Longrightarrow>
      out = s \<and> build config s (again config a) = Inr (f, s) \<or>
      (\<exists>x. commit_frame m f x = Inr (f, out) \<and>
           (\<forall>n. accept_frame m DirectionPlatformToWorker f x = (n, None) \<longrightarrow> settled config a n f))"
    and retried: "RestoreConformanceMachine config s = Inr m \<Longrightarrow> settled config a m f \<Longrightarrow> build config s (again config a) = Inr (f, s)"
    and settled_persisted: "settled config a (persisted m) f = settled config a m f"
begin

lemma exact:
  assumes b: "build config s a = Inr (f, out)" and q: "fr_Sequence f \<noteq> MaxUint64"
  shows "build config out (again config a) = Inr (f, out)"
proof -
  obtain m where m: "RestoreConformanceMachine config s = Inr m"
    using refused [of config s _ a] b by (cases "RestoreConformanceMachine config s") auto
  from built [OF m b q] show ?thesis
  proof (elim disjE conjE exE)
    fix x
    assume c: "commit_frame m f x = Inr (f, out)"
      and n: "\<forall>n. accept_frame m DirectionPlatformToWorker f x = (n, None) \<longrightarrow> settled config a n f"
    then obtain n where a: "accept_frame m DirectionPlatformToWorker f x = (n, None)" "durable_snapshot n = Inr out"
      unfolding commit_frame_Inr by blast
    then have "settled config a (persisted n) f" using n settled_persisted by blast
    then show ?thesis using retried [OF committed_restore [OF m a]] by blast
  qed simp
qed

end

text \<open>The machine a builder leaves, and in which it recognises its own frame.\<close>

definition cancel_settled :: "MachineConfig \<Rightarrow> CancelAuthorityV1 \<Rightarrow> ConformanceMachine \<Rightarrow> FrameV1 \<Rightarrow> bool" where
  "cancel_settled config w m f =
     (persisted_attempt_frame m f \<and> cw_Revision w = 1 \<and> cw_Code w \<in> {CancelRequested, CancelFenced} \<and> 0 < cw_NowUnixMicro w \<and>
      ar_cancelRevision (m_attempt m) = cw_Revision w \<and> ar_cancelCode (m_attempt m) = cw_Code w \<and>
      (last_platform_frame config m MessageCancel)\<lparr>fr_Cancel := Some (cancel_payload (m_attempt m)
         (aq_sequence (ar_platform (m_attempt m))) (cw_Revision w) (cw_Code w))\<rparr> = f)"

definition accepted_settled :: "MachineConfig \<Rightarrow> LeaseAcceptedAuthorityV1 \<Rightarrow> ConformanceMachine \<Rightarrow> FrameV1 \<Rightarrow> bool" where
  "accepted_settled config w m f =
     (persisted_attempt_frame m f \<and> 0 < aw_NowUnixMicro w \<and> ar_state (m_attempt m) = AttemptClaimed \<and>
      (last_platform_frame config m MessageLeaseAccepted)\<lparr>fr_LeaseAccepted := Some
         \<lparr>la_Binding = ar_binding (m_attempt m), la_AttemptSequence = aq_sequence (ar_platform (m_attempt m))\<rparr>\<rparr> = f)"

definition ack_settled :: "MachineConfig \<Rightarrow> TerminalAckAuthorityV1 \<Rightarrow> ConformanceMachine \<Rightarrow> FrameV1 \<Rightarrow> bool" where
  "ack_settled config w m f =
     (persisted_attempt_frame m f \<and> 0 < tw_NowUnixMicro w \<and> ar_state (m_attempt m) = AttemptTerminalCommitted \<and>
      (last_platform_frame config m MessageTerminalAck)\<lparr>fr_TerminalAck := Some
         (terminal_ack_payload (m_attempt m) (aq_sequence (ar_platform (m_attempt m))))\<rparr> = f)"

definition drain_settled :: "MachineConfig \<Rightarrow> DrainAuthorityV1 \<Rightarrow> ConformanceMachine \<Rightarrow> FrameV1 \<Rightarrow> bool" where
  "drain_settled config w m f =
     (persisted_frame m f \<and> 0 < dw_NowUnixMicro w \<and> dw_Revision w \<noteq> 0 \<and>
      m_connection m = ConnectionDraining \<and> m_drainRevision m = dw_Revision w \<and>
      (last_platform_frame config m MessageDrain)\<lparr>fr_Drain := Some \<lparr>dr_Revision = dw_Revision w\<rparr>\<rparr> = f)"

definition delivered_now :: "MachineConfig \<Rightarrow> DrainAuthorityV1 \<Rightarrow> DrainAuthorityV1" where
  "delivered_now config w = w\<lparr>dw_DeliveredConnectionGeneration := ac_ConnectionGeneration (cf_Auth config)\<rparr>"

lemma settled_retries:
  assumes "RestoreConformanceMachine config s = Inr m"
  shows "cancel_settled config o1 m f \<Longrightarrow> BuildCancelTransitionV1 config s o1 = Inr (f, s)"
    and "accepted_settled config o2 m f \<Longrightarrow> BuildLeaseAcceptedTransitionV1 config s o2 = Inr (f, s)"
    and "ack_settled config o3 m f \<Longrightarrow> BuildTerminalAckTransitionV1 config s o3 = Inr (f, s)"
    and "drain_settled config o4 m f \<Longrightarrow> BuildDrainTransitionV1 config s (delivered_now config o4) = Inr (f, s)"
  subgoal
    using assms exact_attempt_frame [of m f]
    by (auto simp: cancel_settled_def BuildCancelTransitionV1_def exactPersistedCancelFrame_def exact_retry_def
        persisted_attempt_frame_def persisted_frame_def Let_def)
  subgoal
    using assms exact_attempt_frame [of m f]
    by (auto simp: accepted_settled_def BuildLeaseAcceptedTransitionV1_def exactPersistedLeaseAcceptedFrame_def exact_retry_def
        persisted_attempt_frame_def persisted_frame_def Let_def)
  subgoal
    using assms exact_attempt_frame [of m f]
    by (auto simp: ack_settled_def BuildTerminalAckTransitionV1_def exactPersistedTerminalAckFrame_def exact_retry_def
        persisted_attempt_frame_def persisted_frame_def Let_def)
  subgoal
    using assms valid_sequence [of f]
    by (auto simp: drain_settled_def delivered_now_def BuildDrainTransitionV1_def exactPersistedDrainFrame_def exact_retry_def
        persisted_frame_def Let_def)
  done

lemma last_next:
  "persisted_frame n f \<Longrightarrow> fr_Sequence f = sq_sequence (m_platform m) + 1 \<Longrightarrow> fr_Ack f = sq_sequence (m_worker m) \<Longrightarrow>
     last_platform_frame config n kind = next_platform_frame config m kind"
  by (simp add: last_platform_frame_def next_platform_frame_def persisted_frame_def)

lemmas platform_frame_eval = next_platform_frame_def frame_head_def empty_frame_def attemptPayload_def attempt_kinds_def

lemma commit_next:
  assumes a: "accept_frame m DirectionPlatformToWorker f x = (n, None)"
    and h: "fr_Sequence f = sq_sequence (m_platform m) + 1" "fr_Ack f = sq_sequence (m_worker m)" "fr_Kind f \<in> attempt_kinds"
      "attemptPayload f = Some (ar_binding (m_attempt m), aq_sequence (ar_platform (m_attempt m)) + 1)"
    and g: "fr_Sequence f \<noteq> MaxUint64" "aq_sequence (ar_platform (m_attempt m)) \<noteq> MaxUint64"
  obtains t where "applyAttemptTransition m DirectionPlatformToWorker f (ar_binding (m_attempt m)) = Inr t"
    "persisted_attempt_frame n f" "last_platform_frame config n kind = next_platform_frame config m kind"
    "aq_sequence (ar_platform (m_attempt n)) = aq_sequence (ar_platform (m_attempt m)) + 1" "ar_state (m_attempt n) = ar_state t"
    "ar_binding (m_attempt n) = ar_binding t" "ar_cancelRevision (m_attempt n) = ar_cancelRevision t"
    "ar_cancelCode (m_attempt n) = ar_cancelCode t" "ar_terminalSequence (m_attempt n) = ar_terminalSequence t"
    "ar_terminalStatus (m_attempt n) = ar_terminalStatus t" "ar_terminalResult (m_attempt n) = ar_terminalResult t"
    "ar_terminalEvidence (m_attempt n) = ar_terminalEvidence t"
proof -
  obtain t where t: "applyAttemptTransition m DirectionPlatformToWorker f (ar_binding (m_attempt m)) = Inr t"
    and n: "persisted_attempt_frame n f" "m_attempt n = settle_pending DirectionPlatformToWorker (aq_sequence (ar_platform (m_attempt m)) + 1)
      (record_attempt_message DirectionPlatformToWorker (aq_sequence (ar_platform (m_attempt m)) + 1) (attemptFingerprint f) t)"
    by (rule commit_attempt [OF a h(1) g(1) h(3,4) refl g(2)])
  moreover have "last_platform_frame config n kind = next_platform_frame config m kind"
    using n(1) h by (intro last_next) (simp_all add: persisted_attempt_frame_def)
  ultimately show thesis using that [of t] by (simp add: record_attempt_message_def Let_def)
qed

lemma cancel_commit:
  assumes f: "f = (next_platform_frame config m MessageCancel)\<lparr>fr_Cancel := Some (cancel_payload (m_attempt m)
        (aq_sequence (ar_platform (m_attempt m)) + 1) (cw_Revision w) (cw_Code w))\<rparr>"
    and g: "cw_Revision w = 1" "cw_Code w \<in> {CancelRequested, CancelFenced}" "0 < cw_NowUnixMicro w"
    and q: "fr_Sequence f \<noteq> MaxUint64" "aq_sequence (ar_platform (m_attempt m)) \<noteq> MaxUint64"
    and a: "accept_frame m DirectionPlatformToWorker f x = (n, None)"
  shows "cancel_settled config w n f"
proof (rule commit_next [OF a _ _ _ _ q, of config MessageCancel])
  fix t
  assume t: "applyAttemptTransition m DirectionPlatformToWorker f (ar_binding (m_attempt m)) = Inr t"
  then have "ar_cancelRevision t = cw_Revision w \<and> ar_cancelCode t = cw_Code w \<and> ar_binding t = ar_binding (m_attempt m)"
    by (auto simp: f platform_frame_eval applyAttemptTransition_def with_payload_def transition_cancel_def
        clear_terminal_def cancel_payload_def Let_def split: if_splits)
  then show ?thesis if "persisted_attempt_frame n f" "last_platform_frame config n MessageCancel = next_platform_frame config m MessageCancel"
      "aq_sequence (ar_platform (m_attempt n)) = aq_sequence (ar_platform (m_attempt m)) + 1"
      "ar_binding (m_attempt n) = ar_binding t" "ar_cancelRevision (m_attempt n) = ar_cancelRevision t"
      "ar_cancelCode (m_attempt n) = ar_cancelCode t"
    using that g f by (simp add: cancel_settled_def cancel_payload_def)
qed (simp_all add: f platform_frame_eval cancel_payload_def)

lemma accepted_commit:
  assumes f: "f = (next_platform_frame config m MessageLeaseAccepted)\<lparr>fr_LeaseAccepted := Some
        \<lparr>la_Binding = ar_binding (m_attempt m), la_AttemptSequence = aq_sequence (ar_platform (m_attempt m)) + 1\<rparr>\<rparr>"
    and g: "0 < aw_NowUnixMicro w"
    and q: "fr_Sequence f \<noteq> MaxUint64" "aq_sequence (ar_platform (m_attempt m)) \<noteq> MaxUint64"
    and a: "accept_frame m DirectionPlatformToWorker f x = (n, None)"
  shows "accepted_settled config w n f"
proof (rule commit_next [OF a _ _ _ _ q, of config MessageLeaseAccepted])
  fix t
  assume t: "applyAttemptTransition m DirectionPlatformToWorker f (ar_binding (m_attempt m)) = Inr t"
  then have "ar_state t = AttemptClaimed \<and> ar_binding t = ar_binding (m_attempt m)"
    by (auto simp: f platform_frame_eval applyAttemptTransition_def transition_accepted_def split: if_splits)
  then show ?thesis if "persisted_attempt_frame n f"
      "last_platform_frame config n MessageLeaseAccepted = next_platform_frame config m MessageLeaseAccepted"
      "aq_sequence (ar_platform (m_attempt n)) = aq_sequence (ar_platform (m_attempt m)) + 1"
      "ar_state (m_attempt n) = ar_state t" "ar_binding (m_attempt n) = ar_binding t"
    using that g f by (simp add: accepted_settled_def)
qed (simp_all add: f platform_frame_eval)

lemma ack_commit:
  assumes f: "f = (next_platform_frame config m MessageTerminalAck)\<lparr>fr_TerminalAck := Some (terminal_ack_payload (m_attempt m)
        (aq_sequence (ar_platform (m_attempt m)) + 1))\<rparr>"
    and g: "0 < tw_NowUnixMicro w"
    and q: "fr_Sequence f \<noteq> MaxUint64" "aq_sequence (ar_platform (m_attempt m)) \<noteq> MaxUint64"
    and a: "accept_frame m DirectionPlatformToWorker f x = (n, None)"
  shows "ack_settled config w n f"
proof (rule commit_next [OF a _ _ _ _ q, of config MessageTerminalAck])
  fix t
  assume t: "applyAttemptTransition m DirectionPlatformToWorker f (ar_binding (m_attempt m)) = Inr t"
  then have "t = (m_attempt m)\<lparr>ar_state := AttemptTerminalCommitted\<rparr>"
    by (auto simp: f platform_frame_eval applyAttemptTransition_def with_payload_def transition_terminal_ack_def Let_def split: if_splits)
  then show ?thesis if "persisted_attempt_frame n f"
      "last_platform_frame config n MessageTerminalAck = next_platform_frame config m MessageTerminalAck"
      "aq_sequence (ar_platform (m_attempt n)) = aq_sequence (ar_platform (m_attempt m)) + 1"
      "ar_state (m_attempt n) = ar_state t" "ar_binding (m_attempt n) = ar_binding t"
      "ar_terminalSequence (m_attempt n) = ar_terminalSequence t" "ar_terminalStatus (m_attempt n) = ar_terminalStatus t"
      "ar_terminalResult (m_attempt n) = ar_terminalResult t" "ar_terminalEvidence (m_attempt n) = ar_terminalEvidence t"
    using that g f by (simp add: ack_settled_def terminal_ack_payload_def)
qed (simp_all add: f platform_frame_eval terminal_ack_payload_def)

lemma drain_commit:
  assumes f: "f = (next_platform_frame config m MessageDrain)\<lparr>fr_Drain := Some \<lparr>dr_Revision = dw_Revision w\<rparr>\<rparr>"
    and g: "0 < dw_NowUnixMicro w" "dw_Revision w \<noteq> 0" "fr_Sequence f \<noteq> MaxUint64"
    and a: "accept_frame m DirectionPlatformToWorker f x = (n, None)"
  shows "drain_settled config w n f"
proof -
  have h: "fr_Sequence f = sq_sequence (m_platform m) + 1" "fr_Ack f = sq_sequence (m_worker m)" "fr_Kind f = MessageDrain"
    by (simp_all add: f platform_frame_eval)
  obtain k where st: "frame_step DirectionPlatformToWorker f (ax_NowUnixMicro x) m k"
    and n: "n = record_envelope DirectionPlatformToWorker f k" and v: "FrameV1_Validate f = None"
    using committed_step [OF a h(1)] by blast
  have p: "persisted_frame n f" using n v g(3) by (simp add: persisted_frame_def record_envelope_def Let_def)
  have "m_connection k = ConnectionDraining \<and> m_drainRevision k = dw_Revision w"
    using st h(3) by (cases rule: frame_step.cases) (auto simp: f attempt_kinds_def)
  then show ?thesis using p n g f last_next [OF p h(1,2)] by (simp add: drain_settled_def record_envelope_def Let_def)
qed

interpretation cancel_builder: exact_builder BuildCancelTransitionV1 "\<lambda>_ w. w" cancel_settled
proof
  show "\<exists>e. BuildCancelTransitionV1 config s w = Inl e" if "RestoreConformanceMachine config s = Inl e" for config s e w
    using that by (simp add: BuildCancelTransitionV1_def)
next
  fix config s m w f out
  assume m: "RestoreConformanceMachine config s = Inr m" and b: "BuildCancelTransitionV1 config s w = Inr (f, out)"
    and q: "fr_Sequence f \<noteq> MaxUint64"
  show "out = s \<and> BuildCancelTransitionV1 config s w = Inr (f, s) \<or>
      (\<exists>x. commit_frame m f x = Inr (f, out) \<and>
           (\<forall>n. accept_frame m DirectionPlatformToWorker f x = (n, None) \<longrightarrow> cancel_settled config w n f))"
  proof (cases "ar_cancelRevision (m_attempt m) = 0")
    case True
    then have g: "cw_Revision w = 1" "cw_Code w \<in> {CancelRequested, CancelFenced}" "0 < cw_NowUnixMicro w"
        "aq_sequence (ar_platform (m_attempt m)) \<noteq> MaxUint64"
      and c: "commit_frame m ((next_platform_frame config m MessageCancel)\<lparr>fr_Cancel := Some (cancel_payload (m_attempt m)
        (aq_sequence (ar_platform (m_attempt m)) + 1) (cw_Revision w) (cw_Code w))\<rparr>)
        (own_channel (cf_Auth config) (cw_NowUnixMicro w)) = Inr (f, out)"
      using b m by (auto simp: BuildCancelTransitionV1_def Let_def split: if_splits)
    then show ?thesis using cancel_commit [OF _ g(1-3) q g(4)] commit_frame_Inr by metis
  next
    case False
    then have "out = s" using b m by (auto simp: BuildCancelTransitionV1_def exact_retry_def Let_def split: if_splits option.splits)
    then show ?thesis using b by simp
  qed
qed (auto simp: cancel_settled_def last_platform_frame_def intro: settled_retries(1))

interpretation accepted_builder: exact_builder BuildLeaseAcceptedTransitionV1 "\<lambda>_ w. w" accepted_settled
proof
  show "\<exists>e. BuildLeaseAcceptedTransitionV1 config s w = Inl e" if "RestoreConformanceMachine config s = Inl e" for config s e w
    using that by (simp add: BuildLeaseAcceptedTransitionV1_def)
next
  fix config s m w f out
  assume m: "RestoreConformanceMachine config s = Inr m" and b: "BuildLeaseAcceptedTransitionV1 config s w = Inr (f, out)"
    and q: "fr_Sequence f \<noteq> MaxUint64"
  show "out = s \<and> BuildLeaseAcceptedTransitionV1 config s w = Inr (f, s) \<or>
      (\<exists>x. commit_frame m f x = Inr (f, out) \<and>
           (\<forall>n. accept_frame m DirectionPlatformToWorker f x = (n, None) \<longrightarrow> accepted_settled config w n f))"
  proof (cases "ar_state (m_attempt m) = AttemptClaimed")
    case True
    then have "out = s" using b m by (auto simp: BuildLeaseAcceptedTransitionV1_def exact_retry_def Let_def split: if_splits option.splits)
    then show ?thesis using b by simp
  next
    case False
    then have g: "0 < aw_NowUnixMicro w" "aq_sequence (ar_platform (m_attempt m)) \<noteq> MaxUint64"
      and c: "commit_frame m ((next_platform_frame config m MessageLeaseAccepted)\<lparr>fr_LeaseAccepted := Some
        \<lparr>la_Binding = ar_binding (m_attempt m), la_AttemptSequence = aq_sequence (ar_platform (m_attempt m)) + 1\<rparr>\<rparr>)
        (own_channel (cf_Auth config) (aw_NowUnixMicro w)) = Inr (f, out)"
      using b m by (auto simp: BuildLeaseAcceptedTransitionV1_def Let_def split: if_splits)
    then show ?thesis using accepted_commit [OF _ g(1) q g(2)] commit_frame_Inr by metis
  qed
qed (auto simp: accepted_settled_def last_platform_frame_def intro: settled_retries(2))

interpretation ack_builder: exact_builder BuildTerminalAckTransitionV1 "\<lambda>_ w. w" ack_settled
proof
  show "\<exists>e. BuildTerminalAckTransitionV1 config s w = Inl e" if "RestoreConformanceMachine config s = Inl e" for config s e w
    using that by (simp add: BuildTerminalAckTransitionV1_def)
next
  fix config s m w f out
  assume m: "RestoreConformanceMachine config s = Inr m" and b: "BuildTerminalAckTransitionV1 config s w = Inr (f, out)"
    and q: "fr_Sequence f \<noteq> MaxUint64"
  show "out = s \<and> BuildTerminalAckTransitionV1 config s w = Inr (f, s) \<or>
      (\<exists>x. commit_frame m f x = Inr (f, out) \<and>
           (\<forall>n. accept_frame m DirectionPlatformToWorker f x = (n, None) \<longrightarrow> ack_settled config w n f))"
  proof (cases "ar_state (m_attempt m) = AttemptTerminalCommitted")
    case True
    then have "out = s" using b m by (auto simp: BuildTerminalAckTransitionV1_def exact_retry_def Let_def split: if_splits option.splits)
    then show ?thesis using b by simp
  next
    case False
    then have g: "0 < tw_NowUnixMicro w" "aq_sequence (ar_platform (m_attempt m)) \<noteq> MaxUint64"
      and c: "commit_frame m ((next_platform_frame config m MessageTerminalAck)\<lparr>fr_TerminalAck := Some
        (terminal_ack_payload (m_attempt m) (aq_sequence (ar_platform (m_attempt m)) + 1))\<rparr>)
        (own_channel (cf_Auth config) (tw_NowUnixMicro w)) = Inr (f, out)"
      using b m by (auto simp: BuildTerminalAckTransitionV1_def Let_def split: if_splits)
    then show ?thesis using ack_commit [OF _ g(1) q g(2)] commit_frame_Inr by metis
  qed
qed (auto simp: ack_settled_def last_platform_frame_def intro: settled_retries(3))

interpretation drain_builder: exact_builder BuildDrainTransitionV1 delivered_now drain_settled
proof
  show "\<exists>e. BuildDrainTransitionV1 config s w = Inl e" if "RestoreConformanceMachine config s = Inl e" for config s e w
    using that by (simp add: BuildDrainTransitionV1_def)
next
  fix config s m w f out
  assume m: "RestoreConformanceMachine config s = Inr m" and b: "BuildDrainTransitionV1 config s w = Inr (f, out)"
    and q: "fr_Sequence f \<noteq> MaxUint64"
  show "out = s \<and> BuildDrainTransitionV1 config s (delivered_now config w) = Inr (f, s) \<or>
      (\<exists>x. commit_frame m f x = Inr (f, out) \<and>
           (\<forall>n. accept_frame m DirectionPlatformToWorker f x = (n, None) \<longrightarrow> drain_settled config w n f))"
  proof (cases "m_connection m = ConnectionDraining \<and> dw_DeliveredConnectionGeneration w = ac_ConnectionGeneration (cf_Auth config)")
    case True
    then have "delivered_now config w = w" by (simp add: delivered_now_def)
    moreover have "out = s" using True b m by (auto simp: BuildDrainTransitionV1_def exact_retry_def Let_def split: if_splits option.splits)
    ultimately show ?thesis using b by simp
  next
    case False
    then have g: "0 < dw_NowUnixMicro w" "dw_Revision w \<noteq> 0"
      and c: "commit_frame m ((next_platform_frame config m MessageDrain)\<lparr>fr_Drain := Some \<lparr>dr_Revision = dw_Revision w\<rparr>\<rparr>)
        (own_channel (cf_Auth config) (dw_NowUnixMicro w)) = Inr (f, out)"
      using b m by (auto simp: BuildDrainTransitionV1_def Let_def split: if_splits)
    then show ?thesis using drain_commit [OF _ g q] commit_frame_Inr by metis
  qed
qed (auto simp: drain_settled_def last_platform_frame_def intro: settled_retries(4))

subsection \<open>The accepted frame of a reconnect\<close>

lemma stored_reconnect: "stored m \<Longrightarrow> BeginReconnect (Some m) nxt = (Some m', r) \<Longrightarrow> stored m'"
  by (rule stored.stepped [of m]) (auto intro!: machine_step.reconnect)

lemma hello_step:
  assumes "accept_frame m d (hello_frame auth offer nonce) x = (n, None)" "sq_sequence (envelope_sender d m) = 0"
  shows "n = record_envelope d (hello_frame auth offer nonce)
    (m\<lparr>m_hello := \<lparr>he_Offer = offer, he_WorkerNonce = nonce\<rparr>, m_connection := ConnectionHello\<rparr>)"
  using assms(1)
proof (cases rule: accept_frame_cases)
  case (step k)
  from apply_frame_step [OF step(1)] show ?thesis
    using step(2) by (cases rule: frame_step.cases) (auto simp: hello_frame_def frame_head_def empty_frame_def attempt_kinds_def)
qed (use assms(2) in \<open>simp add: hello_frame_def frame_head_def\<close>)

lemma challenge_step:
  assumes "accept_frame m d (challenge_frame auth wo po v wn pn) x = (n, None)" "sq_sequence (envelope_sender d m) = 0"
  shows "n = record_envelope d (challenge_frame auth wo po v wn pn)
    (m\<lparr>m_challenge := \<lparr>ch_WorkerOffer = wo, ch_PlatformOffer = po, ch_SelectedVersion = v, ch_WorkerNonce = wn, ch_PlatformNonce = pn\<rparr>,
       m_connection := ConnectionChallenged\<rparr>)"
  using assms(1)
proof (cases rule: accept_frame_cases)
  case (step k)
  from apply_frame_step [OF step(1)] show ?thesis
    using step(2) by (cases rule: frame_step.cases) (auto simp: challenge_frame_def frame_head_def empty_frame_def attempt_kinds_def)
qed (use assms(2) in \<open>simp add: challenge_frame_def frame_head_def\<close>)

lemma reconnect_step:
  assumes "accept_frame m d f x = (n, None)" "fr_Kind f = MessageReconnect" "fr_Reconnect f = Some r"
    "m_connection n = ConnectionReconnectPending" "m_connection m = ConnectionChallenged"
  shows "n = record_envelope d f (m\<lparr>m_capabilityDigest := rc_CapabilityDigest r, m_reconnectClaim := reconnect_claim r,
    m_connection := ConnectionReconnectPending\<rparr>)" and "VerifyReconnectV1 (cf_Auth (m_config m)) f = None"
proof -
  obtain k where k: "frame_step d f (ax_NowUnixMicro x) m k" "n = record_envelope d f k"
    using assms(1,4,5) by (cases rule: accept_frame_cases) (auto dest: apply_frame_step)
  have c: "claim_of r = reconnect_claim r" by (simp add: claim_of_def reconnect_claim_def)
  show "n = record_envelope d f (m\<lparr>m_capabilityDigest := rc_CapabilityDigest r, m_reconnectClaim := reconnect_claim r,
      m_connection := ConnectionReconnectPending\<rparr>)" "VerifyReconnectV1 (cf_Auth (m_config m)) f = None"
    using k assms(2,3) by (auto elim!: frame_stepE simp: c attempt_kinds_def)
qed

lemma accepted_step:
  assumes "accept_frame m d (accepted_frame auth p) x = (n, None)" "sq_sequence (envelope_sender d m) = 1"
  obtains a where "n = record_envelope d (accepted_frame auth p) (m\<lparr>m_attempt := a, m_connection := ConnectionAttached\<rparr>)"
    "m_connection m = ConnectionReconnectPending" "\<not> envelope_unauthorized m d (accepted_frame auth p) x"
  using assms(1)
proof (cases rule: accept_frame_cases)
  case (step k)
  from apply_frame_step [OF step(1)] show ?thesis
    using step(2,7) that
    by (cases rule: frame_step.cases) (auto simp: accepted_frame_def frame_head_def empty_frame_def attempt_kinds_def)
qed (use assms(2) in \<open>simp add: accepted_frame_def frame_head_def\<close>)

lemma accept_each_Cons:
  "accept_each m x ((d, f) # fs) = Inr k \<longleftrightarrow> (\<exists>n. accept_frame m d f x = (n, None) \<and> accept_each n x fs = Inr k)"
  by (auto split: prod.split option.split)

lemma build_reconnect_Inr:
  assumes "BuildReconnectAcceptedSnapshotV1 config s nxt req = Inr (f, out)" "RestoreConformanceMachine config s = Inr m"
  obtains x p k n where "fr_Kind req = MessageReconnect" "fr_Reconnect req = Some x" "\<not> reconnect_refused m nxt"
    "accept_each (reconnect_machine m nxt) (own_channel nxt 1) (reconnect_handshake nxt x req) = Inr k"
    "BuildReconnectAcceptedV1 (snapshot_of (ac_ConnectionGeneration (cf_Auth (m_config m))) (currentWatermarks m)
       (currentAttemptSummary m) (pendingTerminalForSnapshot m)) (reconnect_claim x) (reconnect_negotiation x) = Inr p"
    "f = accepted_frame nxt p" "accept_frame k DirectionPlatformToWorker (accepted_frame nxt p) (own_channel nxt 1) = (n, None)"
    "durable_snapshot n = Inr out"
  using assms
  by (auto simp: BuildReconnectAcceptedSnapshotV1_def BeginReconnect_def snapshot_machine_def reconnect_machine_def
      pendingTerminalForSnapshot_def Let_def split: option.splits sum.splits prod.splits if_splits)

text \<open>The machine after the handshake: what the snapshot of a reconnect holds.\<close>

lemma reconnect_machine_after:
  assumes b: "accept_each (reconnect_machine m nxt) (own_channel nxt 1) (reconnect_handshake nxt x req) = Inr k"
    and r: "fr_Kind req = MessageReconnect" "fr_Reconnect req = Some x"
    and a: "accept_frame k DirectionPlatformToWorker (accepted_frame nxt p) (own_channel nxt 1) = (n, None)"
  shows "m_reconnecting n" "m_connection n = ConnectionAttached" "m_config n = (m_config m)\<lparr>cf_Auth := nxt\<rparr>"
    "m_previousConnectionGeneration n = ac_ConnectionGeneration (cf_Auth (m_config m))"
    "m_reconnectWatermarks n = currentWatermarks m" "m_reconnectAttempt n = currentAttemptSummary m"
    "m_reconnectClaim n = reconnect_claim x" "m_capabilityDigest n = rc_CapabilityDigest x"
    "m_challenge n = \<lparr>ch_WorkerOffer = rc_WorkerOffer x, ch_PlatformOffer = rc_PlatformOffer x, ch_SelectedVersion = rc_SelectedVersion x,
       ch_WorkerNonce = rc_WorkerNonce x, ch_PlatformNonce = rc_PlatformNonce x\<rparr>"
    "VerifyReconnectV1 nxt req = None"
    "m_platform n = \<lparr>sq_sequence = 2, sq_ack = 2, sq_fingerprint = frameFingerprint (accepted_frame nxt p)\<rparr>"
    "\<not> envelope_unauthorized n DirectionPlatformToWorker (accepted_frame nxt p) (own_channel nxt 1)"
proof -
  let ?h = "hello_frame nxt (rc_WorkerOffer x) (rc_WorkerNonce x)"
  let ?c = "challenge_frame nxt (rc_WorkerOffer x) (rc_PlatformOffer x) (rc_SelectedVersion x) (rc_WorkerNonce x) (rc_PlatformNonce x)"
  obtain m1 m2 where a1: "accept_frame (reconnect_machine m nxt) DirectionWorkerToPlatform ?h (own_channel nxt 1) = (m1, None)"
    and a2: "accept_frame m1 DirectionPlatformToWorker ?c (own_channel nxt 1) = (m2, None)"
    and a3: "accept_frame m2 DirectionWorkerToPlatform req (own_channel nxt 1) = (k, None)"
    using b unfolding reconnect_handshake_def accept_each_Cons by auto
  have m1: "m1 = record_envelope DirectionWorkerToPlatform ?h ((reconnect_machine m nxt)
      \<lparr>m_hello := \<lparr>he_Offer = rc_WorkerOffer x, he_WorkerNonce = rc_WorkerNonce x\<rparr>, m_connection := ConnectionHello\<rparr>)"
    by (rule hello_step [OF a1]) (simp add: reconnect_machine_def zero_sequence_def)
  have m2: "m2 = record_envelope DirectionPlatformToWorker ?c (m1\<lparr>m_challenge := \<lparr>ch_WorkerOffer = rc_WorkerOffer x,
      ch_PlatformOffer = rc_PlatformOffer x, ch_SelectedVersion = rc_SelectedVersion x, ch_WorkerNonce = rc_WorkerNonce x,
      ch_PlatformNonce = rc_PlatformNonce x\<rparr>, m_connection := ConnectionChallenged\<rparr>)"
    by (rule challenge_step [OF a2]) (simp add: m1 reconnect_machine_def zero_sequence_def)
  have seq: "sq_sequence (m_platform m2) = 1" by (simp add: m2 challenge_frame_def frame_head_def)
  have "m_platform k = m_platform m2" using a3
    by (cases rule: accept_frame_cases) (auto dest: apply_frame_fields(2))
  then obtain t where n: "n = record_envelope DirectionPlatformToWorker (accepted_frame nxt p)
      (k\<lparr>m_attempt := t, m_connection := ConnectionAttached\<rparr>)" and kc: "m_connection k = ConnectionReconnectPending"
    and u: "\<not> envelope_unauthorized k DirectionPlatformToWorker (accepted_frame nxt p) (own_channel nxt 1)"
    using accepted_step [OF a] seq by auto
  have k: "k = record_envelope DirectionWorkerToPlatform req (m2\<lparr>m_capabilityDigest := rc_CapabilityDigest x,
      m_reconnectClaim := reconnect_claim x, m_connection := ConnectionReconnectPending\<rparr>)"
    and v: "VerifyReconnectV1 (cf_Auth (m_config m2)) req = None"
    using reconnect_step [OF a3 r kc] by (simp_all add: m2)
  have conf: "m_config m2 = (m_config m)\<lparr>cf_Auth := nxt\<rparr>" by (simp add: m2 m1 reconnect_machine_def)
  then show "VerifyReconnectV1 nxt req = None" using v by simp
  show "\<not> envelope_unauthorized n DirectionPlatformToWorker (accepted_frame nxt p) (own_channel nxt 1)"
    using u by (simp add: n envelope_unauthorized_def)
  show "m_reconnecting n" "m_connection n = ConnectionAttached" "m_config n = (m_config m)\<lparr>cf_Auth := nxt\<rparr>"
    "m_previousConnectionGeneration n = ac_ConnectionGeneration (cf_Auth (m_config m))"
    "m_reconnectWatermarks n = currentWatermarks m" "m_reconnectAttempt n = currentAttemptSummary m"
    "m_reconnectClaim n = reconnect_claim x" "m_capabilityDigest n = rc_CapabilityDigest x"
    "m_challenge n = \<lparr>ch_WorkerOffer = rc_WorkerOffer x, ch_PlatformOffer = rc_PlatformOffer x, ch_SelectedVersion = rc_SelectedVersion x,
       ch_WorkerNonce = rc_WorkerNonce x, ch_PlatformNonce = rc_PlatformNonce x\<rparr>"
    "m_platform n = \<lparr>sq_sequence = 2, sq_ack = 2, sq_fingerprint = frameFingerprint (accepted_frame nxt p)\<rparr>"
    using conf by (simp_all add: n k m2 m1 reconnect_machine_def record_envelope_def accepted_frame_def frame_head_def Let_def)
qed

lemma attached_snapshot:
  assumes d: "durable_snapshot n = Inr out" and c: "m_connection n = ConnectionAttached" and r: "m_reconnecting n"
    and v: "ReconnectSnapshotV1_Validate (m_reconnectClaim n) = None"
  shows "ms_Connection out = ConnectionAttached" "ms_Hello out \<noteq> None" "ms_Challenge out = Some (m_challenge n)"
    "ms_CapabilityDigest out = m_capabilityDigest n" "ms_Reconnect out = Some (snapshot_reconnect n)"
    "mr_Claim (snapshot_reconnect n) = Some (m_reconnectClaim n)" "persisted n = n"
proof -
  obtain cd where s: "out = sealed (snapshot_content n cd)" and ok: "validateMachineSnapshotContent (snapshot_content n cd) = None"
    using d unfolding durable_snapshot_Inr by blast
  have "\<not> malformed_for_state (snapshot_content n cd)" by (rule content_None(3) [OF ok])
  then show "ms_Hello out \<noteq> None" "ms_Challenge out = Some (m_challenge n)"
    using c s by (auto simp: malformed_for_state_def snapshot_content_def when_valid_def split: if_splits)
  show "ms_Connection out = ConnectionAttached" "ms_CapabilityDigest out = m_capabilityDigest n"
    "ms_Reconnect out = Some (snapshot_reconnect n)" using c r s by (simp_all add: snapshot_content_def)
  show "mr_Claim (snapshot_reconnect n) = Some (m_reconnectClaim n)" using v by (simp add: snapshot_reconnect_def when_valid_def)
  show "persisted n = n" using c r by (simp add: persisted_def revoked_connection_def)
qed

lemma stored_each: "stored m \<Longrightarrow> accept_each m x fs = Inr k \<Longrightarrow> stored k"
  by (induction m x fs rule: accept_each.induct) (auto dest: stored_accept split: prod.splits option.splits)

text \<open>
  Replayed, the accepted frame is built from the authority the snapshot kept, which has no pending terminal.
\<close>

abbreviation kept_authority :: "ConformanceMachine \<Rightarrow> TerminalV1 option \<Rightarrow> ReconnectSnapshotV1" where
  "kept_authority m \<equiv> snapshot_of (ac_ConnectionGeneration (cf_Auth (m_config m))) (currentWatermarks m) (currentAttemptSummary m)"

lemma reconnect_replay_eq:
  assumes b: "BuildReconnectAcceptedSnapshotV1 config s nxt req = Inr (f, out)" and m: "RestoreConformanceMachine config s = Inr m"
  obtains x p n where
    "BuildReconnectAcceptedV1 (kept_authority m (pendingTerminalForSnapshot m)) (reconnect_claim x) (reconnect_negotiation x) = Inr p"
    "f = accepted_frame nxt p" "durable_snapshot n = Inr out"
    "accept_frame n DirectionPlatformToWorker f (own_channel nxt 1) = (n, None)"
    "ReplayReconnectAcceptedV1 (config\<lparr>cf_Auth := nxt\<rparr>) out req =
      (case BuildReconnectAcceptedV1 (kept_authority m None) (reconnect_claim x) (reconnect_negotiation x) of
         Inl _ \<Rightarrow> Inl (protocolError ErrorUnauthorized)
       | Inr q \<Rightarrow> (case accept_frame n DirectionPlatformToWorker (accepted_frame nxt q) (own_channel nxt 1) of
           (_, Some _) \<Rightarrow> Inl (protocolError ErrorUnauthorized)
         | (k, None) \<Rightarrow> (case durable_snapshot k of Inl _ \<Rightarrow> Inl (protocolError ErrorConflict)
             | Inr y \<Rightarrow> if ms_Digest y \<noteq> ms_Digest out then Inl (protocolError ErrorConflict) else Inr (accepted_frame nxt q))))"
proof -
  obtain x p k n where r: "fr_Kind req = MessageReconnect" "fr_Reconnect req = Some x" and ref: "\<not> reconnect_refused m nxt"
    and e: "accept_each (reconnect_machine m nxt) (own_channel nxt 1) (reconnect_handshake nxt x req) = Inr k"
    and p: "BuildReconnectAcceptedV1 (kept_authority m (pendingTerminalForSnapshot m)) (reconnect_claim x) (reconnect_negotiation x) = Inr p"
    and f: "f = accepted_frame nxt p" and a: "accept_frame k DirectionPlatformToWorker (accepted_frame nxt p) (own_channel nxt 1) = (n, None)"
    and d: "durable_snapshot n = Inr out"
    by (rule build_reconnect_Inr [OF b m])
  note n = reconnect_machine_after [OF e r a]
  have c: "m_config m = config" "stored m" using restored_stored [OF m] by simp_all
  have v: "ReconnectSnapshotV1_Validate (m_reconnectClaim n) = None"
    using p n(7) by (auto simp: BuildReconnectAcceptedV1_def split: if_splits)
  note out = attached_snapshot [OF d n(2,1) v]
  have "stored (reconnect_machine m nxt)"
    using stored_reconnect [OF c(2), of nxt "reconnect_machine m nxt" "snapshot_machine (reconnect_machine m nxt)"] ref
    by (simp add: BeginReconnect_def)
  then have restore: "RestoreConformanceMachine (config\<lparr>cf_Auth := nxt\<rparr>) out = Inr n"
    using stored_restore [OF stored_accept [OF stored_each [OF _ e] a] d] out(7) n(3) c(1) by simp
  have "accept_frame n DirectionPlatformToWorker f (own_channel nxt 1) = (n, None)"
    unfolding f using n(11,12) by (simp add: accept_frame_def envelope_sender_def accepted_frame_def frame_head_def Let_def)
  moreover have "\<not> replay_refused out x (snapshot_reconnect n)"
    using out v n(7-9) by (simp add: replay_refused_def negotiationMatchesChallenge_def)
  ultimately show thesis
    using that [OF p f d] restore out n(4-6,10) r by (simp add: ReplayReconnectAcceptedV1_def snapshot_reconnect_def Let_def cong: sum.case_cong)
qed

lemma accepted_frame_inject: "accepted_frame auth p = accepted_frame auth q \<longleftrightarrow> p = q"
  by (auto simp: accepted_frame_def dest: arg_cong [of _ _ fr_ReconnectAccepted])

lemma reconnect_replay_exact:
  assumes "BuildReconnectAcceptedSnapshotV1 config s nxt req = Inr (f, out)" "RestoreConformanceMachine config s = Inr m"
  shows "ReplayReconnectAcceptedV1 (config\<lparr>cf_Auth := nxt\<rparr>) out req = Inr f \<longleftrightarrow> ar_pendingWorkerTerminal (m_attempt m) = None"
proof (rule reconnect_replay_eq [OF assms])
  fix x p n
  assume p: "BuildReconnectAcceptedV1 (kept_authority m (pendingTerminalForSnapshot m)) (reconnect_claim x) (reconnect_negotiation x) = Inr p"
    and f: "f = accepted_frame nxt p" and d: "durable_snapshot n = Inr out"
    and again: "accept_frame n DirectionPlatformToWorker f (own_channel nxt 1) = (n, None)"
    and eq: "ReplayReconnectAcceptedV1 (config\<lparr>cf_Auth := nxt\<rparr>) out req =
      (case BuildReconnectAcceptedV1 (kept_authority m None) (reconnect_claim x) (reconnect_negotiation x) of
         Inl _ \<Rightarrow> Inl (protocolError ErrorUnauthorized)
       | Inr q \<Rightarrow> (case accept_frame n DirectionPlatformToWorker (accepted_frame nxt q) (own_channel nxt 1) of
           (_, Some _) \<Rightarrow> Inl (protocolError ErrorUnauthorized)
         | (k, None) \<Rightarrow> (case durable_snapshot k of Inl _ \<Rightarrow> Inl (protocolError ErrorConflict)
             | Inr y \<Rightarrow> if ms_Digest y \<noteq> ms_Digest out then Inl (protocolError ErrorConflict) else Inr (accepted_frame nxt q))))"
  show ?thesis
  proof
    assume "ReplayReconnectAcceptedV1 (config\<lparr>cf_Auth := nxt\<rparr>) out req = Inr f"
    then have "BuildReconnectAcceptedV1 (kept_authority m None) (reconnect_claim x) (reconnect_negotiation x) = Inr p"
      unfolding eq f by (auto simp: accepted_frame_inject split: sum.splits prod.splits option.splits if_splits)
    then have "ra_AuthoritativePendingTerminalReplay p = None" by (auto simp: BuildReconnectAcceptedV1_def split: if_splits)
    moreover have "ra_AuthoritativePendingTerminalReplay p = pendingTerminalForSnapshot m"
      using p by (auto simp: BuildReconnectAcceptedV1_def split: if_splits)
    ultimately show "ar_pendingWorkerTerminal (m_attempt m) = None" by (simp add: pendingTerminalForSnapshot_def)
  next
    assume "ar_pendingWorkerTerminal (m_attempt m) = None"
    then have "BuildReconnectAcceptedV1 (kept_authority m None) (reconnect_claim x) (reconnect_negotiation x) = Inr p"
      using p by (simp add: pendingTerminalForSnapshot_def)
    then show "ReplayReconnectAcceptedV1 (config\<lparr>cf_Auth := nxt\<rparr>) out req = Inr f" using eq again d f by simp
  qed
qed

end
