(* ===== verification/DurableExamples.thy ===== *)
theory DurableExamples
  imports DurableStore
begin

text \<open>
  The orders a platform gives, as one type; the handshake of a first connection; and the machines of
  \<open>Scenario\<close> put through the store.
\<close>

subsection \<open>Nothing of a reconnect is left on a first connection\<close>

interpretation fresh_connection: connection_invariant "\<lambda>m. forget_reconnect m = m"
proof
  show "forget_reconnect (new_machine config) = new_machine config" for config
    by (simp add: forget_reconnect_def new_machine_def)
next
  fix m d f now n
  assume a: "first_connection m" "forget_reconnect m = m" "frame_step d f now m n" "FrameV1_Validate f = None"
  have q: "quiet m" by (rule quiet_connection.throughout [OF a(1)])
  from a(3) have "forget_reconnect n = n"
    by (cases rule: frame_step.cases) (use a(2) q in \<open>simp_all add: quiet_def forget_updates\<close>)
  then show "forget_reconnect (record_envelope d f n) = record_envelope d f n"
    by (simp add: record_envelope_def forget_updates Let_def)
qed (simp add: forget_updates)

lemma first_connection_persisted: "first_connection m \<Longrightarrow> persisted m = m"
  using fresh_connection.throughout quiet_connection.throughout by (simp add: persisted_def quiet_def)

lemma first_connection_restore:
  "first_connection m \<Longrightarrow> durable_snapshot m = Inr s \<Longrightarrow> RestoreConformanceMachine (m_config m) s = Inr m"
  using stored_restore [OF first_connection_stored] first_connection_persisted by metis

subsection \<open>The orders of a platform\<close>

datatype platform_order =
    OrderCancel CancelAuthorityV1
  | OrderLeaseAccepted LeaseAcceptedAuthorityV1
  | OrderTerminalAck TerminalAckAuthorityV1
  | OrderDrain DrainAuthorityV1

fun build_order :: "MachineConfig \<Rightarrow> MachineSnapshotV1 \<Rightarrow> platform_order \<Rightarrow> fault + (FrameV1 \<times> MachineSnapshotV1)" where
  "build_order config s (OrderCancel w) = BuildCancelTransitionV1 config s w"
| "build_order config s (OrderLeaseAccepted w) = BuildLeaseAcceptedTransitionV1 config s w"
| "build_order config s (OrderTerminalAck w) = BuildTerminalAckTransitionV1 config s w"
| "build_order config s (OrderDrain w) = BuildDrainTransitionV1 config s w"

text \<open>The order of a retry: a drain is now known to have been delivered on this connection.\<close>

fun retried_order :: "MachineConfig \<Rightarrow> platform_order \<Rightarrow> platform_order" where
  "retried_order config (OrderDrain w) = OrderDrain (delivered_now config w)"
| "retried_order config order = order"

lemma build_order_exact:
  "build_order config s order = Inr (f, out) \<Longrightarrow> fr_Sequence f \<noteq> MaxUint64 \<Longrightarrow>
     build_order config out (retried_order config order) = Inr (f, out)"
  by (cases order) (simp_all add: cancel_builder.exact accepted_builder.exact ack_builder.exact drain_builder.exact)

subsection \<open>The first handshake\<close>

definition initial_handshake :: "MachineConfig \<Rightarrow> AttachV1 \<Rightarrow> FrameV1 \<Rightarrow> FrameV1 \<Rightarrow> (Direction \<times> FrameV1) list" where
  "initial_handshake config x attach accepted =
     [(DirectionWorkerToPlatform, hello_frame (cf_Auth config) (at_WorkerOffer x) (at_WorkerNonce x)),
      (DirectionPlatformToWorker, challenge_frame (cf_Auth config) (at_WorkerOffer x) (at_PlatformOffer x)
         (at_SelectedVersion x) (at_WorkerNonce x) (at_PlatformNonce x)),
      (DirectionWorkerToPlatform, attach), (DirectionPlatformToWorker, accepted)]"

lemma build_initial_Inr:
  "BuildInitialAttachSnapshotV1 config attach accepted = Inr s \<longleftrightarrow>
     fr_Kind attach = MessageAttach \<and> fr_Kind accepted = MessageAttachAccepted \<and> fr_AttachAccepted accepted \<noteq> None \<and>
     (\<exists>x m. fr_Attach attach = Some x \<and> NewConformanceMachine config = Inr (new_machine config) \<and>
        accept_each (new_machine config) (own_channel (cf_Auth config) 1) (initial_handshake config x attach accepted) = Inr m \<and>
        m_connection m = ConnectionAttached \<and> durable_snapshot m = Inr s)"
  by (auto simp: BuildInitialAttachSnapshotV1_def initial_handshake_def NewConformanceMachine_def Let_def
      simp del: accept_each.simps split: option.splits sum.splits if_splits)

lemma first_connection_each: "first_connection m \<Longrightarrow> accept_each m x fs = Inr k \<Longrightarrow> first_connection k \<and> m_config k = m_config m"
proof (induction m x fs rule: accept_each.induct)
  case (2 m x d f fs)
  then show ?case
    using first_connection.accept [OF "2.prems"(1)] accept_config by (auto split: prod.splits option.splits)
qed simp

subsection \<open>The machines of the scenario\<close>

lemma ex_channel: "own_channel ex_auth now = ex_at now"
  by (simp add: own_channel_def ex_at_def ex_auth_def)

lemma ex_first:
  "first_connection ex_m0" "first_connection ex_m1" "first_connection ex_m2" "first_connection ex_m3" "first_connection ex_m4"
  "first_connection ex_ready" "first_connection ex_draining"
proof -
  show m0: "first_connection ex_m0" unfolding ex_m0_def by (rule first_connection.start [OF ex_new])
  show m1: "first_connection ex_m1" by (rule first_connection.accept [OF m0 ex_m1(9) [of 1]]) simp
  show m2: "first_connection ex_m2" by (rule first_connection.accept [OF m1 ex_m2(9) [of 1]]) simp
  show m3: "first_connection ex_m3" by (rule first_connection.accept [OF m2 ex_m3(10) [of 1]]) simp
  show m4: "first_connection ex_m4" by (rule first_connection.accept [OF m3 ex_m4(9) [of 1]]) simp
  show m5: "first_connection ex_ready" by (rule first_connection.accept [OF m4 ex_ready(10) [of 1]]) simp
  show "first_connection ex_draining" by (rule first_connection.accept [OF m5 ex_draining(10) [of 1]]) simp
qed

lemma ex_snapshots:
  obtains s t u where "durable_snapshot ex_m4 = Inr s" "durable_snapshot ex_ready = Inr t" "durable_snapshot ex_draining = Inr u"
  using first_connection_snapshot [OF ex_first(5)] first_connection_snapshot [OF ex_first(6)] first_connection_snapshot [OF ex_first(7)]
  by (auto simp: recorded_unattached_def ex_m4 ex_ready ex_draining)

lemma ex_initial:
  assumes "durable_snapshot ex_m4 = Inr s"
  shows "BuildInitialAttachSnapshotV1 ex_config ex_attach ex_attached = Inr s"
    and "accept_each (new_machine ex_config) (own_channel (cf_Auth ex_config) 1)
      (initial_handshake ex_config (the (fr_Attach ex_attach)) ex_attach ex_attached) = Inr ex_m4"
proof -
  let ?x = "the (fr_Attach ex_attach)"
  have h: "hello_frame ex_auth ex_versions ex_nonce = ex_hello"
    by (simp add: hello_frame_def ex_hello_def frame_head_def next_frame_def ex_m0 ex_config_def Let_def)
  have c: "challenge_frame ex_auth ex_versions ex_versions 1 ex_nonce ex_nonce = ex_challenge"
    by (simp add: challenge_frame_def ex_challenge_def frame_head_def next_frame_def ex_m1 ex_config_def Let_def)
  have x: "fr_Attach ex_attach = Some ?x" "at_WorkerOffer ?x = ex_versions" "at_PlatformOffer ?x = ex_versions"
    "at_SelectedVersion ?x = 1" "at_WorkerNonce ?x = ex_nonce" "at_PlatformNonce ?x = ex_nonce"
    "fr_Kind ex_attach = MessageAttach" "fr_Kind ex_attached = MessageAttachAccepted" "fr_AttachAccepted ex_attached \<noteq> None"
    by (simp_all add: ex_attach_def ex_attached_def next_frame_def empty_frame_def Let_def)
  have "cf_Auth ex_config = ex_auth" by (simp add: ex_config_def)
  then show m: "accept_each (new_machine ex_config) (own_channel (cf_Auth ex_config) 1) (initial_handshake ex_config ?x ex_attach ex_attached) = Inr ex_m4"
    using ex_m1(9) [of 1] ex_m2(9) [of 1] ex_m3(10) [of 1] ex_m4(9) [of 1]
    by (simp add: initial_handshake_def ex_channel x(2-6) h c ex_m0_def)
  show "BuildInitialAttachSnapshotV1 ex_config ex_attach ex_attached = Inr s"
    using m assms x(1,7-9) ex_m4(3) ex_new unfolding build_initial_Inr by blast
qed

definition ex_order :: DrainAuthorityV1 where
  "ex_order = \<lparr>dw_Revision = 1, dw_DeliveredConnectionGeneration = 0, dw_NowUnixMicro = 1000\<rparr>"

lemma ex_drain_order:
  assumes "durable_snapshot ex_ready = Inr s" "durable_snapshot ex_draining = Inr t"
  shows "BuildDrainTransitionV1 ex_config s ex_order = Inr (ex_drain, t)" and "fr_Sequence ex_drain = 3"
proof -
  have r: "RestoreConformanceMachine ex_config s = Inr ex_ready"
    using first_connection_restore [OF ex_first(6) assms(1)] by (simp add: ex_ready)
  have f: "(next_platform_frame ex_config ex_ready MessageDrain)\<lparr>fr_Drain := Some \<lparr>dr_Revision = 1\<rparr>\<rparr> = ex_drain"
    by (simp add: ex_drain_def next_platform_frame_def frame_head_def next_frame_def ex_ready Let_def)
  have v: "FrameV1_Validate ex_drain = None" by (simp add: ex_drain_def ex_frame_eval ex_ready DrainV1_Validate_def)
  have "commit_frame ex_ready ex_drain (own_channel (cf_Auth ex_config) 1000) = Inr (ex_drain, t)"
    using ex_draining(10) [of 1000] assms(2) v by (auto simp: commit_frame_Inr ex_channel ex_config_def)
  then show "BuildDrainTransitionV1 ex_config s ex_order = Inr (ex_drain, t)"
    using r f by (simp add: BuildDrainTransitionV1_def ex_order_def ex_ready MaxUint64_def Let_def)
  show "fr_Sequence ex_drain = 3" by (simp add: ex_drain_def next_frame_def ex_ready Let_def)
qed

subsection \<open>A reconnect of the scenario\<close>

definition ex_next :: AuthContextV1 where "ex_next = ex_auth\<lparr>ac_ConnectionGeneration := 2\<rparr>"

definition ex_authority :: ReconnectSnapshotV1 where
  "ex_authority = snapshot_of 1 (currentWatermarks ex_ready) (currentAttemptSummary ex_ready) None"

definition ex_resume :: ReconnectV1 where
  "ex_resume = \<lparr>rc_WorkerOffer = ex_versions, rc_PlatformOffer = ex_versions, rc_SelectedVersion = 1,
     rc_PreviousConnectionGeneration = 1, rc_WorkerNonce = ex_nonce, rc_PlatformNonce = ex_nonce, rc_CapabilityDigest = ex_capability,
     rc_PreviousWatermarks = currentWatermarks ex_ready, rc_AttemptSummary = currentAttemptSummary ex_ready,
     rc_PendingTerminalReplay = None, rc_Signature = ex_signature\<rparr>"

definition ex_r0 :: ConformanceMachine where "ex_r0 = reconnect_machine ex_ready ex_next"

definition ex_rhello :: FrameV1 where "ex_rhello = hello_frame ex_next ex_versions ex_nonce"

definition ex_r1 :: ConformanceMachine where
  "ex_r1 = record_envelope DirectionWorkerToPlatform ex_rhello
     (ex_r0\<lparr>m_hello := \<lparr>he_Offer = ex_versions, he_WorkerNonce = ex_nonce\<rparr>, m_connection := ConnectionHello\<rparr>)"

definition ex_rchallenge :: FrameV1 where "ex_rchallenge = challenge_frame ex_next ex_versions ex_versions 1 ex_nonce ex_nonce"

definition ex_r2 :: ConformanceMachine where
  "ex_r2 = record_envelope DirectionPlatformToWorker ex_rchallenge
     (ex_r1\<lparr>m_challenge := \<lparr>ch_WorkerOffer = ex_versions, ch_PlatformOffer = ex_versions, ch_SelectedVersion = 1,
        ch_WorkerNonce = ex_nonce, ch_PlatformNonce = ex_nonce\<rparr>, m_connection := ConnectionChallenged\<rparr>)"

definition ex_rclaim :: FrameV1 where
  "ex_rclaim = (frame_head ex_next DirectionWorkerToPlatform 2 1 MessageReconnect)\<lparr>fr_Reconnect := Some ex_resume\<rparr>"

definition ex_r3 :: ConformanceMachine where
  "ex_r3 = record_envelope DirectionWorkerToPlatform ex_rclaim
     (ex_r2\<lparr>m_capabilityDigest := ex_capability, m_reconnectClaim := ex_authority, m_connection := ConnectionReconnectPending\<rparr>)"

lemma ex_next_sel [simp]:
  "ac_TenantID ex_next = ac_TenantID ex_auth" "ac_Version ex_next = 1" "ac_WorkerID ex_next = ''w1''" "ac_EnrollmentGeneration ex_next = 1"
  "ac_ConnectionGeneration ex_next = 2" "ac_ChannelBinding ex_next = ex_nonce" "AuthContextV1_Validate ex_next = None"
  by (simp_all add: ex_next_def ex_auth_def AuthContextV1_Validate_def length_ex_key ProtocolVersionV1_def validBytes_def)

lemma ex_ready_summary:
  "as_State (currentAttemptSummary ex_ready) = AttemptIdle" "as_TerminalSequence (currentAttemptSummary ex_ready) = 0"
  "AttemptSummaryV1_Validate (currentAttemptSummary ex_ready) = None" "ConnectionWatermarksV1_Validate (currentWatermarks ex_ready) = None"
  using attempt_summary_sealed [OF idle_attempt_wf] attempt_wf_summary [OF idle_attempt_wf]
    watermark_inv.invariant [OF ex_ready(1)]
  by (simp_all add: currentAttemptSummary_def ex_ready watermarks_ok_def idle_attempt_def)

lemma ex_authority_valid: "ReconnectSnapshotV1_Validate ex_authority = None" "reconnectClaimsCompatible ex_authority ex_authority"
  "reconnectPendingTerminal ex_authority = None"
proof -
  show v: "ReconnectSnapshotV1_Validate ex_authority = None"
    by (simp add: ex_authority_def snapshot_of_Validate ex_ready_summary validatePendingTerminal_def)
  show "reconnectPendingTerminal ex_authority = None"
    by (simp add: ex_authority_def reconnectPendingTerminal_def ex_ready_summary)
  show "reconnectClaimsCompatible ex_authority ex_authority"
    using v by (simp add: reconnectClaimsCompatible_def Let_def) (simp add: ex_authority_def ex_ready_summary)
qed

lemma ex_r_step:
  assumes "reachable m" "cf_Auth (m_config m) = ex_next" "validDirection d" "sq_sequence (envelope_sender d m) < 5"
    and "FrameV1_Validate f = None" "headed m d f" "apply_frame m d f 1 = (n, None)"
  shows "accept_frame m d f (own_channel ex_next 1) = (record_envelope d f n, None)" and "reachable (record_envelope d f n)"
proof -
  have "sq_sequence (envelope_sender d m) \<noteq> MaxUint64" using assms(4) by (auto simp: MaxUint64_def)
  then show "accept_frame m d f (own_channel ex_next 1) = (record_envelope d f n, None)" "reachable (record_envelope d f n)"
    using accept_next(1) [OF auth_inv.invariant [OF assms(1)] watermark_inv.invariant [OF assms(1)] assms(3), of "own_channel ex_next 1" f n]
      reach_next(1) [OF assms(1,3), of "own_channel ex_next 1" f n] assms
    by (simp_all add: own_channel_def)
qed

lemma ex_r0: "reachable ex_r0" "m_config ex_r0 = ex_config\<lparr>cf_Auth := ex_next\<rparr>" "m_connection ex_r0 = ConnectionUnattached"
  "m_platform ex_r0 = zero_sequence" "m_worker ex_r0 = zero_sequence" "m_reconnecting ex_r0" "\<not> reconnect_refused ex_ready ex_next"
  "m_previousConnectionGeneration ex_r0 = 1" "snapshot_machine ex_r0 = Inr ex_authority" "m_capabilityDigest ex_r0 = ex_capability"
  "m_manifest ex_r0 = ex_manifest" "m_attempt ex_r0 = idle_attempt" "m_reconnectTarget ex_r0 = ConnectionReady"
  "m_reconnectWatermarks ex_r0 = currentWatermarks ex_ready" "m_reconnectAttempt ex_r0 = currentAttemptSummary ex_ready"
  "m_revoke ex_r0 = m_revoke ex_ready" "m_drainRevision ex_r0 = 0" "\<not> m_drainReenvelopePending ex_r0"
proof -
  show r: "\<not> reconnect_refused ex_ready ex_next"
    by (simp add: reconnect_refused_def Let_def ex_ready ex_config_def hasFeature_def ex_manifest_def)
       (simp add: ex_next_def ex_auth_def AuthContextV1_Validate_def length_ex_key ProtocolVersionV1_def MaxUint64_def)
  have "BeginReconnect (Some ex_ready) ex_next = (Some ex_r0, snapshot_machine ex_r0)" using r by (simp add: BeginReconnect_def ex_r0_def)
  then have "machine_step ex_ready ex_r0" by (rule machine_step.reconnect)
  then show "reachable ex_r0" using ex_ready(1) reachable.step by blast
  have g: "ac_ConnectionGeneration (cf_Auth ex_config) = 1" by (simp add: ex_config_def ex_auth_def)
  show "snapshot_machine ex_r0 = Inr ex_authority"
    by (simp add: snapshot_machine_def ex_r0_def reconnect_machine_def ex_authority_def ex_ready g pendingTerminalForSnapshot_def idle_attempt_def)
  show "m_config ex_r0 = ex_config\<lparr>cf_Auth := ex_next\<rparr>" "m_connection ex_r0 = ConnectionUnattached"
    "m_platform ex_r0 = zero_sequence" "m_worker ex_r0 = zero_sequence" "m_reconnecting ex_r0"
    "m_previousConnectionGeneration ex_r0 = 1" "m_capabilityDigest ex_r0 = ex_capability"
    "m_manifest ex_r0 = ex_manifest" "m_attempt ex_r0 = idle_attempt" "m_reconnectTarget ex_r0 = ConnectionReady"
    "m_reconnectWatermarks ex_r0 = currentWatermarks ex_ready" "m_reconnectAttempt ex_r0 = currentAttemptSummary ex_ready"
    "m_revoke ex_r0 = m_revoke ex_ready" "m_drainRevision ex_r0 = 0" "\<not> m_drainReenvelopePending ex_r0"
    using ex_ready(4) by (simp_all add: ex_r0_def reconnect_machine_def ex_ready g)
qed

lemmas ex_r_fields = ex_r0 ex_r1_def ex_r2_def ex_r3_def zero_sequence_def

lemmas ex_r_frames = ex_rhello_def ex_rchallenge_def ex_rclaim_def hello_frame_def challenge_frame_def frame_head_def

lemma ex_r1: "accept_frame ex_r0 DirectionWorkerToPlatform ex_rhello (own_channel ex_next 1) = (ex_r1, None)" "reachable ex_r1"
proof -
  have v: "FrameV1_Validate ex_rhello = None" by (simp add: ex_r_frames ex_frame_eval HelloV1_Validate_def)
  have h: "headed ex_r0 DirectionWorkerToPlatform ex_rhello"
    by (simp add: headed_def next_frame_def ex_r_frames ex_r_fields empty_frame_def Let_def)
  have a: "apply_frame ex_r0 DirectionWorkerToPlatform ex_rhello 1 =
      (ex_r0\<lparr>m_hello := \<lparr>he_Offer = ex_versions, he_WorkerNonce = ex_nonce\<rparr>, m_connection := ConnectionHello\<rparr>, None)"
    by (simp add: apply_frame_def acceptHello_def ex_r_frames empty_frame_def ex_r0 ex_config_def)
  show "accept_frame ex_r0 DirectionWorkerToPlatform ex_rhello (own_channel ex_next 1) = (ex_r1, None)" "reachable ex_r1"
    using ex_r_step [OF ex_r0(1) _ _ _ v h a] by (simp_all add: ex_r1_def ex_r0 zero_sequence_def validDirection_def)
qed

lemma ex_r2: "accept_frame ex_r1 DirectionPlatformToWorker ex_rchallenge (own_channel ex_next 1) = (ex_r2, None)" "reachable ex_r2"
proof -
  have v: "FrameV1_Validate ex_rchallenge = None" by (simp add: ex_r_frames ex_frame_eval ChallengeV1_Validate_def)
  have h: "headed ex_r1 DirectionPlatformToWorker ex_rchallenge"
    by (simp add: headed_def next_frame_def ex_r_frames ex_r_fields empty_frame_def Let_def)
  have a: "apply_frame ex_r1 DirectionPlatformToWorker ex_rchallenge 1 =
      (ex_r1\<lparr>m_challenge := \<lparr>ch_WorkerOffer = ex_versions, ch_PlatformOffer = ex_versions, ch_SelectedVersion = 1,
        ch_WorkerNonce = ex_nonce, ch_PlatformNonce = ex_nonce\<rparr>, m_connection := ConnectionChallenged\<rparr>, None)"
    by (simp add: apply_frame_def acceptChallenge_def ex_r_frames empty_frame_def ex_r1_def ex_r0 ex_config_def ex_negotiate)
  show "accept_frame ex_r1 DirectionPlatformToWorker ex_rchallenge (own_channel ex_next 1) = (ex_r2, None)" "reachable ex_r2"
    using ex_r_step [OF ex_r1(2) _ _ _ v h a] by (simp_all add: ex_r2_def ex_r1_def ex_r0 zero_sequence_def validDirection_def)
qed

lemma ex_resume_valid: "ReconnectV1_Validate ex_resume = None"
  by (simp add: ReconnectV1_Validate_def ex_resume_def validateNegotiationProof_def ex_supports validBytes_def ex_ready_summary
      validatePendingTerminal_def)

lemma ex_r3: "accept_frame ex_r2 DirectionWorkerToPlatform ex_rclaim (own_channel ex_next 1) = (ex_r3, None)" "reachable ex_r3"
proof -
  have v: "FrameV1_Validate ex_rclaim = None" using ex_resume_valid by (simp add: ex_r_frames ex_frame_eval)
  have h: "headed ex_r2 DirectionWorkerToPlatform ex_rclaim"
    by (simp add: headed_def next_frame_def ex_r_frames ex_r_fields empty_frame_def Let_def)
  have s: "VerifyReconnectV1 ex_next ex_rclaim = None"
    using v by (simp add: VerifyReconnectV1_def verifyFrame_def ReconnectTranscriptV1_def validateSignedFrame_def hasExactlySignedPayload_def
        validateReconnectForTranscript_def ex_rclaim_def frame_head_def ex_resume_def ex_frame_eval ex_signature_verifies
        validateNegotiationProof_def ex_supports length_ex_key ex_next_def AuthContextV1_Validate_def)
  have m: "snapshot_machine ex_r2 = Inr ex_authority"
    by (simp add: snapshot_machine_def ex_r2_def ex_r1_def pendingTerminalForSnapshot_def record_envelope_def Let_def ex_r0(6,8,12,14,15)
        ex_authority_def idle_attempt_def)
  have c: "snapshot_of (rc_PreviousConnectionGeneration ex_resume) (rc_PreviousWatermarks ex_resume)
      (rc_AttemptSummary ex_resume) (rc_PendingTerminalReplay ex_resume) = ex_authority"
    by (simp add: ex_resume_def ex_authority_def)
  have k: "fr_Kind ex_rclaim = MessageReconnect" "fr_Reconnect ex_rclaim = Some ex_resume"
    by (simp_all add: ex_rclaim_def frame_head_def empty_frame_def)
  have g: "m_connection ex_r2 = ConnectionChallenged" "m_reconnecting ex_r2" "m_previousConnectionGeneration ex_r2 = 1"
    "cf_Auth (m_config ex_r2) = ex_next" "m_capabilityDigest ex_r2 = ex_capability"
    "m_challenge ex_r2 = \<lparr>ch_WorkerOffer = ex_versions, ch_PlatformOffer = ex_versions, ch_SelectedVersion = 1,
      ch_WorkerNonce = ex_nonce, ch_PlatformNonce = ex_nonce\<rparr>"
    by (simp_all add: ex_r2_def ex_r1_def ex_r0 record_envelope_def Let_def)
  have a: "apply_frame ex_r2 DirectionWorkerToPlatform ex_rclaim 1 =
      (ex_r2\<lparr>m_capabilityDigest := ex_capability, m_reconnectClaim := ex_authority, m_connection := ConnectionReconnectPending\<rparr>, None)"
    using s m c ex_authority_valid(2) k g
    by (simp add: apply_frame_def acceptReconnect_def Let_def) (simp add: ex_resume_def negotiationMatchesChallenge_def MaxUint64_def)
  show "accept_frame ex_r2 DirectionWorkerToPlatform ex_rclaim (own_channel ex_next 1) = (ex_r3, None)" "reachable ex_r3"
    using ex_r_step [OF ex_r2(2) _ _ _ v h a]
    by (simp_all add: ex_r3_def ex_r2_def ex_r1_def ex_r0 zero_sequence_def validDirection_def ex_rhello_def hello_frame_def frame_head_def)
qed

lemma ex_payload:
  obtains p where "BuildReconnectAcceptedV1 ex_authority ex_authority (reconnect_negotiation ex_resume) = Inr p"
    "accepted_negotiation p = reconnect_negotiation ex_resume" "rp_TerminalDecision (ra_ReplayPlan p) = ReconnectTerminalNone"
    "ra_AuthoritativeAttempt p = currentAttemptSummary ex_ready" "ra_AuthoritativeWatermarks p = currentWatermarks ex_ready"
    "ra_AuthoritativePendingTerminalReplay p = None"
proof -
  have n: "ReconnectNegotiationV1_validate (reconnect_negotiation ex_resume) = None"
    by (simp add: ReconnectNegotiationV1_validate_def reconnect_negotiation_def ex_resume_def validateNegotiationProof_def ex_supports validBytes_def)
  have "terminal_decision ex_authority ex_authority = ReconnectTerminalNone" "\<not> replays_behind ex_authority ex_authority"
    using ex_authority_valid(3) by (simp_all add: terminal_decision_def replays_behind_def) (simp add: ex_authority_def ex_ready_summary)
  then show thesis
    using that n ex_authority_valid(1,2)
    by (auto simp: BuildReconnectAcceptedV1_def accepted_negotiation_def reconnect_negotiation_def) (auto simp: ex_authority_def)
qed

lemma ex_idle_summary: "applyDiscardTombstone (applyAttemptSummary idle_attempt (currentAttemptSummary ex_ready)) = idle_attempt"
  using attempt_summary_sealed [OF idle_attempt_wf]
  by (simp add: applyDiscardTombstone_def applyAttemptSummary_def currentAttemptSummary_def ex_ready pruneAttemptFingerprints_def
      attempt_summary_kept [OF idle_kept] cong: if_cong) (simp add: idle_attempt_def zero_attempt_sequence_def)

lemma ex_r4:
  assumes p: "BuildReconnectAcceptedV1 ex_authority ex_authority (reconnect_negotiation ex_resume) = Inr p"
    "accepted_negotiation p = reconnect_negotiation ex_resume" "rp_TerminalDecision (ra_ReplayPlan p) = ReconnectTerminalNone"
    "ra_AuthoritativeAttempt p = currentAttemptSummary ex_ready" "ra_AuthoritativeWatermarks p = currentWatermarks ex_ready"
    "ra_AuthoritativePendingTerminalReplay p = None"
    and n: "n = record_envelope DirectionPlatformToWorker (accepted_frame ex_next p)
      (ex_r3\<lparr>m_attempt := idle_attempt, m_connection := ConnectionAttached\<rparr>)"
  shows "accept_frame ex_r3 DirectionPlatformToWorker (accepted_frame ex_next p) (own_channel ex_next 1) = (n, None)" "reachable n"
proof -
  let ?f = "accepted_frame ex_next p"
  have k: "fr_Kind ?f = MessageReconnectAccepted" "fr_ReconnectAccepted ?f = Some p"
    by (simp_all add: accepted_frame_def frame_head_def empty_frame_def)
  have v: "FrameV1_Validate ?f = None"
    using BuildReconnectAcceptedV1_valid [OF p(1)] by (simp add: accepted_frame_def frame_head_def ex_frame_eval)
  have h: "headed ex_r3 DirectionPlatformToWorker ?f"
    by (simp add: headed_def next_frame_def accepted_frame_def ex_r_frames ex_r_fields empty_frame_def Let_def)
  have g: "m_connection ex_r3 = ConnectionReconnectPending" "m_attempt ex_r3 = idle_attempt" "m_reconnectClaim ex_r3 = ex_authority"
    "m_previousConnectionGeneration ex_r3 = 1" "cf_Auth (m_config ex_r3) = ex_next" "m_capabilityDigest ex_r3 = ex_capability"
    "m_challenge ex_r3 = \<lparr>ch_WorkerOffer = ex_versions, ch_PlatformOffer = ex_versions, ch_SelectedVersion = 1,
      ch_WorkerNonce = ex_nonce, ch_PlatformNonce = ex_nonce\<rparr>" "sq_sequence (m_platform ex_r3) = 1"
    by (simp_all add: ex_r3_def ex_r2_def ex_r1_def ex_r0 record_envelope_def ex_rchallenge_def challenge_frame_def frame_head_def Let_def)
  have c: "acceptedMatchesChallenge (accepted_attach p) (m_challenge ex_r3) ex_capability"
    using p(2) by (simp add: acceptedMatchesChallenge_def accepted_attach_def negotiationMatchesChallenge_def g
        accepted_negotiation_def reconnect_negotiation_def ex_resume_def)
  have s: "snapshot_of 1 (currentWatermarks ex_ready) (currentAttemptSummary ex_ready) None = ex_authority" "sameReconnectAccepted p p"
    by (simp_all add: ex_authority_def sameReconnectAccepted_def sameOptionalTerminal_def p)
  have i: "installReplayCommitment idle_attempt ex_authority ex_authority (ra_ReplayPlan p) = Inr idle_attempt"
    by (simp add: installReplayCommitment_def p(3)) (simp add: idle_attempt_def)
  have a: "apply_frame ex_r3 DirectionPlatformToWorker ?f 1 = (ex_r3\<lparr>m_attempt := idle_attempt, m_connection := ConnectionAttached\<rparr>, None)"
    using c s i by (simp add: apply_frame_def acceptReconnectAccepted_def k g p ex_idle_summary Let_def)
  show "accept_frame ex_r3 DirectionPlatformToWorker ?f (own_channel ex_next 1) = (n, None)" "reachable n"
    using ex_r_step [OF ex_r3(2) g(5) _ _ v h a] g(8) by (simp_all add: n validDirection_def)
qed

lemma ex_next_config: "\<exists>c. machineConfigDigestV1 (ex_config\<lparr>cf_Auth := ex_next\<rparr>) = Inr c"
  using ex_negotiate by (simp add: machineConfigDigestV1_def ex_config_def Let_def)

lemma ex_r4_fields:
  assumes n: "n = record_envelope DirectionPlatformToWorker (accepted_frame ex_next p)
      (ex_r3\<lparr>m_attempt := idle_attempt, m_connection := ConnectionAttached\<rparr>)"
  shows "m_connection n = ConnectionAttached" "m_attempt n = idle_attempt" "m_config n = ex_config\<lparr>cf_Auth := ex_next\<rparr>"
    "m_hello n = \<lparr>he_Offer = ex_versions, he_WorkerNonce = ex_nonce\<rparr>" "m_capabilityDigest n = ex_capability" "m_manifest n = ex_manifest"
    "m_challenge n = \<lparr>ch_WorkerOffer = ex_versions, ch_PlatformOffer = ex_versions, ch_SelectedVersion = 1,
      ch_WorkerNonce = ex_nonce, ch_PlatformNonce = ex_nonce\<rparr>" "m_revoke n = m_revoke ex_ready" "m_reconnecting n"
    "m_platform n = \<lparr>sq_sequence = 2, sq_ack = 2, sq_fingerprint = frameFingerprint (accepted_frame ex_next p)\<rparr>"
    "m_worker n = \<lparr>sq_sequence = 2, sq_ack = 1, sq_fingerprint = frameFingerprint ex_rclaim\<rparr>"
    "snapshot_reconnect n = \<lparr>mr_Target = ConnectionReady, mr_PreviousConnectionGeneration = 1,
       mr_Watermarks = currentWatermarks ex_ready, mr_Attempt = currentAttemptSummary ex_ready, mr_Claim = Some ex_authority\<rparr>"
  using ex_authority_valid(1)
  by (simp_all add: n ex_r3_def ex_r2_def ex_r1_def ex_r0 record_envelope_def snapshot_reconnect_def when_valid_def accepted_frame_def
      ex_rclaim_def frame_head_def Let_def)

lemma ex_r4_snapshot:
  assumes n: "n = record_envelope DirectionPlatformToWorker (accepted_frame ex_next p)
      (ex_r3\<lparr>m_attempt := idle_attempt, m_connection := ConnectionAttached\<rparr>)"
  shows "\<exists>out. durable_snapshot n = Inr out"
proof -
  note f = ex_r4_fields [OF n]
  obtain c where c: "machineConfigDigestV1 (m_config n) = Inr c" using ex_next_config f(3) by auto
  let ?s = "snapshot_content n c"
  have a: "AttemptSummaryV1_Validate (currentAttemptSummary n) = None" "as_State (currentAttemptSummary n) = AttemptIdle"
    "as_PlatformSequence (currentAttemptSummary n) = 0" "as_WorkerSequence (currentAttemptSummary n) = 0"
    using attempt_wf_summary [OF idle_attempt_wf] attempt_summary_sealed [OF idle_attempt_wf]
    by (simp_all add: currentAttemptSummary_def f) (simp_all add: idle_attempt_def zero_attempt_sequence_def)
  have z: "snapshotAttemptDirection (ar_platform idle_attempt) = \<lparr>md_Sequence = 0, md_Fingerprints = []\<rparr>"
    "snapshotAttemptDirection (ar_worker idle_attempt) = \<lparr>md_Sequence = 0, md_Fingerprints = []\<rparr>" "ar_pendingWorkerTerminal idle_attempt = None"
    by (simp_all add: idle_attempt_def zero_attempt_sequence_def snapshotAttemptDirection_def)
  have v: "HelloV1_Validate (m_hello n) = None" "ChallengeV1_Validate (m_challenge n) = None"
    by (simp_all add: f HelloV1_Validate_def ChallengeV1_Validate_def validBytes_def ex_supports)
  have r: "when_valid RevokeV1_Validate (m_revoke n) = None"
    using revoke_persists [OF ex_first(6)] by (simp add: f when_valid_def ex_ready)
  have h: "\<not> malformed_header ?s"
    using a config_digest_length [OF c]
    by (simp add: malformed_header_def snapshot_content_def f z validBytes_def validMachineConnectionState_def snapshotEnvelope_def
        validateEnvelopeSnapshot_def validateAttemptDirectionSnapshot_def)
  have hs: "\<not> malformed_handshake ?s"
    using v a(2) r by (simp add: malformed_handshake_def snapshot_content_def invalid_payload_def when_valid_def validBytes_def
        ex_manifest_digest f(4-7))
  have rs: "validateMachineReconnectState (snapshot_reconnect n) None = None"
    using ex_authority_valid(1,2) ex_ready_summary(3,4)
    by (simp add: f(12) validateMachineReconnectState_def Let_def) (simp add: ex_authority_def)
  have "\<not> malformed_for_state ?s"
    using v by (simp add: malformed_for_state_def snapshot_content_def f when_valid_def validBytes_def)
  then have "validateMachineSnapshotContent ?s = None"
    using h hs rs r unfolding validateMachineSnapshotContent_def reject_None
    by (simp add: snapshot_content_def f(1,2,9) z(3) validatePendingTerminalSnapshot_def)
  then show ?thesis using c by (auto simp: durable_snapshot_Inr)
qed

lemma ex_reconnected:
  assumes s: "durable_snapshot ex_ready = Inr s"
  obtains f out where "BuildReconnectAcceptedSnapshotV1 ex_config s ex_next ex_rclaim = Inr (f, out)"
proof -
  obtain p where p: "BuildReconnectAcceptedV1 ex_authority ex_authority (reconnect_negotiation ex_resume) = Inr p"
    "accepted_negotiation p = reconnect_negotiation ex_resume" "rp_TerminalDecision (ra_ReplayPlan p) = ReconnectTerminalNone"
    "ra_AuthoritativeAttempt p = currentAttemptSummary ex_ready" "ra_AuthoritativeWatermarks p = currentWatermarks ex_ready"
    "ra_AuthoritativePendingTerminalReplay p = None" by (rule ex_payload)
  define n where "n = record_envelope DirectionPlatformToWorker (accepted_frame ex_next p)
    (ex_r3\<lparr>m_attempt := idle_attempt, m_connection := ConnectionAttached\<rparr>)"
  obtain out where out: "durable_snapshot n = Inr out" using ex_r4_snapshot [OF n_def] by blast
  have "accept_frame ex_r3 DirectionPlatformToWorker (accepted_frame ex_next p) (own_channel ex_next 1) = (n, None)"
    by (rule ex_r4(1) [OF p n_def])
  moreover have "accept_each ex_r0 (own_channel ex_next 1) (reconnect_handshake ex_next ex_resume ex_rclaim) = Inr ex_r3"
  proof -
    have "rc_WorkerOffer ex_resume = ex_versions" "rc_PlatformOffer ex_resume = ex_versions" "rc_SelectedVersion ex_resume = 1"
      "rc_WorkerNonce ex_resume = ex_nonce" "rc_PlatformNonce ex_resume = ex_nonce" by (simp_all add: ex_resume_def)
    then show ?thesis
      using ex_r1(1) ex_r2(1) ex_r3(1) by (simp add: reconnect_handshake_def ex_rhello_def ex_rchallenge_def)
  qed
  moreover have "ms_Connection out = ConnectionAttached"
    using out ex_r4_fields(1) [OF n_def] by (auto simp: durable_snapshot_Inr snapshot_content_def)
  moreover have "reconnect_claim ex_resume = ex_authority" by (simp add: reconnect_claim_def ex_resume_def ex_authority_def)
  moreover have "BeginReconnect (Some ex_ready) ex_next = (Some ex_r0, Inr ex_authority)"
    using ex_r0(7,9) by (simp add: BeginReconnect_def ex_r0_def)
  moreover have "RestoreConformanceMachine ex_config s = Inr ex_ready"
    using first_connection_restore [OF ex_first(6) s] by (simp add: ex_ready)
  moreover have "fr_Kind ex_rclaim = MessageReconnect" "fr_Reconnect ex_rclaim = Some ex_resume"
    by (simp_all add: ex_rclaim_def frame_head_def empty_frame_def)
  ultimately show thesis using that p(1) out by (simp add: BuildReconnectAcceptedSnapshotV1_def Let_def)
qed

end
