(* ===== verification/Spec2Isabelle.thy ===== *)
theory Spec2Isabelle
  imports Deletion Delivery Scheduling RateLimit DurableExamples
begin

text \<open>
  This development models the core of sessionless: the domain records of sessions, runs and attempts with the
  functions that validate and advance them (\<^verbatim>\<open>src/internal/domain\<close>), the admission policy
  (\<^verbatim>\<open>src/internal/scheduler/policy.go\<close>), the rate limiter of run explanations
  (\<^verbatim>\<open>src/internal/runexplanationrate\<close>) and the protocol between the platform and an attached worker
  (\<^verbatim>\<open>src/internal/attachedworkerprotocol\<close>).

  \<^bold>\<open>How Go is written here.\<close> A struct is a \<^theory_text>\<open>record\<close> whose fields carry a short prefix, a pointer is an
  option, a method \<open>T.M\<close> is the function \<open>T_M\<close>. A method on a pointer receiver returns the receiver after the call,
  so a refused transition that changes nothing is visible as such. \<open>uint32\<close> and \<open>uint64\<close> are words and wrap;
  \<open>int64\<close>, durations and times are integers, with the range checks of the code written out. Strings and byte slices
  are character lists; a nil slice and an empty one are not told apart: the modelled code tests lengths.
  An open set of string constants is a datatype with one more constructor for every other string. Validation returns
  \<open>None\<close> or the first error in the order of the checks; the functions of the protocol return a fault, and a nil
  dereference of the code is a fault of its own, so that its absence is a theorem. Every loop is a structural
  recursion over the list the code ranges over, so no fuel appears. SHA-256, SHA-512, Ed25519, JSON marshalling, UTF-8
  decoding and time formatting are defined, not assumed. No function of the model has an unknown parameter.

  \<^bold>\<open>Theories.\<close>
  \<^item> \<open>Prelude\<close>, \<open>GoLib\<close>, \<open>Encoding\<close>, \<open>Lifecycle\<close>: shared lemmas and the rules for chains of checks; the parts
    of Go's standard library; JSON and the bounds on its length; the locale of a status machine (a transition function
    with its table) and its lemmas on sequences of requests.
  \<^item> \<open>Identity\<close> (\<^verbatim>\<open>identity.go\<close>, \<^verbatim>\<open>errors.go\<close>), \<open>Artifacts\<close> (\<^verbatim>\<open>artifacts.go\<close>): identifiers are exactly the
    words of their grammar; validated object keys stay in the tenant's tree.
  \<^item> \<open>Operations\<close> (\<^verbatim>\<open>attempt_operation.go\<close>): the addition of debits never wraps; a chain of operations is bounded
    and numbered by position.
  \<^item> \<open>RunEvidence\<close>, \<open>Runs\<close> (\<^verbatim>\<open>run.go\<close>, \<^verbatim>\<open>work.go\<close> and the evidence a run retains): runs, attempts and leases stay valid
    and terminal ones are final.
  \<^item> \<open>Sessions\<close> (\<^verbatim>\<open>session.go\<close>): the event log is contiguous, an append happens once, a switch of a binding is a compare
    and swap, access is exactly that of the participant record.
  \<^item> \<open>Deletion\<close> (\<^verbatim>\<open>session_lifecycle.go\<close>, \<^verbatim>\<open>session_deletion_verification.go\<close>): what an accepted inventory is, and that
    its commitment does not depend on the order of the listing.
  \<^item> \<open>Delivery\<close> (\<^verbatim>\<open>projection.go\<close>, \<^verbatim>\<open>outbox.go\<close>), \<open>Scheduling\<close> (\<^verbatim>\<open>quota.go\<close>, \<^verbatim>\<open>scheduling.go\<close>, \<^verbatim>\<open>policy.go\<close>),
    \<open>RateLimit\<close> (\<^verbatim>\<open>limiter.go\<close>): deliveries, reservations, the exact condition of admission, the rate that no history
    exceeds.
  \<^item> \<open>Negotiation\<close>, \<open>Wire\<close>, \<open>Canonical\<close>, \<open>Frames\<close>, \<open>Ed25519\<close>, \<open>Signing\<close>, \<open>Reconcile\<close>: versions, messages and their
    validation, canonical bytes, signatures, and the reconciliation of a reconnect.
  \<^item> \<open>Machine\<close>, \<open>MachineProofs\<close>, \<open>MachineInvariants\<close> (\<^verbatim>\<open>machine.go\<close>): the connection machine, that a refused frame
    changes nothing, and its invariants over every run of it. \<open>Lease\<close>: the machine refines the life of one lease.
    \<open>Scenario\<close>: a lease that follows the protocol completes, and a concrete connection on which the theorems are applied.
  \<^item> \<open>Durable\<close> (\<^verbatim>\<open>durable.go\<close>): snapshots of the machine, their validation, bytes and digests, restoring, and the reducers
    and builders a store calls. \<open>DurableProofs\<close>: a snapshot restores to a machine that behaves the same (\<open>stored\<close> is a machine
    created, restored or stepped; \<open>persisted\<close> is what a snapshot keeps of it). \<open>DurableRuns\<close>: on a first connection every
    state can be persisted, and a run through the store is the run in memory. \<open>DurableStore\<close>: a builder asked again returns
    the frame it returned first, and when the accepted frame of a reconnect can be rebuilt. \<open>DurableExamples\<close>: the same
    concrete connection put through the store, drained and reconnected.

  \<^bold>\<open>How the parts meet.\<close> A status machine (\<open>Lifecycle\<close>), an invariant of the connection machine (\<open>MachineInvariants\<close>), the
  simulation of a lease (\<open>Lease\<close>), an invariant kept across restores (\<open>DurableProofs\<close>) or on a first connection
  (\<open>DurableRuns\<close>), and a builder that can be retried (\<open>DurableStore\<close>) are locales; each is interpreted on the definitions of
  the model, and the properties rest on those interpretations. The properties of single components stand in their
  theories, those of the connection machine and of its durable state in this one.

  \<^bold>\<open>Not modelled.\<close> The store, the object store, the queues, the HTTP frontends and the worker runtime are clients of
  services and processes. Of the modelled packages, the strict JSON decoders (among them the codec of durable snapshots and
  \<open>DecodeSlot\<close>), the batch codec (\<^verbatim>\<open>codec.go\<close>), which are built on a streaming JSON decoder, and the dispatcher loop, which
  calls store and queue ports, are left out, as are the clone helpers, which are the identity on HOL values.
\<close>

subsection \<open>The connection machine\<close>

text \<open>
  C6: a refused frame leaves the machine exactly as it was, and no frame, however malformed, makes the
  machine dereference a missing payload.
\<close>

theorem accept_refusal:
  assumes "Accept machine d f x = (machine', Some e)"
  shows "machine' = machine \<and> e \<noteq> NilDereference"
proof (cases machine)
  case (Some m)
  obtain m' where "accept_frame m d f x = (m', Some e)" "machine' = Some m'"
    using assms by (auto simp: Some Accept_Some_eq)
  then show ?thesis
    using accept_frame_atomic [of m d f x] accept_frame_no_panic [of m d f x]
    by (auto simp: Some post_def same_on_error_def)
qed (use assms in \<open>auto simp: Accept_def\<close>)

theorem accept_refusal_witness:
  "\<exists>e. Accept (Some ex_ready) DirectionWorkerToPlatform ex_hello (ex_moment\<lparr>ax_NowUnixMicro := 0\<rparr>) = (Some ex_ready, Some e) \<and>
     e \<noteq> NilDereference"
proof -
  obtain m e where a: "Accept (Some ex_ready) DirectionWorkerToPlatform ex_hello (ex_moment\<lparr>ax_NowUnixMicro := 0\<rparr>) = (m, Some e)"
    by (auto simp: Accept_def accept_frame_def envelope_unauthorized_def refuse_with_def Let_def)
  then show ?thesis using accept_refusal [OF a] by blast
qed

text \<open>
  C5: an accepted frame is valid, carries the message id of its sequence, and is either the exact repetition of the last
  frame of its sender, which changes nothing, or the next one: its sequence is one higher without wrap-around, its
  acknowledgement does not go back and does not exceed what the peer has sent, and it is recorded.
\<close>

theorem accept_sequence:
  assumes "Accept (Some m) d f x = (Some m', None)"
  shows "FrameV1_Validate f = None \<and> fr_MessageID f = MessageIDV1 d (fr_Sequence f) \<and>
    (m' = m \<and> fr_Sequence f = sq_sequence (envelope_sender d m) \<and> frameFingerprint f = sq_fingerprint (envelope_sender d m) \<or>
     unat (fr_Sequence f) = Suc (unat (sq_sequence (envelope_sender d m))) \<and>
     sq_ack (envelope_sender d m) \<le> fr_Ack f \<and> fr_Ack f \<le> sq_sequence (envelope_peer d m) \<and>
     envelope_sender d m' = \<lparr>sq_sequence = fr_Sequence f, sq_ack = fr_Ack f, sq_fingerprint = frameFingerprint f\<rparr> \<and>
     envelope_peer d m' = envelope_peer d m)"
proof -
  have a: "accept_frame m d f x = (m', None)" using assms by (simp add: Accept_Some)
  then show ?thesis
  proof (cases rule: accept_frame_cases)
    case replay
    then show ?thesis using authorized_frame(1) by auto
  next
    case (step n)
    have "unat (fr_Sequence f) = Suc (unat (sq_sequence (envelope_sender d m)))"
      using step(3,4) unat_u64_less [of "sq_sequence (envelope_sender d m)"]
      by (auto simp: unat_word_ariths word_unat_eq_iff)
    moreover have "envelope_peer d m' = envelope_peer d m"
      using step(2) apply_frame_fields(2,3) [OF step(1)] by (simp add: envelope_peer_def record_envelope_def Let_def)
    ultimately show ?thesis using step authorized_frame(1) by auto
  qed
qed

theorem accept_sequence_witness:
  "Accept (Some ex_m0) DirectionWorkerToPlatform ex_hello ex_moment = (Some ex_m1, None) \<and>
   FrameV1_Validate ex_hello = None \<and> unat (fr_Sequence ex_hello) = 1"
proof -
  have a: "Accept (Some ex_m0) DirectionWorkerToPlatform ex_hello ex_moment = (Some ex_m1, None)"
    by (rule ex_hello_accepted)
  have "sq_sequence (envelope_sender DirectionWorkerToPlatform ex_m0) = 0" "fr_Sequence ex_hello = 1"
    by (simp_all add: ex_m0 ex_hello_def next_frame_def empty_frame_def Let_def)
  then show ?thesis using a accept_sequence [OF a] by simp
qed



text \<open>
  C19: in every state a connection can reach, no side has acknowledged more than the other has sent, so the
  watermarks it would report on a reconnect are valid; and while the connection is not being revoked, the attempt has
  exchanged at most 64 messages in each direction with at most 32 progress updates, and its summary is valid.
\<close>

theorem reachable_summaries:
  assumes "reachable m"
  shows "ConnectionWatermarksV1_Validate (currentWatermarks m) = None \<and>
    (\<not> revoked_connection m \<longrightarrow> AttemptSummaryV1_Validate (currentAttemptSummary m) = None \<and>
       aq_sequence (ar_platform (m_attempt m)) \<le> 64 \<and> aq_sequence (ar_worker (m_attempt m)) \<le> 64 \<and>
       ar_progressSequence (m_attempt m) \<le> 32)"
proof -
  have "attempt_wf (m_attempt m)" if "\<not> revoked_connection m"
    using attempt_invariant.invariant [OF assms] that by (simp add: attempt_inv_def)
  then show ?thesis
    using watermark_inv.invariant [OF assms] attempt_wf_summary [of "m_attempt m"]
    unfolding watermarks_ok_def currentAttemptSummary_def attempt_wf_def MaxAttemptMessages_def MaxProgressUpdates_def by blast
qed

theorem reachable_summaries_witness:
  "reachable ex_ready \<and> AttemptSummaryV1_Validate (currentAttemptSummary ex_ready) = None"
  using reachable_summaries [OF ex_ready(1)] ex_ready(1) ex_ready_idle(2) by blast





text \<open>
  C18: once a connection is being revoked, no call brings it back: it stays revoked, its attempt is never committed
  unless it already was, and a completed revocation is final.
\<close>

theorem revocation_is_final:
  assumes "machine_step\<^sup>*\<^sup>* m m'" "m_connection m \<in> {ConnectionRevoking, ConnectionRevoked}"
  shows "m_connection m' \<in> {ConnectionRevoking, ConnectionRevoked} \<and>
    (m_connection m = ConnectionRevoked \<longrightarrow> m_connection m' = ConnectionRevoked) \<and>
    (ar_state (m_attempt m') = AttemptTerminalCommitted \<longrightarrow> ar_state (m_attempt m) = AttemptTerminalCommitted)"
  using revocation_run [OF assms(1)] assms(2) by (auto simp: revocation_kept_def revoked_connection_def)

theorem revocation_is_final_witness:
  "machine_step\<^sup>*\<^sup>* ex_revoking ex_revoked \<and> m_connection ex_revoking = ConnectionRevoking \<and>
   ar_state (m_attempt ex_revoked) \<noteq> AttemptTerminalCommitted"
proof -
  have r: "machine_step\<^sup>*\<^sup>* ex_revoking ex_revoked" using ex_revoked(8) by blast
  have "ar_state (m_attempt ex_revoking) \<noteq> AttemptTerminalCommitted"
    by (simp add: ex_revoking fence_attempt_def idle_attempt_def)
  then show ?thesis using revocation_is_final [OF r] r ex_revoking(3) by auto
qed





text \<open>
  C1: the attempt of a connection implements the lease contract. Along every sequence of calls that does not pass
  through the acceptance of a reconnect, the abstract lease moves only by steps of the contract; a dead lease stays
  dead; and a lease that ends settled had reported exactly the settled outcome under the same binding on the way.
\<close>

theorem machine_refines_lease:
  assumes "reachable m" "connected_step\<^sup>*\<^sup>* m m'"
  shows "lease_step\<^sup>*\<^sup>* (lease_of (m_attempt m)) (lease_of (m_attempt m')) \<and>
    (\<forall>b. lease_of (m_attempt m) = Dead b \<longrightarrow> lease_of (m_attempt m') = Dead b) \<and>
    (\<forall>b out. lease_of (m_attempt m) = Free \<and> lease_of (m_attempt m') = Settled b out \<longrightarrow>
       (\<exists>n. connected_step\<^sup>*\<^sup>* m n \<and> connected_step\<^sup>*\<^sup>* n m' \<and> lease_of (m_attempt n) = Reported b out))"
  using connection.run_refines [OF assms(2,1)] connection.dead_stays [OF assms(2,1)]
    connection.settled_reported [OF assms(2,1)] by blast

theorem machine_refines_lease_witness:
  "\<exists>m'. connected_step\<^sup>*\<^sup>* ex_ready m' \<and>
     lease_step\<^sup>*\<^sup>* Free (Settled ex_lease (TerminalSucceeded, TerminalResultCompleted, ex_nonce)) \<and>
     lease_of (m_attempt m') = Settled ex_lease (TerminalSucceeded, TerminalResultCompleted, ex_nonce)"
proof -
  obtain fs m' where l: "accept_all ex_ready ex_moment fs = Some m'" "list_all (\<lambda>(d, f). fr_Kind f \<in> attempt_kinds) fs"
    "lease_of (m_attempt m') = Settled ex_lease (TerminalSucceeded, TerminalResultCompleted, ex_nonce)"
    by (rule ex_life)
  have c: "connected_step\<^sup>*\<^sup>* ex_ready m'" using accept_all_connected [OF l(1,2)] ex_ready(3) by simp
  have "lease_of (m_attempt ex_ready) = Free" using ex_ready_idle(1) by (simp add: lease_of_def)
  then show ?thesis using machine_refines_lease [OF ex_ready(1) c] c l(3) by auto
qed

text \<open>
  C3: every ready connection without an attempt can carry a lease to its end. For every valid binding with the
  connection's capability digest, every time before its expiry and every outcome other than a cancellation, there are
  five frames, from the offer to the acknowledged outcome, that the machine accepts one after the other; they settle
  exactly that outcome, and erasing the attempt makes the connection ready for the next lease. The two counters of
  frames must have five numbers left.
\<close>

theorem lease_completes:
  assumes "reachable m" "m_connection m = ConnectionReady" "ar_state (m_attempt m) = AttemptIdle"
    and "ax_ChannelBinding x = ac_ChannelBinding (cf_Auth (m_config m))" "0 < ax_NowUnixMicro x"
      "ax_NowUnixMicro x < ab_ExpiresAtUnixMicro b"
    and "AttemptBindingV1_Validate b = None" "ab_CapabilityDigest b = m_capabilityDigest m"
    and "unat (sq_sequence (m_platform m)) + 5 < 2 ^ 64" "unat (sq_sequence (m_worker m)) + 5 < 2 ^ 64"
    and "validTerminalResult st res" "st \<noteq> TerminalCancelled" "length ev = 32"
  shows "\<exists>fs m' m''. accept_all m x fs = Some m' \<and>
    map (fr_Kind \<circ> snd) fs = [MessageLeaseOffer, MessageLeaseClaim, MessageLeaseAccepted, MessageTerminal, MessageTerminalAck] \<and>
    lease_of (m_attempt m') = Settled b (st, res, ev) \<and>
    EraseCommittedAttempt (Some m') = (Some m'', None) \<and> m_connection m'' = ConnectionReady \<and>
    ar_state (m_attempt m'') = AttemptIdle"
proof -
  obtain fs m' where l: "accept_all m x fs = Some m'"
    "map (fr_Kind \<circ> snd) fs = [MessageLeaseOffer, MessageLeaseClaim, MessageLeaseAccepted, MessageTerminal, MessageTerminalAck]"
    "m_connection m' = ConnectionReady" "lease_of (m_attempt m') = Settled b (st, res, ev)"
    by (rule lease_life [OF ready_lease_at [OF assms(1-10)] assms(11-13)])
  have "ar_state (m_attempt m') = AttemptTerminalCommitted"
    using l(4) by (auto simp: lease_of_def split: AttemptState.splits if_splits)
  then have "EraseCommittedAttempt (Some m') = (Some (m'\<lparr>m_attempt := idle_attempt\<rparr>), None)"
    by (simp add: Erase_Some erase_committed_def)
  then show ?thesis using l
    by (intro exI [of _ fs] exI [of _ m'] exI [of _ "m'\<lparr>m_attempt := idle_attempt\<rparr>"]) (simp add: idle_attempt_def)
qed

theorem lease_completes_witness:
  "\<exists>fs m'. accept_all ex_ready ex_moment fs = Some m' \<and> length fs = 5 \<and>
     lease_of (m_attempt m') = Settled ex_lease (TerminalFailed, TerminalResultFailed, ex_nonce)"
proof -
  have "validTerminalResult TerminalFailed TerminalResultFailed" "TerminalFailed \<noteq> TerminalCancelled" "length ex_nonce = 32"
    by simp_all
  from lease_completes [OF ex_ready(1,3) ex_ready_idle(1) ex_ready_context(1-3) ex_lease_valid ex_ready_context(4)
    ex_ready_room this]
  obtain fs m' where f: "accept_all ex_ready ex_moment fs = Some m'"
    "lease_of (m_attempt m') = Settled ex_lease (TerminalFailed, TerminalResultFailed, ex_nonce)"
    "map (fr_Kind \<circ> snd) fs = [MessageLeaseOffer, MessageLeaseClaim, MessageLeaseAccepted, MessageTerminal, MessageTerminalAck]"
    by (elim exE conjE) (rule that)
  have "length fs = 5" using arg_cong [OF f(3), of length] by simp
  with f(1,2) show ?thesis by (intro exI conjI)
qed

subsection \<open>Negotiation, encodings and reconciliation\<close>

text \<open>
  C20: both sides of a negotiation compute the same version from the two offers, whichever of them they call local:
  the greatest version that both offers list, both windows admit and the implementation knows, or a refusal when the
  offers or the implemented versions are malformed or have nothing in common.
\<close>

theorem negotiation_exact:
  "NegotiateOffers local peer implemented = NegotiateOffers peer local implemented \<and>
   NegotiateOffers local peer implemented =
     (let common = set (vo_Supported local) \<inter> set (vo_Supported peer) \<inter> set implemented
      in if VersionOfferV1_Validate local = None \<and> VersionOfferV1_Validate peer = None \<and>
            length implemented \<le> maxVersionWidth \<and> 0 \<notin> set implemented \<and> distinct implemented \<and> common \<noteq> {}
         then Inr (Max common) else Inl (protocolError ErrorUnsupportedVersion))"
proof
  show "NegotiateOffers local peer implemented = NegotiateOffers peer local implemented"
    unfolding NegotiateOffers_eq common_versions_commute [of local peer] offers_acceptable_commute [of local peer] by (rule refl)
qed (auto simp: NegotiateOffers_eq offers_acceptable_def common_versions_def Let_def)

text \<open>
  C21: the bytes a worker signs its manifest by determine the manifest. Two valid manifests with the same canonical
  bytes are equal, field by field, and a manifest has canonical bytes exactly when it is valid.
\<close>

theorem manifest_bytes_determine:
  "((\<exists>b. CanonicalManifestBytesV1 m = Inr b) \<longleftrightarrow> CapabilityManifestV1_Validate m = None) \<and>
   (\<forall>b. CanonicalManifestBytesV1 m = Inr b \<and> CanonicalManifestBytesV1 n = Inr b \<longrightarrow> m = n)"
  using CanonicalManifestBytesV1_inject [of m _ n]
  by (auto simp: CanonicalManifestBytesV1_parts split: option.splits)

theorem manifest_bytes_determine_witness:
  "(\<exists>b. CanonicalManifestBytesV1 ex_manifest = Inr b) \<and>
   CanonicalManifestBytesV1 (ex_manifest\<lparr>cm_Revision := 2\<rparr>) \<noteq> CanonicalManifestBytesV1 ex_manifest"
proof -
  have "\<exists>b. CanonicalManifestBytesV1 ex_manifest = Inr b" using manifest_bytes_determine [of ex_manifest] by simp
  moreover have "ex_manifest\<lparr>cm_Revision := 2\<rparr> \<noteq> ex_manifest" by (simp add: ex_manifest_def)
  ultimately show ?thesis using manifest_bytes_determine [of "ex_manifest\<lparr>cm_Revision := 2\<rparr>" ex_manifest] by metis
qed

text \<open>
  C15: a signature is good for one purpose only. If two signed messages have the same transcript, they are of the same
  kind, for the same tenant, owner, worker, enrollment and connection generation and channel, with the same message id,
  sequence and acknowledgement: no attach can be replayed as a reconnect or a manifest, on another connection, or at
  another place in the sequence.
\<close>

theorem transcripts_are_scoped:
  assumes "transcript_of kind auth frame = Inr t" "kind \<in> {MessageAttach, MessageReconnect, MessageManifest}"
    and "transcript_of kind' auth' frame' = Inr t" "kind' \<in> {MessageAttach, MessageReconnect, MessageManifest}"
  shows "kind' = kind \<and> ac_TenantID auth' = ac_TenantID auth \<and> ac_OwnerUserID auth' = ac_OwnerUserID auth \<and>
    ac_WorkerID auth' = ac_WorkerID auth \<and> ac_EnrollmentGeneration auth' = ac_EnrollmentGeneration auth \<and>
    ac_ConnectionGeneration auth' = ac_ConnectionGeneration auth \<and> ac_ChannelBinding auth' = ac_ChannelBinding auth \<and>
    fr_MessageID frame' = fr_MessageID frame \<and> fr_Sequence frame' = fr_Sequence frame \<and> fr_Ack frame' = fr_Ack frame"
proof -
  have k: "kind \<in> signed_kinds" "kind' \<in> signed_kinds" using assms(2,4) by (auto simp: signed_kinds_def)
  show ?thesis using transcript_scope_inject [OF assms(1) k(1) assms(3) k(2)] by simp
qed

theorem transcripts_are_scoped_witness:
  "\<exists>t. transcript_of MessageAttach ex_auth ex_attach = Inr t \<and>
     (\<forall>frame. transcript_of MessageReconnect ex_auth frame \<noteq> Inr t)"
proof -
  obtain t where t: "transcript_of MessageAttach ex_auth ex_attach = Inr t" by (rule ex_attach_transcript)
  then show ?thesis using transcripts_are_scoped [OF t, of MessageReconnect ex_auth] by blast
qed



text \<open>
  C25: a connection that reconnects reports its state as it was: the snapshot has the watermarks and the attempt summary
  of the lost connection, and it is valid exactly when it does not carry a pending terminal message numbered zero.
\<close>

theorem reconnect_snapshot:
  assumes "reachable m" "BeginReconnect (Some m) nxt = (Some m', Inr snap)"
  shows "rs_PreviousConnectionGeneration snap + 1 = ac_ConnectionGeneration nxt \<and> rs_Watermarks snap = currentWatermarks m \<and>
    rs_Attempt snap = currentAttemptSummary m \<and> m_reconnecting m' \<and> m_connection m' = ConnectionUnattached \<and>
    (ReconnectSnapshotV1_Validate snap = None \<longleftrightarrow>
       (\<forall>t. rs_PendingTerminalReplay snap = Some t \<longrightarrow> tm_AttemptSequence t \<noteq> 0))"
proof -
  have ok: "\<not> reconnect_refused m nxt" and s: "snapshot_machine (reconnect_machine m nxt) = Inr snap"
    and m: "m' = reconnect_machine m nxt"
    using assms(2) by (auto simp: BeginReconnect_def split: if_splits)
  show ?thesis
    using snapshot_validates [OF assms(1) ok s] s ok
    by (auto simp: m snapshot_machine_def reconnect_machine_def reconnect_refused_def Let_def)
qed

theorem reconnect_snapshot_witness:
  "\<exists>m' snap. BeginReconnect (Some ex_ready) (ex_auth\<lparr>ac_ConnectionGeneration := 2\<rparr>) = (Some m', Inr snap) \<and>
     ReconnectSnapshotV1_Validate snap = None"
proof -
  obtain m' snap where r: "BeginReconnect (Some ex_ready) (ex_auth\<lparr>ac_ConnectionGeneration := 2\<rparr>) = (Some m', Inr snap)"
    "rs_PendingTerminalReplay snap = None" by (rule ex_reconnect)
  then show ?thesis using reconnect_snapshot [OF ex_ready(1) r(1)] by auto
qed

text \<open>
  C26: the validation of summaries has a gap. There are a valid claim and a compatible valid record for which the
  reconnect is answered with the decision to discard a terminal message that is not valid: it is numbered zero, because
  the claim reports an outcome without a message of the worker.
\<close>

theorem discard_of_invalid_terminal:
  "\<exists>a c n r t. ReconnectSnapshotV1_Validate a = None \<and> ReconnectSnapshotV1_Validate c = None \<and>
     BuildReconnectAcceptedV1 a c n = Inr r \<and> rp_TerminalDecision (ra_ReplayPlan r) = ReconnectTerminalDiscard \<and>
     reconnectPendingTerminal c = Some t \<and> TerminalV1_Validate t \<noteq> None"
proof -
  obtain r t where w: "BuildReconnectAcceptedV1 (ex_snapshot (ex_summary AttemptCancelRequested 1 1 0))
      (ex_snapshot (ex_summary AttemptTerminalPending 0 0 1)) ex_negotiation = Inr r"
    "rp_TerminalDecision (ra_ReplayPlan r) = ReconnectTerminalDiscard"
    "reconnectPendingTerminal (ex_snapshot (ex_summary AttemptTerminalPending 0 0 1)) = Some t" "TerminalV1_Validate t \<noteq> None"
    by (rule terminal_without_message)
  have "ReconnectSnapshotV1_Validate (ex_snapshot (ex_summary AttemptCancelRequested 1 1 0)) = None"
    "ReconnectSnapshotV1_Validate (ex_snapshot (ex_summary AttemptTerminalPending 0 0 1)) = None" by simp_all
  then show ?thesis using w by (intro exI conjI)
qed

subsection \<open>The durable state\<close>

text \<open>
  C8: whatever a machine went through, created or restored, if its snapshot can be taken then restoring it under the same
  configuration succeeds. The restored machine has the same snapshot, and it answers every frame as the original would,
  with the same verdict and the same snapshot afterwards.
\<close>

theorem snapshot_roundtrip:
  assumes "stored m" "durable_snapshot m = Inr s"
  shows "\<exists>r. RestoreConformanceMachine (m_config m) s = Inr r \<and> durable_snapshot r = Inr s \<and>
    (\<forall>d f x. snd (accept_frame r d f x) = snd (accept_frame m d f x) \<and>
       durable_snapshot (fst (accept_frame r d f x)) = durable_snapshot (fst (accept_frame m d f x)))"
proof (intro exI conjI allI)
  show "RestoreConformanceMachine (m_config m) s = Inr (persisted m)" by (rule stored_restore [OF assms])
  show "durable_snapshot (persisted m) = Inr s" using assms(2) by simp
next
  fix d f x
  obtain n e where n: "accept_frame m d f x = (n, e)" by fastforce
  obtain n' where n': "accept_frame (persisted m) d f x = (n', e)" "persisted n' = persisted n"
    using accept_persisted [OF session_durable.holds [OF assms(1)] n] by blast
  have "durable_snapshot n' = durable_snapshot n" using durable_snapshot_persisted n'(2) by metis
  then show "snd (accept_frame (persisted m) d f x) = snd (accept_frame m d f x)"
    "durable_snapshot (fst (accept_frame (persisted m) d f x)) = durable_snapshot (fst (accept_frame m d f x))"
    using n n'(1) by simp_all
qed

theorem snapshot_roundtrip_witness:
  "\<exists>s r. durable_snapshot ex_ready = Inr s \<and> RestoreConformanceMachine ex_config s = Inr r \<and> durable_snapshot r = Inr s \<and>
     snd (accept_frame r DirectionPlatformToWorker ex_drain (ex_at 1)) = None"
proof -
  obtain s where s: "durable_snapshot ex_ready = Inr s" by (rule ex_snapshots)
  show ?thesis
    using snapshot_roundtrip [OF first_connection_stored [OF ex_first(6)] s] s ex_draining(10) [of 1] by (auto simp: ex_ready)
qed

text \<open>
  C2: a store that keeps only the snapshot of the first handshake, and applies every later frame and every retirement of a
  committed attempt to the snapshot, refines the machine that lives in memory. On any sequence of events it gives the same
  answers, refusals included, and what it holds at the end is the snapshot of that machine.
\<close>

theorem store_refines_machine:
  assumes "BuildInitialAttachSnapshotV1 config attach accepted = Inr s"
    and "accept_each (new_machine config) (own_channel (cf_Auth config) 1) (initial_handshake config (the (fr_Attach attach)) attach accepted) = Inr m"
  shows "durable_snapshot m = Inr s \<and>
    (\<exists>s' m' es. store_run config s evs = (s', es) \<and> memory_run m evs = (m', es) \<and> durable_snapshot m' = Inr s')"
proof -
  have m: "m_connection m = ConnectionAttached" "durable_snapshot m = Inr s" "NewConformanceMachine config = Inr (new_machine config)"
    using assms unfolding build_initial_Inr by auto
  have f: "first_connection m" "m_config m = config"
    using first_connection_each [OF first_connection.start [OF m(3)] assms(2)] by simp_all
  show ?thesis using store_run_memory [OF f(1) _ m(2), of evs] m(1,2) f(2) by simp
qed

theorem store_refines_machine_witness:
  "\<exists>s t. BuildInitialAttachSnapshotV1 ex_config ex_attach ex_attached = Inr s \<and>
     store_run ex_config s [ApplyFrame DirectionWorkerToPlatform ex_manifest_frame 1, RetireCommitted] = (t, [None, Some (protocolError ErrorConflict)]) \<and>
     durable_snapshot ex_ready = Inr t"
proof -
  let ?evs = "[ApplyFrame DirectionWorkerToPlatform ex_manifest_frame 1, RetireCommitted]"
  obtain s where s: "durable_snapshot ex_m4 = Inr s" by (rule ex_snapshots)
  have m: "memory_run ex_m4 ?evs = (ex_ready, [None, Some (protocolError ErrorConflict)])"
    using ex_ready(10) [of 1] ex_ready_idle(1) by (simp add: ex_m4(2) ex_channel refuse_with_def ex_config_def)
  show ?thesis
    using store_refines_machine [OF ex_initial(1) [OF s] ex_initial(2) [OF s], of ?evs] ex_initial(1) [OF s] m by auto
qed

text \<open>
  C14: on its first connection a machine can be persisted in every state, with one exception: when it has accepted a frame
  (an error report is accepted at any time) before the worker said hello, the snapshot is refused although the frame was accepted.
\<close>

theorem first_connection_persists:
  assumes "first_connection m"
  shows "(\<exists>s. durable_snapshot m = Inr s) \<longleftrightarrow>
    \<not> (m_connection m = ConnectionUnattached \<and> (sq_sequence (m_platform m) \<noteq> 0 \<or> sq_sequence (m_worker m) \<noteq> 0))"
  using first_connection_snapshot [OF assms] by (simp add: recorded_unattached_def)

theorem first_connection_persists_witness: "\<exists>s. durable_snapshot ex_draining = Inr s"
  using first_connection_persists [OF ex_first(7)] by (simp add: ex_draining)



text \<open>
  C13: after a reconnect the accepted frame can be rebuilt from the committed snapshot and the signed request, frame for frame,
  exactly when the attempt carried no pending terminal into the reconnect. The snapshot keeps the pending terminal, but the
  rebuilt authority leaves it out, so with one the replay never returns the frame that was sent.
\<close>

theorem reconnect_replay:
  assumes "BuildReconnectAcceptedSnapshotV1 config s nxt req = Inr (f, out)" "RestoreConformanceMachine config s = Inr m"
  shows "ReplayReconnectAcceptedV1 (config\<lparr>cf_Auth := nxt\<rparr>) out req = Inr f \<longleftrightarrow> ar_pendingWorkerTerminal (m_attempt m) = None"
  by (rule reconnect_replay_exact [OF assms])

theorem reconnect_replay_witness:
  "\<exists>s f out. BuildReconnectAcceptedSnapshotV1 ex_config s ex_next ex_rclaim = Inr (f, out) \<and>
     ReplayReconnectAcceptedV1 (ex_config\<lparr>cf_Auth := ex_next\<rparr>) out ex_rclaim = Inr f"
proof -
  obtain s where s: "durable_snapshot ex_ready = Inr s" by (rule ex_snapshots)
  obtain f out where b: "BuildReconnectAcceptedSnapshotV1 ex_config s ex_next ex_rclaim = Inr (f, out)" by (rule ex_reconnected [OF s])
  have "RestoreConformanceMachine ex_config s = Inr ex_ready"
    using first_connection_restore [OF ex_first(6) s] by (simp add: ex_ready)
  from reconnect_replay [OF b this] show ?thesis using b by (auto simp: ex_ready idle_attempt_def)
qed

end
